(* ===== verification/Prelude.thy ===== *)
theory Prelude
  imports Main "HOL-Library.Word" "HOL-Library.AList" "HOL-Library.Code_Target_Nat"
begin

text \<open>
  Shared vocabulary of the model of \<^verbatim>\<open>src/infra/github-linguist/linguist_wrapper.py\<close>
  and of the Django application under \<^verbatim>\<open>src/backend\<close>: bytes, file-system paths, the
  Python exceptions the code raises or catches (as one error datatype, so that a raise is an
  \<open>Inl\<close> branch of a result of type \<open>py_error + 'a\<close>), the left-to-right evaluation of
  Python generators that may raise (\<open>map_res\<close>, \<open>sum_res\<close>), and Python's decimal
  rendering of integers (\<open>str_int\<close>, used by f-strings) with its parse-back lemma.
\<close>

type_synonym byte = "8 word"
type_synonym path = "string list"

text \<open>The exceptions of the Python standard library that the modelled code raises or catches.\<close>

datatype py_error =
    FileNotFoundError string
  | FileExistsError
  | IsADirectoryError
  | NotADirectoryError
  | PermissionError
  | OSError string
  | BadZipFile
  | CalledProcessError int "string list"
  | RuntimeError string
  | JSONDecodeError
  | AttributeError string
  | TypeError string
  | ValueError string
  | UndefinedValueError string
  | FieldError string

named_theorems result_simps "evaluation rules of the result combinators"

abbreviation newline :: byte where
  "newline \<equiv> 10"

subsection \<open>Evaluation of generators that may raise\<close>

text \<open>
  \<open>map_res f xs\<close> is \<^verbatim>\<open>[f(x) for x in xs]\<close> where \<open>f\<close> may raise: the first
  exception, in list order, is the result.\<close>

fun map_res :: "('a \<Rightarrow> py_error + 'b) \<Rightarrow> 'a list \<Rightarrow> py_error + 'b list" where
  "map_res f [] = Inr []"
| "map_res f (x # xs) =
     (case f x of Inl e \<Rightarrow> Inl e
      | Inr y \<Rightarrow> (case map_res f xs of Inl e \<Rightarrow> Inl e | Inr ys \<Rightarrow> Inr (y # ys)))"

text \<open>\<open>sum_res f xs\<close> is \<^verbatim>\<open>sum(f(x) for x in xs)\<close>, which starts from 0.\<close>

definition sum_res :: "('a \<Rightarrow> py_error + int) \<Rightarrow> 'a list \<Rightarrow> py_error + int" where
  "sum_res f xs = (case map_res f xs of Inl e \<Rightarrow> Inl e | Inr ys \<Rightarrow> Inr (sum_list ys))"

subsection \<open>Python's \<^verbatim>\<open>str\<close> of an integer\<close>

fun str_nat :: "nat \<Rightarrow> string" where
  "str_nat n =
     (if n < 10 then [char_of (48 + n)] else str_nat (n div 10) @ [char_of (48 + n mod 10)])"

declare str_nat.simps [simp del]

definition str_int :: "int \<Rightarrow> string" where
  "str_int i = (if i < 0 then CHR ''-'' # str_nat (nat (- i)) else str_nat (nat i))"

definition is_dec_digit :: "char \<Rightarrow> bool" where
  "is_dec_digit c \<longleftrightarrow> (48::nat) \<le> of_char c \<and> of_char c \<le> (57::nat)"

definition read_nat :: "string \<Rightarrow> nat" where
  "read_nat s = foldl (\<lambda>acc c. 10 * acc + (of_char c - 48)) 0 s"

definition read_int :: "string \<Rightarrow> int" where
  "read_int s = (if s \<noteq> [] \<and> hd s = CHR ''-'' then - int (read_nat (tl s)) else int (read_nat s))"

subsection \<open>Lemmas: generators\<close>

lemma map_res_Inr_length [result_simps]:
  "map_res f xs = Inr ys \<Longrightarrow> length ys = length xs"
  by (induction xs arbitrary: ys) (auto split: sum.splits)

lemma map_res_Inr_nth:
  "map_res f xs = Inr ys \<Longrightarrow> i < length xs \<Longrightarrow> f (xs ! i) = Inr (ys ! i)"
proof (induction xs arbitrary: ys i)
  case Nil
  then show ?case by simp
next
  case (Cons x xs)
  then show ?case by (cases i) (auto split: sum.splits)
qed

lemma map_res_eq_Inr_iff:
  "map_res f xs = Inr ys \<longleftrightarrow> list_all2 (\<lambda>x y. f x = Inr y) xs ys"
proof (induction xs arbitrary: ys)
  case Nil
  then show ?case by auto
next
  case (Cons x xs)
  show ?case
    by (cases ys) (auto simp flip: Cons.IH split: sum.splits)
qed

lemma map_res_all_Inr [result_simps]:
  "(\<And>x. x \<in> set xs \<Longrightarrow> f x = Inr (g x)) \<Longrightarrow> map_res f xs = Inr (map g xs)"
  by (induction xs) auto

lemma map_res_Inl_ex:
  "map_res f xs = Inl e \<Longrightarrow> \<exists>x \<in> set xs. f x = Inl e"
  by (induction xs) (auto split: sum.splits)

lemma map_res_Inr_mem:
  "map_res f xs = Inr ys \<Longrightarrow> x \<in> set xs \<Longrightarrow> f x = Inr y \<Longrightarrow> y \<in> set ys"
proof (induction xs arbitrary: ys)
  case Nil
  then show ?case by simp
next
  case (Cons a xs)
  then show ?case by (auto split: sum.splits)
qed

lemma map_res_cong:
  "(\<And>x. x \<in> set xs \<Longrightarrow> f x = g x) \<Longrightarrow> map_res f xs = map_res g xs"
  by (induction xs) (auto split: sum.splits)

lemma sum_res_all_Inr [result_simps]:
  "(\<And>x. x \<in> set xs \<Longrightarrow> f x = Inr (g x)) \<Longrightarrow> sum_res f xs = Inr (\<Sum>x\<leftarrow>xs. g x)"
  by (simp add: sum_res_def map_res_all_Inr)

subsection \<open>Association lists\<close>

lemma update_fresh: "k \<notin> fst ` set al \<Longrightarrow> AList.update k v al = al @ [(k, v)]"
  by (induction al) auto

lemma update_keys_present: "k \<in> fst ` set al \<Longrightarrow> map fst (AList.update k v al) = map fst al"
  by (induction al) auto

subsection \<open>Lemmas: integer rendering\<close>

lemma of_char_digit: "d < 10 \<Longrightarrow> of_char (char_of (48 + d)) = (48 + d :: nat)"
  by (simp add: of_char_of)

lemma read_nat_snoc: "read_nat (s @ [c]) = 10 * read_nat s + (of_char c - 48)"
  by (simp add: read_nat_def)

lemma str_nat_digits: "\<forall>c \<in> set (str_nat n). is_dec_digit c"
proof (induction n rule: str_nat.induct)
  case (1 n)
  then show ?case
    by (subst str_nat.simps) (auto simp: is_dec_digit_def)
qed

lemma str_nat_nonempty: "str_nat n \<noteq> []"
  by (subst str_nat.simps) simp

text \<open>Decimal rendering and reading are inverse: the number in a message is recoverable.\<close>

lemma read_str_nat: "read_nat (str_nat n) = n"
proof (induction n rule: str_nat.induct)
  case (1 n)
  show ?case
  proof (cases "n < 10")
    case True
    then show ?thesis by (subst str_nat.simps) (simp add: read_nat_def)
  next
    case False
    with "1.IH" have "read_nat (str_nat (n div 10)) = n div 10" by simp
    with False show ?thesis
      by (subst str_nat.simps) (simp add: read_nat_snoc)
  qed
qed

lemma str_nat_inj: "str_nat m = str_nat n \<Longrightarrow> m = n"
  by (metis read_str_nat)

lemma str_nat_hd_not_minus: "hd (str_nat n) \<noteq> CHR ''-''"
proof -
  have "hd (str_nat n) \<in> set (str_nat n)" using str_nat_nonempty by simp
  with str_nat_digits have "is_dec_digit (hd (str_nat n))" by blast
  then show ?thesis by (auto simp: is_dec_digit_def)
qed

lemma read_str_int: "read_int (str_int i) = i"
  using str_nat_nonempty str_nat_hd_not_minus
  by (auto simp: read_int_def str_int_def read_str_nat)

lemma str_nat_no_char: "\<not> is_dec_digit c \<Longrightarrow> c \<notin> set (str_nat n)"
  using str_nat_digits by blast

lemma str_int_no_colon: "CHR '':'' \<notin> set (str_int i)"
  using str_nat_no_char [of "CHR '':''"] by (simp add: str_int_def is_dec_digit_def)

end
