(* ===== verification/FileSystem.thy ===== *)
theory FileSystem
  imports Prelude "HOL-Library.Sublist"
begin

text \<open>
  The file system as the wrapper sees it through \<^verbatim>\<open>pathlib\<close>, \<^verbatim>\<open>os\<close>,
  \<^verbatim>\<open>tempfile\<close> and \<^verbatim>\<open>shutil\<close>: an association list from absolute paths (lists of
  components below the root) to nodes, in the order the OS lists a directory. Paths are
  resolved component by component as the kernel does (\<open>resolve\<close>): an intermediate
  component that is a regular file gives \<open>NotADirectoryError\<close>, a missing one
  \<open>FileNotFoundError\<close>, a symlink loop \<open>OSError\<close> (ELOOP), and \<^verbatim>\<open>..\<close> steps to
  the parent of a directory already resolved. Symbolic links appear only as the two ways
  they fail (dangling, looping); file ownership and directory permissions are not
  modelled. \<open>wf_fs\<close> is the well-formedness invariant: distinct keys, normalised
  components, every entry's parent a directory.
\<close>

datatype node =
    RegFile "byte list"
  | Directory
  | NoAccess "byte list"   \<comment> \<open>a regular file the process may not read\<close>
  | BrokenLink
  | LoopLink

type_synonym fs = "(path \<times> node) list"

subsection \<open>Path strings (\<^verbatim>\<open>pathlib.PurePosixPath\<close>)\<close>

text \<open>\<^verbatim>\<open>str.split(c)\<close>: never empty, one more piece than separators.\<close>

fun split_on :: "char \<Rightarrow> string \<Rightarrow> string list" where
  "split_on c [] = [[]]"
| "split_on c (x # xs) =
     (let ws = split_on c xs in if x = c then [] # ws else (x # hd ws) # tl ws)"

definition pure_parts :: "string \<Rightarrow> string list" where
  "pure_parts s = filter (\<lambda>w. w \<noteq> [] \<and> w \<noteq> ''.'') (split_on CHR ''/'' s)"

definition is_abs :: "string \<Rightarrow> bool" where
  "is_abs s \<longleftrightarrow> s \<noteq> [] \<and> hd s = CHR ''/''"

text \<open>\<^verbatim>\<open>base / s\<close>: an absolute right operand replaces the base.\<close>

definition path_div :: "path \<Rightarrow> string \<Rightarrow> path" where
  "path_div base s = (if is_abs s then pure_parts s else base @ pure_parts s)"

definition path_str :: "path \<Rightarrow> string" where
  "path_str p = (if p = [] then ''/'' else concat (map (\<lambda>c. CHR ''/'' # c) p))"

definition valid_name :: "string \<Rightarrow> bool" where
  "valid_name c \<longleftrightarrow> c \<noteq> [] \<and> c \<noteq> ''.'' \<and> c \<noteq> ''..'' \<and> CHR ''/'' \<notin> set c"

subsection \<open>Resolution, \<^verbatim>\<open>os.stat\<close>, \<^verbatim>\<open>open(p, 'rb')\<close>\<close>

fun resolve :: "fs \<Rightarrow> path \<Rightarrow> string list \<Rightarrow> py_error + path" where
  "resolve fs cur [] = Inr cur"
| "resolve fs cur (c # cs) =
     (if c = ''..'' then resolve fs (butlast cur) cs
      else if cs = [] then Inr (cur @ [c])
      else (case map_of fs (cur @ [c]) of
              None \<Rightarrow> Inl (FileNotFoundError (path_str (cur @ [c])))
            | Some Directory \<Rightarrow> resolve fs (cur @ [c]) cs
            | Some BrokenLink \<Rightarrow> Inl (FileNotFoundError (path_str (cur @ [c])))
            | Some LoopLink \<Rightarrow> Inl (OSError ''ELOOP'')
            | Some _ \<Rightarrow> Inl NotADirectoryError))"

text \<open>\<^verbatim>\<open>os.stat\<close> (following links): the resolved path and its node.\<close>

definition stat_node :: "fs \<Rightarrow> path \<Rightarrow> py_error + (path \<times> node)" where
  "stat_node fs p =
     (case resolve fs [] p of
        Inl e \<Rightarrow> Inl e
      | Inr q \<Rightarrow>
          (if q = [] then Inr ([], Directory)
           else (case map_of fs q of
                   None \<Rightarrow> Inl (FileNotFoundError (path_str q))
                 | Some BrokenLink \<Rightarrow> Inl (FileNotFoundError (path_str q))
                 | Some LoopLink \<Rightarrow> Inl (OSError ''ELOOP'')
                 | Some n \<Rightarrow> Inr (q, n))))"

text \<open>\<^verbatim>\<open>Path.is_file\<close>, \<^verbatim>\<open>Path.is_dir\<close>: \<open>False\<close> where \<^verbatim>\<open>stat\<close> fails.\<close>

definition is_file :: "fs \<Rightarrow> path \<Rightarrow> bool" where
  "is_file fs p =
     (case stat_node fs p of Inr (_, RegFile _) \<Rightarrow> True | Inr (_, NoAccess _) \<Rightarrow> True | _ \<Rightarrow> False)"

definition is_dir :: "fs \<Rightarrow> path \<Rightarrow> bool" where
  "is_dir fs p = (case stat_node fs p of Inr (_, Directory) \<Rightarrow> True | _ \<Rightarrow> False)"

text \<open>Reading a whole file in binary mode; \<^verbatim>\<open>io.open\<close> refuses a directory itself.\<close>

definition open_rb :: "fs \<Rightarrow> path \<Rightarrow> py_error + byte list" where
  "open_rb fs p =
     (case stat_node fs p of
        Inl e \<Rightarrow> Inl e
      | Inr (_, RegFile bs) \<Rightarrow> Inr bs
      | Inr (_, Directory) \<Rightarrow> Inl IsADirectoryError
      | Inr (_, NoAccess _) \<Rightarrow> Inl PermissionError
      | Inr (_, _) \<Rightarrow> Inl (OSError ''ELOOP''))"

subsection \<open>Listing, removal, temporary directories\<close>

text \<open>\<^verbatim>\<open>Path.iterdir\<close> of a directory \<open>d\<close>: its entries, in the OS order.\<close>

definition iterdir :: "fs \<Rightarrow> path \<Rightarrow> path list" where
  "iterdir fs d = filter (\<lambda>p. p \<noteq> [] \<and> butlast p = d) (map fst fs)"

text \<open>\<^verbatim>\<open>shutil.rmtree(d)\<close>, run by \<^verbatim>\<open>TemporaryDirectory\<close> on leaving the block.\<close>

definition rmtree :: "fs \<Rightarrow> path \<Rightarrow> fs" where
  "rmtree fs d = filter (\<lambda>(p, _). \<not> prefix d p) fs"

text \<open>\<^verbatim>\<open>os.path.exists\<close>: \<^verbatim>\<open>stat\<close> succeeds.\<close>

definition path_exists :: "fs \<Rightarrow> path \<Rightarrow> bool" where
  "path_exists fs p \<longleftrightarrow> (case stat_node fs p of Inr _ \<Rightarrow> True | Inl _ \<Rightarrow> False)"

text \<open>\<^verbatim>\<open>os.mkdir(p)\<close>: the parent is resolved as \<^verbatim>\<open>stat\<close> resolves it and must be a
  directory; the new entry must not exist, whatever it is (a dangling link included).\<close>

definition mkdir :: "fs \<Rightarrow> path \<Rightarrow> fs \<times> py_error option" where
  "mkdir fs p =
     (if p = [] then (fs, Some FileExistsError)
      else case stat_node fs (butlast p) of
        Inl e \<Rightarrow> (fs, Some e)
      | Inr (q, Directory) \<Rightarrow>
          (case map_of fs (q @ [last p]) of
             None \<Rightarrow> (AList.update (q @ [last p]) Directory fs, None)
           | Some _ \<Rightarrow> (fs, Some FileExistsError))
      | Inr _ \<Rightarrow> (fs, Some NotADirectoryError))"

text \<open>
  \<^verbatim>\<open>tempfile.mkdtemp(prefix="tmp")\<close> as \<^verbatim>\<open>TemporaryDirectory\<close> calls it: try the
  candidate names in turn with \<^verbatim>\<open>os.mkdir\<close>, skip a name on \<^verbatim>\<open>FileExistsError\<close>,
  raise any other error, and raise \<^verbatim>\<open>FileExistsError\<close> when the names are used up; the
  result is the joined path.
\<close>

fun mkdtemp :: "fs \<Rightarrow> path \<Rightarrow> string list \<Rightarrow> py_error + (path \<times> fs)" where
  "mkdtemp fs base [] = Inl FileExistsError"
| "mkdtemp fs base (n # ns) =
     (case mkdir fs (base @ [''tmp'' @ n]) of
        (fs', None) \<Rightarrow> Inr (base @ [''tmp'' @ n], fs')
      | (_, Some FileExistsError) \<Rightarrow> mkdtemp fs base ns
      | (_, Some e) \<Rightarrow> Inl e)"

text \<open>\<^verbatim>\<open>os.path.normpath\<close> on an absolute path: empty and \<^verbatim>\<open>.\<close> components are
  dropped and \<^verbatim>\<open>..\<close> removes the component before it (at the root there is none).\<close>

fun norm_acc :: "path \<Rightarrow> string list \<Rightarrow> path" where
  "norm_acc acc [] = acc"
| "norm_acc acc (c # cs) =
     (if c = [] \<or> c = ''.'' then norm_acc acc cs
      else if c = ''..'' then norm_acc (butlast acc) cs
      else norm_acc (acc @ [c]) cs)"

definition normpath :: "path \<Rightarrow> path" where
  "normpath p = norm_acc [] p"

text \<open>\<^verbatim>\<open>os.makedirs(p)\<close> (\<open>exist_ok=False\<close>): when the head (\<^verbatim>\<open>dirname\<close>) does not
  exist, create it recursively, ignoring \<^verbatim>\<open>FileExistsError\<close> there; then
  \<^verbatim>\<open>os.mkdir(p)\<close>, whose every error is raised. The head of a one-component path is
  \<^verbatim>\<open>/\<close>, which exists.\<close>

function makedirs :: "fs \<Rightarrow> path \<Rightarrow> fs \<times> py_error option" where
  "makedirs fs p =
     (case (if p \<noteq> [] \<and> \<not> path_exists fs (butlast p) then makedirs fs (butlast p) else (fs, None)) of
        (fs1, Some FileExistsError) \<Rightarrow> mkdir fs1 p
      | (fs1, Some e) \<Rightarrow> (fs1, Some e)
      | (fs1, None) \<Rightarrow> mkdir fs1 p)"
  by pat_completeness auto
termination
  by (relation "measure (\<lambda>(fs, p). length p)") auto

text \<open>\<^verbatim>\<open>open(p, "wb")\<close> (\<open>O_WRONLY | O_CREAT | O_TRUNC\<close>): the directories on the
  way are resolved; a missing final entry is created as a file and an existing file is
  truncated and rewritten. A dangling link is taken to point into a missing directory.\<close>

definition open_wb :: "fs \<Rightarrow> path \<Rightarrow> byte list \<Rightarrow> fs \<times> py_error option" where
  "open_wb fs p bs =
     (case resolve fs [] p of
        Inl e \<Rightarrow> (fs, Some e)
      | Inr q \<Rightarrow>
          (if q = [] then (fs, Some IsADirectoryError)
           else (case map_of fs q of
                   None \<Rightarrow> (AList.update q (RegFile bs) fs, None)
                 | Some (RegFile _) \<Rightarrow> (AList.update q (RegFile bs) fs, None)
                 | Some Directory \<Rightarrow> (fs, Some IsADirectoryError)
                 | Some (NoAccess _) \<Rightarrow> (fs, Some PermissionError)
                 | Some BrokenLink \<Rightarrow> (fs, Some (FileNotFoundError (path_str q)))
                 | Some LoopLink \<Rightarrow> (fs, Some (OSError ''ELOOP'')))))"

text \<open>All non-empty prefixes of a path are directory entries.\<close>

definition dirs_to :: "fs \<Rightarrow> path \<Rightarrow> bool" where
  "dirs_to fs p \<longleftrightarrow> (\<forall>r \<in> set (prefixes p). r \<noteq> [] \<longrightarrow> map_of fs r = Some Directory)"

subsection \<open>Well-formedness\<close>

definition wf_fs :: "fs \<Rightarrow> bool" where
  "wf_fs fs \<longleftrightarrow> distinct (map fst fs) \<and>
     (\<forall>(p, n) \<in> set fs. p \<noteq> [] \<and> (\<forall>c \<in> set p. valid_name c) \<and>
        (butlast p = [] \<or> map_of fs (butlast p) = Some Directory))"

subsection \<open>Lemmas: ancestors, removal, fresh directories\<close>

lemma wf_fs_distinct: "wf_fs fs \<Longrightarrow> distinct (map fst fs)"
  by (simp add: wf_fs_def)

lemma wf_fs_entry:
  "wf_fs fs \<Longrightarrow> (p, n) \<in> set fs \<Longrightarrow>
     p \<noteq> [] \<and> (\<forall>c \<in> set p. valid_name c) \<and> (butlast p = [] \<or> map_of fs (butlast p) = Some Directory)"
  unfolding wf_fs_def by fast

lemma prefix_butlast:
  assumes "prefix p q" "p \<noteq> q"
  shows "prefix p (butlast q)"
proof -
  from assms obtain r where r: "q = p @ r" "r \<noteq> []" by (auto simp: prefix_def)
  then have "butlast q = p @ butlast r" by (simp add: butlast_append)
  then show ?thesis by simp
qed

text \<open>Every nonempty proper prefix of an entry is a directory entry.\<close>

lemma wf_fs_proper_ancestor:
  assumes wf: "wf_fs fs"
  shows "(q, n) \<in> set fs \<Longrightarrow> p \<noteq> [] \<Longrightarrow> prefix p q \<Longrightarrow> p \<noteq> q \<Longrightarrow>
           map_of fs p = Some Directory"
proof (induction "length q" arbitrary: q n)
  case 0
  then show ?case by (simp add: prefix_def)
next
  case (Suc m)
  from Suc.prems(3,4) have pb: "prefix p (butlast q)" by (rule prefix_butlast)
  with Suc.prems(2) have "butlast q \<noteq> []" by (auto simp: prefix_def)
  with wf_fs_entry [OF wf Suc.prems(1)] have bq: "map_of fs (butlast q) = Some Directory" by simp
  show ?case
  proof (cases "p = butlast q")
    case True
    with bq show ?thesis by simp
  next
    case False
    have "(butlast q, Directory) \<in> set fs" using bq by (rule map_of_SomeD)
    moreover have "m = length (butlast q)" using Suc.hyps by simp
    ultimately show ?thesis using Suc.hyps(1) Suc.prems(2) pb False by blast
  qed
qed

lemma wf_fs_fresh_nothing_below:
  assumes "wf_fs fs" "d \<noteq> []" "map_of fs d = None" "q \<in> fst ` set fs"
  shows "\<not> prefix d q"
proof
  assume pre: "prefix d q"
  from assms(4) obtain n where qn: "(q, n) \<in> set fs" by auto
  show False
  proof (cases "d = q")
    case True
    with qn assms(3) show False by (force simp: map_of_eq_None_iff)
  next
    case False
    with wf_fs_proper_ancestor [OF assms(1) qn assms(2) pre] assms(3) show False by simp
  qed
qed

lemma rmtree_nothing_below:
  "(\<And>q. q \<in> fst ` set fs \<Longrightarrow> \<not> prefix d q) \<Longrightarrow> rmtree fs d = fs"
  by (induction fs) (auto simp: rmtree_def)

lemma rmtree_update_below:
  "prefix d p \<Longrightarrow> rmtree (AList.update p v fs) d = rmtree fs d"
  by (induction fs) (auto simp: rmtree_def)

lemma map_of_rmtree:
  "map_of (rmtree fs d) q = (if prefix d q then None else map_of fs q)"
  by (induction fs) (auto simp: rmtree_def)

lemma rmtree_wf: "wf_fs fs \<Longrightarrow> wf_fs (rmtree fs d)"
proof -
  assume wf: "wf_fs fs"
  have dist: "distinct (map fst (rmtree fs d))"
    using wf_fs_distinct [OF wf] by (simp add: rmtree_def distinct_map_filter)
  have "p \<noteq> [] \<and> (\<forall>c \<in> set p. valid_name c) \<and>
        (butlast p = [] \<or> map_of (rmtree fs d) (butlast p) = Some Directory)"
    if pn: "(p, n) \<in> set (rmtree fs d)" for p n
  proof -
    from pn have in_fs: "(p, n) \<in> set fs" and nd: "\<not> prefix d p" by (auto simp: rmtree_def)
    have "\<not> prefix d (butlast p)"
      using nd prefix_order.trans [OF _ prefixeq_butlast] by blast
    then show ?thesis
      using wf_fs_entry [OF wf in_fs] by (simp add: map_of_rmtree)
  qed
  with dist show ?thesis unfolding wf_fs_def by blast
qed

text \<open>Resolution of a path whose proper prefixes are directory entries is the path itself.\<close>

lemma resolve_dirs:
  "(\<forall>c \<in> set cs. c \<noteq> ''..'') \<Longrightarrow>
   (\<forall>k. 0 < k \<and> k < length cs \<longrightarrow> map_of fs (cur @ take k cs) = Some Directory) \<Longrightarrow>
   resolve fs cur cs = Inr (cur @ cs)"
proof (induction cs arbitrary: cur)
  case Nil
  then show ?case by simp
next
  case (Cons c cs)
  show ?case
  proof (cases "cs = []")
    case True
    with Cons.prems show ?thesis by simp
  next
    case False
    then have "0 < (1::nat) \<and> 1 < length (c # cs)" by simp
    with Cons.prems(2) have dir: "map_of fs (cur @ [c]) = Some Directory" by fastforce
    have "\<forall>k. 0 < k \<and> k < length cs \<longrightarrow> map_of fs ((cur @ [c]) @ take k cs) = Some Directory"
    proof (intro allI impI)
      fix k assume "0 < k \<and> k < length cs"
      then have "0 < Suc k \<and> Suc k < length (c # cs)" by simp
      with Cons.prems(2) have "map_of fs (cur @ take (Suc k) (c # cs)) = Some Directory" by blast
      then show "map_of fs ((cur @ [c]) @ take k cs) = Some Directory" by simp
    qed
    with Cons.prems(1) have "resolve fs (cur @ [c]) cs = Inr ((cur @ [c]) @ cs)"
      by (intro Cons.IH) auto
    with Cons.prems(1) False dir show ?thesis by simp
  qed
qed

lemma wf_fs_resolve_key:
  assumes wf: "wf_fs fs" and qn: "(q, n) \<in> set fs"
  shows "resolve fs [] q = Inr q"
proof -
  have "\<forall>c \<in> set q. c \<noteq> ''..''" using wf_fs_entry [OF wf qn] by (auto simp: valid_name_def)
  moreover have "\<forall>k. 0 < k \<and> k < length q \<longrightarrow> map_of fs (take k q) = Some Directory"
  proof (intro allI impI)
    fix k assume k: "0 < k \<and> k < length q"
    then have "prefix (take k q) q" "take k q \<noteq> []" "take k q \<noteq> q"
      by (auto simp: take_is_prefix)
    then show "map_of fs (take k q) = Some Directory" using wf_fs_proper_ancestor [OF wf qn] by blast
  qed
  ultimately show ?thesis using resolve_dirs [where cur = "[]"] by simp
qed

lemma wf_fs_stat_key:
  "wf_fs fs \<Longrightarrow> map_of fs q = Some n \<Longrightarrow> n \<noteq> BrokenLink \<Longrightarrow> n \<noteq> LoopLink \<Longrightarrow>
     stat_node fs q = Inr (q, n)"
  using wf_fs_resolve_key [OF _ map_of_SomeD] wf_fs_entry [OF _ map_of_SomeD]
  by (cases n) (auto simp: stat_node_def)

lemma wf_fs_is_dir_key:
  "wf_fs fs \<Longrightarrow> map_of fs q = Some n \<Longrightarrow> n \<noteq> BrokenLink \<Longrightarrow> n \<noteq> LoopLink \<Longrightarrow>
     is_dir fs q \<longleftrightarrow> n = Directory"
  by (cases n) (simp_all add: is_dir_def wf_fs_stat_key)

lemma wf_fs_is_file_key:
  "wf_fs fs \<Longrightarrow> map_of fs q = Some n \<Longrightarrow> n \<noteq> BrokenLink \<Longrightarrow> n \<noteq> LoopLink \<Longrightarrow>
     is_file fs q \<longleftrightarrow> (\<exists>bs. n = RegFile bs \<or> n = NoAccess bs)"
  by (cases n) (simp_all add: is_file_def wf_fs_stat_key)

lemma set_iterdir: "set (iterdir fs d) = {p \<in> fst ` set fs. p \<noteq> [] \<and> butlast p = d}"
  by (auto simp: iterdir_def)

subsection \<open>Updates that keep the file system well formed\<close>

lemma wf_fs_keys:
  "wf_fs fs \<longleftrightarrow> distinct (map fst fs) \<and>
     (\<forall>q \<in> fst ` set fs. q \<noteq> [] \<and> (\<forall>c \<in> set q. valid_name c) \<and>
        (butlast q = [] \<or> map_of fs (butlast q) = Some Directory))"
  unfolding wf_fs_def by fastforce

lemma wf_fs_update_new:
  assumes wf: "wf_fs fs" and new: "map_of fs p = None" "p \<noteq> []" "\<forall>c \<in> set p. valid_name c"
    and parent: "butlast p = [] \<or> map_of fs (butlast p) = Some Directory"
  shows "wf_fs (AList.update p v fs)"
proof -
  have dist: "distinct (map fst (AList.update p v fs))"
    using wf by (simp add: wf_fs_def distinct_update)
  have kset: "fst ` set (AList.update p v fs) = insert p (fst ` set fs)"
    by (simp add: dom_update)
  have mo: "map_of (AList.update p v fs) q = (if q = p then Some v else map_of fs q)" for q
    by (simp add: update_conv')
  have par: "map_of fs (butlast p) = Some Directory \<Longrightarrow> butlast p \<noteq> p"
    using new(1) by auto
  show ?thesis
    using wf new parent par dist unfolding wf_fs_keys kset by (auto simp: mo)
qed

lemma wf_fs_update_same_kind:
  assumes wf: "wf_fs fs" and old: "map_of fs p = Some n" and kind: "(n = Directory) = (v = Directory)"
  shows "wf_fs (AList.update p v fs)"
proof -
  have pin: "p \<in> fst ` set fs" using old by (force dest: map_of_SomeD)
  have keys: "map fst (AList.update p v fs) = map fst fs" by (rule update_keys_present [OF pin])
  then have kset: "fst ` set (AList.update p v fs) = fst ` set fs" by (metis set_map)
  have mo: "map_of (AList.update p v fs) = (map_of fs)(p \<mapsto> v)" by (rule update_conv')
  have "butlast q = [] \<or> ((map_of fs)(p \<mapsto> v)) (butlast q) = Some Directory"
    if q: "q \<in> fst ` set fs" for q
  proof -
    from wf q have "butlast q = [] \<or> map_of fs (butlast q) = Some Directory"
      unfolding wf_fs_keys by blast
    with old kind show ?thesis by (cases "butlast q = p") auto
  qed
  with wf show ?thesis unfolding wf_fs_keys keys kset mo by blast
qed

lemma rmtree_rmtree_below: "prefix a b \<Longrightarrow> rmtree (rmtree x b) a = rmtree x a"
  by (induction x) (auto simp: rmtree_def dest: prefix_order.trans)


subsection \<open>Resolution without \<^verbatim>\<open>..\<close>, \<^verbatim>\<open>mkdir\<close>, \<^verbatim>\<open>mkdtemp\<close>\<close>

lemma resolve_no_dotdot:
  "resolve fs cur cs = Inr r \<Longrightarrow> \<forall>c \<in> set cs. c \<noteq> ''..'' \<Longrightarrow>
   r = cur @ cs \<and> (\<forall>k. 0 < k \<and> k < length cs \<longrightarrow> map_of fs (cur @ take k cs) = Some Directory)"
proof (induction cs arbitrary: cur)
  case Nil
  then show ?case by simp
next
  case (Cons c cs)
  show ?case
  proof (cases "cs = []")
    case True
    with Cons.prems show ?thesis by simp
  next
    case False
    with Cons.prems have d: "map_of fs (cur @ [c]) = Some Directory" and r: "resolve fs (cur @ [c]) cs = Inr r"
      by (auto split: option.splits node.splits)
    from Cons.IH [OF r] Cons.prems(2)
    have ih: "r = cur @ [c] @ cs" "\<forall>k. 0 < k \<and> k < length cs \<longrightarrow> map_of fs (cur @ [c] @ take k cs) = Some Directory"
      by auto
    have "map_of fs (cur @ take k (c # cs)) = Some Directory" if "0 < k" "k < length (c # cs)" for k
    proof (cases k)
      case 0
      with that show ?thesis by simp
    next
      case (Suc j)
      with that d ih(2) show ?thesis by (cases j) auto
    qed
    with ih(1) show ?thesis by simp
  qed
qed

lemma stat_node_dir_no_dotdot:
  assumes st: "stat_node fs p = Inr (q, Directory)" and nd: "\<forall>c \<in> set p. c \<noteq> ''..''"
  shows "q = p \<and> dirs_to fs p"
proof -
  obtain r where r: "resolve fs [] p = Inr r"
    using st by (auto simp: stat_node_def split: sum.splits)
  from resolve_no_dotdot [OF r nd] have rp: "r = p"
    and mid: "\<forall>k. 0 < k \<and> k < length p \<longrightarrow> map_of fs (take k p) = Some Directory" by auto
  have qp: "q = p" and top: "p \<noteq> [] \<Longrightarrow> map_of fs p = Some Directory"
    using st r rp by (auto simp: stat_node_def split: if_splits option.splits node.splits)
  have "map_of fs x = Some Directory" if "prefix x p" "x \<noteq> []" for x
  proof (cases "x = p")
    case True
    with that top show ?thesis by simp
  next
    case False
    from that(1) obtain k where "x = take k p" "k \<le> length p" by (metis prefix_def append_eq_conv_conj le_add1 length_append)
    with False that(2) have "0 < k" "k < length p" "x = take k p" by (auto simp: le_less)
    with mid show ?thesis by simp
  qed
  with qp show ?thesis by (simp add: dirs_to_def)
qed

lemma mkdir_cases:
  assumes mk: "mkdir fs p = (fs', e)" and nd: "\<forall>c \<in> set p. c \<noteq> ''..''"
  shows "(fs' = fs \<and> e \<noteq> None) \<or>
         (e = None \<and> p \<noteq> [] \<and> map_of fs p = None \<and> fs' = AList.update p Directory fs \<and> dirs_to fs (butlast p))"
proof (cases "p = []")
  case True
  with mk show ?thesis by (auto simp: mkdir_def)
next
  case False
  show ?thesis
  proof (cases "stat_node fs (butlast p)")
    case (Inl x)
    with mk False show ?thesis by (auto simp: mkdir_def)
  next
    case (Inr qn)
    obtain q n where qn: "qn = (q, n)" by fastforce
    show ?thesis
    proof (cases "n = Directory")
      case True
      have "\<forall>c \<in> set (butlast p). c \<noteq> ''..''" using nd by (auto dest: in_set_butlastD)
      with Inr qn True have "q = butlast p \<and> dirs_to fs (butlast p)"
        by (intro stat_node_dir_no_dotdot) simp_all
      with mk False Inr qn True show ?thesis
        by (auto simp: mkdir_def split: option.splits)
    next
      case False
      with mk \<open>p \<noteq> []\<close> Inr qn show ?thesis by (cases n) (auto simp: mkdir_def)
    qed
  qed
qed

lemma mkdtemp_name:
  "mkdtemp fs base ns = Inr (p, fs') \<Longrightarrow> \<exists>n \<in> set ns. p = base @ [''tmp'' @ n]"
  by (induction ns) (auto split: prod.splits option.splits py_error.splits)

lemma mkdtemp_Inr:
  "mkdtemp fs base ns = Inr (p, fs') \<Longrightarrow> \<forall>c \<in> set base. c \<noteq> ''..'' \<Longrightarrow>
   \<exists>n \<in> set ns. p = base @ [''tmp'' @ n] \<and> map_of fs p = None \<and> fs' = AList.update p Directory fs \<and>
     dirs_to fs base"
proof (induction ns)
  case Nil
  then show ?case by simp
next
  case (Cons n ns)
  obtain fs1 e where mk: "mkdir fs (base @ [''tmp'' @ n]) = (fs1, e)" by fastforce
  have nd: "\<forall>c \<in> set (base @ [''tmp'' @ n]). c \<noteq> ''..''" using Cons.prems(2) by auto
  show ?case
  proof (cases e)
    case None
    with mk Cons.prems(1) have "p = base @ [''tmp'' @ n]" "fs' = fs1" by simp_all
    with mkdir_cases [OF mk nd] None show ?thesis by auto
  next
    case (Some x)
    with mk Cons.prems(1) have "mkdtemp fs base ns = Inr (p, fs')" by (cases x) auto
    with Cons.IH Cons.prems(2) show ?thesis by auto
  qed
qed


subsection \<open>Normalisation, \<^verbatim>\<open>makedirs\<close>, \<^verbatim>\<open>open(p, "wb")\<close>: frame and well-formedness\<close>

lemma dirs_to_prefix: "dirs_to fs p \<longleftrightarrow> (\<forall>r. prefix r p \<longrightarrow> r \<noteq> [] \<longrightarrow> map_of fs r = Some Directory)"
  unfolding dirs_to_def by (auto simp: in_set_prefixes)

lemma valid_no_dotdot: "\<forall>c \<in> set p. valid_name c \<Longrightarrow> \<forall>c \<in> set p. c \<noteq> ''..''"
  by (auto simp: valid_name_def)

lemma norm_acc_valid: "\<forall>c \<in> set cs. valid_name c \<Longrightarrow> norm_acc acc cs = acc @ cs"
  by (induction cs arbitrary: acc) (auto simp: valid_name_def)

lemma normpath_valid: "\<forall>c \<in> set p. valid_name c \<Longrightarrow> normpath p = p"
  by (simp add: normpath_def norm_acc_valid)

lemma comparable_butlast:
  "prefix t p \<or> prefix p t \<Longrightarrow> prefix t (butlast p) \<or> prefix (butlast p) t"
proof -
  have bp: "prefix (butlast p) p" by (simp add: butlast_conv_take take_is_prefix)
  assume "prefix t p \<or> prefix p t"
  then show ?thesis
  proof
    assume tp: "prefix t p"
    show ?thesis
    proof (cases "t = p")
      case True
      with bp show ?thesis by simp
    next
      case False
      with tp show ?thesis by (simp add: prefix_butlast)
    qed
  next
    assume "prefix p t"
    with bp show ?thesis by (blast intro: prefix_order.trans)
  qed
qed

text \<open>Adding or replacing an entry that is not a directory on the way to \<open>t\<close> changes
  nothing outside \<open>t\<close> and keeps the way to \<open>t\<close>.\<close>

lemma update_frame:
  assumes k: "map_of fs k \<noteq> Some Directory" "k \<noteq> []" and d: "dirs_to fs t"
    and c: "prefix t k \<or> prefix k t"
  shows "rmtree (AList.update k v fs) t = rmtree fs t \<and> dirs_to (AList.update k v fs) t"
proof -
  have tk: "prefix t k" using c k d by (auto simp: dirs_to_prefix)
  have "map_of (AList.update k v fs) r = Some Directory" if "prefix r t" "r \<noteq> []" for r
  proof -
    from that d have r: "map_of fs r = Some Directory" by (simp add: dirs_to_prefix)
    with k have "r \<noteq> k" by auto
    with r show ?thesis by (simp add: update_conv')
  qed
  with tk show ?thesis by (simp add: rmtree_update_below dirs_to_prefix)
qed

lemma mkdir_frame:
  assumes mk: "mkdir fs p = (fs', e)" and nd: "\<forall>c \<in> set p. c \<noteq> ''..''" and d: "dirs_to fs t"
    and c: "prefix t p \<or> prefix p t"
  shows "rmtree fs' t = rmtree fs t \<and> dirs_to fs' t"
  using mkdir_cases [OF mk nd] update_frame [OF _ _ d c] d by auto

lemma makedirs_frame:
  "makedirs fs p = (fs', e) \<Longrightarrow> \<forall>c \<in> set p. c \<noteq> ''..'' \<Longrightarrow> dirs_to fs t \<Longrightarrow>
   prefix t p \<or> prefix p t \<Longrightarrow> rmtree fs' t = rmtree fs t \<and> dirs_to fs' t"
proof (induction fs p arbitrary: fs' e rule: makedirs.induct)
  case (1 fs p)
  let ?h = "if p \<noteq> [] \<and> \<not> path_exists fs (butlast p) then makedirs fs (butlast p) else (fs, None)"
  obtain fs1 e1 where h: "?h = (fs1, e1)" by fastforce
  have f1: "rmtree fs1 t = rmtree fs t \<and> dirs_to fs1 t"
  proof (cases "p \<noteq> [] \<and> \<not> path_exists fs (butlast p)")
    case True
    with h have mb: "makedirs fs (butlast p) = (fs1, e1)" by simp
    have "\<forall>c \<in> set (butlast p). c \<noteq> ''..''" using "1.prems"(2) by (auto dest: in_set_butlastD)
    moreover have "prefix t (butlast p) \<or> prefix (butlast p) t" using "1.prems"(4) by (rule comparable_butlast)
    ultimately show ?thesis using "1.IH" [OF True mb] "1.prems"(3) by blast
  next
    case False
    with h "1.prems"(3) show ?thesis by simp
  qed
  have eq: "makedirs fs p = (case (fs1, e1) of (fs1, Some FileExistsError) \<Rightarrow> mkdir fs1 p
      | (fs1, Some e) \<Rightarrow> (fs1, Some e) | (fs1, None) \<Rightarrow> mkdir fs1 p)"
    by (subst makedirs.simps) (simp only: h)
  have "mkdir fs1 p = (fs', e) \<or> (fs', e) = (fs1, e1)"
    using "1.prems"(1) unfolding eq by (auto split: option.splits py_error.splits)
  then show ?case
  proof
    assume "mkdir fs1 p = (fs', e)"
    from mkdir_frame [OF this "1.prems"(2) _ "1.prems"(4)] f1 show ?thesis by simp
  next
    assume "(fs', e) = (fs1, e1)"
    with f1 show ?thesis by simp
  qed
qed

lemma open_wb_frame:
  assumes ow: "open_wb fs p bs = (fs', e)" and nd: "\<forall>c \<in> set p. c \<noteq> ''..''" and d: "dirs_to fs t"
    and c: "prefix t p \<or> prefix p t"
  shows "rmtree fs' t = rmtree fs t \<and> dirs_to fs' t"
proof (cases "resolve fs [] p")
  case (Inl x)
  with ow d show ?thesis by (simp add: open_wb_def)
next
  case (Inr q)
  with resolve_no_dotdot [OF Inr nd] have "q = p" by simp
  with Inr ow d update_frame [OF _ _ d c] show ?thesis
    by (auto simp: open_wb_def split: if_splits option.splits node.splits)
qed


lemma dirs_to_parent:
  "dirs_to fs (butlast p) \<Longrightarrow> butlast p = [] \<or> map_of fs (butlast p) = Some Directory"
  by (auto simp: dirs_to_prefix)

lemma dirs_to_update_dir:
  assumes "dirs_to fs (butlast p)"
  shows "dirs_to (AList.update p Directory fs) p"
proof -
  have "map_of (AList.update p Directory fs) r = Some Directory" if "prefix r p" "r \<noteq> []" for r
  proof (cases "r = p")
    case False
    with that have "prefix r (butlast p)" by (simp add: prefix_butlast)
    with assms that False show ?thesis by (simp add: dirs_to_prefix update_conv')
  qed (simp add: update_conv')
  then show ?thesis by (simp add: dirs_to_prefix)
qed

lemma mkdir_wf:
  assumes mk: "mkdir fs p = (fs', e)" and wf: "wf_fs fs" and v: "\<forall>c \<in> set p. valid_name c"
  shows "wf_fs fs'"
  using mkdir_cases [OF mk valid_no_dotdot [OF v]]
proof (elim disjE conjE)
  assume "fs' = fs"
  with wf show ?thesis by simp
next
  assume new: "map_of fs p = None" "p \<noteq> []" "fs' = AList.update p Directory fs" "dirs_to fs (butlast p)"
  from wf_fs_update_new [OF wf new(1,2) v dirs_to_parent [OF new(4)]] new(3) show ?thesis by simp
qed

lemma makedirs_wf:
  "makedirs fs p = (fs', e) \<Longrightarrow> wf_fs fs \<Longrightarrow> \<forall>c \<in> set p. valid_name c \<Longrightarrow> wf_fs fs'"
proof (induction fs p arbitrary: fs' e rule: makedirs.induct)
  case (1 fs p)
  let ?h = "if p \<noteq> [] \<and> \<not> path_exists fs (butlast p) then makedirs fs (butlast p) else (fs, None)"
  obtain fs1 e1 where h: "?h = (fs1, e1)" by fastforce
  have w1: "wf_fs fs1"
  proof (cases "p \<noteq> [] \<and> \<not> path_exists fs (butlast p)")
    case True
    with h have mb: "makedirs fs (butlast p) = (fs1, e1)" by simp
    have "\<forall>c \<in> set (butlast p). valid_name c" using "1.prems"(3) by (auto dest: in_set_butlastD)
    from "1.IH" [OF True mb "1.prems"(2) this] show ?thesis .
  next
    case False
    with h "1.prems"(2) show ?thesis by simp
  qed
  have eq: "makedirs fs p = (case (fs1, e1) of (fs1, Some FileExistsError) \<Rightarrow> mkdir fs1 p
      | (fs1, Some e) \<Rightarrow> (fs1, Some e) | (fs1, None) \<Rightarrow> mkdir fs1 p)"
    by (subst makedirs.simps) (simp only: h)
  have "mkdir fs1 p = (fs', e) \<or> (fs', e) = (fs1, e1)"
    using "1.prems"(1) unfolding eq by (auto split: option.splits py_error.splits)
  then show ?case
  proof
    assume "mkdir fs1 p = (fs', e)"
    then show ?thesis by (rule mkdir_wf [OF _ w1 "1.prems"(3)])
  next
    assume "(fs', e) = (fs1, e1)"
    with w1 show ?thesis by simp
  qed
qed

lemma open_wb_wf:
  assumes ow: "open_wb fs p bs = (fs', e)" and wf: "wf_fs fs" and v: "\<forall>c \<in> set p. valid_name c"
  shows "wf_fs fs'"
proof (cases "resolve fs [] p")
  case (Inl x)
  with ow wf show ?thesis by (simp add: open_wb_def)
next
  case (Inr q)
  from resolve_no_dotdot [OF Inr valid_no_dotdot [OF v]]
  have qp: "q = p" and mid: "\<forall>k. 0 < k \<and> k < length p \<longrightarrow> map_of fs (take k p) = Some Directory"
    by auto
  have par: "butlast p = [] \<or> map_of fs (butlast p) = Some Directory"
  proof (cases "butlast p = []")
    case False
    then have "0 < length p - 1 \<and> length p - 1 < length p" by (cases p) auto
    with mid show ?thesis by (simp add: butlast_conv_take)
  qed simp
  consider "fs' = fs"
    | "fs' = AList.update p (RegFile bs) fs" "p \<noteq> []" "map_of fs p = None"
    | cs where "fs' = AList.update p (RegFile bs) fs" "map_of fs p = Some (RegFile cs)"
    using Inr qp ow by (auto simp: open_wb_def split: if_splits option.splits node.splits)
  then show ?thesis
  proof cases
    case 1
    with wf show ?thesis by simp
  next
    case 2
    with wf_fs_update_new [OF wf 2(3,2) v par] show ?thesis by simp
  next
    case 3
    with wf_fs_update_same_kind [OF wf 3(2), of "RegFile bs"] show ?thesis by simp
  qed
qed

subsection \<open>Splitting at a separator\<close>

lemma split_on_nonempty: "split_on c s \<noteq> []"
  by (induction s) (auto simp: Let_def)

lemma split_on_no_sep: "w \<in> set (split_on c s) \<Longrightarrow> c \<notin> set w"
proof (induction s arbitrary: w)
  case Nil
  then show ?case by simp
next
  case (Cons x xs)
  have ne: "split_on c xs \<noteq> []" by (rule split_on_nonempty)
  then have "hd (split_on c xs) \<in> set (split_on c xs)" "set (tl (split_on c xs)) \<subseteq> set (split_on c xs)"
    by (auto simp: list.set_sel)
  with Cons show ?case by (auto simp: Let_def split: if_splits)
qed

lemma split_on_no_sep_single: "c \<notin> set xs \<Longrightarrow> split_on c xs = [xs]"
  by (induction xs) (auto simp: Let_def)

lemma split_on_append_sep: "c \<notin> set xs \<Longrightarrow> split_on c (xs @ c # ys) = xs # split_on c ys"
  by (induction xs) (auto simp: Let_def)

end
