(* ===== verification/LineCount.thy ===== *)
theory LineCount
  imports FileSystem "HOL-Library.While_Combinator"
begin

text \<open>
  \<^verbatim>\<open>LinguistWrapper._count_lines\<close> (linguist_wrapper.py, lines 93--100): open the file
  in binary mode, read it in chunks of \<^verbatim>\<open>1 << 20\<close> bytes until \<^verbatim>\<open>read\<close> returns
  \<^verbatim>\<open>b""\<close>, and add up the newline bytes of each chunk; a file that is a directory,
  missing or unreadable counts 0. The open file is a record of its content and offset,
  \<open>f_read\<close> is \<^verbatim>\<open>f.read(n)\<close>, and the loop \<open>count_chunks\<close> is a
  \<^theory_text>\<open>function\<close> whose termination measure is the number of unread bytes.
  The lemmas show that the chunked count equals the newline count of the whole file for
  every chunk size (so it does not depend on where chunks end), and which errors are
  swallowed and which propagate. The loop is also modelled as Python runs it:
  \<open>iter_sentinel\<close> is \<^verbatim>\<open>iter(callable, sentinel)\<close> as a
  \<^const>\<open>while_option\<close>, proved to end (a measure on the unread bytes plus the chunk in
  hand) and to agree with the recursive loop.
\<close>

record file_obj =
  f_content :: "byte list"
  f_pos :: nat

definition f_read :: "nat \<Rightarrow> file_obj \<Rightarrow> byte list \<times> file_obj" where
  "f_read n f =
     (let chunk = take n (drop (f_pos f) (f_content f)) in (chunk, f\<lparr>f_pos := f_pos f + length chunk\<rparr>))"

definition chunk_size :: nat where
  "chunk_size = 2 ^ 20"

text \<open>\<^verbatim>\<open>sum(chunk.count(b"\n") for chunk in iter(lambda: f.read(n), b""))\<close>, the running
  sum as accumulator.\<close>

function count_chunks :: "nat \<Rightarrow> file_obj \<Rightarrow> nat \<Rightarrow> nat" where
  "count_chunks n f acc =
     (let (chunk, f') = f_read n f in
      if chunk = [] then acc else count_chunks n f' (acc + count_list chunk newline))"
  by pat_completeness auto
termination
  by (relation "measure (\<lambda>(n, f, acc). length (f_content f) - f_pos f)")
     (auto simp: f_read_def min_def split: if_splits)

declare count_chunks.simps [simp del]

definition count_lines :: "fs \<Rightarrow> path \<Rightarrow> py_error + nat" where
  "count_lines fs p =
     (case open_rb fs p of
        Inr bs \<Rightarrow> Inr (count_chunks chunk_size \<lparr>f_content = bs, f_pos = 0\<rparr> 0)
      | Inl IsADirectoryError \<Rightarrow> Inr 0
      | Inl (FileNotFoundError _) \<Rightarrow> Inr 0
      | Inl PermissionError \<Rightarrow> Inr 0
      | Inl e \<Rightarrow> Inl e)"

text \<open>The exceptions of the \<^verbatim>\<open>except\<close> clause.\<close>

definition swallowed :: "py_error \<Rightarrow> bool" where
  "swallowed e \<longleftrightarrow> (case e of IsADirectoryError \<Rightarrow> True | FileNotFoundError _ \<Rightarrow> True
                      | PermissionError \<Rightarrow> True | _ \<Rightarrow> False)"

text \<open>\<^verbatim>\<open>iter(callable, sentinel)\<close>: call \<open>g\<close> until it returns the sentinel; the
  values before it are the items the iterator produces. The loop state of the
  \<^const>\<open>while_option\<close> is the items so far (last first), the value just returned and
  the state of the object the callable reads; \<open>None\<close> is an iterator that never ends.\<close>

definition iter_sentinel :: "('s \<Rightarrow> 'a \<times> 's) \<Rightarrow> 'a \<Rightarrow> 's \<Rightarrow> ('a list \<times> 's) option" where
  "iter_sentinel g stop s =
     map_option (\<lambda>(ys, y, t). (rev ys, t))
       (while_option (\<lambda>(ys, y, t). y \<noteq> stop) (\<lambda>(ys, y, t). (y # ys, g t)) ([], g s))"

text \<open>The generator expression of line 97 over that iterator.\<close>

definition count_lines_iter :: "nat \<Rightarrow> file_obj \<Rightarrow> nat option" where
  "count_lines_iter n f =
     map_option (\<lambda>(chunks, f'). sum_list (map (\<lambda>chunk. count_list chunk newline) chunks))
       (iter_sentinel (f_read n) [] f)"

subsection \<open>The chunked loop\<close>

lemma take_drop_length_take: "take n xs @ drop (length (take n xs)) xs = xs"
  by (cases "n \<le> length xs") (simp_all add: min_def)

lemma count_chunks_drop:
  "0 < n \<Longrightarrow> count_chunks n f acc = acc + count_list (drop (f_pos f) (f_content f)) newline"
proof (induction n f acc rule: count_chunks.induct)
  case (1 n f acc)
  define chunk where "chunk = take n (drop (f_pos f) (f_content f))"
  show ?case
  proof (cases "chunk = []")
    case True
    with "1.prems" have "drop (f_pos f) (f_content f) = []" by (simp add: chunk_def)
    with True show ?thesis by (simp add: count_chunks.simps [of n f acc] f_read_def chunk_def)
  next
    case False
    let ?f' = "f\<lparr>f_pos := f_pos f + length chunk\<rparr>"
    have step: "count_chunks n f acc = count_chunks n ?f' (acc + count_list chunk newline)"
      using False by (simp add: count_chunks.simps [of n f acc] f_read_def chunk_def)
    have IH: "count_chunks n ?f' (acc + count_list chunk newline) =
        acc + count_list chunk newline + count_list (drop (f_pos f + length chunk) (f_content f)) newline"
      using "1.IH" [OF _ _ False "1.prems"] by (simp add: f_read_def chunk_def)
    have "drop (f_pos f) (f_content f) = chunk @ drop (f_pos f + length chunk) (f_content f)"
      using take_drop_length_take [of n "drop (f_pos f) (f_content f)"]
      by (simp add: chunk_def add.commute)
    then have "count_list (drop (f_pos f) (f_content f)) newline =
        count_list chunk newline + count_list (drop (f_pos f + length chunk) (f_content f)) newline"
      by (metis count_list_append)
    with step IH show ?thesis by simp
  qed
qed

text \<open>The same equation with the chunk tested before the recursive call, for evaluation.\<close>

lemma count_chunks_code [code]:
  "count_chunks n f acc =
     (if fst (f_read n f) = [] then acc
      else count_chunks n (snd (f_read n f)) (acc + count_list (fst (f_read n f)) newline))"
  by (simp add: count_chunks.simps [of n f acc] split: prod.split)

lemma count_chunks_zero_size: "count_chunks 0 f acc = acc"
  by (simp add: count_chunks.simps [of 0 f acc] f_read_def)

lemma chunk_size_pos: "0 < chunk_size"
  by (simp add: chunk_size_def)

lemma count_lines_open_Inr:
  "open_rb fs p = Inr bs \<Longrightarrow> count_lines fs p = Inr (count_list bs newline)"
  by (simp add: count_lines_def count_chunks_drop chunk_size_pos)

text \<open>For evaluation, \<open>count_lines\<close> with the loop replaced by the whole-file count it
  computes (\<open>count_chunks_drop\<close>).\<close>

lemma count_lines_code [code]:
  "count_lines fs p =
     (case open_rb fs p of
        Inr bs \<Rightarrow> Inr (count_list bs newline)
      | Inl IsADirectoryError \<Rightarrow> Inr 0
      | Inl (FileNotFoundError _) \<Rightarrow> Inr 0
      | Inl PermissionError \<Rightarrow> Inr 0
      | Inl e \<Rightarrow> Inl e)"
  by (simp add: count_lines_def count_chunks_drop chunk_size_pos split: sum.split)


subsection \<open>The loop as the iterator protocol\<close>

text \<open>Each pass of the \<^const>\<open>while_option\<close> reads one chunk and lowers the number of
  unread bytes plus the length of the chunk in hand; the chunks in hand reassemble the
  file from the offset the loop started at.\<close>

lemma f_read_content [simp]: "f_content (snd (f_read n t)) = f_content t"
  by (simp add: f_read_def Let_def)

lemma f_read_length: "length (fst (f_read n t)) \<le> n"
  by (simp add: f_read_def Let_def)

lemma f_read_progress:
  "length (f_content t) - f_pos (snd (f_read n t)) + length (fst (f_read n t)) \<le> length (f_content t) - f_pos t"
  by (simp add: f_read_def Let_def)

lemma f_read_split:
  "fst (f_read n t) @ drop (f_pos (snd (f_read n t))) (f_content t) = drop (f_pos t) (f_content t)"
  using take_drop_length_take [of n "drop (f_pos t) (f_content t)"]
  by (simp add: f_read_def Let_def add.commute)

lemma f_read_empty: "fst (f_read n t) = [] \<Longrightarrow> 0 < n \<Longrightarrow> drop (f_pos t) (f_content t) = []"
  by (simp add: f_read_def Let_def)

lemma iter_read_chunks:
  "\<exists>cs f'. iter_sentinel (f_read n) [] f = Some (cs, f') \<and>
     (0 < n \<longrightarrow> concat cs = drop (f_pos f) (f_content f)) \<and> (\<forall>c\<in>set cs. c \<noteq> [] \<and> length c \<le> n)"
proof -
  define b :: "byte list list \<times> byte list \<times> file_obj \<Rightarrow> bool" where "b = (\<lambda>(ys, y, t). y \<noteq> [])"
  define c :: "byte list list \<times> byte list \<times> file_obj \<Rightarrow> _" where "c = (\<lambda>(ys, y, t). (y # ys, f_read n t))"
  define M :: "byte list list \<times> byte list \<times> file_obj \<Rightarrow> nat" where
    "M = (\<lambda>(ys, y, t). length (f_content t) - f_pos t + length y)"
  define P :: "byte list list \<times> byte list \<times> file_obj \<Rightarrow> bool" where
    "P = (\<lambda>(ys, y, t). \<exists>t0. (y, t) = f_read n t0 \<and> f_content t0 = f_content f \<and>
       concat (rev ys) @ drop (f_pos t0) (f_content f) = drop (f_pos f) (f_content f) \<and>
       (\<forall>c\<in>set ys. c \<noteq> [] \<and> length c \<le> n))"
  have step: "P (c s) \<and> M (c s) < M s" if "P s" "b s" for s
  proof -
    obtain ys y t where s: "s = (ys, y, t)" by (cases s) auto
    from that obtain t0 where t0: "(y, t) = f_read n t0" "f_content t0 = f_content f"
      "concat (rev ys) @ drop (f_pos t0) (f_content f) = drop (f_pos f) (f_content f)"
      "\<forall>c\<in>set ys. c \<noteq> [] \<and> length c \<le> n" and y: "y \<noteq> []"
      by (auto simp: P_def b_def s)
    have yt: "y = fst (f_read n t0)" "t = snd (f_read n t0)" using t0(1) by (metis fst_conv, metis snd_conv)
    have ct: "f_content t = f_content f" using yt(2) t0(2) by simp
    have "concat (rev (y # ys)) @ drop (f_pos t) (f_content f) = drop (f_pos f) (f_content f)"
      using f_read_split [of n t0] t0(2,3) yt by simp
    moreover have "length y \<le> n" using yt(1) f_read_length by simp
    ultimately have "P (c s)"
      using t0(4) y ct by (auto simp: P_def c_def s)
    moreover have "M (c s) < M s"
    proof -
      obtain y' t' where r: "f_read n t = (y', t')" by (cases "f_read n t") auto
      then have "length (f_content t') - f_pos t' + length y' \<le> length (f_content t) - f_pos t"
        using f_read_progress [of t n] f_read_content [of n t] by simp
      moreover have "0 < length y" using y by simp
      ultimately show ?thesis unfolding M_def c_def s r prod.case by linarith
    qed
    ultimately show ?thesis ..
  qed
  have init: "P ([], f_read n f)" by (auto simp: P_def)
  obtain r where r: "while_option b c ([], f_read n f) = Some r"
    using measure_while_option_Some [of P b c M, OF step init] by blast
  have Pr: "P r" using while_option_rule [of P b c, OF _ r init] step by blast
  have br: "\<not> b r" using while_option_stop [OF r] .
  obtain ys y t where rs: "r = (ys, y, t)" by (cases r) auto
  from Pr br obtain t0 where t0: "([], t) = f_read n t0" "f_content t0 = f_content f"
      "concat (rev ys) @ drop (f_pos t0) (f_content f) = drop (f_pos f) (f_content f)"
      "\<forall>c\<in>set ys. c \<noteq> [] \<and> length c \<le> n"
    by (auto simp: P_def b_def rs)
  have "0 < n \<longrightarrow> concat (rev ys) = drop (f_pos f) (f_content f)"
    using f_read_empty [of n t0] t0(1,2,3) by (metis append_Nil2 fst_conv)
  moreover have "iter_sentinel (f_read n) [] f = Some (rev ys, t)"
    using r by (simp add: iter_sentinel_def b_def c_def rs)
  ultimately show ?thesis using t0(4) by auto
qed

lemma sum_count_list_concat: "sum_list (map (\<lambda>c. count_list c x) cs) = count_list (concat cs) x"
  by (induction cs) simp_all

subsection \<open>Properties\<close>

text \<open>C6: line counting does not depend on chunk boundaries: for every positive chunk size
  the chunked loop over a freshly opened file returns the number of newline bytes of the
  whole file.\<close>

theorem count_chunks_whole_file:
  "0 < n \<Longrightarrow> count_chunks n \<lparr>f_content = bs, f_pos = 0\<rparr> 0 = count_list bs newline"
  by (simp add: count_chunks_drop)

lemma count_chunks_whole_file_witness:
  "0 < (4::nat) \<and> count_chunks 4 \<lparr>f_content = concat (replicate 3 [97, 10, 98]), f_pos = 0\<rparr> 0 = 3"
proof -
  have c: "count_list (concat (replicate 3 [97, 10, 98 :: byte])) newline = 3" by code_simp
  show ?thesis using count_chunks_whole_file [of 4 "concat (replicate 3 [97, 10, 98])"] c by simp
qed

text \<open>C29: the loop of \<^verbatim>\<open>_count_lines\<close>, written as Python runs it (the iterator
  \<^verbatim>\<open>iter(lambda: f.read(n), b"")\<close> consumed by \<^verbatim>\<open>sum\<close>), terminates for every
  file object and every chunk size, zero included, and sums the same count as the recursive
  loop.\<close>

theorem count_lines_iter_terminates: "count_lines_iter n f = Some (count_chunks n f 0)"
proof -
  obtain cs f' where it: "iter_sentinel (f_read n) [] f = Some (cs, f')"
    and cat: "0 < n \<longrightarrow> concat cs = drop (f_pos f) (f_content f)"
    and ne: "\<forall>c\<in>set cs. c \<noteq> [] \<and> length c \<le> n"
    using iter_read_chunks [of n f] by blast
  show ?thesis
  proof (cases "n = 0")
    case True
    with ne have "cs = []" by (cases cs) auto
    with True it show ?thesis by (simp add: count_lines_iter_def count_chunks_zero_size)
  next
    case False
    with cat it show ?thesis
      by (simp add: count_lines_iter_def count_chunks_drop sum_count_list_concat)
  qed
qed

text \<open>The chunks the iterator yields over a freshly opened file reassemble the file:
  they are non-empty, none is longer than the chunk size, and their concatenation is the
  file's content.\<close>

theorem iter_read_roundtrip:
  "0 < n \<Longrightarrow> iter_sentinel (f_read n) [] \<lparr>f_content = bs, f_pos = 0\<rparr> = Some (cs, f') \<Longrightarrow>
   concat cs = bs \<and> (\<forall>c\<in>set cs. c \<noteq> [] \<and> length c \<le> n)"
  using iter_read_chunks [of n "\<lparr>f_content = bs, f_pos = 0\<rparr>"] by auto

lemma iter_read_roundtrip_witness:
  "0 < (2::nat) \<and>
   iter_sentinel (f_read 2) [] \<lparr>f_content = [97, 10, 98, 10, 99], f_pos = 0\<rparr> =
     Some ([[97, 10], [98, 10], [99]], \<lparr>f_content = [97, 10, 98, 10, 99], f_pos = 5\<rparr>) \<and>
   concat [[97, 10], [98, 10], [99 :: byte]] = [97, 10, 98, 10, 99]"
proof -
  have it: "iter_sentinel (f_read 2) [] \<lparr>f_content = [97, 10, 98, 10, 99], f_pos = 0\<rparr> =
     Some ([[97, 10], [98, 10], [99]], \<lparr>f_content = [97, 10, 98, 10, 99], f_pos = 5\<rparr>)"
    by code_simp
  show ?thesis using iter_read_roundtrip [OF _ it] it by simp
qed

end
