(* ===== verification/ProjectRoot.thy ===== *)
theory ProjectRoot
  imports FileSystem
begin

text \<open>
  \<^verbatim>\<open>LinguistWrapper._detect_project_root\<close> (linguist_wrapper.py, lines 102--110): list the
  extraction directory without the \<^verbatim>\<open>__MACOSX\<close> entry, split the entries into
  directories and regular files (\<^verbatim>\<open>is_dir\<close>, \<^verbatim>\<open>is_file\<close>, which follow links and are
  false where \<^verbatim>\<open>stat\<close> fails), and descend into the only subdirectory when there is
  exactly one and no file. The lemmas show the result is the extraction directory or one of
  its subdirectories one level down, when it unwraps and when it does not.
\<close>

definition macosx :: string where
  "macosx = ''__MACOSX''"

definition top_entries :: "fs \<Rightarrow> path \<Rightarrow> path list" where
  "top_entries fs extract_dir = filter (\<lambda>p. last p \<noteq> macosx) (iterdir fs extract_dir)"

definition detect_project_root :: "fs \<Rightarrow> path \<Rightarrow> path" where
  "detect_project_root fs extract_dir =
     (let entries = top_entries fs extract_dir;
          subdirs = filter (is_dir fs) entries;
          files = filter (is_file fs) entries
      in if length subdirs = 1 \<and> files = [] then subdirs ! 0 else extract_dir)"

subsection \<open>Lemmas\<close>

lemma set_top_entries:
  "set (top_entries fs d) = {p \<in> fst ` set fs. p \<noteq> [] \<and> butlast p = d \<and> last p \<noteq> macosx}"
  by (auto simp: top_entries_def set_iterdir)

lemma length_filter_eq_1:
  "length (filter P xs) = 1 \<longleftrightarrow> (\<exists>x. filter P xs = [x])"
  by (auto simp: length_Suc_conv)

lemma detect_project_root_cases:
  "detect_project_root fs d = d \<or>
   (detect_project_root fs d \<in> set (top_entries fs d) \<and> is_dir fs (detect_project_root fs d))"
proof (cases "length (filter (is_dir fs) (top_entries fs d)) = 1 \<and> filter (is_file fs) (top_entries fs d) = []")
  case True
  then obtain s where s: "filter (is_dir fs) (top_entries fs d) = [s]"
    using True by (metis length_filter_eq_1)
  then have "s \<in> set (filter (is_dir fs) (top_entries fs d))" by simp
  then have "s \<in> set (top_entries fs d) \<and> is_dir fs s" by simp
  with True s show ?thesis by (simp add: detect_project_root_def)
next
  case False
  then show ?thesis by (auto simp: detect_project_root_def Let_def)
qed

lemma top_entries_distinct: "wf_fs fs \<Longrightarrow> distinct (top_entries fs d)"
  by (simp add: top_entries_def iterdir_def wf_fs_distinct)

lemma distinct_set_singleton:
  assumes "distinct xs" "set xs = {s}"
  shows "xs = [s]"
proof -
  have "length xs = 1" using distinct_card [OF assms(1)] assms(2) by simp
  then obtain x where "xs = [x]" by (auto simp: length_Suc_conv)
  with assms(2) show ?thesis by simp
qed

lemma two_in_distinct:
  assumes "distinct ys" "a \<in> set ys" "b \<in> set ys" "a \<noteq> b"
  shows "2 \<le> length ys"
proof -
  have "card {a, b} \<le> card (set ys)" using assms(2,3) by (intro card_mono) simp_all
  with assms(4) distinct_card [OF assms(1)] show ?thesis by simp
qed

lemma detect_project_root_below: "prefix d (detect_project_root fs d)"
proof -
  have "prefix d p" if "p \<in> set (top_entries fs d)" for p
  proof -
    from that have "p \<noteq> []" "butlast p = d" by (auto simp: set_top_entries)
    then show ?thesis using prefixeq_butlast [of p] by simp
  qed
  then show ?thesis using detect_project_root_cases [of fs d] by auto
qed

text \<open>C7: an archive wrapped in one folder is analysed from inside that folder: when the
  only entry of the extraction directory besides \<^verbatim>\<open>__MACOSX\<close> is a directory, that
  directory is the project root.\<close>

theorem detect_project_root_unwraps:
  assumes wf: "wf_fs fs"
    and s: "map_of fs s = Some Directory" "butlast s = d" "last s \<noteq> macosx"
    and only: "\<And>p n. (p, n) \<in> set fs \<Longrightarrow> butlast p = d \<Longrightarrow> last p \<noteq> macosx \<Longrightarrow> p = s"
  shows "detect_project_root fs d = s"
proof -
  have sin: "(s, Directory) \<in> set fs" using s(1) by (rule map_of_SomeD)
  then have "s \<noteq> []" using wf_fs_entry [OF wf] by blast
  moreover have "s \<in> fst ` set fs" using sin by force
  ultimately have "s \<in> set (top_entries fs d)" using s by (simp add: set_top_entries)
  moreover have "p = s" if p: "p \<in> set (top_entries fs d)" for p
  proof -
    from p obtain n where "(p, n) \<in> set fs" "butlast p = d" "last p \<noteq> macosx"
      by (auto simp: set_top_entries)
    then show "p = s" by (rule only)
  qed
  ultimately have "set (top_entries fs d) = {s}" by blast
  then have te: "top_entries fs d = [s]"
    by (rule distinct_set_singleton [OF top_entries_distinct [OF wf]])
  have "is_dir fs s" using wf_fs_is_dir_key [OF wf s(1)] by simp
  moreover have "\<not> is_file fs s" using wf_fs_is_file_key [OF wf s(1)] by simp
  ultimately show ?thesis by (simp add: detect_project_root_def te)
qed

text \<open>A regular file at the top level of the archive keeps the extraction directory as
  the project root.\<close>

theorem detect_project_root_keeps_on_file:
  assumes wf: "wf_fs fs"
    and f: "(f, n) \<in> set fs" "butlast f = d" "last f \<noteq> macosx"
    and reg: "n = RegFile bs \<or> n = NoAccess bs"
  shows "detect_project_root fs d = d"
proof -
  have "map_of fs f = Some n" using wf_fs_distinct [OF wf] f(1) by (rule map_of_is_SomeI)
  then have isf: "is_file fs f" using wf_fs_is_file_key [OF wf] reg by auto
  have "f \<noteq> []" using wf_fs_entry [OF wf f(1)] by blast
  moreover have "f \<in> fst ` set fs" using f(1) by force
  ultimately have "f \<in> set (top_entries fs d)" using f by (simp add: set_top_entries)
  with isf have "filter (is_file fs) (top_entries fs d) \<noteq> []" by (auto simp: filter_empty_conv)
  then show ?thesis by (simp add: detect_project_root_def)
qed

text \<open>Two directories at the top level keep the extraction directory as the project
  root.\<close>

theorem detect_project_root_keeps_on_two_dirs:
  assumes wf: "wf_fs fs"
    and a: "map_of fs a = Some Directory" "butlast a = d" "last a \<noteq> macosx"
    and b: "map_of fs b = Some Directory" "butlast b = d" "last b \<noteq> macosx"
    and ab: "a \<noteq> b"
  shows "detect_project_root fs d = d"
proof -
  have ain: "(a, Directory) \<in> set fs" and bin: "(b, Directory) \<in> set fs"
    using a(1) b(1) by (auto dest: map_of_SomeD)
  then have "a \<noteq> []" "b \<noteq> []" using wf_fs_entry [OF wf] by blast+
  moreover have "a \<in> fst ` set fs" "b \<in> fst ` set fs" using ain bin by force+
  ultimately have mem: "a \<in> set (top_entries fs d)" "b \<in> set (top_entries fs d)"
    using a b by (simp_all add: set_top_entries)
  have "is_dir fs a" "is_dir fs b"
    using wf_fs_is_dir_key [OF wf a(1)] wf_fs_is_dir_key [OF wf b(1)] by simp_all
  with mem have ma: "a \<in> set (filter (is_dir fs) (top_entries fs d))"
      and mb: "b \<in> set (filter (is_dir fs) (top_entries fs d))" by simp_all
  have "distinct (filter (is_dir fs) (top_entries fs d))"
    using top_entries_distinct [OF wf] by simp
  then have "2 \<le> length (filter (is_dir fs) (top_entries fs d))"
    using ma mb ab by (rule two_in_distinct)
  then show ?thesis by (simp add: detect_project_root_def)
qed

text \<open>C24: the extraction directory stays the project root whenever the archive is not a
  single wrapping folder: when its top level holds a regular (or unreadable) file, or two
  different directories, besides \<^verbatim>\<open>__MACOSX\<close>.\<close>

corollary detect_project_root_keeps:
  assumes wf: "wf_fs fs"
    and top: "(\<exists>f n bs. (f, n) \<in> set fs \<and> butlast f = d \<and> last f \<noteq> macosx \<and>
                          (n = RegFile bs \<or> n = NoAccess bs)) \<or>
              (\<exists>a b. map_of fs a = Some Directory \<and> butlast a = d \<and> last a \<noteq> macosx \<and>
                     map_of fs b = Some Directory \<and> butlast b = d \<and> last b \<noteq> macosx \<and> a \<noteq> b)"
  shows "detect_project_root fs d = d"
  using top
proof (rule disjE)
  assume "\<exists>f n bs. (f, n) \<in> set fs \<and> butlast f = d \<and> last f \<noteq> macosx \<and>
                   (n = RegFile bs \<or> n = NoAccess bs)"
  then obtain f n bs where "(f, n) \<in> set fs" "butlast f = d" "last f \<noteq> macosx"
      "n = RegFile bs \<or> n = NoAccess bs" by blast
  then show ?thesis by (rule detect_project_root_keeps_on_file [OF wf])
next
  assume "\<exists>a b. map_of fs a = Some Directory \<and> butlast a = d \<and> last a \<noteq> macosx \<and>
                map_of fs b = Some Directory \<and> butlast b = d \<and> last b \<noteq> macosx \<and> a \<noteq> b"
  then obtain a b where "map_of fs a = Some Directory" "butlast a = d" "last a \<noteq> macosx"
      "map_of fs b = Some Directory" "butlast b = d" "last b \<noteq> macosx" "a \<noteq> b" by blast
  then show ?thesis by (rule detect_project_root_keeps_on_two_dirs [OF wf])
qed

text \<open>Witnesses. In the first, the archive is wrapped twice
  (\<^verbatim>\<open>outer/inner/a.py\<close>) and carries a \<^verbatim>\<open>__MACOSX\<close> folder: the root is
  \<^verbatim>\<open>outer\<close>, one level down and not two.\<close>

lemma detect_project_root_unwraps_witness:
  "detect_project_root
     [([''tmp''], Directory), ([''tmp'', ''tmpx''], Directory),
      ([''tmp'', ''tmpx'', ''outer''], Directory), ([''tmp'', ''tmpx'', ''__MACOSX''], Directory),
      ([''tmp'', ''tmpx'', ''outer'', ''inner''], Directory),
      ([''tmp'', ''tmpx'', ''outer'', ''inner'', ''a.py''], RegFile [10])]
     [''tmp'', ''tmpx'']
   = [''tmp'', ''tmpx'', ''outer'']"
  by (rule detect_project_root_unwraps)
     (auto simp: wf_fs_def valid_name_def macosx_def)

lemma detect_project_root_keeps_on_file_witness:
  "detect_project_root
     [([''tmp''], Directory), ([''tmp'', ''tmpx''], Directory),
      ([''tmp'', ''tmpx'', ''proj''], Directory), ([''tmp'', ''tmpx'', ''README''], RegFile [])]
     [''tmp'', ''tmpx'']
   = [''tmp'', ''tmpx'']"
  by (rule detect_project_root_keeps_on_file [where f = "[''tmp'', ''tmpx'', ''README'']"
        and n = "RegFile []" and bs = "[]"])
     (auto simp: wf_fs_def valid_name_def macosx_def)

lemma detect_project_root_keeps_on_two_dirs_witness:
  "detect_project_root
     [([''tmp''], Directory), ([''tmp'', ''tmpx''], Directory),
      ([''tmp'', ''tmpx'', ''src''], Directory), ([''tmp'', ''tmpx'', ''docs''], Directory)]
     [''tmp'', ''tmpx'']
   = [''tmp'', ''tmpx'']"
  by (rule detect_project_root_keeps_on_two_dirs [where a = "[''tmp'', ''tmpx'', ''src'']"
        and b = "[''tmp'', ''tmpx'', ''docs'']"])
     (auto simp: wf_fs_def valid_name_def macosx_def)

lemma detect_project_root_keeps_witness:
  "wf_fs [([''tmp''], Directory), ([''tmp'', ''tmpx''], Directory),
          ([''tmp'', ''tmpx'', ''proj''], Directory), ([''tmp'', ''tmpx'', ''setup.py''], RegFile [])] \<and>
   detect_project_root
     [([''tmp''], Directory), ([''tmp'', ''tmpx''], Directory),
      ([''tmp'', ''tmpx'', ''proj''], Directory), ([''tmp'', ''tmpx'', ''setup.py''], RegFile [])]
     [''tmp'', ''tmpx'']
   = [''tmp'', ''tmpx'']"
proof -
  have wf: "wf_fs [([''tmp''], Directory), ([''tmp'', ''tmpx''], Directory),
          ([''tmp'', ''tmpx'', ''proj''], Directory), ([''tmp'', ''tmpx'', ''setup.py''], RegFile [])]"
    by (auto simp: wf_fs_def valid_name_def)
  have top: "([''tmp'', ''tmpx'', ''setup.py''], RegFile []) \<in>
      set [([''tmp''], Directory), ([''tmp'', ''tmpx''], Directory),
           ([''tmp'', ''tmpx'', ''proj''], Directory), ([''tmp'', ''tmpx'', ''setup.py''], RegFile [])] \<and>
      butlast [''tmp'', ''tmpx'', ''setup.py''] = [''tmp'', ''tmpx''] \<and>
      last [''tmp'', ''tmpx'', ''setup.py''] \<noteq> macosx \<and> (RegFile [] = RegFile [] \<or> RegFile [] = NoAccess [])"
    by (simp add: macosx_def)
  show ?thesis using detect_project_root_keeps [OF wf] top wf by blast
qed

end
