(* ===== verification/Stats.thy ===== *)
theory Stats
  imports Complex_Main LineCount
begin

text \<open>
  The aggregation half of \<^verbatim>\<open>LinguistWrapper._collect_language_stats\<close>
  (linguist_wrapper.py, lines 48--60), applied to the decoded classifier report.
  The report is a JSON value (\<open>json\<close>; JSON floats are not modelled, the classifier's
  sizes are integers). \<^verbatim>\<open>json.loads\<close> builds a dict in which a repeated key keeps its
  first position and its last value (\<open>py_dict\<close>). The Python operations that can raise on
  untrusted data are explicit: \<^verbatim>\<open>.values()\<close>/\<^verbatim>\<open>.get\<close> on a non-dict
  (\<open>AttributeError\<close>), \<^verbatim>\<open>0 + x\<close> on a non-number and iteration of a non-iterable
  (\<open>TypeError\<close>). A percentage is kept as an integer number of hundredths: \<^verbatim>\<open>round(x, 2)\<close>
  is rounding of the exact quotient \<open>size * 100 / total\<close> to the nearest hundredth, ties to
  even (\<open>round2\<close>); the binary floating-point error of \<^verbatim>\<open>* 100.0 / total\<close> is
  abstracted away.
\<close>

datatype json =
    JNull
  | JBool bool
  | JInt int
  | JStr string
  | JArr "json list"
  | JObj "(string \<times> json) list"

record lang_stat =
  percent :: int   \<comment> \<open>hundredths of a percent point: 2550 is 25.50\<close>
  lines :: nat

definition py_dict :: "(string \<times> json) list \<Rightarrow> (string \<times> json) list" where
  "py_dict ps = foldl (\<lambda>d (k, v). AList.update k v d) [] ps"

fun py_type :: "json \<Rightarrow> string" where
  "py_type JNull = ''NoneType''"
| "py_type (JBool _) = ''bool''"
| "py_type (JInt _) = ''int''"
| "py_type (JStr _) = ''str''"
| "py_type (JArr _) = ''list''"
| "py_type (JObj _) = ''dict''"

text \<open>Python truthiness, \<^verbatim>\<open>not x\<close>.\<close>

fun truthy :: "json \<Rightarrow> bool" where
  "truthy JNull = False"
| "truthy (JBool b) = b"
| "truthy (JInt i) = (i \<noteq> 0)"
| "truthy (JStr s) = (s \<noteq> [])"
| "truthy (JArr xs) = (xs \<noteq> [])"
| "truthy (JObj ps) = (py_dict ps \<noteq> [])"

definition quoted :: "string \<Rightarrow> string" where
  "quoted s = char_of (39::nat) # s @ [char_of (39::nat)]"

definition no_attr :: "json \<Rightarrow> string \<Rightarrow> py_error" where
  "no_attr v a = AttributeError (quoted (py_type v) @ '' object has no attribute '' @ quoted a)"

fun py_values :: "json \<Rightarrow> py_error + json list" where
  "py_values (JObj ps) = Inr (map snd (py_dict ps))"
| "py_values v = Inl (no_attr v ''values'')"

fun py_items :: "json \<Rightarrow> py_error + (string \<times> json) list" where
  "py_items (JObj ps) = Inr (py_dict ps)"
| "py_items v = Inl (no_attr v ''items'')"

fun py_get :: "json \<Rightarrow> string \<Rightarrow> json \<Rightarrow> py_error + json" where
  "py_get (JObj ps) k dflt = Inr (case map_of (py_dict ps) k of Some v \<Rightarrow> v | None \<Rightarrow> dflt)"
| "py_get v k dflt = Inl (no_attr v ''get'')"

text \<open>\<^verbatim>\<open>acc + x\<close> for an int accumulator: \<^verbatim>\<open>bool\<close> is a subclass of \<^verbatim>\<open>int\<close>.\<close>

fun py_int :: "json \<Rightarrow> py_error + int" where
  "py_int (JInt i) = Inr i"
| "py_int (JBool b) = Inr (of_bool b)"
| "py_int v = Inl (TypeError (''unsupported operand type(s) for +: '' @ quoted ''int'' @ '' and '' @ quoted (py_type v)))"

fun py_iter :: "json \<Rightarrow> py_error + json list" where
  "py_iter (JArr xs) = Inr xs"
| "py_iter (JStr s) = Inr (map (\<lambda>c. JStr [c]) s)"
| "py_iter (JObj ps) = Inr (map (JStr \<circ> fst) (py_dict ps))"
| "py_iter v = Inl (TypeError (quoted (py_type v) @ '' object is not iterable''))"

text \<open>\<^verbatim>\<open>item.get("size", 0)\<close> as a summand.\<close>

definition item_size :: "json \<Rightarrow> py_error + int" where
  "item_size item = (case py_get item ''size'' (JInt 0) of Inl e \<Rightarrow> Inl e | Inr v \<Rightarrow> py_int v)"

text \<open>\<^verbatim>\<open>self._count_lines(repo_dir / f)\<close> for one entry of a file list.\<close>

fun file_lines :: "fs \<Rightarrow> path \<Rightarrow> json \<Rightarrow> py_error + nat" where
  "file_lines fs repo (JStr f) = count_lines fs (path_div repo f)"
| "file_lines fs repo v =
     Inl (TypeError (''unsupported operand type(s) for /: '' @ quoted ''PosixPath'' @ '' and '' @ quoted (py_type v)))"

definition round_half_even :: "rat \<Rightarrow> int" where
  "round_half_even q =
     (let f = \<lfloor>q\<rfloor>; d = q - of_int f in
      if d < 1/2 then f else if 1/2 < d then f + 1 else if even f then f else f + 1)"

text \<open>\<^verbatim>\<open>round(size * 100.0 / total_bytes, 2)\<close>, in hundredths.\<close>

definition round2 :: "int \<Rightarrow> int \<Rightarrow> int" where
  "round2 sz tot = round_half_even (of_int (sz * 10000) / of_int tot)"

text \<open>The body of the \<^verbatim>\<open>for language, info in breakdown_data.items()\<close> loop.\<close>

definition item_stat :: "fs \<Rightarrow> path \<Rightarrow> int \<Rightarrow> json \<Rightarrow> py_error + lang_stat" where
  "item_stat fs repo tot info =
     (case py_get info ''files'' (JArr []) of Inl e \<Rightarrow> Inl e | Inr files \<Rightarrow>
      case py_iter files of Inl e \<Rightarrow> Inl e | Inr fl \<Rightarrow>
      case map_res (file_lines fs repo) fl of Inl e \<Rightarrow> Inl e | Inr ns \<Rightarrow>
      case item_size info of Inl e \<Rightarrow> Inl e | Inr sz \<Rightarrow>
      Inr \<lparr>percent = round2 sz tot, lines = sum_list ns\<rparr>)"

fun stats_loop ::
  "fs \<Rightarrow> path \<Rightarrow> int \<Rightarrow> (string \<times> json) list \<Rightarrow> (string \<times> lang_stat) list \<Rightarrow>
   py_error + (string \<times> lang_stat) list" where
  "stats_loop fs repo tot [] stats = Inr stats"
| "stats_loop fs repo tot ((language, info) # items) stats =
     (case item_stat fs repo tot info of
        Inl e \<Rightarrow> Inl e
      | Inr st \<Rightarrow> stats_loop fs repo tot items (AList.update language st stats))"

text \<open>Pairing a value computed from a dict item with its key.\<close>

definition keyed :: "('a \<Rightarrow> py_error + 'b) \<Rightarrow> 'k \<times> 'a \<Rightarrow> py_error + ('k \<times> 'b)" where
  "keyed f = (\<lambda>(k, a). case f a of Inl e \<Rightarrow> Inl e | Inr b \<Rightarrow> Inr (k, b))"

definition empty_result_msg :: string where
  "empty_result_msg = ''github-linguist returned empty result''"

text \<open>Lines 48--60 on the decoded report \<open>breakdown_data\<close>.\<close>

definition aggregate_breakdown :: "fs \<Rightarrow> path \<Rightarrow> json \<Rightarrow> py_error + (string \<times> lang_stat) list" where
  "aggregate_breakdown fs repo breakdown_data =
     (if \<not> truthy breakdown_data then Inl (RuntimeError empty_result_msg)
      else case py_values breakdown_data of Inl e \<Rightarrow> Inl e | Inr vals \<Rightarrow>
        (case sum_res item_size vals of Inl e \<Rightarrow> Inl e | Inr s \<Rightarrow>
          (let total_bytes = (if s = 0 then 1 else s) in
           case py_items breakdown_data of Inl e \<Rightarrow> Inl e | Inr items \<Rightarrow>
             stats_loop fs repo total_bytes items [])))"

subsection \<open>Lemmas\<close>

lemma py_dict_distinct: "distinct (map fst (py_dict ps))"
proof -
  have "distinct (map fst d) \<Longrightarrow> distinct (map fst (foldl (\<lambda>d (k, v). AList.update k v d) d ps))" for d
    by (induction ps arbitrary: d) (auto simp: distinct_update)
  then show ?thesis by (simp add: py_dict_def)
qed

lemma stats_loop_map_res:
  "distinct (map fst items) \<Longrightarrow> (\<forall>k \<in> fst ` set items. k \<notin> fst ` set acc) \<Longrightarrow>
   stats_loop fs repo tot items acc =
     (case map_res (keyed (item_stat fs repo tot)) items of Inl e \<Rightarrow> Inl e | Inr ys \<Rightarrow> Inr (acc @ ys))"
proof (induction items arbitrary: acc)
  case Nil
  then show ?case by simp
next
  case (Cons it items)
  obtain k info where it: "it = (k, info)" by fastforce
  show ?case
  proof (cases "item_stat fs repo tot info")
    case (Inl e)
    with it show ?thesis by (simp add: keyed_def)
  next
    case (Inr st)
    from Cons.prems it have fresh: "k \<notin> fst ` set acc" by simp
    have "stats_loop fs repo tot items (acc @ [(k, st)]) =
       (case map_res (keyed (item_stat fs repo tot)) items of Inl e \<Rightarrow> Inl e | Inr ys \<Rightarrow> Inr ((acc @ [(k, st)]) @ ys))"
      using Cons.prems it by (intro Cons.IH) auto
    with Inr it fresh show ?thesis
      by (simp add: keyed_def update_fresh split: sum.splits)
  qed
qed

lemma keyed_Inr: "keyed f (k, a) = Inr (k', b) \<longleftrightarrow> k' = k \<and> f a = Inr b"
  by (auto simp: keyed_def split: sum.splits)

lemma map_res_keyed_keys:
  "map_res (keyed f) items = Inr ys \<Longrightarrow> map fst ys = map fst items"
proof (induction items arbitrary: ys)
  case Nil
  then show ?case by simp
next
  case (Cons it items)
  then show ?case by (cases it) (auto simp: keyed_def split: sum.splits)
qed

lemma round_half_even_near: "\<bar>of_int (round_half_even q) - q\<bar> \<le> 1/2"
proof -
  have f: "of_int \<lfloor>q\<rfloor> \<le> q" "q < of_int \<lfloor>q\<rfloor> + 1"
    using floor_correct [of q] by simp_all
  then show ?thesis by (auto simp: round_half_even_def Let_def)
qed

lemma round2_near: "\<bar>of_int (round2 z s) - of_int (z * 10000) / of_int s\<bar> \<le> (1/2 :: rat)"
  unfolding round2_def by (rule round_half_even_near)

lemma round2_bounds:
  assumes "0 \<le> sz" "sz \<le> tot" "0 < tot"
  shows "0 \<le> round2 sz tot \<and> round2 sz tot \<le> 10000"
proof -
  let ?q = "of_int (sz * 10000) / of_int tot :: rat"
  have q0: "0 \<le> ?q" using assms by simp
  have q1: "?q \<le> 10000" using assms by (simp add: divide_le_eq)
  have near: "\<bar>of_int (round2 sz tot) - ?q\<bar> \<le> 1/2"
    unfolding round2_def by (rule round_half_even_near)
  have "of_int (round2 sz tot) > (-1 :: rat)" using near q0 by linarith
  then have "round2 sz tot > -1" by linarith
  moreover have "of_int (round2 sz tot) < (10001 :: rat)" using near q1 by linarith
  then have "round2 sz tot < 10001" by linarith
  ultimately show ?thesis by simp
qed

lemma of_int_sum_list_map: "of_int (\<Sum>x\<leftarrow>xs. f x) = (\<Sum>x\<leftarrow>xs. of_int (f x) :: 'a::ring_1)"
  by (induction xs) simp_all

lemma sum_exact_shares:
  "0 < s \<Longrightarrow> (\<Sum>z\<leftarrow>zs. of_int (z * 10000) / of_int s :: rat) = of_int (sum_list zs * 10000) / of_int s"
  by (induction zs) (auto simp: add_divide_distrib algebra_simps)

lemma sum_round2_bound:
  assumes "0 < sum_list zs"
  shows "2 * \<bar>(\<Sum>z\<leftarrow>zs. round2 z (sum_list zs)) - 10000\<bar> \<le> int (length zs)"
proof -
  let ?S = "sum_list zs"
  let ?q = "\<lambda>z. of_int (z * 10000) / of_int ?S :: rat"
  have exact: "(\<Sum>z\<leftarrow>zs. ?q z) = 10000"
    using sum_exact_shares [OF assms, of zs] assms by simp
  have "\<bar>(\<Sum>z\<leftarrow>zs. of_int (round2 z ?S) - ?q z)\<bar> \<le> (\<Sum>z\<leftarrow>zs. \<bar>of_int (round2 z ?S) - ?q z\<bar>)"
    using sum_list_abs [of "map (\<lambda>z. of_int (round2 z ?S) - ?q z) zs"] by (simp add: o_def)
  also have "\<dots> \<le> (\<Sum>z\<leftarrow>zs. 1/2)"
    by (rule sum_list_mono) (rule round2_near)
  also have "\<dots> = of_nat (length zs) / 2" by (simp add: sum_list_triv)
  finally have "\<bar>(\<Sum>z\<leftarrow>zs. of_int (round2 z ?S)) - (\<Sum>z\<leftarrow>zs. ?q z)\<bar> \<le> of_nat (length zs) / 2"
    by (simp only: sum_list_subtractf)
  then have "\<bar>(\<Sum>z\<leftarrow>zs. of_int (round2 z ?S)) - 10000\<bar> \<le> (of_nat (length zs) / 2 :: rat)"
    by (simp only: exact)
  then have "\<bar>of_int (\<Sum>z\<leftarrow>zs. round2 z ?S) - 10000\<bar> \<le> (of_nat (length zs) / 2 :: rat)"
    by (simp only: of_int_sum_list_map)
  then have "2 * \<bar>of_int (\<Sum>z\<leftarrow>zs. round2 z ?S) - 10000\<bar> \<le> (of_nat (length zs) :: rat)"
    by simp
  then have "of_int (2 * \<bar>(\<Sum>z\<leftarrow>zs. round2 z ?S) - 10000\<bar>) \<le> (of_int (int (length zs)) :: rat)"
    by simp
  then show ?thesis by (simp only: of_int_le_iff)
qed

lemma item_stat_Inr:
  "item_stat fs repo tot info = Inr st \<Longrightarrow>
     \<exists>sz files fl ns. item_size info = Inr sz \<and> percent st = round2 sz tot \<and>
       py_get info ''files'' (JArr []) = Inr files \<and> py_iter files = Inr fl \<and>
       map_res (file_lines fs repo) fl = Inr ns \<and> lines st = sum_list ns"
  by (auto simp: item_stat_def split: sum.splits)

lemma item_size_JObj:
  "item_size info = Inr n \<Longrightarrow> \<exists>qs. info = JObj qs"
  by (cases info) (auto simp: item_size_def)

text \<open>What a successful aggregation returns: one entry per key of the decoded report, in
  the report's order, whose percentage is the rounded share of that entry's size.\<close>

lemma aggregate_breakdown_Inr:
  assumes ok: "aggregate_breakdown fs repo bd = Inr stats"
  shows "\<exists>ps sizes. bd = JObj ps \<and> map_res item_size (map snd (py_dict ps)) = Inr sizes \<and>
           map fst stats = map fst (py_dict ps) \<and>
           map (percent \<circ> snd) stats =
             map (\<lambda>z. round2 z (if sum_list sizes = 0 then 1 else sum_list sizes)) sizes"
proof -
  from ok obtain ps where bd: "bd = JObj ps"
    by (cases bd) (auto simp: aggregate_breakdown_def split: if_splits)
  let ?items = "py_dict ps"
  from ok bd obtain sizes where sizes: "map_res item_size (map snd ?items) = Inr sizes"
    by (auto simp: aggregate_breakdown_def sum_res_def split: if_splits sum.splits)
  define tot where "tot = (if sum_list sizes = 0 then 1 else sum_list sizes)"
  from ok bd sizes have loop: "stats_loop fs repo tot ?items [] = Inr stats"
    by (simp add: aggregate_breakdown_def sum_res_def tot_def Let_def split: if_splits)
  then obtain ys where ys: "map_res (keyed (item_stat fs repo tot)) ?items = Inr ys" "stats = ys"
    by (simp add: stats_loop_map_res py_dict_distinct split: sum.splits)
  have keys: "map fst stats = map fst ?items"
    using map_res_keyed_keys [OF ys(1)] ys(2) by simp
  have len: "length stats = length sizes"
    using map_res_Inr_length [OF ys(1)] map_res_Inr_length [OF sizes] ys(2) by simp
  have "percent (snd (stats ! i)) = round2 (sizes ! i) tot" if i: "i < length stats" for i
  proof -
    have li: "i < length ?items" using i len map_res_Inr_length [OF sizes] by simp
    obtain k info where it: "?items ! i = (k, info)" by fastforce
    have "keyed (item_stat fs repo tot) (k, info) = Inr (ys ! i)"
      using map_res_Inr_nth [OF ys(1) li] it by simp
    then have st: "item_stat fs repo tot info = Inr (snd (ys ! i))"
      by (cases "ys ! i") (simp add: keyed_Inr)
    have "item_size info = Inr (sizes ! i)"
      using map_res_Inr_nth [OF sizes] li it by fastforce
    with item_stat_Inr [OF st] ys(2) show ?thesis by auto
  qed
  with len have "map (percent \<circ> snd) stats = map (\<lambda>z. round2 z tot) sizes"
    by (intro nth_equalityI) simp_all
  with bd sizes keys show ?thesis by (auto simp: tot_def)
qed

lemma map_res_item_size_nonneg:
  "map_res item_size vs = Inr sizes \<Longrightarrow> (\<forall>v \<in> set vs. \<forall>n. item_size v = Inr n \<longrightarrow> 0 \<le> n) \<Longrightarrow>
   z \<in> set sizes \<Longrightarrow> 0 \<le> z"
proof -
  assume ok: "map_res item_size vs = Inr sizes" and nn: "\<forall>v \<in> set vs. \<forall>n. item_size v = Inr n \<longrightarrow> 0 \<le> n"
    and z: "z \<in> set sizes"
  from z obtain i where i: "i < length sizes" "z = sizes ! i" by (auto simp: in_set_conv_nth)
  with map_res_Inr_length [OF ok] have "i < length vs" by simp
  with map_res_Inr_nth [OF ok] have "item_size (vs ! i) = Inr (sizes ! i)" "vs ! i \<in> set vs" by simp_all
  with nn i show "0 \<le> z" by blast
qed

lemma member_le_sum_list_int: "(\<forall>x \<in> set xs. 0 \<le> x) \<Longrightarrow> z \<in> set xs \<Longrightarrow> z \<le> sum_list (xs :: int list)"
  by (induction xs) (auto simp: sum_list_nonneg add_increasing add_increasing2)

lemma aggregate_sizes:
  assumes ok: "aggregate_breakdown fs repo (JObj ps) = Inr stats"
  obtains sizes where "map_res item_size (map snd (py_dict ps)) = Inr sizes"
    "map fst stats = map fst (py_dict ps)"
    "map (percent \<circ> snd) stats = map (\<lambda>z. round2 z (if sum_list sizes = 0 then 1 else sum_list sizes)) sizes"
  using aggregate_breakdown_Inr [OF ok] by auto

text \<open>For a report whose sizes are non-negative, every percentage lies between 0.00 and
  100.00.\<close>

lemma aggregate_percent_range:
  assumes ok: "aggregate_breakdown fs repo (JObj ps) = Inr stats"
    and nonneg: "\<forall>info \<in> snd ` set (py_dict ps). \<forall>n. item_size info = Inr n \<longrightarrow> 0 \<le> n"
    and mem: "(lang, st) \<in> set stats"
  shows "0 \<le> percent st \<and> percent st \<le> 10000"
proof -
  obtain sizes where sizes: "map_res item_size (map snd (py_dict ps)) = Inr sizes"
    and pc: "map (percent \<circ> snd) stats = map (\<lambda>z. round2 z (if sum_list sizes = 0 then 1 else sum_list sizes)) sizes"
    using aggregate_sizes [OF ok] by blast
  have nn: "\<forall>z \<in> set sizes. 0 \<le> z"
    using map_res_item_size_nonneg [OF sizes] nonneg by auto
  have "percent st \<in> set (map (percent \<circ> snd) stats)" using mem by force
  with pc obtain z where z: "z \<in> set sizes" "percent st = round2 z (if sum_list sizes = 0 then 1 else sum_list sizes)"
    by auto
  have "0 \<le> z" "z \<le> sum_list sizes" using nn z(1) member_le_sum_list_int by auto
  moreover have "0 \<le> sum_list sizes" using nn by (simp add: sum_list_nonneg)
  ultimately show ?thesis using z(2) round2_bounds
    by (cases "sum_list sizes = 0") auto
qed

text \<open>C4: when some size is positive and none is negative, the percentages add up to 100.00
  up to the rounding of each: the sum is off by at most half a hundredth per language.\<close>

theorem aggregate_percent_sum:
  assumes ok: "aggregate_breakdown fs repo (JObj ps) = Inr stats"
    and nonneg: "\<forall>info \<in> snd ` set (py_dict ps). \<forall>n. item_size info = Inr n \<longrightarrow> 0 \<le> n"
    and pos: "\<exists>info \<in> snd ` set (py_dict ps). \<exists>n. item_size info = Inr n \<and> 0 < n"
  shows "2 * \<bar>(\<Sum>x\<leftarrow>stats. percent (snd x)) - 10000\<bar> \<le> int (length stats)"
proof -
  obtain sizes where sizes: "map_res item_size (map snd (py_dict ps)) = Inr sizes"
    and pc: "map (percent \<circ> snd) stats = map (\<lambda>z. round2 z (if sum_list sizes = 0 then 1 else sum_list sizes)) sizes"
    using aggregate_sizes [OF ok] by blast
  have nn: "\<forall>z \<in> set sizes. 0 \<le> z"
    using map_res_item_size_nonneg [OF sizes] nonneg by auto
  from pos obtain info n where info: "info \<in> snd ` set (py_dict ps)" "item_size info = Inr n" "0 < n"
    by blast
  have "n \<in> set sizes" using map_res_Inr_mem [OF sizes _ info(2)] info(1) by simp
  then have spos: "0 < sum_list sizes" using member_le_sum_list_int [OF nn] info(3) by fastforce
  have "(\<Sum>x\<leftarrow>stats. percent (snd x)) = sum_list (map (percent \<circ> snd) stats)"
    by (simp add: o_def)
  also have "\<dots> = (\<Sum>z\<leftarrow>sizes. round2 z (sum_list sizes))" using pc spos by simp
  finally have "(\<Sum>x\<leftarrow>stats. percent (snd x)) = (\<Sum>z\<leftarrow>sizes. round2 z (sum_list sizes))" .
  moreover have "length stats = length sizes" using arg_cong [OF pc, of length] by simp
  ultimately show ?thesis using sum_round2_bound [OF spos] by simp
qed

text \<open>Witnesses: three languages of one byte each get 33.33 each, which add up to 99.99.\<close>

lemma aggregate_three_thirds:
  "aggregate_breakdown [] [''r'']
     (JObj [(''Python'', JObj [(''size'', JInt 1), (''files'', JArr [])]),
            (''Go'', JObj [(''size'', JInt 1)]), (''C'', JObj [(''size'', JBool True)])]) =
   Inr [(''Python'', \<lparr>percent = 3333, lines = 0\<rparr>), (''Go'', \<lparr>percent = 3333, lines = 0\<rparr>),
        (''C'', \<lparr>percent = 3333, lines = 0\<rparr>)]"
  by code_simp

lemma three_thirds_sizes_nonneg:
  "\<forall>info \<in> snd ` set (py_dict [(''Python'', JObj [(''size'', JInt 1), (''files'', JArr [])]),
            (''Go'', JObj [(''size'', JInt 1)]), (''C'', JObj [(''size'', JBool True)])]).
     \<forall>n. item_size info = Inr n \<longrightarrow> 0 \<le> n"
  by (simp add: py_dict_def item_size_def)

lemma aggregate_percent_sum_witness:
  "2 * \<bar>(\<Sum>x\<leftarrow>[(''Python'', \<lparr>percent = 3333, lines = 0\<rparr>), (''Go'', \<lparr>percent = 3333, lines = 0\<rparr>),
        (''C'', \<lparr>percent = 3333, lines = 0\<rparr>)]. percent (snd x)) - 10000\<bar> \<le> 3"
proof -
  have pos: "\<exists>info \<in> snd ` set (py_dict [(''Python'', JObj [(''size'', JInt 1), (''files'', JArr [])]),
            (''Go'', JObj [(''size'', JInt 1)]), (''C'', JObj [(''size'', JBool True)])]).
     \<exists>n. item_size info = Inr n \<and> 0 < n"
    by (simp add: py_dict_def item_size_def)
  show ?thesis
    using aggregate_percent_sum [OF aggregate_three_thirds three_thirds_sizes_nonneg pos] by simp
qed

text \<open>The sizes of the report are not validated: a negative size gives percentages outside
  0--100 (here 150.00 and -50.00), which the \<^verbatim>\<open>percentage_0_100\<close> check constraint of
  \<^verbatim>\<open>ProjectAnalysis\<close> would reject.\<close>

lemma aggregate_negative_size:
  "aggregate_breakdown [] [''r''] (JObj [(''A'', JObj [(''size'', JInt 3)]), (''B'', JObj [(''size'', JInt (-1))])]) =
   Inr [(''A'', \<lparr>percent = 15000, lines = 0\<rparr>), (''B'', \<lparr>percent = -5000, lines = 0\<rparr>)]"
  by code_simp

end
