(* ===== verification/Extract.thy ===== *)
theory Extract
  imports FileSystem
begin

text \<open>
  \<^verbatim>\<open>zf.extractall(tmpdir_path)\<close> (linguist_wrapper.py, lines 38--39): every member of the
  archive, in archive order, is written below the extraction directory the way
  \<^verbatim>\<open>zipfile.ZipFile._extract_member\<close> (CPython 3.11) does it: the member name is split
  at \<^verbatim>\<open>/\<close> and its empty, \<^verbatim>\<open>.\<close> and \<^verbatim>\<open>..\<close> parts are dropped; the target
  path is \<^verbatim>\<open>os.path.normpath(os.path.join(targetpath, arcname))\<close>; when its
  \<^verbatim>\<open>dirname\<close> does not exist it is created by \<^verbatim>\<open>os.makedirs\<close>; a name ending in
  \<^verbatim>\<open>/\<close> is a directory (\<^verbatim>\<open>os.mkdir\<close> unless \<^verbatim>\<open>os.path.isdir\<close>), any other
  member is written with \<^verbatim>\<open>open(targetpath, "wb")\<close>. The first failure stops the
  extraction with the effects of the members before it in place. Decoding of the archive
  (central directory, compression, CRC) is the environment's \<open>zip_decode\<close>, not modelled
  here. The lemmas show that extraction changes nothing outside the extraction directory
  and keeps the file system well formed.
\<close>

record zip_member =
  zname :: string
  zdata :: "byte list"

definition member_is_dir :: "zip_member \<Rightarrow> bool" where
  "member_is_dir m \<longleftrightarrow> zname m \<noteq> [] \<and> last (zname m) = CHR ''/''"

definition arc_parts :: "string \<Rightarrow> string list" where
  "arc_parts name = filter (\<lambda>x. x \<noteq> [] \<and> x \<noteq> ''.'' \<and> x \<noteq> ''..'') (split_on CHR ''/'' name)"

text \<open>The member itself, once its parent exists.\<close>

definition write_member :: "fs \<Rightarrow> path \<Rightarrow> zip_member \<Rightarrow> fs \<times> py_error option" where
  "write_member fs targetpath m =
     (if member_is_dir m then (if is_dir fs targetpath then (fs, None) else mkdir fs targetpath)
      else open_wb fs targetpath (zdata m))"

text \<open>A member whose name has no part left (\<^verbatim>\<open>/\<close>, \<^verbatim>\<open>./\<close>, \<^verbatim>\<open>..\<close>, ...)
  is skipped (\<^verbatim>\<open>if not arcname: return targetpath\<close>).\<close>

definition extract_member :: "fs \<Rightarrow> path \<Rightarrow> zip_member \<Rightarrow> fs \<times> py_error option" where
  "extract_member fs tgt m =
     (if arc_parts (zname m) = [] then (fs, None)
      else
        let targetpath = normpath (tgt @ arc_parts (zname m));
            upperdirs = butlast targetpath
        in case (if path_exists fs upperdirs then (fs, None) else makedirs fs upperdirs) of
             (fs1, Some e) \<Rightarrow> (fs1, Some e)
           | (fs1, None) \<Rightarrow> write_member fs1 targetpath m)"

fun extractall :: "fs \<Rightarrow> path \<Rightarrow> zip_member list \<Rightarrow> fs \<times> py_error option" where
  "extractall fs tgt [] = (fs, None)"
| "extractall fs tgt (m # ms) =
     (case extract_member fs tgt m of
        (fs1, Some e) \<Rightarrow> (fs1, Some e)
      | (fs1, None) \<Rightarrow> extractall fs1 tgt ms)"

subsection \<open>Member names\<close>

lemma arc_parts_valid: "c \<in> set (arc_parts s) \<Longrightarrow> valid_name c"
  by (auto simp: arc_parts_def valid_name_def dest: split_on_no_sep)

text \<open>Below a target of valid names, the normalised target path of a member is the target
  followed by the sanitised name.\<close>

lemma member_targetpath:
  assumes "\<forall>c \<in> set tgt. valid_name c"
  shows "normpath (tgt @ arc_parts s) = tgt @ arc_parts s"
    and "\<forall>c \<in> set (tgt @ arc_parts s). valid_name c"
proof -
  show v: "\<forall>c \<in> set (tgt @ arc_parts s). valid_name c" using assms arc_parts_valid by auto
  then show "normpath (tgt @ arc_parts s) = tgt @ arc_parts s" by (rule normpath_valid)
qed

subsection \<open>Extraction changes nothing outside the target directory\<close>

lemma write_member_frame:
  assumes wm: "write_member fs p m = (fs', e)" and nd: "\<forall>c \<in> set p. c \<noteq> ''..''"
    and d: "dirs_to fs t" and c: "prefix t p \<or> prefix p t"
  shows "rmtree fs' t = rmtree fs t \<and> dirs_to fs' t"
proof (cases "member_is_dir m \<and> \<not> is_dir fs p")
  case True
  with wm have "mkdir fs p = (fs', e)" by (simp add: write_member_def)
  from mkdir_frame [OF this nd d c] show ?thesis .
next
  case False
  show ?thesis
  proof (cases "member_is_dir m")
    case True
    with False wm d show ?thesis by (simp add: write_member_def)
  next
    case False
    with wm have "open_wb fs p (zdata m) = (fs', e)" by (simp add: write_member_def)
    from open_wb_frame [OF this nd d c] show ?thesis .
  qed
qed

lemma extract_member_frame:
  assumes em: "extract_member fs tgt m = (fs', e)" and v: "\<forall>c \<in> set tgt. valid_name c"
    and d: "dirs_to fs tgt"
  shows "rmtree fs' tgt = rmtree fs tgt \<and> dirs_to fs' tgt"
proof -
  let ?tp = "tgt @ arc_parts (zname m)"
  note tp = member_targetpath [OF v, of "zname m"]
  have ndt: "\<forall>c \<in> set ?tp. c \<noteq> ''..''" using valid_no_dotdot [OF tp(2)] .
  have ndu: "\<forall>c \<in> set (butlast ?tp). c \<noteq> ''..''" using ndt by (blast dest: in_set_butlastD)
  have cu: "prefix tgt (butlast ?tp) \<or> prefix (butlast ?tp) tgt" by (rule comparable_butlast) simp
  obtain fs1 e1 where mk: "(if path_exists fs (butlast ?tp) then (fs, None) else makedirs fs (butlast ?tp)) = (fs1, e1)"
    by fastforce
  have f1: "rmtree fs1 tgt = rmtree fs tgt \<and> dirs_to fs1 tgt"
  proof (cases "path_exists fs (butlast ?tp)")
    case True
    with mk d show ?thesis by simp
  next
    case False
    with mk have "makedirs fs (butlast ?tp) = (fs1, e1)" by simp
    from makedirs_frame [OF this ndu d cu] show ?thesis .
  qed
  show ?thesis
  proof (cases "arc_parts (zname m) = []")
    case True
    with em d show ?thesis by (simp add: extract_member_def)
  next
    case ne: False
    show ?thesis
    proof (cases e1)
      case None
      with em mk tp(1) ne have "write_member fs1 ?tp m = (fs', e)" by (simp add: extract_member_def)
      from write_member_frame [OF this ndt conjunct2 [OF f1]] f1 show ?thesis by simp
    next
      case (Some x)
      with em mk tp(1) f1 ne show ?thesis by (simp add: extract_member_def)
    qed
  qed
qed

lemma extractall_frame:
  "extractall fs tgt ms = (fs', e) \<Longrightarrow> \<forall>c \<in> set tgt. valid_name c \<Longrightarrow> dirs_to fs tgt \<Longrightarrow>
   rmtree fs' tgt = rmtree fs tgt \<and> dirs_to fs' tgt"
proof (induction ms arbitrary: fs)
  case Nil
  then show ?case by simp
next
  case (Cons m ms)
  obtain fs1 e1 where em: "extract_member fs tgt m = (fs1, e1)" by fastforce
  note f1 = extract_member_frame [OF em Cons.prems(2,3)]
  show ?case
  proof (cases e1)
    case None
    with Cons.prems(1) em have "extractall fs1 tgt ms = (fs', e)" by simp
    from Cons.IH [OF this Cons.prems(2) conjunct2 [OF f1]] f1 show ?thesis by simp
  next
    case (Some x)
    with Cons.prems(1) em f1 show ?thesis by simp
  qed
qed

subsection \<open>Extraction keeps the file system well formed\<close>

lemma write_member_wf:
  "write_member fs p m = (fs', e) \<Longrightarrow> wf_fs fs \<Longrightarrow> \<forall>c \<in> set p. valid_name c \<Longrightarrow> wf_fs fs'"
  using mkdir_wf [of fs p fs' e] open_wb_wf [of fs p "zdata m" fs' e]
  by (cases "member_is_dir m"; cases "is_dir fs p") (simp_all add: write_member_def)

lemma extract_member_wf:
  assumes em: "extract_member fs tgt m = (fs', e)" and wf: "wf_fs fs" and v: "\<forall>c \<in> set tgt. valid_name c"
  shows "wf_fs fs'"
proof -
  let ?tp = "tgt @ arc_parts (zname m)"
  note tp = member_targetpath [OF v, of "zname m"]
  have vu: "\<forall>c \<in> set (butlast ?tp). valid_name c" using tp(2) by (blast dest: in_set_butlastD)
  obtain fs1 e1 where mk: "(if path_exists fs (butlast ?tp) then (fs, None) else makedirs fs (butlast ?tp)) = (fs1, e1)"
    by fastforce
  have w1: "wf_fs fs1"
  proof (cases "path_exists fs (butlast ?tp)")
    case True
    with mk wf show ?thesis by simp
  next
    case False
    with mk have "makedirs fs (butlast ?tp) = (fs1, e1)" by simp
    from makedirs_wf [OF this wf vu] show ?thesis .
  qed
  show ?thesis
  proof (cases "arc_parts (zname m) = []")
    case True
    with em wf show ?thesis by (simp add: extract_member_def)
  next
    case ne: False
    show ?thesis
    proof (cases e1)
      case None
      with em mk tp(1) ne have "write_member fs1 ?tp m = (fs', e)" by (simp add: extract_member_def)
      from write_member_wf [OF this w1 tp(2)] show ?thesis .
    next
      case (Some x)
      with em mk tp(1) w1 ne show ?thesis by (simp add: extract_member_def)
    qed
  qed
qed

lemma extractall_wf_all:
  "extractall fs tgt ms = (fs', e) \<Longrightarrow> wf_fs fs \<Longrightarrow> \<forall>c \<in> set tgt. valid_name c \<Longrightarrow> wf_fs fs'"
proof (induction ms arbitrary: fs)
  case Nil
  then show ?case by simp
next
  case (Cons m ms)
  obtain fs1 e1 where em: "extract_member fs tgt m = (fs1, e1)" by fastforce
  have w1: "wf_fs fs1" by (rule extract_member_wf [OF em Cons.prems(2,3)])
  show ?case
  proof (cases e1)
    case None
    with Cons.prems(1) em have "extractall fs1 tgt ms = (fs', e)" by simp
    from Cons.IH [OF this w1 Cons.prems(3)] show ?thesis .
  next
    case (Some x)
    with Cons.prems(1) em w1 show ?thesis by simp
  qed
qed

subsection \<open>What extraction leaves unchanged\<close>

text \<open>Extraction into a directory reached through directories writes nothing outside
  that directory, whatever the member names (\<^verbatim>\<open>..\<close> and absolute names included):
  every path not below it keeps its entry.\<close>

lemma extractall_outside_unchanged:
  assumes ex: "extractall fs tgt ms = (fs', e)" and v: "\<forall>c \<in> set tgt. valid_name c"
    and d: "dirs_to fs tgt" and out: "\<not> prefix tgt p"
  shows "map_of fs' p = map_of fs p"
proof -
  have "map_of (rmtree fs' tgt) p = map_of (rmtree fs tgt) p"
    using extractall_frame [OF ex v d] by simp
  with out show ?thesis by (simp add: map_of_rmtree)
qed

end
