(* ===== verification/Linguist.thy ===== *)
theory Linguist
  imports Stats Extract
begin

text \<open>
  The process-running half of \<^verbatim>\<open>LinguistWrapper\<close> (linguist_wrapper.py): the
  configuration record of \<^verbatim>\<open>__init__\<close> (lines 13--22), \<^verbatim>\<open>_execute_linguist\<close>
  (lines 67--91) with its local and docker command lines, \<^verbatim>\<open>_run_linguist_breakdown\<close>
  (lines 62--65), \<^verbatim>\<open>_collect_language_stats\<close> (lines 45--60) and
  \<^verbatim>\<open>_init_git_repo\<close> (lines 112--129).
  The world outside the Python process is an environment record \<open>os_env\<close> fixed for one
  call: what a started process does (\<open>run_proc\<close>: its exit code, output and the file
  system it leaves, or \<open>None\<close> when the executable cannot be started), the owner of a
  directory (\<^verbatim>\<open>os.stat\<close>), \<^verbatim>\<open>json.loads\<close>, the decoding of a ZIP archive, the working
  directory and the temporary-directory base and candidate names of \<^verbatim>\<open>tempfile\<close>.
  The state threaded through the calls is the file system and the log of started
  processes, so that the order of the external calls is part of the model.
\<close>

record wrapper =
  use_docker :: bool
  linguist_cmd :: string
  docker_image :: string

definition default_wrapper :: wrapper where
  "default_wrapper = \<lparr>use_docker = False, linguist_cmd = ''github-linguist'', docker_image = ''linguist''\<rparr>"

record proc_result =
  returncode :: int
  stdout :: string
  stderr :: string

record os_env =
  run_proc :: "string list \<Rightarrow> path option \<Rightarrow> fs \<Rightarrow> (proc_result \<times> fs) option"
  owner_ids :: "path \<Rightarrow> nat \<times> nat"
  json_loads :: "string \<Rightarrow> json option"
  zip_decode :: "byte list \<Rightarrow> zip_member list option"
  proc_cwd :: path
  tmp_base :: path
  tmp_names :: "string list"

record os_state =
  st_fs :: fs
  st_procs :: "(string list \<times> path option) list"

text \<open>\<^verbatim>\<open>subprocess.run(cmd, cwd=cwd, capture_output=True, ...)\<close>: the start is logged;
  an executable that cannot be started raises \<^verbatim>\<open>FileNotFoundError\<close>.\<close>

definition start_proc ::
  "os_env \<Rightarrow> string list \<Rightarrow> path option \<Rightarrow> os_state \<Rightarrow> (py_error + proc_result) \<times> os_state" where
  "start_proc env cmd cwd st =
     (let st1 = st\<lparr>st_procs := st_procs st @ [(cmd, cwd)]\<rparr> in
      case run_proc env cmd cwd (st_fs st) of
        None \<Rightarrow> (Inl (FileNotFoundError (hd cmd)), st1)
      | Some (r, fs') \<Rightarrow> (Inr r, st1\<lparr>st_fs := fs'\<rparr>))"

subsection \<open>The classifier\<close>

definition breakdown_args :: "string list" where
  "breakdown_args = [''--breakdown'', ''--json'', ''.'']"

text \<open>The command line and working directory of lines 69--82.\<close>

definition linguist_command :: "wrapper \<Rightarrow> os_env \<Rightarrow> string list \<Rightarrow> path \<Rightarrow> string list \<times> path option" where
  "linguist_command w env args repo_dir =
     (if use_docker w then
        (let (uid, gid) = owner_ids env repo_dir in
         ([''docker'', ''run'', ''--rm'',
           ''--user'', str_nat uid @ '':'' @ str_nat gid,
           ''-v'', path_str repo_dir @ '':/repo:ro'',
           ''-w'', ''/repo'',
           docker_image w] @ args, None))
      else (linguist_cmd w # args, Some repo_dir))"

definition linguist_failed_msg :: "int \<Rightarrow> string \<Rightarrow> string" where
  "linguist_failed_msg code err = ''github-linguist failed with code '' @ str_int code @ '': '' @ err"

definition execute_linguist ::
  "wrapper \<Rightarrow> os_env \<Rightarrow> string list \<Rightarrow> path \<Rightarrow> os_state \<Rightarrow> (py_error + string) \<times> os_state" where
  "execute_linguist w env args repo_dir st =
     (case (if use_docker w then stat_node (st_fs st) repo_dir else Inr (repo_dir, Directory)) of
        Inl e \<Rightarrow> (Inl e, st)
      | Inr _ \<Rightarrow>
          (let (cmd, cwd) = linguist_command w env args repo_dir in
           case start_proc env cmd cwd st of
             (Inl e, st1) \<Rightarrow> (Inl e, st1)
           | (Inr r, st1) \<Rightarrow>
               (if returncode r \<noteq> 0
                then (Inl (RuntimeError (linguist_failed_msg (returncode r) (stderr r))), st1)
                else (Inr (stdout r), st1))))"

definition run_linguist_breakdown ::
  "wrapper \<Rightarrow> os_env \<Rightarrow> path \<Rightarrow> os_state \<Rightarrow> (py_error + json) \<times> os_state" where
  "run_linguist_breakdown w env repo_dir st =
     (case execute_linguist w env breakdown_args repo_dir st of
        (Inl e, st1) \<Rightarrow> (Inl e, st1)
      | (Inr output, st1) \<Rightarrow>
          (case json_loads env output of None \<Rightarrow> (Inl JSONDecodeError, st1) | Some j \<Rightarrow> (Inr j, st1)))"

definition collect_language_stats ::
  "wrapper \<Rightarrow> os_env \<Rightarrow> path \<Rightarrow> os_state \<Rightarrow> (py_error + (string \<times> lang_stat) list) \<times> os_state" where
  "collect_language_stats w env repo_dir st =
     (case run_linguist_breakdown w env repo_dir st of
        (Inl e, st1) \<Rightarrow> (Inl e, st1)
      | (Inr breakdown_data, st1) \<Rightarrow> (aggregate_breakdown (st_fs st1) repo_dir breakdown_data, st1))"

subsection \<open>Reading the command line and the error back\<close>

text \<open>How a reader of the error message recovers the exit code and the standard error, and
  how \<^verbatim>\<open>docker\<close> splits a \<^verbatim>\<open>-v\<close> or \<^verbatim>\<open>--user\<close> value at colons.\<close>

definition parse_failed_msg :: "string \<Rightarrow> (int \<times> string) option" where
  "parse_failed_msg m =
     (let pre = ''github-linguist failed with code ''; rest = drop (length pre) m;
          code = takeWhile (\<lambda>c. c \<noteq> CHR '':'') rest
      in if take (length pre) m = pre \<and> take 2 (drop (length code) rest) = '': ''
         then Some (read_int code, drop (length code + 2) rest) else None)"

definition colon_fields :: "string \<Rightarrow> string list" where
  "colon_fields v = split_on CHR '':'' v"

subsection \<open>The git bootstrap\<close>

definition git_init :: "string list" where
  "git_init = [''git'', ''init'', ''-q'']"

definition git_add :: "string list" where
  "git_add = [''git'', ''add'', ''-A'']"

definition git_commit :: "string list" where
  "git_commit = [''git'', ''-c'', ''user.name=linguist'', ''-c'', ''user.email=linguist@example.com'',
                 ''commit'', ''-m'', ''Initial commit'', ''-q'']"

text \<open>\<^verbatim>\<open>run_git\<close>: \<^verbatim>\<open>check=True\<close> turns a non-zero exit into \<^verbatim>\<open>CalledProcessError\<close>.\<close>

definition run_git :: "os_env \<Rightarrow> path \<Rightarrow> string list \<Rightarrow> os_state \<Rightarrow> (py_error + unit) \<times> os_state" where
  "run_git env repo_path cmd st =
     (case start_proc env cmd (Some repo_path) st of
        (Inl e, st1) \<Rightarrow> (Inl e, st1)
      | (Inr r, st1) \<Rightarrow>
          (if returncode r \<noteq> 0 then (Inl (CalledProcessError (returncode r) cmd), st1) else (Inr (), st1)))"

definition init_git_repo :: "os_env \<Rightarrow> path \<Rightarrow> os_state \<Rightarrow> (py_error + unit) \<times> os_state" where
  "init_git_repo env repo_path st =
     (case run_git env repo_path git_init st of
        (Inl e, st1) \<Rightarrow> (Inl e, st1)
      | (Inr _, st1) \<Rightarrow>
          (case run_git env repo_path git_add st1 of
             (Inl e, st2) \<Rightarrow> (Inl e, st2)
           | (Inr _, st2) \<Rightarrow> run_git env repo_path git_commit st2))"

text \<open>The contract of \<^verbatim>\<open>_init_git_repo\<close>, stated on the processes alone: the commands
  are started in order in the repository, each on the file system the previous one left;
  the first that cannot be started or exits with a non-zero code ends the bootstrap with its
  error, and the bootstrap succeeds when every command exits with 0. The result is the
  outcome, the final file system and the commands started.\<close>

fun checked_seq ::
  "os_env \<Rightarrow> path \<Rightarrow> string list list \<Rightarrow> fs \<Rightarrow> (py_error + unit) \<times> fs \<times> string list list" where
  "checked_seq env d [] fs = (Inr (), fs, [])"
| "checked_seq env d (c # cs) fs =
     (case run_proc env c (Some d) fs of
        None \<Rightarrow> (Inl (FileNotFoundError (hd c)), fs, [c])
      | Some (r, fs1) \<Rightarrow>
          if returncode r \<noteq> 0 then (Inl (CalledProcessError (returncode r) c), fs1, [c])
          else (case checked_seq env d cs fs1 of (res, fs2, started) \<Rightarrow> (res, fs2, c # started)))"

subsection \<open>Lemmas\<close>

lemma path_str_no_colon:
  "\<forall>x \<in> set p. CHR '':'' \<notin> set x \<Longrightarrow> CHR '':'' \<notin> set (path_str p)"
  by (induction p) (auto simp: path_str_def)

lemma parse_failed_msg_roundtrip: "parse_failed_msg (linguist_failed_msg code err) = Some (code, err)"
proof -
  have "\<And>x. x \<in> set (str_int code) \<Longrightarrow> x \<noteq> CHR '':''" using str_int_no_colon [of code] by blast
  then have tw: "takeWhile (\<lambda>c. c \<noteq> CHR '':'') (str_int code @ '': '' @ err) = str_int code"
    by (simp add: takeWhile_append2)
  then show ?thesis
    by (simp add: parse_failed_msg_def linguist_failed_msg_def Let_def read_str_int)
qed

lemma start_proc_procs: "st_procs (snd (start_proc env cmd cwd st)) = st_procs st @ [(cmd, cwd)]"
  by (simp add: start_proc_def Let_def split: option.splits prod.splits)

lemma run_git_procs: "st_procs (snd (run_git env d cmd st)) = st_procs st @ [(cmd, Some d)]"
  using start_proc_procs [of env cmd "Some d" st]
  by (auto simp: run_git_def split: prod.splits sum.splits)

lemma run_git_Inr: "fst (run_git env d cmd st) = Inr () \<longleftrightarrow>
   (\<exists>r fs'. run_proc env cmd (Some d) (st_fs st) = Some (r, fs') \<and> returncode r = 0)"
  by (auto simp: run_git_def start_proc_def Let_def split: option.splits prod.splits sum.splits)

lemma init_git_repo_Inr_procs:
  "init_git_repo env d st = (Inr u, st') \<Longrightarrow>
   st_procs st' = st_procs st @ [(git_init, Some d), (git_add, Some d), (git_commit, Some d)]"
proof -
  assume ok: "init_git_repo env d st = (Inr u, st')"
  obtain r1 s1 where g1: "run_git env d git_init st = (r1, s1)" by fastforce
  obtain r2 s2 where g2: "run_git env d git_add s1 = (r2, s2)" by fastforce
  have "st_procs s1 = st_procs st @ [(git_init, Some d)]" using run_git_procs [of env d git_init st] g1 by simp
  moreover have "st_procs s2 = st_procs s1 @ [(git_add, Some d)]" using run_git_procs [of env d git_add s1] g2 by simp
  moreover have "run_git env d git_commit s2 = (Inr u, st')"
    using ok g1 g2 by (cases r1; cases r2) (auto simp: init_git_repo_def)
  then have "st_procs st' = st_procs s2 @ [(git_commit, Some d)]" using run_git_procs [of env d git_commit s2] by simp
  ultimately show ?thesis by simp
qed

lemma execute_linguist_Inr:
  assumes "execute_linguist w env args d st = (Inr out, st')"
  shows "st_procs st' = st_procs st @ [linguist_command w env args d] \<and>
         (\<exists>r. run_proc env (fst (linguist_command w env args d)) (snd (linguist_command w env args d)) (st_fs st)
                = Some (r, st_fs st') \<and> returncode r = 0 \<and> stdout r = out)"
  using assms
  by (auto simp: execute_linguist_def start_proc_def Let_def
      split: prod.splits sum.splits option.splits if_splits)

lemma collect_language_stats_Inr:
  assumes "collect_language_stats w env d st = (Inr stats, st')"
  shows "\<exists>out bd. execute_linguist w env breakdown_args d st = (Inr out, st') \<and>
           json_loads env out = Some bd \<and> aggregate_breakdown (st_fs st') d bd = Inr stats"
  using assms
  by (auto simp: collect_language_stats_def run_linguist_breakdown_def
      split: prod.splits sum.splits option.splits)

subsection \<open>Properties\<close>

text \<open>C11: when the classifier exits with a non-zero code, \<^verbatim>\<open>_execute_linguist\<close> fails
  with a \<^verbatim>\<open>RuntimeError\<close> whose message gives back that exit code and the captured
  standard error.\<close>

theorem execute_linguist_failure:
  assumes cmd: "linguist_command w env args repo_dir = (cmd, cwd)"
    and stat: "use_docker w \<Longrightarrow> \<exists>q n. stat_node (st_fs st) repo_dir = Inr (q, n)"
    and run: "run_proc env cmd cwd (st_fs st) = Some (r, fs')"
    and rc: "returncode r \<noteq> 0"
  shows "\<exists>msg. fst (execute_linguist w env args repo_dir st) = Inl (RuntimeError msg) \<and>
           parse_failed_msg msg = Some (returncode r, stderr r)"
proof -
  have "fst (execute_linguist w env args repo_dir st) =
          Inl (RuntimeError (linguist_failed_msg (returncode r) (stderr r)))"
    using cmd stat run rc
    by (cases "use_docker w") (auto simp: execute_linguist_def start_proc_def Let_def)
  then show ?thesis using parse_failed_msg_roundtrip by blast
qed

text \<open>C21: in docker mode the classifier sees the project root mounted read-only at
  \<^verbatim>\<open>/repo\<close> and runs as the owner of the root, provided no path component of the root
  contains a colon: docker's colon-separated fields of the \<^verbatim>\<open>-v\<close> and \<^verbatim>\<open>--user\<close>
  values are then exactly the root, \<^verbatim>\<open>/repo\<close>, \<^verbatim>\<open>ro\<close> and the two ids.\<close>

theorem linguist_command_docker:
  assumes docker: "use_docker w" and ids: "owner_ids env repo_dir = (uid, gid)"
    and nocolon: "\<forall>x \<in> set repo_dir. CHR '':'' \<notin> set x"
  shows "snd (linguist_command w env args repo_dir) = None \<and>
         colon_fields (fst (linguist_command w env args repo_dir) ! 6) = [path_str repo_dir, ''/repo'', ''ro''] \<and>
         colon_fields (fst (linguist_command w env args repo_dir) ! 4) = [str_nat uid, str_nat gid] \<and>
         fst (linguist_command w env args repo_dir) ! 9 = docker_image w \<and>
         drop 10 (fst (linguist_command w env args repo_dir)) = args"
proof -
  have p: "CHR '':'' \<notin> set (path_str repo_dir)" by (rule path_str_no_colon [OF nocolon])
  have u: "CHR '':'' \<notin> set (str_nat n)" for n by (rule str_nat_no_char) (simp add: is_dec_digit_def)
  have v: "colon_fields (path_str repo_dir @ '':/repo:ro'') = [path_str repo_dir, ''/repo'', ''ro'']"
    using p by (simp add: colon_fields_def split_on_append_sep split_on_no_sep_single)
  have g: "colon_fields (str_nat uid @ '':'' @ str_nat gid) = [str_nat uid, str_nat gid]"
    using u [of uid] u [of gid]
    by (simp add: colon_fields_def split_on_append_sep split_on_no_sep_single)
  show ?thesis using docker ids v g by (simp add: linguist_command_def)
qed

text \<open>C12: \<^verbatim>\<open>_init_git_repo\<close> meets its contract \<open>checked_seq\<close>: it runs
  \<^verbatim>\<open>git init\<close>, \<^verbatim>\<open>git add\<close> and \<^verbatim>\<open>git commit\<close> in this order in the
  project root, stops at the first that cannot be started or exits with a non-zero code,
  raising that command's \<^verbatim>\<open>CalledProcessError\<close> (or \<^verbatim>\<open>FileNotFoundError\<close>), and
  succeeds exactly when all three exit with 0; the processes it starts are logged in order.\<close>

theorem init_git_repo_fail_fast:
  "init_git_repo env d st =
     (case checked_seq env d [git_init, git_add, git_commit] (st_fs st) of
        (res, fs', started) \<Rightarrow> (res, st\<lparr>st_fs := fs', st_procs := st_procs st @ map (\<lambda>c. (c, Some d)) started\<rparr>))"
  by (auto simp: init_git_repo_def run_git_def start_proc_def Let_def split: option.splits prod.splits)

end
