(* ===== verification/Analyzer.thy ===== *)
theory Analyzer
  imports Linguist ProjectRoot
begin

text \<open>
  \<^verbatim>\<open>LinguistWrapper.analyze_zip\<close> (linguist_wrapper.py, lines 24--43): fail with
  \<^verbatim>\<open>FileNotFoundError\<close> unless the argument names a regular file; create a private
  temporary directory; open the archive and extract it there; choose the project root;
  bootstrap git in it; collect the statistics; and, on every way out of the
  \<^verbatim>\<open>with TemporaryDirectory()\<close> block, remove the temporary directory with all it
  contains. \<open>analyze_in_tmp\<close> is the body of the block and \<open>analyze_zip\<close> the whole
  method. \<open>confined\<close> is the assumption on the external processes under which the
  cleanup leaves no residue: a process started in a directory changes nothing outside it,
  and the docker process (started with no working directory, the root mounted read-only)
  changes nothing on the host.
\<close>

text \<open>\<^verbatim>\<open>"/".join(parts)\<close> and \<^verbatim>\<open>str(Path(s))\<close>: a root of exactly two slashes
  is kept (POSIX leaves its meaning to the implementation), any other run of leading slashes
  is one.\<close>

fun join_slash :: "string list \<Rightarrow> string" where
  "join_slash [] = []"
| "join_slash [x] = x"
| "join_slash (x # xs) = x @ ''/'' @ join_slash xs"

definition pure_str :: "string \<Rightarrow> string" where
  "pure_str s =
     (let parts = pure_parts s in
      if is_abs s then (if length (takeWhile (\<lambda>c. c = CHR ''/'') s) = 2 then ''//'' else ''/'') @ join_slash parts
      else if parts = [] then ''.'' else join_slash parts)"

definition not_found_msg :: "string \<Rightarrow> string" where
  "not_found_msg s = ''File not found: '' @ pure_str s"

definition analyze_in_tmp ::
  "wrapper \<Rightarrow> os_env \<Rightarrow> path \<Rightarrow> path \<Rightarrow> os_state \<Rightarrow> (py_error + (string \<times> lang_stat) list) \<times> os_state" where
  "analyze_in_tmp w env zp tmpdir_path st =
     (case open_rb (st_fs st) zp of
        Inl e \<Rightarrow> (Inl e, st)
      | Inr bytes \<Rightarrow>
          (case zip_decode env bytes of
             None \<Rightarrow> (Inl BadZipFile, st)
           | Some members \<Rightarrow>
               (case extractall (st_fs st) tmpdir_path members of
                  (fs1, Some e) \<Rightarrow> (Inl e, st\<lparr>st_fs := fs1\<rparr>)
                | (fs1, None) \<Rightarrow>
                    (let project_root = detect_project_root fs1 tmpdir_path in
                     case init_git_repo env project_root (st\<lparr>st_fs := fs1\<rparr>) of
                       (Inl e, st2) \<Rightarrow> (Inl e, st2)
                     | (Inr _, st2) \<Rightarrow> collect_language_stats w env project_root st2))))"

definition analyze_zip ::
  "wrapper \<Rightarrow> os_env \<Rightarrow> string \<Rightarrow> os_state \<Rightarrow> (py_error + (string \<times> lang_stat) list) \<times> os_state" where
  "analyze_zip w env zip_path st =
     (let zp = path_div (proc_cwd env) zip_path in
      if \<not> is_file (st_fs st) zp then (Inl (FileNotFoundError (not_found_msg zip_path)), st)
      else
        (case mkdtemp (st_fs st) (tmp_base env) (tmp_names env) of
           Inl e \<Rightarrow> (Inl e, st)
         | Inr (tmpdir_path, fs1) \<Rightarrow>
             (case analyze_in_tmp w env zp tmpdir_path (st\<lparr>st_fs := fs1\<rparr>) of
                (r, st2) \<Rightarrow> (r, st2\<lparr>st_fs := rmtree (st_fs st2) tmpdir_path\<rparr>))))"

definition confined :: "os_env \<Rightarrow> bool" where
  "confined env \<longleftrightarrow>
     (\<forall>cmd d fs r fs'. run_proc env cmd (Some d) fs = Some (r, fs') \<longrightarrow> rmtree fs' d = rmtree fs d) \<and>
     (\<forall>cmd fs r fs'. run_proc env cmd None fs = Some (r, fs') \<longrightarrow> fs' = fs)"

text \<open>What \<^verbatim>\<open>tempfile\<close> guarantees of its directory and names: \<^verbatim>\<open>gettempdir()\<close>
  is an absolute path passed through \<^verbatim>\<open>os.path.abspath\<close>, so its components are valid
  names, and the random names are drawn from \<^verbatim>\<open>abcdefghijklmnopqrstuvwxyz0123456789_\<close>.\<close>

definition tmp_ok :: "os_env \<Rightarrow> bool" where
  "tmp_ok env \<longleftrightarrow> (\<forall>c \<in> set (tmp_base env). valid_name c) \<and> (\<forall>n \<in> set (tmp_names env). CHR ''/'' \<notin> set n)"

subsection \<open>Frame lemmas: what the external calls leave outside a directory\<close>

lemma start_proc_frame:
  assumes conf: "confined env" and cwd: "cwd = None \<or> (\<exists>d. cwd = Some d \<and> prefix t d)"
  shows "rmtree (st_fs (snd (start_proc env cmd cwd st))) t = rmtree (st_fs st) t"
proof (cases "run_proc env cmd cwd (st_fs st)")
  case None
  then show ?thesis by (simp add: start_proc_def Let_def)
next
  case (Some rf)
  obtain r fs' where rf: "rf = (r, fs')" by fastforce
  have "rmtree fs' t = rmtree (st_fs st) t"
  proof (cases cwd)
    case None
    from conf have "\<forall>cmd fs r fs'. run_proc env cmd None fs = Some (r, fs') \<longrightarrow> fs' = fs"
      by (simp add: confined_def)
    with None Some rf show ?thesis by auto
  next
    case (Some d)
    with cwd have pre: "prefix t d" by simp
    from conf Some \<open>run_proc env cmd cwd (st_fs st) = Some rf\<close> rf
    have "rmtree fs' d = rmtree (st_fs st) d" by (simp add: confined_def)
    then have "rmtree (rmtree fs' d) t = rmtree (rmtree (st_fs st) d) t" by simp
    then show ?thesis by (simp add: rmtree_rmtree_below [OF pre])
  qed
  with Some rf show ?thesis by (simp add: start_proc_def Let_def)
qed

lemma run_git_frame:
  "confined env \<Longrightarrow> prefix t d \<Longrightarrow> rmtree (st_fs (snd (run_git env d cmd st))) t = rmtree (st_fs st) t"
  using start_proc_frame [of env "Some d" t cmd st]
  by (auto simp: run_git_def split: prod.splits sum.splits)

lemma init_git_repo_frame:
  assumes "confined env" "prefix t d"
  shows "rmtree (st_fs (snd (init_git_repo env d st))) t = rmtree (st_fs st) t"
proof -
  obtain r1 s1 where g1: "run_git env d git_init st = (r1, s1)" by fastforce
  obtain r2 s2 where g2: "run_git env d git_add s1 = (r2, s2)" by fastforce
  obtain r3 s3 where g3: "run_git env d git_commit s2 = (r3, s3)" by fastforce
  have h1: "rmtree (st_fs s1) t = rmtree (st_fs st) t" using run_git_frame [OF assms, of git_init st] g1 by simp
  have h2: "rmtree (st_fs s2) t = rmtree (st_fs s1) t" using run_git_frame [OF assms, of git_add s1] g2 by simp
  have h3: "rmtree (st_fs s3) t = rmtree (st_fs s2) t" using run_git_frame [OF assms, of git_commit s2] g3 by simp
  show ?thesis using g1 g2 g3 h1 h2 h3
    by (cases r1; cases r2) (auto simp: init_git_repo_def)
qed

lemma linguist_command_cwd:
  "snd (linguist_command w env args d) = None \<or> snd (linguist_command w env args d) = Some d"
  by (auto simp: linguist_command_def split: prod.splits)

lemma execute_linguist_frame:
  assumes conf: "confined env" and pre: "prefix t d"
  shows "rmtree (st_fs (snd (execute_linguist w env args d st))) t = rmtree (st_fs st) t"
proof -
  obtain cmd cwd where lc: "linguist_command w env args d = (cmd, cwd)" by fastforce
  have "cwd = None \<or> (\<exists>d'. cwd = Some d' \<and> prefix t d')"
    using linguist_command_cwd [of w env args d] lc pre by auto
  from start_proc_frame [OF conf this, of cmd st] lc show ?thesis
    by (auto simp: execute_linguist_def split: prod.splits sum.splits)
qed

lemma collect_language_stats_frame:
  assumes "confined env" "prefix t d"
  shows "rmtree (st_fs (snd (collect_language_stats w env d st))) t = rmtree (st_fs st) t"
  using execute_linguist_frame [OF assms, of w breakdown_args st]
  by (auto simp: collect_language_stats_def run_linguist_breakdown_def
      split: prod.splits sum.splits option.splits)

lemma analyze_in_tmp_frame:
  assumes conf: "confined env" and v: "\<forall>c \<in> set t. valid_name c" and d: "dirs_to (st_fs st) t"
  shows "rmtree (st_fs (snd (analyze_in_tmp w env zp t st))) t = rmtree (st_fs st) t"
proof -
  have below: "prefix t (detect_project_root fs t)" for fs by (rule detect_project_root_below)
  show ?thesis
  proof (cases "open_rb (st_fs st) zp")
    case (Inl e)
    then show ?thesis by (simp add: analyze_in_tmp_def)
  next
    case (Inr bytes)
    show ?thesis
    proof (cases "zip_decode env bytes")
      case None
      with Inr show ?thesis by (simp add: analyze_in_tmp_def)
    next
      case (Some ms)
      obtain fs1 e1 where ex: "extractall (st_fs st) t ms = (fs1, e1)" by fastforce
      have f1: "rmtree fs1 t = rmtree (st_fs st) t" using extractall_frame [OF ex v d] by simp
      let ?root = "detect_project_root fs1 t"
      let ?st1 = "st\<lparr>st_fs := fs1\<rparr>"
      obtain g st2 where gi: "init_git_repo env ?root ?st1 = (g, st2)" by fastforce
      have f2: "rmtree (st_fs st2) t = rmtree fs1 t"
        using init_git_repo_frame [OF conf below, of fs1 ?st1] gi by simp
      have f3: "rmtree (st_fs (snd (collect_language_stats w env ?root st2))) t = rmtree (st_fs st2) t"
        by (rule collect_language_stats_frame [OF conf below])
      show ?thesis
        using Inr Some ex gi f1 f2 f3
        by (cases e1; cases g) (auto simp: analyze_in_tmp_def Let_def)
    qed
  qed
qed

subsection \<open>The successful run\<close>

lemma analyze_in_tmp_Inr:
  assumes "analyze_in_tmp w env zp t st = (Inr stats, st')"
  shows "\<exists>bytes ms fs1 st2. open_rb (st_fs st) zp = Inr bytes \<and> zip_decode env bytes = Some ms \<and>
           extractall (st_fs st) t ms = (fs1, None) \<and>
           init_git_repo env (detect_project_root fs1 t) (st\<lparr>st_fs := fs1\<rparr>) = (Inr (), st2) \<and>
           collect_language_stats w env (detect_project_root fs1 t) st2 = (Inr stats, st')"
  using assms
  by (auto simp: analyze_in_tmp_def Let_def split: sum.splits option.splits prod.splits)

lemma analyze_zip_Inr:
  assumes "analyze_zip w env zip_path st = (Inr stats, st')"
  shows "\<exists>t fs1 st2. is_file (st_fs st) (path_div (proc_cwd env) zip_path) \<and>
           mkdtemp (st_fs st) (tmp_base env) (tmp_names env) = Inr (t, fs1) \<and>
           analyze_in_tmp w env (path_div (proc_cwd env) zip_path) t (st\<lparr>st_fs := fs1\<rparr>) = (Inr stats, st2) \<and>
           st' = st2\<lparr>st_fs := rmtree (st_fs st2) t\<rparr>"
  using assms
  by (auto simp: analyze_zip_def Let_def split: if_splits sum.splits prod.splits)

lemma analyze_zip_restores_fs:
  assumes wf: "wf_fs (st_fs st)" and conf: "confined env" and tmp: "tmp_ok env"
  shows "st_fs (snd (analyze_zip w env zip_path st)) = st_fs st"
proof -
  let ?zp = "path_div (proc_cwd env) zip_path"
  show ?thesis
  proof (cases "is_file (st_fs st) ?zp")
    case False
    then show ?thesis by (simp add: analyze_zip_def)
  next
    case True
    show ?thesis
    proof (cases "mkdtemp (st_fs st) (tmp_base env) (tmp_names env)")
      case (Inl e)
      with True show ?thesis by (simp add: analyze_zip_def)
    next
      case (Inr tf)
      obtain t fs1 where tf: "tf = (t, fs1)" by fastforce
      have bv: "\<forall>c \<in> set (tmp_base env). valid_name c" using tmp by (simp add: tmp_ok_def)
      from mkdtemp_Inr [of "st_fs st" "tmp_base env" "tmp_names env" t fs1] Inr tf valid_no_dotdot [OF bv]
      obtain n where n: "n \<in> set (tmp_names env)" and tn: "t = tmp_base env @ [''tmp'' @ n]"
        and fresh: "map_of (st_fs st) t = None" and fs1: "fs1 = AList.update t Directory (st_fs st)"
        and db: "dirs_to (st_fs st) (tmp_base env)" by blast
      have tne: "t \<noteq> []" using tn by simp
      have tv: "\<forall>c \<in> set t. valid_name c" using tn n bv tmp by (auto simp: tmp_ok_def valid_name_def)
      have dt: "dirs_to fs1 t" using db tn fs1 dirs_to_update_dir [of "st_fs st" t] by simp
      obtain r st2 where run: "analyze_in_tmp w env ?zp t (st\<lparr>st_fs := fs1\<rparr>) = (r, st2)" by fastforce
      have "rmtree (st_fs st2) t = rmtree fs1 t"
        using analyze_in_tmp_frame [OF conf tv, of "st\<lparr>st_fs := fs1\<rparr>" w ?zp] dt run by simp
      also have "\<dots> = rmtree (st_fs st) t" unfolding fs1 by (rule rmtree_update_below) simp
      also have "\<dots> = st_fs st"
        by (rule rmtree_nothing_below) (rule wf_fs_fresh_nothing_below [OF wf tne fresh])
      finally show ?thesis using True Inr tf run by (simp add: analyze_zip_def)
    qed
  qed
qed

subsection \<open>Properties\<close>

text \<open>C1: cleanup is unconditional: whatever \<^verbatim>\<open>analyze_zip\<close> returns, success or any
  error, the file system afterwards is the one before the call, provided the external
  processes write only below the directory they are started in.\<close>

theorem analyze_zip_no_residue:
  assumes wf: "wf_fs (st_fs st)" and conf: "confined env" and tmp: "tmp_ok env"
  shows "st_fs (snd (analyze_zip w env zip_path st)) = st_fs st"
  by (rule analyze_zip_restores_fs [OF wf conf tmp])

text \<open>An argument that does not name a regular file fails with
  \<^verbatim>\<open>FileNotFoundError("File not found: ...")\<close> before anything else happens: no
  temporary directory is created and no process is started.\<close>

lemma analyze_zip_not_found:
  assumes "\<not> is_file (st_fs st) (path_div (proc_cwd env) zip_path)"
  shows "analyze_zip w env zip_path st = (Inl (FileNotFoundError (not_found_msg zip_path)), st)"
  using assms by (simp add: analyze_zip_def)

text \<open>C15: the languages of a successful result are exactly the keys of the report the
  classifier printed, in the report's order: none is dropped or added.\<close>

theorem analyze_zip_keys:
  assumes "analyze_zip w env zip_path st = (Inr stats, st')"
  shows "\<exists>root r fsx fsy ps.
           run_proc env (fst (linguist_command w env breakdown_args root))
             (snd (linguist_command w env breakdown_args root)) fsx = Some (r, fsy) \<and>
           returncode r = 0 \<and> json_loads env (stdout r) = Some (JObj ps) \<and>
           map fst stats = map fst (py_dict ps)"
proof -
  from analyze_zip_Inr [OF assms] obtain t fs1 st2
    where "analyze_in_tmp w env (path_div (proc_cwd env) zip_path) t (st\<lparr>st_fs := fs1\<rparr>) = (Inr stats, st2)"
    by blast
  from analyze_in_tmp_Inr [OF this] obtain root st3
    where "collect_language_stats w env root st3 = (Inr stats, st2)" by blast
  from collect_language_stats_Inr [OF this] obtain out bd
    where ex: "execute_linguist w env breakdown_args root st3 = (Inr out, st2)"
      and js: "json_loads env out = Some bd" and ag: "aggregate_breakdown (st_fs st2) root bd = Inr stats"
    by blast
  from execute_linguist_Inr [OF ex] obtain r
    where run: "run_proc env (fst (linguist_command w env breakdown_args root))
             (snd (linguist_command w env breakdown_args root)) (st_fs st3) = Some (r, st_fs st2)"
      and rc: "returncode r = 0" and so: "stdout r = out" by blast
  from aggregate_breakdown_Inr [OF ag] obtain ps where "bd = JObj ps" "map fst stats = map fst (py_dict ps)"
    by blast
  with run rc so js show ?thesis by blast
qed

text \<open>C3: a successful analysis starts exactly four processes, in this order: \<^verbatim>\<open>git init\<close>,
  \<^verbatim>\<open>git add\<close>, \<^verbatim>\<open>git commit\<close> in the project root and then the classifier on it; the
  project root lies in a fresh temporary directory.\<close>

theorem analyze_zip_call_order:
  assumes "analyze_zip w env zip_path st = (Inr stats, st')"
  shows "\<exists>root. st_procs st' = st_procs st @
           [(git_init, Some root), (git_add, Some root), (git_commit, Some root),
            linguist_command w env breakdown_args root] \<and>
           (\<exists>n \<in> set (tmp_names env). prefix (tmp_base env @ [''tmp'' @ n]) root)"
proof -
  from analyze_zip_Inr [OF assms] obtain t fs1 st2
    where mk: "mkdtemp (st_fs st) (tmp_base env) (tmp_names env) = Inr (t, fs1)"
      and run: "analyze_in_tmp w env (path_div (proc_cwd env) zip_path) t (st\<lparr>st_fs := fs1\<rparr>) = (Inr stats, st2)"
      and st': "st' = st2\<lparr>st_fs := rmtree (st_fs st2) t\<rparr>"
    by blast
  from analyze_in_tmp_Inr [OF run] obtain fsx st3
    where gi: "init_git_repo env (detect_project_root fsx t) (st\<lparr>st_fs := fs1, st_fs := fsx\<rparr>) = (Inr (), st3)"
      and cl: "collect_language_stats w env (detect_project_root fsx t) st3 = (Inr stats, st2)"
    by auto
  let ?root = "detect_project_root fsx t"
  have p3: "st_procs st3 = st_procs st @ [(git_init, Some ?root), (git_add, Some ?root), (git_commit, Some ?root)]"
    using init_git_repo_Inr_procs [OF gi] by simp
  from collect_language_stats_Inr [OF cl] obtain out
    where "execute_linguist w env breakdown_args ?root st3 = (Inr out, st2)" by blast
  then have p4: "st_procs st2 = st_procs st3 @ [linguist_command w env breakdown_args ?root]"
    using execute_linguist_Inr by blast
  from mkdtemp_name [OF mk] obtain n where n: "n \<in> set (tmp_names env)" "t = tmp_base env @ [''tmp'' @ n]"
    by blast
  have "prefix t ?root" by (rule detect_project_root_below)
  with p3 p4 st' n show ?thesis by auto
qed

end
