(* ===== verification/UrlSplit.thy ===== *)
theory UrlSplit
  imports FileSystem
begin

text \<open>
  The parts of the Python standard library that read URLs and addresses given as text, as
  the settings and django-cors-headers call them: \<^verbatim>\<open>repr\<close> of a string (in exception
  messages), \<^verbatim>\<open>int(s, 10)\<close>, \<^verbatim>\<open>urllib.parse.urlsplit\<close> of CPython 3.11 (3.11.4 and
  later, which check a bracketed host) with the \<^verbatim>\<open>port\<close> property of its result, and
  the parsing of IPv4 and IPv6 addresses by \<^verbatim>\<open>ipaddress\<close> that the bracket check calls.
  Strings are characters below 256 (Latin-1); none of them is a decimal digit outside ASCII,
  and none changes under NFKC into one of \<^verbatim>\<open>/?#@:\<close>, so \<^verbatim>\<open>_checknetloc\<close> never
  raises.
\<close>

subsection \<open>Python's \<^verbatim>\<open>repr\<close> of a string\<close>

text \<open>For characters below 256: \<^verbatim>\<open>str.isprintable\<close> fails on the C0 and C1 controls,
  DEL, the no-break space and the soft hyphen.\<close>

definition hex2 :: "nat \<Rightarrow> string" where
  "hex2 n = [''0123456789abcdef'' ! (n div 16 mod 16), ''0123456789abcdef'' ! (n mod 16)]"

definition py_printable :: "char \<Rightarrow> bool" where
  "py_printable c \<longleftrightarrow> ((32::nat) \<le> of_char c \<and> of_char c < (127::nat)) \<or> ((161::nat) \<le> of_char c \<and> of_char c \<noteq> (173::nat))"

definition repr_char :: "char \<Rightarrow> char \<Rightarrow> string" where
  "repr_char q c =
     (if c = q \<or> c = CHR 0x5C then [CHR 0x5C, c]
      else if c = CHR 0x09 then [CHR 0x5C, CHR ''t'']
      else if c = CHR 0x0A then [CHR 0x5C, CHR ''n'']
      else if c = CHR 0x0D then [CHR 0x5C, CHR ''r'']
      else if py_printable c then [c]
      else CHR 0x5C # CHR ''x'' # hex2 (of_char c))"

definition py_repr :: "string \<Rightarrow> string" where
  "py_repr s =
     (let q = (if CHR 0x27 \<in> set s \<and> CHR 0x22 \<notin> set s then CHR 0x22 else CHR 0x27)
      in q # concat (map (repr_char q) s) @ [q])"

subsection \<open>\<^verbatim>\<open>int(s, 10)\<close>\<close>

text \<open>\<^verbatim>\<open>str.isspace\<close> below 256, and the ASCII letters and hexadecimal digits.\<close>

definition py_space :: "char \<Rightarrow> bool" where
  "py_space c \<longleftrightarrow> of_char c \<in> {9, 10, 11, 12, 13, 28, 29, 30, 31, 32, 133, 160 :: nat}"

definition ascii_alpha :: "char \<Rightarrow> bool" where
  "ascii_alpha c \<longleftrightarrow>
     ((65::nat) \<le> of_char c \<and> of_char c \<le> (90::nat)) \<or> ((97::nat) \<le> of_char c \<and> of_char c \<le> (122::nat))"

definition ascii_lower :: "char \<Rightarrow> char" where
  "ascii_lower c = (if (65::nat) \<le> of_char c \<and> of_char c \<le> (90::nat) then char_of (of_char c + (32::nat)) else c)"

definition hex_char :: "char \<Rightarrow> bool" where
  "hex_char c \<longleftrightarrow> is_dec_digit c \<or> c \<in> set ''abcdefABCDEF''"

text \<open>\<^verbatim>\<open>PyLong_FromUnicodeObject\<close> with base 10: white space around, an optional sign,
  then decimal digits with single underscores between them.\<close>

definition py_digits_ok :: "string \<Rightarrow> bool" where
  "py_digits_ok b \<longleftrightarrow>
     b \<noteq> [] \<and> is_dec_digit (hd b) \<and> is_dec_digit (last b) \<and>
     list_all (\<lambda>c. is_dec_digit c \<or> c = CHR ''_'') b \<and>
     \<not> sublist ''__'' b"

definition py_int10 :: "string \<Rightarrow> int option" where
  "py_int10 s =
     (let t = rev (dropWhile py_space (rev (dropWhile py_space s)));
          (neg, b) = (if t \<noteq> [] \<and> hd t = CHR ''-'' then (True, tl t)
                      else if t \<noteq> [] \<and> hd t = CHR ''+'' then (False, tl t) else (False, t))
      in if py_digits_ok b
         then Some ((if neg then -1 else 1) * int (read_nat (filter is_dec_digit b))) else None)"

subsection \<open>\<^verbatim>\<open>ipaddress\<close>\<close>

text \<open>\<^verbatim>\<open>IPv4Address._parse_octet\<close>: one to three ASCII digits, no leading zero, at
  most 255.\<close>

definition octet_ok :: "string \<Rightarrow> bool" where
  "octet_ok x \<longleftrightarrow>
     x \<noteq> [] \<and> list_all is_dec_digit x \<and> length x \<le> 3 \<and> (x = ''0'' \<or> hd x \<noteq> CHR ''0'') \<and>
     read_nat x \<le> 255"

definition ipv4_ok :: "string \<Rightarrow> bool" where
  "ipv4_ok s \<longleftrightarrow>
     s \<noteq> [] \<and> CHR ''/'' \<notin> set s \<and> length (split_on CHR ''.'' s) = 4 \<and> list_all octet_ok (split_on CHR ''.'' s)"

definition hextet_ok :: "string \<Rightarrow> bool" where
  "hextet_ok h \<longleftrightarrow> h \<noteq> [] \<and> length h \<le> 4 \<and> list_all hex_char h"

text \<open>\<^verbatim>\<open>IPv6Address._ip_int_from_string\<close> on the parts between colons (an IPv4 suffix
  already replaced by two hextets): at most nine parts, at most one empty part inside, which
  stands for at least one skipped hextet; an empty first or last part only as half of a
  leading or trailing \<^verbatim>\<open>::\<close>; without \<^verbatim>\<open>::\<close>, exactly eight hextets.\<close>

definition ipv6_parts_ok :: "string list \<Rightarrow> bool" where
  "ipv6_parts_ok ps \<longleftrightarrow>
     (let n = length ps; skips = filter (\<lambda>i. ps ! i = []) [1..<n - 1] in
      n \<le> 9 \<and>
      (case skips of
         [] \<Rightarrow> n = 8 \<and> list_all hextet_ok ps
       | [k] \<Rightarrow>
           (let hi = (if hd ps = [] then k - 1 else k); lo = (if last ps = [] then n - k - 2 else n - k - 1)
            in (hd ps = [] \<longrightarrow> k = 1) \<and> (last ps = [] \<longrightarrow> k = n - 2) \<and> hi + lo < 8 \<and>
               list_all hextet_ok (take hi ps) \<and> list_all hextet_ok (drop (n - lo) ps))
       | _ \<Rightarrow> False))"

text \<open>\<^verbatim>\<open>IPv6Address(s)\<close>: no \<^verbatim>\<open>/\<close>, an optional non-empty scope after one
  \<^verbatim>\<open>%\<close>, a non-empty address of at least three parts whose last part, if it contains a
  dot, is an IPv4 address.\<close>

definition ipv6_ok :: "string \<Rightarrow> bool" where
  "ipv6_ok s \<longleftrightarrow>
     (let a = takeWhile (\<lambda>c. c \<noteq> CHR ''%'') s; sc = dropWhile (\<lambda>c. c \<noteq> CHR ''%'') s;
          ps = split_on CHR '':'' a
      in CHR ''/'' \<notin> set s \<and> (sc = [] \<or> (tl sc \<noteq> [] \<and> CHR ''%'' \<notin> set (tl sc))) \<and> a \<noteq> [] \<and>
         3 \<le> length ps \<and>
         (if CHR ''.'' \<in> set (last ps) then ipv4_ok (last ps) \<and> ipv6_parts_ok (butlast ps @ [''0'', ''0''])
          else ipv6_parts_ok ps))"

text \<open>The IPvFuture form \<^verbatim>\<open>\Av[a-fA-F0-9]+\..+\Z\<close>.\<close>

definition ipvfuture :: "string \<Rightarrow> bool" where
  "ipvfuture h \<longleftrightarrow>
     h \<noteq> [] \<and> hd h = CHR ''v'' \<and>
     (let x = takeWhile hex_char (tl h); r = dropWhile hex_char (tl h)
      in x \<noteq> [] \<and> r \<noteq> [] \<and> hd r = CHR ''.'' \<and> tl r \<noteq> [] \<and> CHR 0x0A \<notin> set (tl r))"

text \<open>\<^verbatim>\<open>urllib.parse._check_bracketed_host\<close>, with \<^verbatim>\<open>ipaddress.ip_address\<close>
  trying IPv4 first.\<close>

definition check_bracketed_host :: "string \<Rightarrow> py_error + unit" where
  "check_bracketed_host h =
     (if h \<noteq> [] \<and> hd h = CHR ''v'' then
        (if ipvfuture h then Inr () else Inl (ValueError ''IPvFuture address is invalid''))
      else if ipv4_ok h then Inl (ValueError ''An IPv4 address cannot be in brackets'')
      else if ipv6_ok h then Inr ()
      else Inl (ValueError (py_repr h @ '' does not appear to be an IPv4 or IPv6 address'')))"

subsection \<open>\<^verbatim>\<open>urlsplit\<close>\<close>

record split_result =
  sr_scheme :: string
  sr_netloc :: string
  sr_path :: string
  sr_query :: string
  sr_fragment :: string

text \<open>Leading C0 controls and spaces are stripped, tabs and line breaks removed; a scheme
  is a letter followed by letters, digits, \<^verbatim>\<open>+\<close>, \<^verbatim>\<open>-\<close> and \<^verbatim>\<open>.\<close> before the
  first colon, lower-cased.\<close>

definition url_clean :: "string \<Rightarrow> string" where
  "url_clean url =
     filter (\<lambda>c. c \<notin> {CHR 0x09, CHR 0x0D, CHR 0x0A}) (dropWhile (\<lambda>c. of_char c \<le> (32::nat)) url)"

definition scheme_char :: "char \<Rightarrow> bool" where
  "scheme_char c \<longleftrightarrow> ascii_alpha c \<or> is_dec_digit c \<or> c \<in> set ''+-.''"

definition split_scheme :: "string \<Rightarrow> string \<times> string" where
  "split_scheme url =
     (let i = length (takeWhile (\<lambda>c. c \<noteq> CHR '':'') url)
      in if 0 < i \<and> i < length url \<and> ascii_alpha (hd url) \<and> list_all scheme_char (take i url)
         then (map ascii_lower (take i url), drop (Suc i) url) else ([], url))"

text \<open>\<^verbatim>\<open>str.partition(c)\<close>: before and after the first \<open>c\<close>.\<close>

definition py_partition :: "char \<Rightarrow> string \<Rightarrow> string \<times> string" where
  "py_partition c s = (takeWhile (\<lambda>x. x \<noteq> c) s, drop 1 (dropWhile (\<lambda>x. x \<noteq> c) s))"

definition split_rest :: "string \<Rightarrow> string \<Rightarrow> string \<Rightarrow> split_result" where
  "split_rest scheme netloc url =
     (let (u1, frag) = py_partition CHR ''#'' url; (u2, q) = py_partition CHR ''?'' u1
      in \<lparr>sr_scheme = scheme, sr_netloc = netloc, sr_path = u2, sr_query = q, sr_fragment = frag\<rparr>)"

definition urlsplit :: "string \<Rightarrow> py_error + split_result" where
  "urlsplit url0 =
     (let (scheme, url) = split_scheme (url_clean url0)
      in if take 2 url = ''//'' then
           (let r = drop 2 url; netloc = takeWhile (\<lambda>c. c \<notin> set ''/?#'') r;
                rest = dropWhile (\<lambda>c. c \<notin> set ''/?#'') r
            in if (CHR ''['' \<in> set netloc) \<noteq> (CHR '']'' \<in> set netloc) then Inl (ValueError ''Invalid IPv6 URL'')
               else (case (if CHR ''['' \<in> set netloc
                           then check_bracketed_host (fst (py_partition CHR '']'' (snd (py_partition CHR ''['' netloc))))
                           else Inr ()) of
                       Inl e \<Rightarrow> Inl e
                     | Inr _ \<Rightarrow> Inr (split_rest scheme netloc rest)))
         else Inr (split_rest scheme [] url))"

text \<open>\<^verbatim>\<open>SplitResult._hostinfo\<close> and the \<^verbatim>\<open>port\<close> property.\<close>

definition hostinfo :: "string \<Rightarrow> string \<times> string option" where
  "hostinfo netloc =
     (let hi = rev (takeWhile (\<lambda>c. c \<noteq> CHR ''@'') (rev netloc));
          (host, port) = (if CHR ''['' \<in> set hi
                          then (let (h, p) = py_partition CHR '']'' (snd (py_partition CHR ''['' hi))
                                in (h, snd (py_partition CHR '':'' p)))
                          else py_partition CHR '':'' hi)
      in (host, if port = [] then None else Some port))"

definition url_port :: "split_result \<Rightarrow> py_error + nat option" where
  "url_port r =
     (case snd (hostinfo (sr_netloc r)) of
        None \<Rightarrow> Inr None
      | Some p \<Rightarrow>
          (case py_int10 p of
             None \<Rightarrow> Inl (ValueError (''Port could not be cast to integer value as '' @ py_repr p))
           | Some n \<Rightarrow> if 0 \<le> n \<and> n \<le> 65535 then Inr (Some (nat n)) else Inl (ValueError ''Port out of range 0-65535'')))"

subsection \<open>Lemmas\<close>

text \<open>Without brackets in the network location \<^verbatim>\<open>urlsplit\<close> cannot fail.\<close>

lemma split_scheme_set: "split_scheme url = (scheme, rest) \<Longrightarrow> set rest \<subseteq> set url"
  by (auto simp: split_scheme_def Let_def split: if_splits dest: in_set_dropD)

lemma urlsplit_no_brackets:
  assumes "CHR ''['' \<notin> set s" "CHR '']'' \<notin> set s"
  shows "\<exists>r. urlsplit s = Inr r"
proof -
  obtain scheme url where sp: "split_scheme (url_clean s) = (scheme, url)" by fastforce
  have "set url \<subseteq> set s"
    using split_scheme_set [OF sp] by (auto simp: url_clean_def dest: set_dropWhileD)
  then have "CHR ''['' \<notin> set (takeWhile P (drop 2 url))" "CHR '']'' \<notin> set (takeWhile P (drop 2 url))" for P
    using assms by (auto dest!: set_takeWhileD in_set_dropD)
  then show ?thesis by (simp add: urlsplit_def sp Let_def)
qed

end
