(* ===== verification/Cli.thy ===== *)
theory Cli
  imports Analyzer UrlSplit
begin

text \<open>
  The demonstration script \<^verbatim>\<open>test.py\<close>: \<^verbatim>\<open>parse_arguments\<close> (an
  \<^verbatim>\<open>argparse\<close> parser with \<^verbatim>\<open>-h/--help\<close>, the flag \<^verbatim>\<open>--docker\<close> and the
  positional \<^verbatim>\<open>archive\<close>, parsed as CPython 3.11's \<^verbatim>\<open>argparse\<close> does:
  classification of every string, abbreviations, \<^verbatim>\<open>--\<close>, explicit arguments, negative
  numbers, the exits of \<^verbatim>\<open>parser.error\<close> and of the help action), and \<^verbatim>\<open>main\<close>
  (\<^verbatim>\<open>Path(args.archive).expanduser().resolve()\<close>, \<^verbatim>\<open>analyze_zip\<close>,
  \<^verbatim>\<open>print(json.dumps(stats, ensure_ascii=False, indent=2))\<close>) under the
  \<^verbatim>\<open>except Exception\<close> of the script's entry point.
\<close>

subsection \<open>\<^verbatim>\<open>parse_arguments\<close>\<close>

datatype opt_action = OptHelp | OptDocker

text \<open>\<^verbatim>\<open>parser._option_string_actions\<close> in insertion order.\<close>

definition option_strings :: "(string \<times> opt_action) list" where
  "option_strings = [(''-h'', OptHelp), (''--help'', OptHelp), (''--docker'', OptDocker)]"

text \<open>\<^verbatim>\<open>_get_action_name\<close>: the option strings joined by \<^verbatim>\<open>/\<close>.\<close>

fun action_name :: "opt_action \<Rightarrow> string" where
  "action_name OptHelp = ''-h/--help''"
| "action_name OptDocker = ''--docker''"

text \<open>\<^verbatim>\<open>_negative_number_matcher\<close>, \<^verbatim>\<open>^-\d+$|^-\d*\.\d+$\<close> (with \<^verbatim>\<open>$\<close> also
  before a final newline).\<close>

definition digits1 :: "string \<Rightarrow> bool" where
  "digits1 s \<longleftrightarrow> s \<noteq> [] \<and> list_all is_dec_digit s"

definition neg_number_core :: "string \<Rightarrow> bool" where
  "neg_number_core s \<longleftrightarrow>
     (case s of
        CHR ''-'' # r \<Rightarrow> digits1 r \<or>
          (CHR ''.'' \<in> set r \<and> (takeWhile (\<lambda>c. c \<noteq> CHR ''.'') r = [] \<or> digits1 (takeWhile (\<lambda>c. c \<noteq> CHR ''.'') r)) \<and>
           digits1 (tl (dropWhile (\<lambda>c. c \<noteq> CHR ''.'') r)))
      | _ \<Rightarrow> False)"

definition is_neg_number :: "string \<Rightarrow> bool" where
  "is_neg_number s \<longleftrightarrow> neg_number_core s \<or> (s \<noteq> [] \<and> last s = CHR 0x0A \<and> neg_number_core (butlast s))"

text \<open>\<^verbatim>\<open>str.split('=', 1)\<close> of a string containing \<^verbatim>\<open>=\<close>.\<close>

definition split_eq :: "string \<Rightarrow> string \<times> string" where
  "split_eq s = (takeWhile (\<lambda>c. c \<noteq> CHR ''='') s, tl (dropWhile (\<lambda>c. c \<noteq> CHR ''='') s))"

text \<open>\<^verbatim>\<open>_get_option_tuples\<close> (\<^verbatim>\<open>allow_abbrev\<close> is on): a long option is matched by
  prefix up to the \<^verbatim>\<open>=\<close>, a short one either as a two-character option followed by its
  argument or by prefix.\<close>

definition option_tuples :: "string \<Rightarrow> (opt_action \<times> string \<times> string option) list" where
  "option_tuples a =
     (if a ! 1 = CHR ''-'' then
        (let (pre, ex) = (if CHR ''='' \<in> set a then (fst (split_eq a), Some (snd (split_eq a))) else (a, None))
         in [(act, s, ex). (s, act) \<leftarrow> option_strings, take (length pre) s = pre])
      else
        concat (map (\<lambda>(s, act). if s = take 2 a then [(act, s, Some (drop 2 a))]
                                else if take (length a) s = a then [(act, s, None)] else []) option_strings))"

text \<open>What \<^verbatim>\<open>_parse_optional\<close> makes of one string: a positional, an option with its
  action (\<open>None\<close>: unknown) and explicit argument, or the ambiguity error.\<close>

datatype arg_class = APos | AOpt "opt_action option" string "string option" | AAmbiguous string

definition parse_optional :: "string \<Rightarrow> arg_class" where
  "parse_optional a =
     (if a = [] \<or> hd a \<noteq> CHR ''-'' then APos
      else case map_of option_strings a of
        Some act \<Rightarrow> AOpt (Some act) a None
      | None \<Rightarrow>
          if length a = 1 then APos
          else case (if CHR ''='' \<in> set a then map_of option_strings (fst (split_eq a)) else None) of
            Some act \<Rightarrow> AOpt (Some act) (fst (split_eq a)) (Some (snd (split_eq a)))
          | None \<Rightarrow>
              (case option_tuples a of
                 [] \<Rightarrow> if is_neg_number a \<or> CHR '' '' \<in> set a then APos else AOpt None a None
               | [(act, s, ex)] \<Rightarrow> AOpt (Some act) s ex
               | ts \<Rightarrow> AAmbiguous (''ambiguous option: '' @ a @ '' could match '' @
                                    concat (butlast (concat (map (\<lambda>(_, s, _). [s, '', '']) ts))))))"

text \<open>The classified strings: a positional, the first \<^verbatim>\<open>--\<close> (after which every string
  is a positional), an option.\<close>

datatype token = TPos string | TSep | TOpt "opt_action option" string "string option"

fun classify :: "bool \<Rightarrow> string list \<Rightarrow> string + token list" where
  "classify sep [] = Inr []"
| "classify sep (a # as) =
     (if sep then (case classify True as of Inl m \<Rightarrow> Inl m | Inr ts \<Rightarrow> Inr (TPos a # ts))
      else if a = ''--'' then (case classify True as of Inl m \<Rightarrow> Inl m | Inr ts \<Rightarrow> Inr (TSep # ts))
      else case parse_optional a of
        AAmbiguous m \<Rightarrow> Inl m
      | APos \<Rightarrow> (case classify False as of Inl m \<Rightarrow> Inl m | Inr ts \<Rightarrow> Inr (TPos a # ts))
      | AOpt act s ex \<Rightarrow> (case classify False as of Inl m \<Rightarrow> Inl m | Inr ts \<Rightarrow> Inr (TOpt act s ex # ts)))"

fun token_str :: "token \<Rightarrow> string" where
  "token_str (TPos a) = a"
| "token_str TSep = ''--''"
| "token_str (TOpt _ s _) = s"

text \<open>\<^verbatim>\<open>consume_optional\<close> on an option with an explicit argument: a zero-argument
  option rejects it, except that after a short option the argument is read as further
  short options.\<close>

function explicit_chain :: "opt_action \<Rightarrow> string \<Rightarrow> string option \<Rightarrow> string + opt_action list" where
  "explicit_chain act s None = Inr [act]"
| "explicit_chain act s (Some x) =
     (if s ! 1 \<noteq> CHR ''-'' \<and> x \<noteq> [] then
        (case map_of option_strings [CHR ''-'', hd x] of
           Some act' \<Rightarrow>
             (case explicit_chain act' [CHR ''-'', hd x] (if tl x = [] then None else Some (tl x)) of
                Inl m \<Rightarrow> Inl m
              | Inr acts \<Rightarrow> Inr (act # acts))
         | None \<Rightarrow> Inl (''argument '' @ action_name act @ '': ignored explicit argument '' @ py_repr x))
      else Inl (''argument '' @ action_name act @ '': ignored explicit argument '' @ py_repr x))"
  by pat_completeness auto
termination
  by (relation "measure (\<lambda>(act, s, e). case e of None \<Rightarrow> 0 | Some x \<Rightarrow> Suc (length x))") auto

datatype parse_outcome = ParseOk bool string | ParseHelp | ParseFail string

text \<open>The consuming loop over the tokens, the archive (once consumed), the flag and the
  extras. A run of positionals before an option or the end is offered to the archive, which
  takes a leading \<^verbatim>\<open>--\<close> and one string (the \<^verbatim>\<open>--\<close> is removed from its value);
  the rest of the run, unknown options and everything after the archive are extras. The help
  action prints and exits as soon as it is taken.\<close>

fun consume :: "token list \<Rightarrow> string option \<Rightarrow> bool \<Rightarrow> string list \<Rightarrow> parse_outcome" where
  "consume [] arch dk ex =
     (case arch of
        None \<Rightarrow> ParseFail ''the following arguments are required: archive''
      | Some a \<Rightarrow> if ex = [] then ParseOk dk a
                  else ParseFail (''unrecognized arguments: '' @ concat (butlast (concat (map (\<lambda>s. [s, '' '']) ex)))))"
| "consume (TSep # TPos a # ts) None dk ex = consume ts (Some a) dk ex"
| "consume (TPos a # TSep # ts) None dk ex = consume ts (Some a) dk ex"
| "consume (TPos a # ts) None dk ex = consume ts (Some a) dk ex"
| "consume (TOpt None s e # ts) arch dk ex = consume ts arch dk (ex @ [s])"
| "consume (TOpt (Some act) s e # ts) arch dk ex =
     (case explicit_chain act s e of
        Inl m \<Rightarrow> ParseFail m
      | Inr acts \<Rightarrow> if OptHelp \<in> set acts then ParseHelp else consume ts arch True ex)"
| "consume (t # ts) arch dk ex = consume ts arch dk (ex @ [token_str t])"

definition parse_args :: "string list \<Rightarrow> parse_outcome" where
  "parse_args argv = (case classify False argv of Inl m \<Rightarrow> ParseFail m | Inr ts \<Rightarrow> consume ts None False [])"

text \<open>The output of \<^verbatim>\<open>parser.print_usage\<close> and \<^verbatim>\<open>parser.print_help\<close> for a
  terminal of the default 80 columns and a short program name (no line is wrapped).\<close>

definition nl :: string where
  "nl = [CHR 0x0A]"

definition usage_line :: "string \<Rightarrow> string" where
  "usage_line prog = ''usage: '' @ prog @ '' [-h] [--docker] archive'' @ nl"

definition help_text :: "string \<Rightarrow> string" where
  "help_text prog =
     usage_line prog @ nl @ ''Analyze programming languages in ZIP archive'' @ nl @ nl @
     ''positional arguments:'' @ nl @ ''  archive     Path to ZIP archive containing project'' @ nl @ nl @
     ''options:'' @ nl @ ''  -h, --help  show this help message and exit'' @ nl @
     ''  --docker    Use Docker image instead of local linguist gem'' @ nl"

subsection \<open>\<^verbatim>\<open>Path(..).expanduser().resolve()\<close>\<close>

text \<open>A path as \<^verbatim>\<open>pathlib\<close> parses it: whether it has a root, and its parts.\<close>

definition pure_path :: "string \<Rightarrow> bool \<times> string list" where
  "pure_path s = (is_abs s, pure_parts s)"

text \<open>What the script reads of its environment besides the file system: the program name
  (\<^verbatim>\<open>sys.argv[0]\<close>'s base name), the home directory of a user
  (\<^verbatim>\<open>os.path.expanduser\<close>: for the empty name \<^verbatim>\<open>HOME\<close> or the password entry of
  the current user, otherwise \<^verbatim>\<open>pwd.getpwnam\<close>; \<open>None\<close> when there is none), and
  where \<^verbatim>\<open>os.path.realpath\<close> leaves a symbolic link (the resolved target of a dangling
  link; for a link whose resolution loops, the link at which the loop is detected).\<close>

record cli_env =
  prog_name :: string
  home_of :: "string \<Rightarrow> string option"
  link_target :: "path \<Rightarrow> path"

definition rstrip_slash :: "string \<Rightarrow> string" where
  "rstrip_slash s = rev (dropWhile (\<lambda>c. c = CHR ''/'') (rev s))"

text \<open>\<^verbatim>\<open>PurePath.expanduser\<close>: a relative path whose first part starts with \<^verbatim>\<open>~\<close>
  has it replaced by the home directory; when that cannot be found the part is returned
  unchanged and \<^verbatim>\<open>RuntimeError\<close> is raised.\<close>

definition expanduser :: "cli_env \<Rightarrow> bool \<times> string list \<Rightarrow> py_error + bool \<times> string list" where
  "expanduser ce p =
     (case p of
        (False, c # cs) \<Rightarrow>
          if c \<noteq> [] \<and> hd c = CHR ''~'' then
            (let home = (case home_of ce (tl c) of
                           None \<Rightarrow> c
                         | Some h \<Rightarrow> if rstrip_slash h = [] then ''/'' else rstrip_slash h)
             in if hd home = CHR ''~'' then Inl (RuntimeError ''Could not determine home directory.'')
                else Inr (is_abs home, pure_parts home @ cs))
          else Inr p
      | _ \<Rightarrow> Inr p)"

text \<open>\<^verbatim>\<open>posixpath._joinrealpath\<close> with \<^verbatim>\<open>strict=False\<close>, from the working
  directory (which \<^verbatim>\<open>os.getcwd\<close> gives without links): \<^verbatim>\<open>..\<close> drops a component, a
  dangling link continues from its target, a looping link stops the walk with the rest of
  the path appended and the flag \<open>False\<close>.\<close>

fun realpath_walk :: "fs \<Rightarrow> (path \<Rightarrow> path) \<Rightarrow> path \<Rightarrow> string list \<Rightarrow> path \<times> bool" where
  "realpath_walk fs lt cur [] = (cur, True)"
| "realpath_walk fs lt cur (c # cs) =
     (if c = ''..'' then realpath_walk fs lt (butlast cur) cs
      else case map_of fs (cur @ [c]) of
        Some BrokenLink \<Rightarrow> realpath_walk fs lt (lt (cur @ [c])) cs
      | Some LoopLink \<Rightarrow> (normpath (lt (cur @ [c]) @ cs), False)
      | _ \<Rightarrow> realpath_walk fs lt (cur @ [c]) cs)"

text \<open>\<^verbatim>\<open>Path.resolve()\<close> (3.11): \<^verbatim>\<open>os.path.realpath\<close>, then \<^verbatim>\<open>stat\<close>, whose
  \<^verbatim>\<open>ELOOP\<close> becomes \<^verbatim>\<open>RuntimeError("Symlink loop from %r")\<close> of the path object.\<close>

definition path_resolve :: "cli_env \<Rightarrow> fs \<Rightarrow> path \<Rightarrow> bool \<times> string list \<Rightarrow> py_error + path" where
  "path_resolve ce fs cwd p =
     (case realpath_walk fs (link_target ce) (if fst p then [] else cwd) (snd p) of
        (q, True) \<Rightarrow> Inr q
      | (q, False) \<Rightarrow> Inl (RuntimeError (''Symlink loop from PosixPath('' @ py_repr (path_str q) @ '')'')))"

subsection \<open>\<^verbatim>\<open>json.dumps(stats, ensure_ascii=False, indent=2)\<close>\<close>

text \<open>\<^verbatim>\<open>encode_basestring\<close>: quote, backslash and the control characters are escaped.\<close>

definition json_esc :: "char \<Rightarrow> string" where
  "json_esc c =
     (if c = CHR 0x22 then [CHR 0x5C, CHR 0x22]
      else if c = CHR 0x5C then [CHR 0x5C, CHR 0x5C]
      else if c = CHR 0x0A then [CHR 0x5C, CHR ''n'']
      else if c = CHR 0x0D then [CHR 0x5C, CHR ''r'']
      else if c = CHR 0x09 then [CHR 0x5C, CHR ''t'']
      else if c = CHR 0x08 then [CHR 0x5C, CHR ''b'']
      else if c = CHR 0x0C then [CHR 0x5C, CHR ''f'']
      else if of_char c < (32::nat) then CHR 0x5C # ''u00'' @ hex2 (of_char c)
      else [c])"

definition json_str :: "string \<Rightarrow> string" where
  "json_str s = CHR 0x22 # concat (map json_esc s) @ [CHR 0x22]"

text \<open>\<^verbatim>\<open>float.__repr__\<close> of \<^verbatim>\<open>round(x, 2)\<close>, the double nearest to a number of
  hundredths: the shortest decimal that reads back, i.e. the hundredths without a final zero
  and with at least one digit after the point (fixed notation, below \<open>10\<^sup>16\<close>).\<close>

definition float_repr_hundredths :: "int \<Rightarrow> string" where
  "float_repr_hundredths k =
     (let a = nat \<bar>k\<bar>; f = a mod 100
      in (if k < 0 then ''-'' else []) @ str_nat (a div 100) @ ''.'' @
         (if f mod 10 = 0 then str_nat (f div 10) else str_nat (f div 10) @ str_nat (f mod 10)))"

definition nl_indent :: "nat \<Rightarrow> string" where
  "nl_indent n = CHR 0x0A # replicate n (CHR '' '')"

definition stat_json :: "lang_stat \<Rightarrow> string" where
  "stat_json v =
     ''{'' @ nl_indent 4 @ json_str ''percent'' @ '': '' @ float_repr_hundredths (percent v) @ '','' @
     nl_indent 4 @ json_str ''lines'' @ '': '' @ str_nat (lines v) @ nl_indent 2 @ ''}''"

fun json_items :: "(string \<times> lang_stat) list \<Rightarrow> string" where
  "json_items [] = []"
| "json_items [(k, v)] = json_str k @ '': '' @ stat_json v"
| "json_items ((k, v) # p # ps) = json_str k @ '': '' @ stat_json v @ '','' @ nl_indent 2 @ json_items (p # ps)"

definition json_dumps_stats :: "(string \<times> lang_stat) list \<Rightarrow> string" where
  "json_dumps_stats ps = (if ps = [] then ''{}'' else ''{'' @ nl_indent 2 @ json_items ps @ nl_indent 0 @ ''}'')"

subsection \<open>\<^verbatim>\<open>main\<close> and the entry point\<close>

text \<open>How the process ends: status 0 with what it printed, status 2 with
  \<^verbatim>\<open>parser.error\<close>'s message (\<^verbatim>\<open>SystemExit\<close> is not an \<^verbatim>\<open>Exception\<close>), or
  status 1 after writing \<^verbatim>\<open>Error: {error}\<close> of the exception \<^verbatim>\<open>main\<close> raised.\<close>

datatype cli_exit = ExitOk string | ExitUsage string | ExitError py_error

fun exit_status :: "cli_exit \<Rightarrow> int" where
  "exit_status (ExitOk _) = 0"
| "exit_status (ExitUsage _) = 2"
| "exit_status (ExitError _) = 1"

definition cli_main :: "cli_env \<Rightarrow> os_env \<Rightarrow> string list \<Rightarrow> os_state \<Rightarrow> cli_exit \<times> os_state" where
  "cli_main ce env argv st =
     (case parse_args argv of
        ParseHelp \<Rightarrow> (ExitOk (help_text (prog_name ce)), st)
      | ParseFail m \<Rightarrow> (ExitUsage (usage_line (prog_name ce) @ prog_name ce @ '': error: '' @ m @ nl), st)
      | ParseOk dk a \<Rightarrow>
          (case expanduser ce (pure_path a) of
             Inl e \<Rightarrow> (ExitError e, st)
           | Inr p \<Rightarrow>
               (case path_resolve ce (st_fs st) (proc_cwd env) p of
                  Inl e \<Rightarrow> (ExitError e, st)
                | Inr zp \<Rightarrow>
                    (case analyze_zip (default_wrapper\<lparr>use_docker := dk\<rparr>) env (path_str zp) st of
                       (Inl e, st') \<Rightarrow> (ExitError e, st')
                     | (Inr stats, st') \<Rightarrow> (ExitOk (json_dumps_stats stats @ nl), st')))))"

subsection \<open>Parsing the documented command lines\<close>

lemma parse_optional_plain: "a \<noteq> [] \<Longrightarrow> hd a \<noteq> CHR ''-'' \<Longrightarrow> parse_optional a = APos"
  by (simp add: parse_optional_def)

lemma parse_optional_docker: "parse_optional ''--docker'' = AOpt (Some OptDocker) ''--docker'' None"
  by (simp add: parse_optional_def option_strings_def)

text \<open>C32: the two usages of the docstring, \<^verbatim>\<open>test.py project.zip\<close> and
  \<^verbatim>\<open>test.py --docker project.zip\<close>, are parsed as meant for every archive name that
  does not start with a dash, with the flag also accepted after the archive.\<close>

theorem parse_args_usages:
  assumes "a \<noteq> []" "hd a \<noteq> CHR ''-''"
  shows "parse_args [a] = ParseOk False a \<and> parse_args [''--docker'', a] = ParseOk True a \<and>
         parse_args [a, ''--docker''] = ParseOk True a"
proof -
  have "a \<noteq> ''--''" using assms(2) by auto
  then show ?thesis using assms by (simp add: parse_args_def parse_optional_plain parse_optional_docker)
qed

lemma parse_args_usages_witness:
  "parse_args [''project.zip''] = ParseOk False ''project.zip'' \<and>
   parse_args [''--docker'', ''project.zip''] = ParseOk True ''project.zip'' \<and>
   parse_args [''project.zip'', ''--docker''] = ParseOk True ''project.zip''"
  using parse_args_usages [of "''project.zip''"] by simp

text \<open>Any archive name at all is taken after \<^verbatim>\<open>--\<close>.\<close>

lemma parse_args_after_separator: "parse_args [''--'', a] = ParseOk False a"
  by (simp add: parse_args_def)

lemma parse_args_no_archive:
  "parse_args [] = ParseFail ''the following arguments are required: archive''"
  by (simp add: parse_args_def)

subsection \<open>Properties\<close>


end
