(* ===== verification/Scenarios.thy ===== *)
theory Scenarios
  imports Cli
begin

text \<open>
  Concrete worlds in which the pipeline of \<^verbatim>\<open>LinguistWrapper.analyze_zip\<close> is run:
  the end-to-end scenario of the specification (an archive holding \<^verbatim>\<open>project/main.py\<close>
  with 10 lines and \<^verbatim>\<open>project/lib.js\<close> with 30 lines below one top-level folder, and a
  classifier reporting 250 and 750 bytes), the same world with a classifier that exits
  with code 2, and one in which \<^verbatim>\<open>git add\<close> fails. Each environment is an
  \<open>os_env\<close> whose processes behave like the real tools on this input: \<^verbatim>\<open>git init\<close>
  creates \<^verbatim>\<open>.git\<close> in its working directory, the classifier prints its report. The
  lemmas evaluate the whole pipeline on them, also as the command line
  \<^verbatim>\<open>python test.py project.zip\<close> run from the home directory, and instantiate the
  general theorems of the components at these inputs.
\<close>

definition demo_zip :: "byte list" where
  "demo_zip = [80, 75, 5, 6]"

definition demo_members :: "zip_member list" where
  "demo_members =
     [\<lparr>zname = ''project/'', zdata = []\<rparr>,
      \<lparr>zname = ''project/main.py'', zdata = concat (replicate 10 [112, 10])\<rparr>,
      \<lparr>zname = ''project/lib.js'', zdata = concat (replicate 30 [106, 10])\<rparr>,
      \<lparr>zname = ''__MACOSX/._main.py'', zdata = [0]\<rparr>]"

definition demo_fs :: fs where
  "demo_fs = [([''home''], Directory), ([''home'', ''u''], Directory),
              ([''home'', ''u'', ''project.zip''], RegFile demo_zip), ([''tmp''], Directory)]"

definition demo_st :: os_state where
  "demo_st = \<lparr>st_fs = demo_fs, st_procs = []\<rparr>"

definition demo_report :: json where
  "demo_report =
     JObj [(''Python'', JObj [(''size'', JInt 250), (''files'', JArr [JStr ''main.py''])]),
           (''JavaScript'', JObj [(''size'', JInt 750), (''files'', JArr [JStr ''lib.js''])])]"

definition ok_result :: "string \<Rightarrow> proc_result" where
  "ok_result out = \<lparr>returncode = 0, stdout = out, stderr = []\<rparr>"

text \<open>Processes of the scenario: \<open>linguist\<close> and \<open>add_result\<close> are what the
  classifier and \<^verbatim>\<open>git add\<close> return; neither writes to the file system.\<close>

definition scenario_run_proc ::
  "proc_result \<Rightarrow> proc_result \<Rightarrow> string list \<Rightarrow> path option \<Rightarrow> fs \<Rightarrow> (proc_result \<times> fs) option" where
  "scenario_run_proc linguist add_result cmd cwd fs =
     (case cwd of
        None \<Rightarrow> None
      | Some d \<Rightarrow>
          (if cmd = git_init then Some (ok_result [], AList.update (d @ [''.git'']) Directory fs)
           else if cmd = git_add then Some (add_result, fs)
           else if cmd = git_commit then Some (ok_result [], fs)
           else if cmd = ''github-linguist'' # breakdown_args then Some (linguist, fs)
           else None))"

definition scenario_env :: "proc_result \<Rightarrow> proc_result \<Rightarrow> os_env" where
  "scenario_env linguist add_result =
     \<lparr>run_proc = scenario_run_proc linguist add_result, owner_ids = (\<lambda>_. (1000, 1000)),
      json_loads = (\<lambda>s. if s = ''REPORT'' then Some demo_report else None),
      zip_decode = (\<lambda>b. if b = demo_zip then Some demo_members else None),
      proc_cwd = [''home'', ''u''], tmp_base = [''tmp''], tmp_names = [''abc'', ''xyz'']\<rparr>"

definition demo_env :: os_env where
  "demo_env = scenario_env (ok_result ''REPORT'') (ok_result [])"

definition failing_env :: os_env where
  "failing_env =
     scenario_env \<lparr>returncode = 2, stdout = [], stderr = ''linguist: cannot read tree''\<rparr>
       (ok_result [])"

definition git_fail_env :: os_env where
  "git_fail_env =
     scenario_env (ok_result ''REPORT'')
       \<lparr>returncode = 128, stdout = [], stderr = ''fatal: not a git repository''\<rparr>"

definition demo_root :: path where
  "demo_root = [''tmp'', ''tmpabc'', ''project'']"

text \<open>The command line's world: the script is \<^verbatim>\<open>test.py\<close>, the current user's home
  is the working directory, and there are no links.\<close>

definition demo_cli :: cli_env where
  "demo_cli = \<lparr>prog_name = ''test.py'', home_of = (\<lambda>u. if u = [] then Some ''/home/u'' else None),
               link_target = (\<lambda>p. p)\<rparr>"

text \<open>The output the specification's contract describes, as \<^verbatim>\<open>json.dumps\<close> with
  \<^verbatim>\<open>indent=2\<close> prints it.\<close>

definition demo_json :: string where
  \<open>demo_json =
     ''{'' @ nl_indent 2 @ ''"Python": {'' @ nl_indent 4 @ ''"percent": 25.0,'' @ nl_indent 4 @ ''"lines": 10'' @
     nl_indent 2 @ ''},'' @ nl_indent 2 @ ''"JavaScript": {'' @ nl_indent 4 @ ''"percent": 75.0,'' @
     nl_indent 4 @ ''"lines": 30'' @ nl_indent 2 @ ''}'' @ nl_indent 0 @ ''}''\<close>

subsection \<open>The scenarios evaluated\<close>

lemma demo_run:
  "analyze_zip default_wrapper demo_env ''project.zip'' demo_st =
     (Inr [(''Python'', \<lparr>percent = 2500, lines = 10\<rparr>), (''JavaScript'', \<lparr>percent = 7500, lines = 30\<rparr>)],
      \<lparr>st_fs = demo_fs,
       st_procs = [(git_init, Some demo_root), (git_add, Some demo_root), (git_commit, Some demo_root),
                   (''github-linguist'' # breakdown_args, Some demo_root)]\<rparr>)"
  by code_simp

lemma failing_run:
  "analyze_zip default_wrapper failing_env ''project.zip'' demo_st =
     (Inl (RuntimeError ''github-linguist failed with code 2: linguist: cannot read tree''),
      \<lparr>st_fs = demo_fs,
       st_procs = [(git_init, Some demo_root), (git_add, Some demo_root), (git_commit, Some demo_root),
                   (''github-linguist'' # breakdown_args, Some demo_root)]\<rparr>)"
  by code_simp

lemma git_fail_run:
  "analyze_zip default_wrapper git_fail_env ''project.zip'' demo_st =
     (Inl (CalledProcessError 128 git_add),
      \<lparr>st_fs = demo_fs, st_procs = [(git_init, Some demo_root), (git_add, Some demo_root)]\<rparr>)"
  by code_simp

lemma demo_fs_wf: "wf_fs demo_fs"
  by (simp add: wf_fs_def demo_fs_def valid_name_def)

lemma scenario_env_confined: "confined (scenario_env linguist add_result)"
  by (auto simp: confined_def scenario_env_def scenario_run_proc_def rmtree_update_below
      split: if_splits option.splits)

lemma git_fail_init:
  "init_git_repo git_fail_env demo_root demo_st =
     (Inl (CalledProcessError 128 git_add),
      \<lparr>st_fs = AList.update (demo_root @ [''.git'']) Directory demo_fs,
       st_procs = [(git_init, Some demo_root), (git_add, Some demo_root)]\<rparr>)"
  by code_simp

lemma failing_execute:
  "linguist_command default_wrapper failing_env breakdown_args demo_root =
     (''github-linguist'' # breakdown_args, Some demo_root) \<and>
   run_proc failing_env (''github-linguist'' # breakdown_args) (Some demo_root) demo_fs =
     Some (\<lparr>returncode = 2, stdout = [], stderr = ''linguist: cannot read tree''\<rparr>, demo_fs)"
  by code_simp

subsection \<open>The specification's scenarios\<close>

text \<open>The end-to-end scenario of the specification: the archive with
  \<^verbatim>\<open>project/main.py\<close> (10 lines) and \<^verbatim>\<open>project/lib.js\<close> (30 lines) and the report
  of 250 and 750 bytes give Python 25.00 percent with 10 lines and JavaScript 75.00 percent
  with 30 lines, in the report's order, and leave the file system as it was; run as
  \<^verbatim>\<open>python test.py project.zip\<close> (or with \<^verbatim>\<open>~/project.zip\<close>), the script prints
  exactly this document as indented JSON and exits with status 0.\<close>

lemma spec_end_to_end:
  "fst (analyze_zip default_wrapper demo_env ''project.zip'' demo_st) =
     Inr [(''Python'', \<lparr>percent = 2500, lines = 10\<rparr>), (''JavaScript'', \<lparr>percent = 7500, lines = 30\<rparr>)] \<and>
   st_fs (snd (analyze_zip default_wrapper demo_env ''project.zip'' demo_st)) = demo_fs \<and>
   fst (cli_main demo_cli demo_env [''project.zip''] demo_st) = ExitOk (demo_json @ nl) \<and>
   fst (cli_main demo_cli demo_env [''~/project.zip''] demo_st) = ExitOk (demo_json @ nl) \<and>
   st_fs (snd (cli_main demo_cli demo_env [''project.zip''] demo_st)) = demo_fs"
  by code_simp

text \<open>The specification's failing classifier: in the same world with a classifier that
  exits with code 2, the analysis fails with a \<^verbatim>\<open>RuntimeError\<close> whose message carries
  the code and the standard error, and no temporary directory is left behind; the script
  reports that exception and exits with status 1.\<close>

lemma spec_classifier_failure:
  "\<exists>msg. fst (analyze_zip default_wrapper failing_env ''project.zip'' demo_st) = Inl (RuntimeError msg) \<and>
     parse_failed_msg msg = Some (2, ''linguist: cannot read tree'') \<and>
     st_fs (snd (analyze_zip default_wrapper failing_env ''project.zip'' demo_st)) = demo_fs \<and>
     fst (cli_main demo_cli failing_env [''project.zip''] demo_st) = ExitError (RuntimeError msg) \<and>
     exit_status (fst (cli_main demo_cli failing_env [''project.zip''] demo_st)) = 1"
proof -
  have "parse_failed_msg ''github-linguist failed with code 2: linguist: cannot read tree'' =
      Some (2, ''linguist: cannot read tree'')"
    by code_simp
  moreover have "fst (cli_main demo_cli failing_env [''project.zip''] demo_st) =
      ExitError (RuntimeError ''github-linguist failed with code 2: linguist: cannot read tree'')"
    by code_simp
  ultimately show ?thesis by (simp add: failing_run)
qed

subsection \<open>The general theorems at these inputs\<close>

theorem analyze_zip_no_residue_witness:
  "wf_fs (st_fs demo_st) \<and> confined failing_env \<and> tmp_ok failing_env \<and>
   st_fs (snd (analyze_zip default_wrapper failing_env ''project.zip'' demo_st)) = st_fs demo_st"
proof -
  have wf: "wf_fs (st_fs demo_st)" by (simp add: demo_st_def demo_fs_wf)
  have conf: "confined failing_env" unfolding failing_env_def by (rule scenario_env_confined)
  have tmp: "tmp_ok failing_env"
    by (simp add: failing_env_def scenario_env_def tmp_ok_def valid_name_def)
  show ?thesis using analyze_zip_no_residue [OF wf conf tmp] wf conf tmp by simp
qed

theorem analyze_zip_call_order_witness:
  "\<exists>root. st_procs (snd (analyze_zip default_wrapper demo_env ''project.zip'' demo_st)) = st_procs demo_st @
      [(git_init, Some root), (git_add, Some root), (git_commit, Some root),
       linguist_command default_wrapper demo_env breakdown_args root] \<and>
    (\<exists>n \<in> set (tmp_names demo_env). prefix (tmp_base demo_env @ [''tmp'' @ n]) root)"
  using analyze_zip_call_order [OF demo_run] by (simp add: demo_run)

theorem analyze_zip_keys_witness:
  "\<exists>root r fsx fsy ps.
     run_proc demo_env (fst (linguist_command default_wrapper demo_env breakdown_args root))
       (snd (linguist_command default_wrapper demo_env breakdown_args root)) fsx = Some (r, fsy) \<and>
     returncode r = 0 \<and> json_loads demo_env (stdout r) = Some (JObj ps) \<and>
     [''Python'', ''JavaScript''] = map fst (py_dict ps)"
  using analyze_zip_keys [OF demo_run] by simp


theorem execute_linguist_failure_witness:
  "\<exists>msg. fst (execute_linguist default_wrapper failing_env breakdown_args demo_root demo_st) =
      Inl (RuntimeError msg) \<and> parse_failed_msg msg = Some (2, ''linguist: cannot read tree'')"
proof -
  have lc: "linguist_command default_wrapper failing_env breakdown_args demo_root =
      (''github-linguist'' # breakdown_args, Some demo_root)"
    and run: "run_proc failing_env (''github-linguist'' # breakdown_args) (Some demo_root) (st_fs demo_st) =
      Some (\<lparr>returncode = 2, stdout = [], stderr = ''linguist: cannot read tree''\<rparr>, demo_fs)"
    using failing_execute by (simp_all add: demo_st_def)
  have nd: "use_docker default_wrapper \<Longrightarrow> \<exists>q n. stat_node (st_fs demo_st) demo_root = Inr (q, n)"
    by (simp add: default_wrapper_def)
  show ?thesis using execute_linguist_failure [OF lc nd run] by simp
qed

theorem linguist_command_docker_witness:
  "snd (linguist_command (default_wrapper\<lparr>use_docker := True\<rparr>) demo_env breakdown_args demo_root) = None \<and>
   colon_fields (fst (linguist_command (default_wrapper\<lparr>use_docker := True\<rparr>) demo_env breakdown_args demo_root) ! 6) =
     [path_str demo_root, ''/repo'', ''ro''] \<and>
   colon_fields (fst (linguist_command (default_wrapper\<lparr>use_docker := True\<rparr>) demo_env breakdown_args demo_root) ! 4) =
     [str_nat 1000, str_nat 1000] \<and>
   fst (linguist_command (default_wrapper\<lparr>use_docker := True\<rparr>) demo_env breakdown_args demo_root) ! 9 =
     docker_image (default_wrapper\<lparr>use_docker := True\<rparr>) \<and>
   drop 10 (fst (linguist_command (default_wrapper\<lparr>use_docker := True\<rparr>) demo_env breakdown_args demo_root)) =
     breakdown_args"
proof -
  have ids: "owner_ids demo_env demo_root = (1000, 1000)" by (simp add: demo_env_def scenario_env_def)
  have nc: "\<forall>x \<in> set demo_root. CHR '':'' \<notin> set x" by (simp add: demo_root_def)
  show ?thesis using linguist_command_docker [of "default_wrapper\<lparr>use_docker := True\<rparr>", OF _ ids nc] by simp
qed

end
