(* ===== verification/Models.thy ===== *)
theory Models
  imports Prelude
begin

text \<open>
  The Django models of \<^verbatim>\<open>src/backend/projects/models.py\<close>: the three module-level
  \<^verbatim>\<open>RegexValidator\<close>s (lines 10--23), the field validation Django's
  \<^verbatim>\<open>Model.full_clean\<close> runs on the character fields, the models as records (the
  abstract \<^verbatim>\<open>Contact\<close> extended by \<^verbatim>\<open>Client\<close> and \<^verbatim>\<open>Developer\<close> as the
  record extension it is), their \<^verbatim>\<open>__str__\<close> methods, and the \<^verbatim>\<open>upload_to\<close> callable
  \<^verbatim>\<open>project_archive_path\<close> with the \<^verbatim>\<open>FileExtensionValidator\<close> of the archive field.
  A Python \<^verbatim>\<open>str\<close> is a list of Unicode code points (\<open>pystr\<close>), so that
  \<^verbatim>\<open>max_length\<close> counts what Python counts and \<^verbatim>\<open>\d\<close> is Unicode's decimal digits
  (category Nd, the 66 blocks of ten of Unicode 14.0, the tables of Python 3.11). ASCII
  literals are written \<open>u ''...''\<close>.
  A regular expression \<^verbatim>\<open>^body$\<close> searched without flags matches a string when the body
  matches it or matches it without one final newline: \<^verbatim>\<open>$\<close> also matches just before a
  newline that ends the string (\<open>re_dollar\<close>).
\<close>

type_synonym pystr = "nat list"

definition u :: "string \<Rightarrow> pystr" where
  "u s = map of_char s"

subsection \<open>Character classes and the validators\<close>

text \<open>The first code point of every block of ten Nd digits (\<^verbatim>\<open>unicodedata\<close>, Unicode 14.0).\<close>

definition nd_zeros :: "nat list" where
  "nd_zeros = [48, 1632, 1776, 1984, 2406, 2534, 2662, 2790, 2918, 3046, 3174, 3302, 3430, 3558,
     3664, 3792, 3872, 4160, 4240, 6112, 6160, 6470, 6608, 6784, 6800, 6992, 7088, 7232, 7248,
     42528, 43216, 43264, 43472, 43504, 43600, 44016, 65296, 66720, 68912, 69734, 69872, 69942,
     70096, 70384, 70736, 70864, 71248, 71360, 71472, 71904, 72016, 72784, 73040, 73120, 92768,
     92864, 93008, 120782, 120792, 120802, 120812, 120822, 123200, 123632, 125264, 130032]"

definition re_digit :: "nat \<Rightarrow> bool" where
  "re_digit c \<longleftrightarrow> list_ex (\<lambda>z. z \<le> c \<and> c < z + 10) nd_zeros"

definition ascii_digit :: "nat \<Rightarrow> bool" where
  "ascii_digit c \<longleftrightarrow> 48 \<le> c \<and> c \<le> 57"

definition ascii_upper :: "nat \<Rightarrow> bool" where
  "ascii_upper c \<longleftrightarrow> 65 \<le> c \<and> c \<le> 90"

definition ascii_lower_letter :: "nat \<Rightarrow> bool" where
  "ascii_lower_letter c \<longleftrightarrow> 97 \<le> c \<and> c \<le> 122"

text \<open>\<^verbatim>\<open>[0-9a-fA-F]\<close> and \<^verbatim>\<open>[A-Za-z0-9-]\<close>.\<close>

definition hex_digit :: "nat \<Rightarrow> bool" where
  "hex_digit c \<longleftrightarrow> ascii_digit c \<or> (65 \<le> c \<and> c \<le> 70) \<or> (97 \<le> c \<and> c \<le> 102)"

definition github_char :: "nat \<Rightarrow> bool" where
  "github_char c \<longleftrightarrow> ascii_upper c \<or> ascii_lower_letter c \<or> ascii_digit c \<or> c = 45"

definition re_dollar :: "(pystr \<Rightarrow> bool) \<Rightarrow> pystr \<Rightarrow> bool" where
  "re_dollar body s \<longleftrightarrow> body s \<or> (s \<noteq> [] \<and> last s = 10 \<and> body (butlast s))"

text \<open>\<^verbatim>\<open>\+?\d{7,15}\<close>: a leading \<^verbatim>\<open>+\<close> cannot be left to \<^verbatim>\<open>\d\<close>.\<close>

definition phone_body :: "pystr \<Rightarrow> bool" where
  "phone_body s \<longleftrightarrow>
     (let t = (if s \<noteq> [] \<and> hd s = 43 then tl s else s) in
      7 \<le> length t \<and> length t \<le> 15 \<and> list_all re_digit t)"

text \<open>\<^verbatim>\<open>#(?:[0-9a-fA-F]{3}){1,2}\<close>.\<close>

definition hex_color_body :: "pystr \<Rightarrow> bool" where
  "hex_color_body s \<longleftrightarrow>
     s \<noteq> [] \<and> hd s = 35 \<and> (length (tl s) = 3 \<or> length (tl s) = 6) \<and> list_all hex_digit (tl s)"

text \<open>\<^verbatim>\<open>[A-Za-z0-9-]{1,39}\<close>.\<close>

definition github_body :: "pystr \<Rightarrow> bool" where
  "github_body s \<longleftrightarrow> 1 \<le> length s \<and> length s \<le> 39 \<and> list_all github_char s"

definition phone_validator :: "pystr \<Rightarrow> bool" where
  "phone_validator s \<longleftrightarrow> re_dollar phone_body s"

definition hex_color_validator :: "pystr \<Rightarrow> bool" where
  "hex_color_validator s \<longleftrightarrow> re_dollar hex_color_body s"

definition github_validator :: "pystr \<Rightarrow> bool" where
  "github_validator s \<longleftrightarrow> re_dollar github_body s"

text \<open>
  \<^verbatim>\<open>Model.clean_fields\<close> on a \<^verbatim>\<open>CharField\<close>: an empty value is skipped when the field
  is \<^verbatim>\<open>blank=True\<close> and refused otherwise; a non-empty value must pass the
  \<^verbatim>\<open>MaxLengthValidator\<close> and every validator of the field.
\<close>

definition char_field_ok :: "nat \<Rightarrow> bool \<Rightarrow> (pystr \<Rightarrow> bool) list \<Rightarrow> pystr \<Rightarrow> bool" where
  "char_field_ok max_len blank validators s \<longleftrightarrow>
     (if s = [] then blank else length s \<le> max_len \<and> list_all (\<lambda>v. v s) validators)"

subsection \<open>The models\<close>

record contact =
  name :: pystr
  email :: pystr
  phone :: pystr
  tg_username :: pystr
  contact_url :: pystr
  contact_note :: pystr
  created_at :: int

record client = contact +
  company :: pystr

record developer = contact +
  github_username :: pystr
  portfolio_url :: pystr

record project_status =
  status_name :: pystr
  status_color :: pystr
  status_order :: nat

record language =
  language_name :: pystr
  language_color :: pystr
  icon :: pystr

text \<open>The character fields of \<^verbatim>\<open>Contact\<close>, \<^verbatim>\<open>Client\<close>, \<^verbatim>\<open>Developer\<close>,
  \<^verbatim>\<open>ProjectStatus\<close> and \<^verbatim>\<open>Language\<close> as \<^verbatim>\<open>full_clean\<close> checks them (the
  \<^verbatim>\<open>EmailField\<close> and \<^verbatim>\<open>URLField\<close> validators are not modelled).\<close>

definition contact_ok :: "'a contact_scheme \<Rightarrow> bool" where
  "contact_ok c \<longleftrightarrow>
     char_field_ok 255 True [] (name c) \<and> char_field_ok 20 True [phone_validator] (phone c) \<and>
     char_field_ok 100 True [] (tg_username c)"

definition client_ok :: "client \<Rightarrow> bool" where
  "client_ok c \<longleftrightarrow> contact_ok c \<and> char_field_ok 255 True [] (company c)"

definition developer_ok :: "developer \<Rightarrow> bool" where
  "developer_ok d \<longleftrightarrow> contact_ok d \<and> char_field_ok 39 True [github_validator] (github_username d)"

definition status_ok :: "project_status \<Rightarrow> bool" where
  "status_ok s \<longleftrightarrow>
     char_field_ok 100 False [] (status_name s) \<and> char_field_ok 7 False [hex_color_validator] (status_color s)"

definition language_ok :: "language \<Rightarrow> bool" where
  "language_ok l \<longleftrightarrow>
     char_field_ok 100 False [] (language_name l) \<and> char_field_ok 7 False [hex_color_validator] (language_color l) \<and>
     char_field_ok 50 True [] (icon l)"

subsection \<open>\<^verbatim>\<open>__str__\<close>\<close>

definition unnamed_client :: pystr where
  "unnamed_client = [1041, 1077, 1079, 1099, 1084, 1103, 1085, 1085, 1099, 1081]"

definition developer_label :: pystr where
  "developer_label = [1048, 1089, 1087, 1086, 1083, 1085, 1080, 1090, 1077, 1083, 1100]"

definition client_str :: "client \<Rightarrow> pystr" where
  "client_str c =
     (let base = (if name c = [] then unnamed_client else name c) in
      base @ (if company c = [] then [] else u '' ('' @ company c @ u '')''))"

definition developer_str :: "developer \<Rightarrow> pystr" where
  "developer_str d = (if name d = [] then developer_label else name d)"

definition status_str :: "project_status \<Rightarrow> pystr" where
  "status_str s = status_name s"

definition language_str :: "language \<Rightarrow> pystr" where
  "language_str l = language_name l"

subsection \<open>Projects and their analyses\<close>

type_synonym uuid = "128 word"

text \<open>Foreign keys are the referenced rows' keys: \<open>nat\<close> ids for clients, developers,
  statuses and languages, the UUID for projects. \<^verbatim>\<open>DecimalField\<close>s with two decimal
  places are integers of hundredths; date-times are integer timestamps.\<close>

record project =
  project_id :: uuid
  project_name :: pystr
  description :: pystr
  project_client :: nat
  project_developer :: nat
  project_status :: nat
  image :: "pystr option"
  archive :: "pystr option"
  deadline_planned :: int
  deadline_actual :: "int option"
  planned_minutes :: nat
  spent_minutes :: nat
  cost :: int
  project_created_at :: int
  updated_at :: int
  is_public :: bool

record project_analysis =
  analysis_project :: uuid
  analysis_language :: nat
  lines_count :: nat
  percentage :: int

definition project_str :: "project \<Rightarrow> pystr" where
  "project_str p = project_name p"

text \<open>\<^verbatim>\<open>str(Decimal)\<close> of a value read back from a column with two decimal places.\<close>

definition pad2 :: "nat \<Rightarrow> pystr" where
  "pad2 n = (if n < 10 then 48 # u (str_nat n) else u (str_nat n))"

definition decimal2_str :: "int \<Rightarrow> pystr" where
  "decimal2_str v =
     (if v < 0 then [45] else []) @ u (str_nat (nat \<bar>v\<bar> div 100)) @ [46] @ pad2 (nat \<bar>v\<bar> mod 100)"

text \<open>\<^verbatim>\<open>ProjectAnalysis.__str__\<close>: the project's name, an em dash, the language's name,
  a colon and the percentage followed by a per cent sign; the related rows are passed in.\<close>

definition analysis_str :: "project \<Rightarrow> language \<Rightarrow> project_analysis \<Rightarrow> pystr" where
  "analysis_str p l a =
     project_name p @ [32, 8212, 32] @ language_name l @ [58, 32] @ decimal2_str (percentage a) @ [37]"

subsection \<open>The archive's storage path\<close>

text \<open>\<^verbatim>\<open>str(uuid.UUID)\<close>: \<^verbatim>\<open>'%032x' % self.int\<close>, 32 lower-case hex digits,
  grouped 8-4-4-4-12.\<close>

definition hex_lower :: "nat \<Rightarrow> nat" where
  "hex_lower d = (if d < 10 then 48 + d else 87 + d)"

fun hex_digits :: "nat \<Rightarrow> nat \<Rightarrow> nat list" where
  "hex_digits 0 n = []"
| "hex_digits (Suc k) n = hex_digits k (n div 16) @ [n mod 16]"

definition uuid_hex :: "uuid \<Rightarrow> pystr" where
  "uuid_hex w = map hex_lower (hex_digits 32 (unat w))"

definition uuid_str :: "uuid \<Rightarrow> pystr" where
  "uuid_str w =
     (let h = uuid_hex w in
      take 8 h @ [45] @ take 4 (drop 8 h) @ [45] @ take 4 (drop 12 h) @ [45] @
      take 4 (drop 16 h) @ [45] @ drop 20 h)"

text \<open>\<^verbatim>\<open>os.path.splitext(p)[1]\<close> (\<^verbatim>\<open>posixpath._splitext\<close>): from the last dot of the
  last component, provided a character other than a dot precedes it in that component.\<close>

definition last_component :: "pystr \<Rightarrow> pystr" where
  "last_component p = rev (takeWhile (\<lambda>c. c \<noteq> 47) (rev p))"

definition splitext_ext :: "pystr \<Rightarrow> pystr" where
  "splitext_ext p =
     (let b = last_component p; stem = rev (dropWhile (\<lambda>c. c \<noteq> 46) (rev b)) in
      if stem \<noteq> [] \<and> list_ex (\<lambda>c. c \<noteq> 46) (butlast stem) then drop (length stem - 1) b else [])"

text \<open>\<^verbatim>\<open>project_archive_path(instance, filename)\<close> at the time \<open>now\<close> (year, month):
  \<^verbatim>\<open>f'project_archives/{now:%Y/%m}/{instance.id}{ext}'\<close>.\<close>

definition project_archive_path :: "project \<Rightarrow> nat \<times> nat \<Rightarrow> pystr \<Rightarrow> pystr" where
  "project_archive_path instance now filename =
     (let e = splitext_ext filename; ext = (if e = [] then u ''.zip'' else e) in
      u ''project_archives/'' @ u (str_nat (fst now)) @ [47] @ pad2 (snd now) @ [47] @
      uuid_str (project_id instance) @ ext)"

text \<open>\<^verbatim>\<open>FileExtensionValidator(allowed_extensions=['zip'])\<close>:
  \<^verbatim>\<open>Path(value.name).suffix[1:].lower()\<close> must be \<^verbatim>\<open>'zip'\<close>. \<^verbatim>\<open>PurePath.name\<close> is the
  last component other than empty and \<^verbatim>\<open>.\<close>; \<^verbatim>\<open>suffix\<close> starts at the last dot when
  that dot is neither the first nor the last character. \<open>py_lower\<close> lowers ASCII
  letters only; no other code point lowers to \<^verbatim>\<open>z\<close>, \<^verbatim>\<open>i\<close> or \<^verbatim>\<open>p\<close> alone, so the
  comparison with \<^verbatim>\<open>'zip'\<close> is the one Python makes.\<close>

fun split_cp :: "nat \<Rightarrow> pystr \<Rightarrow> pystr list" where
  "split_cp c [] = [[]]"
| "split_cp c (x # xs) = (let ws = split_cp c xs in if x = c then [] # ws else (x # hd ws) # tl ws)"

definition pathlib_name :: "pystr \<Rightarrow> pystr" where
  "pathlib_name p = (let parts = filter (\<lambda>w. w \<noteq> [] \<and> w \<noteq> [46]) (split_cp 47 p) in
                     if parts = [] then [] else last parts)"

definition path_suffix :: "pystr \<Rightarrow> pystr" where
  "path_suffix nm =
     (let k = length (takeWhile (\<lambda>c. c \<noteq> 46) (rev nm)) in
      if k < length nm then (let i = length nm - 1 - k in if 0 < i \<and> i < length nm - 1 then drop i nm else [])
      else [])"

definition py_lower :: "nat \<Rightarrow> nat" where
  "py_lower c = (if ascii_upper c then c + 32 else c)"

definition zip_extension_validator :: "pystr \<Rightarrow> bool" where
  "zip_extension_validator filename \<longleftrightarrow> map py_lower (drop 1 (path_suffix (pathlib_name filename))) = u ''zip''"

subsection \<open>Constraints of \<^verbatim>\<open>ProjectAnalysis\<close>\<close>

text \<open>\<^verbatim>\<open>DecimalField(max_digits=5, decimal_places=2)\<close> and the check constraint
  \<^verbatim>\<open>percentage_0_100\<close>.\<close>

definition percentage_fits :: "int \<Rightarrow> bool" where
  "percentage_fits v \<longleftrightarrow> \<bar>v\<bar> < 100000"

definition percentage_0_100 :: "project_analysis \<Rightarrow> bool" where
  "percentage_0_100 a \<longleftrightarrow> 0 \<le> percentage a \<and> percentage a \<le> 10000"

text \<open>\<^verbatim>\<open>uuid.UUID(hex)\<close> on the strings \<^verbatim>\<open>str(uuid)\<close> produces: dashes removed,
  32 hex digits read base 16.\<close>

definition hex_val :: "nat \<Rightarrow> nat" where
  "hex_val c = (if c \<le> 57 then c - 48 else if c \<le> 70 then c - 55 else c - 87)"

definition uuid_parse :: "pystr \<Rightarrow> uuid option" where
  "uuid_parse s =
     (let h = filter (\<lambda>c. c \<noteq> 45) s in
      if length h = 32 \<and> list_all hex_digit h then Some (of_nat (foldl (\<lambda>a c. 16 * a + hex_val c) 0 h))
      else None)"

text \<open>A project row used to instantiate the theorems.\<close>

definition sample_project :: project where
  "sample_project =
     \<lparr>project_id = 0x123456789abcdef0123456789abcdef0, project_name = u ''Site'', description = [],
      project_client = 1, project_developer = 1, project_status = 1, image = None, archive = None,
      deadline_planned = 0, deadline_actual = None, planned_minutes = 0, spent_minutes = 0, cost = 0,
      project_created_at = 0, updated_at = 0, is_public = False\<rparr>"

subsection \<open>Lemmas: UUIDs and the archive path\<close>

lemma length_hex_digits [simp]: "length (hex_digits k n) = k"
  by (induction k arbitrary: n) simp_all

lemma hex_digits_lt: "d \<in> set (hex_digits k n) \<Longrightarrow> d < 16"
  by (induction k arbitrary: n) auto

lemma foldl_hex_digits: "foldl (\<lambda>a d. 16 * a + d) 0 (hex_digits k n) = n mod 16 ^ k"
  by (induction k arbitrary: n) (simp_all add: mod_mult2_eq)

lemma hex_lower_props:
  assumes "d < 16"
  shows "hex_val (hex_lower d) = d" "hex_digit (hex_lower d)" "hex_lower d \<noteq> 45" "hex_lower d \<noteq> 46"
    "hex_lower d \<noteq> 47"
  using assms by (auto simp: hex_val_def hex_lower_def hex_digit_def ascii_digit_def)

lemma uuid_hex_length [simp]: "length (uuid_hex w) = 32"
  by (simp add: uuid_hex_def)

lemma uuid_hex_no_dash:
  assumes "c \<in> set (uuid_hex w)"
  shows "c \<noteq> 45 \<and> c \<noteq> 46 \<and> c \<noteq> 47 \<and> hex_digit c"
proof -
  from assms obtain d where d: "d \<in> set (hex_digits 32 (unat w))" "c = hex_lower d"
    by (auto simp: uuid_hex_def)
  from hex_lower_props [OF hex_digits_lt [OF d(1)]] d(2) show ?thesis by simp
qed

lemma take_take_drop_append: "take a xs @ take b (drop a xs) @ ys = take (a + b) xs @ ys"
  by (simp add: take_add)

lemma uuid_str_filter: "filter (\<lambda>c. c \<noteq> 45) (uuid_str w) = uuid_hex w"
proof -
  let ?h = "uuid_hex w"
  have nd: "c \<noteq> 45" if "c \<in> set ?h" for c using uuid_hex_no_dash [OF that] by simp
  have t: "filter (\<lambda>c. c \<noteq> 45) (take a (drop b ?h)) = take a (drop b ?h)" for a b
    using nd by (auto simp: filter_id_conv dest!: in_set_takeD in_set_dropD)
  have d: "filter (\<lambda>c. c \<noteq> 45) (drop b ?h) = drop b ?h" for b
    using nd by (auto simp: filter_id_conv dest!: in_set_dropD)
  have "take 8 ?h @ take 4 (drop 8 ?h) @ take 4 (drop 12 ?h) @ take 4 (drop 16 ?h) @ drop 20 ?h = ?h"
    by (simp add: take_take_drop_append)
  then show ?thesis
    using t [of 8 0] t d by (simp add: uuid_str_def Let_def)
qed


text \<open>A project's UUID survives the round trip through its text form
  \<^verbatim>\<open>str(instance.id)\<close>.\<close>

lemma uuid_str_roundtrip: "uuid_parse (uuid_str w) = Some w"
proof -
  have "foldl (\<lambda>a c. 16 * a + hex_val c) 0 (uuid_hex w) = foldl (\<lambda>a d. 16 * a + d) 0 (hex_digits 32 (unat w))"
    unfolding uuid_hex_def foldl_map
    by (rule foldl_cong) (simp_all add: hex_lower_props(1) [OF hex_digits_lt])
  also have "\<dots> = unat w"
  proof -
    have "unat w < 16 ^ 32" using unsigned_less [of w] by simp
    then show ?thesis by (simp add: foldl_hex_digits)
  qed
  finally have v: "foldl (\<lambda>a c. 16 * a + hex_val c) 0 (uuid_hex w) = unat w" .
  have "list_all hex_digit (uuid_hex w)" using uuid_hex_no_dash by (simp add: list_all_iff)
  then show ?thesis by (simp add: uuid_parse_def uuid_str_filter v)
qed

lemma split_cp_no_sep: "c \<notin> set xs \<Longrightarrow> split_cp c xs = [xs]"
  by (induction xs) (auto simp: Let_def)

lemma split_cp_append_sep: "c \<notin> set xs \<Longrightarrow> split_cp c (xs @ c # ys) = xs # split_cp c ys"
  by (induction xs) (auto simp: Let_def)

lemma str_nat_no_slash: "47 \<notin> set (u (str_nat n))"
  using str_nat_digits [of n] by (auto simp: u_def is_dec_digit_def)

lemma pad2_no_slash: "47 \<notin> set (pad2 n)"
  using str_nat_no_slash [of n] by (simp add: pad2_def)

lemma uuid_str_no_slash: "47 \<notin> set (uuid_str w)"
proof
  assume "47 \<in> set (uuid_str w)"
  then have "47 \<in> set (uuid_hex w)"
    by (auto simp: uuid_str_def Let_def dest: in_set_takeD in_set_dropD)
  then show False using uuid_hex_no_dash by blast
qed

lemma splitext_ext_no_slash: "47 \<notin> set (splitext_ext p)"
  by (auto simp: splitext_ext_def last_component_def Let_def dest!: in_set_dropD set_takeWhileD)

lemma archive_path_split:
  "split_cp 47 (project_archive_path p (y, m) f) =
     [u ''project_archives'', u (str_nat y), pad2 m,
      uuid_str (project_id p) @ (if splitext_ext f = [] then u ''.zip'' else splitext_ext f)]"
proof -
  have z: "47 \<notin> set (u ''.zip'')" by (simp add: u_def)
  have e: "47 \<notin> set (uuid_str (project_id p) @ (if splitext_ext f = [] then u ''.zip'' else splitext_ext f))"
    using uuid_str_no_slash z splitext_ext_no_slash by simp
  have "u ''project_archives/'' = u ''project_archives'' @ [47]" by (simp add: u_def)
  then show ?thesis
    using e str_nat_no_slash [of y] pad2_no_slash [of m]
    by (simp add: project_archive_path_def Let_def split_cp_append_sep split_cp_no_sep u_def)
qed


lemma last_component_id: "47 \<notin> set f \<Longrightarrow> last_component f = f"
proof -
  assume "47 \<notin> set f"
  then have tw: "takeWhile (\<lambda>c. c \<noteq> 47) (rev f) = rev f"
    by (intro takeWhile_eq_all_conv [THEN iffD2]) auto
  show ?thesis unfolding last_component_def tw by simp
qed

lemma path_suffix_last_dot:
  assumes "46 \<notin> set post"
  shows "path_suffix (pre @ 46 # post) = (if pre \<noteq> [] \<and> post \<noteq> [] then 46 # post else [])"
proof -
  have "takeWhile (\<lambda>c. c \<noteq> 46) (rev (pre @ 46 # post)) = rev post"
    using assms by (simp, subst takeWhile_append2) auto
  then show ?thesis by (auto simp: path_suffix_def Let_def)
qed

lemma splitext_ext_last_dot:
  assumes "47 \<notin> set (pre @ 46 # post)" "46 \<notin> set post"
  shows "splitext_ext (pre @ 46 # post) = (if list_ex (\<lambda>c. c \<noteq> 46) pre then 46 # post else [])"
proof -
  have lc: "last_component (pre @ 46 # post) = pre @ 46 # post" by (rule last_component_id [OF assms(1)])
  have "dropWhile (\<lambda>c. c \<noteq> 46) (rev (pre @ 46 # post)) = 46 # rev pre"
    using assms(2) by (simp, subst dropWhile_append2) auto
  then show ?thesis by (simp add: splitext_ext_def lc Let_def)
qed

lemma splitext_ext_no_dot: "46 \<notin> set (last_component f) \<Longrightarrow> splitext_ext f = []"
  by (simp add: splitext_ext_def Let_def dropWhile_eq_Nil_conv)

text \<open>C14: for an uploaded file name (a base name, without \<^verbatim>\<open>/\<close>) that passes the
  archive field's \<^verbatim>\<open>FileExtensionValidator\<close>, \<^verbatim>\<open>project_archive_path\<close> stores it as
  \<^verbatim>\<open>project_archives/<year>/<month>/<uuid><ext>\<close>, exactly four path components, with an
  extension that lower-cases to \<^verbatim>\<open>.zip\<close>: the validator (which reads
  \<^verbatim>\<open>Path.suffix\<close>) and the storage path (which reads \<^verbatim>\<open>os.path.splitext\<close>) agree, and
  nothing of the uploaded name but its extension reaches the path.\<close>

theorem archive_path_zip_extension:
  assumes v: "zip_extension_validator f" and ns: "47 \<notin> set f"
  shows "\<exists>e. split_cp 47 (project_archive_path p (y, m) f) =
           [u ''project_archives'', u (str_nat y), pad2 m, uuid_str (project_id p) @ e] \<and>
         map py_lower e = u ''.zip''"
proof -
  let ?e = "if splitext_ext f = [] then u ''.zip'' else splitext_ext f"
  have "map py_lower ?e = u ''.zip''"
  proof (cases "splitext_ext f = []")
    case True
    then show ?thesis by (simp add: u_def py_lower_def ascii_upper_def)
  next
    case False
    have "last_component f = f" by (rule last_component_id [OF ns])
    with False splitext_ext_no_dot [of f] have "46 \<in> set f" by auto
    then obtain pre post where f: "f = pre @ 46 # post" and np: "46 \<notin> set post"
      by (blast dest: split_list_last)
    have ext: "splitext_ext f = (if list_ex (\<lambda>c. c \<noteq> 46) pre then 46 # post else [])"
      using splitext_ext_last_dot [of pre post] ns np f by simp
    from ext False have lx: "list_ex (\<lambda>c. c \<noteq> 46) pre" by (auto split: if_splits)
    then have pre: "pre \<noteq> []" by auto
    have "f \<noteq> [] \<and> f \<noteq> [46]" using pre f by (cases pre) auto
    then have "pathlib_name f = f" using ns by (simp add: pathlib_name_def split_cp_no_sep)
    then have "map py_lower (drop 1 (if post \<noteq> [] then 46 # post else [])) = u ''zip''"
      using v pre f path_suffix_last_dot [OF np, of pre] by (simp add: zip_extension_validator_def)
    then have "post \<noteq> [] \<and> map py_lower post = u ''zip''"
      by (cases "post = []") (simp_all add: u_def)
    then show ?thesis using ext lx by (simp add: py_lower_def ascii_upper_def u_def)
  qed
  then show ?thesis using archive_path_split [of p y m f] by blast
qed

lemma archive_path_zip_extension_witness:
  "zip_extension_validator (u ''Report.ZIP'') \<and> 47 \<notin> set (u ''Report.ZIP'') \<and>
   (\<exists>e. split_cp 47 (project_archive_path sample_project (2026, 11) (u ''Report.ZIP'')) =
      [u ''project_archives'', u (str_nat 2026), pad2 11, uuid_str (project_id sample_project) @ e] \<and>
    map py_lower e = u ''.zip'')"
proof -
  have v: "zip_extension_validator (u ''Report.ZIP'')" by code_simp
  have ns: "47 \<notin> set (u ''Report.ZIP'')" by (simp add: u_def)
  show ?thesis using archive_path_zip_extension [OF v ns, of sample_project 2026 11] v ns by blast
qed

lemma length_uuid_str: "length (uuid_str w) = 36"
  by (simp add: uuid_str_def uuid_hex_def Let_def)

text \<open>C22: two different projects never share an archive path: whatever the upload times
  and file names, the name component \<^verbatim>\<open>project_archive_path\<close> builds starts with the
  36 characters of \<^verbatim>\<open>str(instance.id)\<close>, from which the project's UUID is read back,
  so an upload never lands on (or is renamed because of) another project's archive.\<close>

theorem archive_path_distinct:
  assumes "project_id p \<noteq> project_id q"
  shows "project_archive_path p t f \<noteq> project_archive_path q t' f'"
proof
  assume eq: "project_archive_path p t f = project_archive_path q t' f'"
  obtain y m y' m' where t: "t = (y, m)" and t': "t' = (y', m')" by fastforce
  let ?e = "\<lambda>f. if splitext_ext f = [] then u ''.zip'' else splitext_ext f"
  have "uuid_str (project_id p) @ ?e f = uuid_str (project_id q) @ ?e f'"
    using arg_cong [OF eq, of "\<lambda>x. last (split_cp 47 x)"] by (simp add: t t' archive_path_split)
  then have "take 36 (uuid_str (project_id p) @ ?e f) = take 36 (uuid_str (project_id q) @ ?e f')" by simp
  then have "uuid_str (project_id p) = uuid_str (project_id q)" by (simp add: length_uuid_str)
  then have "uuid_parse (uuid_str (project_id p)) = uuid_parse (uuid_str (project_id q))" by simp
  with assms show False by (simp add: uuid_str_roundtrip)
qed

lemma archive_path_distinct_witness:
  "project_id sample_project \<noteq> project_id (sample_project\<lparr>project_id := 7\<rparr>) \<and>
   project_archive_path sample_project (2026, 11) (u ''a.zip'') \<noteq>
     project_archive_path (sample_project\<lparr>project_id := 7\<rparr>) (2026, 11) (u ''a.zip'')"
proof -
  have ne: "project_id sample_project \<noteq> project_id (sample_project\<lparr>project_id := 7\<rparr>)"
    by (simp add: sample_project_def)
  show ?thesis using archive_path_distinct [OF ne] ne by simp
qed

subsection \<open>Lemmas: the validators\<close>

lemma re_dollar_snoc_newline: "body s \<Longrightarrow> re_dollar body (s @ [10])"
  by (simp add: re_dollar_def)

text \<open>C16: the phone validator accepts a \<^verbatim>\<open>+\<close> followed by 7 to 15 digits of any
  script (\<^verbatim>\<open>\d\<close> is Unicode's Nd, so Arabic-Indic or Devanagari digits pass), and the same
  value followed by a newline (\<^verbatim>\<open>$\<close> matches before a final newline); both fit the
  field's 20 characters, so \<^verbatim>\<open>full_clean\<close> accepts them.\<close>

theorem phone_field_accepts:
  assumes "7 \<le> length t" "length t \<le> 15" "list_all re_digit t"
  shows "char_field_ok 20 True [phone_validator] (43 # t) \<and>
         char_field_ok 20 True [phone_validator] (43 # t @ [10])"
proof -
  have b: "phone_body (43 # t)" using assms by (simp add: phone_body_def)
  have "phone_validator (43 # t)" using b by (simp add: phone_validator_def re_dollar_def)
  moreover have "phone_validator ((43 # t) @ [10])"
    using re_dollar_snoc_newline [of phone_body, OF b] by (simp add: phone_validator_def)
  ultimately show ?thesis using assms(2) by (simp add: char_field_ok_def)
qed

lemma phone_field_accepts_witness:
  "7 \<le> length [1633, 1634, 1635, 1636, 1637, 1638, 1639 :: nat] \<and>
   length [1633, 1634, 1635, 1636, 1637, 1638, 1639 :: nat] \<le> 15 \<and>
   list_all re_digit [1633, 1634, 1635, 1636, 1637, 1638, 1639] \<and>
   char_field_ok 20 True [phone_validator] [43, 1633, 1634, 1635, 1636, 1637, 1638, 1639] \<and>
   char_field_ok 20 True [phone_validator] [43, 1633, 1634, 1635, 1636, 1637, 1638, 1639, 10]"
proof -
  have d: "list_all re_digit [1633, 1634, 1635, 1636, 1637, 1638, 1639]" by code_simp
  show ?thesis using phone_field_accepts [of "[1633, 1634, 1635, 1636, 1637, 1638, 1639]"] d by simp
qed

text \<open>C17: a colour field (\<^verbatim>\<open>ProjectStatus.color\<close>, \<^verbatim>\<open>Language.color\<close>: at most 7
  characters, the HEX validator) accepts exactly the values \<^verbatim>\<open>#\<close> followed by 3 or 6
  hex digits, and the 3-digit ones followed by a newline; a 6-digit value with a newline is
  too long.\<close>

theorem color_field_ok_iff:
  "char_field_ok 7 False [hex_color_validator] s \<longleftrightarrow>
     hex_color_body s \<or> (\<exists>t. s = t @ [10] \<and> hex_color_body t \<and> length t = 4)"
proof -
  have len: "hex_color_body t \<Longrightarrow> length t = 4 \<or> length t = 7" for t
    by (cases t) (auto simp: hex_color_body_def)
  have ne: "hex_color_body t \<Longrightarrow> t \<noteq> []" for t by (simp add: hex_color_body_def)
  show ?thesis
  proof
    assume "char_field_ok 7 False [hex_color_validator] s"
    then have s: "s \<noteq> []" "length s \<le> 7" "re_dollar hex_color_body s"
      by (auto simp: char_field_ok_def hex_color_validator_def split: if_splits)
    show "hex_color_body s \<or> (\<exists>t. s = t @ [10] \<and> hex_color_body t \<and> length t = 4)"
    proof (cases "hex_color_body s")
      case False
      with s have b: "hex_color_body (butlast s)" and l: "last s = 10" by (auto simp: re_dollar_def)
      have sb: "s = butlast s @ [10]" using s(1) l by (metis append_butlast_last_id)
      have "length s = length (butlast s) + 1" using s(1) by simp
      then have "length (butlast s) = 4" using len [OF b] s(2) by linarith
      with b sb show ?thesis by blast
    qed simp
  next
    assume "hex_color_body s \<or> (\<exists>t. s = t @ [10] \<and> hex_color_body t \<and> length t = 4)"
    then show "char_field_ok 7 False [hex_color_validator] s"
    proof
      assume b: "hex_color_body s"
      then show ?thesis using len [OF b] ne [OF b]
        by (auto simp: char_field_ok_def hex_color_validator_def re_dollar_def)
    next
      assume "\<exists>t. s = t @ [10] \<and> hex_color_body t \<and> length t = 4"
      then obtain t where t: "s = t @ [10]" "hex_color_body t" "length t = 4" by blast
      then show ?thesis by (simp add: char_field_ok_def hex_color_validator_def re_dollar_def)
    qed
  qed
qed

end
