(* ===== verification/Database.thy ===== *)
theory Database
  imports Models
begin

text \<open>
  The database the models of \<^verbatim>\<open>src/backend/projects/models.py\<close> declare: one table per
  concrete model, the foreign keys with their \<^verbatim>\<open>on_delete\<close> rules (\<^verbatim>\<open>PROTECT\<close> from a
  project to its client, developer and status, lines 186--202; \<^verbatim>\<open>CASCADE\<close> from an
  analysis to its project and language, lines 272--282), the \<^verbatim>\<open>unique=True\<close> names of
  statuses and languages (lines 107--111, 134--138), and the two constraints of
  \<^verbatim>\<open>ProjectAnalysis.Meta\<close> (lines 295--304) with the range of its
  \<^verbatim>\<open>DecimalField(max_digits=5, decimal_places=2)\<close>. The operations are what the ORM does
  with these declarations: an insert fails with \<^verbatim>\<open>IntegrityError\<close> on a missing referenced
  row, a duplicate key or a violated constraint (\<^verbatim>\<open>DataError\<close> on a numeric overflow), a
  delete fails with \<^verbatim>\<open>ProtectedError\<close> while a \<^verbatim>\<open>PROTECT\<close> reference exists and
  deletes the referencing rows of a \<^verbatim>\<open>CASCADE\<close>, and \<^verbatim>\<open>QuerySet.update(is_public=...)\<close>
  returns the number of rows it matched. \<open>db_step\<close> is the step relation of all of them;
  the invariant \<open>db_ok\<close> (referential integrity, keys, uniqueness, the check constraint)
  holds in every reachable state.
\<close>

datatype db_error = IntegrityError string | ProtectedError string | DataError string

record db =
  clients :: "(nat \<times> client) list"
  developers :: "(nat \<times> developer) list"
  statuses :: "(nat \<times> project_status) list"
  languages :: "(nat \<times> language) list"
  projects :: "project list"
  analyses :: "project_analysis list"

definition empty_db :: db where
  "empty_db = \<lparr>clients = [], developers = [], statuses = [], languages = [], projects = [], analyses = []\<rparr>"

definition project_ids :: "db \<Rightarrow> uuid list" where
  "project_ids d = map project_id (projects d)"

subsection \<open>Inserts\<close>

definition insert_client :: "nat \<Rightarrow> client \<Rightarrow> db \<Rightarrow> db_error + db" where
  "insert_client k c d =
     (if k \<in> set (map fst (clients d)) then Inl (IntegrityError ''projects_client_pkey'')
      else Inr (d\<lparr>clients := clients d @ [(k, c)]\<rparr>))"

definition insert_developer :: "nat \<Rightarrow> developer \<Rightarrow> db \<Rightarrow> db_error + db" where
  "insert_developer k v d =
     (if k \<in> set (map fst (developers d)) then Inl (IntegrityError ''projects_developer_pkey'')
      else Inr (d\<lparr>developers := developers d @ [(k, v)]\<rparr>))"

definition insert_status :: "nat \<Rightarrow> project_status \<Rightarrow> db \<Rightarrow> db_error + db" where
  "insert_status k s d =
     (if k \<in> set (map fst (statuses d)) then Inl (IntegrityError ''projects_projectstatus_pkey'')
      else if status_name s \<in> set (map (status_name \<circ> snd) (statuses d))
      then Inl (IntegrityError ''projects_projectstatus_name_key'')
      else Inr (d\<lparr>statuses := statuses d @ [(k, s)]\<rparr>))"

definition insert_language :: "nat \<Rightarrow> language \<Rightarrow> db \<Rightarrow> db_error + db" where
  "insert_language k l d =
     (if k \<in> set (map fst (languages d)) then Inl (IntegrityError ''projects_language_pkey'')
      else if language_name l \<in> set (map (language_name \<circ> snd) (languages d))
      then Inl (IntegrityError ''projects_language_name_key'')
      else Inr (d\<lparr>languages := languages d @ [(k, l)]\<rparr>))"

definition insert_project :: "project \<Rightarrow> db \<Rightarrow> db_error + db" where
  "insert_project p d =
     (if project_id p \<in> set (project_ids d) then Inl (IntegrityError ''projects_project_pkey'')
      else if project_client p \<notin> set (map fst (clients d))
        \<or> project_developer p \<notin> set (map fst (developers d))
        \<or> project_status p \<notin> set (map fst (statuses d))
      then Inl (IntegrityError ''FOREIGN KEY constraint failed'')
      else Inr (d\<lparr>projects := projects d @ [p]\<rparr>))"

text \<open>\<^verbatim>\<open>lines_count\<close> is a \<^verbatim>\<open>PositiveIntegerField\<close>: on PostgreSQL an
  \<^verbatim>\<open>integer\<close> column, 32 bits wide (its \<^verbatim>\<open>CHECK (lines_count >= 0)\<close> always holds
  of a natural number).\<close>

definition lines_fits :: "nat \<Rightarrow> bool" where
  "lines_fits n \<longleftrightarrow> n \<le> 2147483647"

text \<open>PostgreSQL's order: the values are converted to the column types in column order
  (\<^verbatim>\<open>integer out of range\<close>, \<^verbatim>\<open>numeric field overflow\<close>), then the check
  constraint is evaluated, the unique index is updated, and the foreign keys, which Django
  declares \<^verbatim>\<open>DEFERRABLE INITIALLY DEFERRED\<close>, are checked when the statement's
  transaction commits.\<close>

definition insert_analysis :: "project_analysis \<Rightarrow> db \<Rightarrow> db_error + db" where
  "insert_analysis a d =
     (if \<not> lines_fits (lines_count a) then Inl (DataError ''integer out of range'')
      else if \<not> percentage_fits (percentage a) then Inl (DataError ''numeric field overflow'')
      else if \<not> percentage_0_100 a then Inl (IntegrityError ''percentage_0_100'')
      else if (analysis_project a, analysis_language a)
                \<in> set (map (\<lambda>b. (analysis_project b, analysis_language b)) (analyses d))
      then Inl (IntegrityError ''unique_project_language'')
      else if analysis_project a \<notin> set (project_ids d) \<or> analysis_language a \<notin> set (map fst (languages d))
      then Inl (IntegrityError ''FOREIGN KEY constraint failed'')
      else Inr (d\<lparr>analyses := analyses d @ [a]\<rparr>))"

subsection \<open>Deletes\<close>

definition delete_client :: "nat \<Rightarrow> db \<Rightarrow> db_error + db" where
  "delete_client k d =
     (if list_ex (\<lambda>p. project_client p = k) (projects d) then Inl (ProtectedError ''Project.client'')
      else Inr (d\<lparr>clients := filter (\<lambda>(k', _). k' \<noteq> k) (clients d)\<rparr>))"

definition delete_developer :: "nat \<Rightarrow> db \<Rightarrow> db_error + db" where
  "delete_developer k d =
     (if list_ex (\<lambda>p. project_developer p = k) (projects d) then Inl (ProtectedError ''Project.developer'')
      else Inr (d\<lparr>developers := filter (\<lambda>(k', _). k' \<noteq> k) (developers d)\<rparr>))"

definition delete_status :: "nat \<Rightarrow> db \<Rightarrow> db_error + db" where
  "delete_status k d =
     (if list_ex (\<lambda>p. project_status p = k) (projects d) then Inl (ProtectedError ''Project.status'')
      else Inr (d\<lparr>statuses := filter (\<lambda>(k', _). k' \<noteq> k) (statuses d)\<rparr>))"

definition delete_language :: "nat \<Rightarrow> db \<Rightarrow> db" where
  "delete_language k d =
     d\<lparr>analyses := filter (\<lambda>a. analysis_language a \<noteq> k) (analyses d),
       languages := filter (\<lambda>(k', _). k' \<noteq> k) (languages d)\<rparr>"

definition delete_project :: "uuid \<Rightarrow> db \<Rightarrow> db" where
  "delete_project pid d =
     d\<lparr>analyses := filter (\<lambda>a. analysis_project a \<noteq> pid) (analyses d),
       projects := filter (\<lambda>p. project_id p \<noteq> pid) (projects d)\<rparr>"

subsection \<open>\<^verbatim>\<open>QuerySet.update(is_public=b)\<close>\<close>

text \<open>The queryset is the set of selected primary keys; the result is the number of rows
  matched.\<close>

definition update_is_public :: "uuid list \<Rightarrow> bool \<Rightarrow> db \<Rightarrow> nat \<times> db" where
  "update_is_public sel b d =
     (length (filter (\<lambda>p. project_id p \<in> set sel) (projects d)),
      d\<lparr>projects := map (\<lambda>p. if project_id p \<in> set sel then p\<lparr>is_public := b\<rparr> else p) (projects d)\<rparr>)"

subsection \<open>The step relation\<close>

datatype db_op =
    AddClient nat client
  | AddDeveloper nat developer
  | AddStatus nat project_status
  | AddLanguage nat language
  | AddProject project
  | AddAnalysis project_analysis
  | DelClient nat
  | DelDeveloper nat
  | DelStatus nat
  | DelLanguage nat
  | DelProject uuid
  | SetPublic "uuid list" bool

fun db_apply :: "db_op \<Rightarrow> db \<Rightarrow> db_error + db" where
  "db_apply (AddClient k c) d = insert_client k c d"
| "db_apply (AddDeveloper k v) d = insert_developer k v d"
| "db_apply (AddStatus k s) d = insert_status k s d"
| "db_apply (AddLanguage k l) d = insert_language k l d"
| "db_apply (AddProject p) d = insert_project p d"
| "db_apply (AddAnalysis a) d = insert_analysis a d"
| "db_apply (DelClient k) d = delete_client k d"
| "db_apply (DelDeveloper k) d = delete_developer k d"
| "db_apply (DelStatus k) d = delete_status k d"
| "db_apply (DelLanguage k) d = Inr (delete_language k d)"
| "db_apply (DelProject pid) d = Inr (delete_project pid d)"
| "db_apply (SetPublic sel b) d = Inr (snd (update_is_public sel b d))"

inductive db_step :: "db \<Rightarrow> db \<Rightarrow> bool" where
  step: "db_apply op d = Inr d' \<Longrightarrow> db_step d d'"

inductive db_reachable :: "db \<Rightarrow> bool" where
  init: "db_reachable empty_db"
| extend: "db_reachable d \<Longrightarrow> db_step d d' \<Longrightarrow> db_reachable d'"

subsection \<open>The invariant\<close>

definition db_ok :: "db \<Rightarrow> bool" where
  "db_ok d \<longleftrightarrow>
     distinct (map fst (clients d)) \<and> distinct (map fst (developers d)) \<and>
     distinct (map fst (statuses d)) \<and> distinct (map fst (languages d)) \<and>
     distinct (map (status_name \<circ> snd) (statuses d)) \<and> distinct (map (language_name \<circ> snd) (languages d)) \<and>
     distinct (project_ids d) \<and>
     list_all (\<lambda>p. project_client p \<in> set (map fst (clients d)) \<and>
                   project_developer p \<in> set (map fst (developers d)) \<and>
                   project_status p \<in> set (map fst (statuses d))) (projects d) \<and>
     list_all (\<lambda>a. analysis_project a \<in> set (project_ids d) \<and>
                   analysis_language a \<in> set (map fst (languages d)) \<and>
                   percentage_0_100 a \<and> percentage_fits (percentage a) \<and> lines_fits (lines_count a)) (analyses d) \<and>
     distinct (map (\<lambda>a. (analysis_project a, analysis_language a)) (analyses d))"

text \<open>A sequence of operations applied in order, stopping at the first error.\<close>

fun db_run :: "db_op list \<Rightarrow> db \<Rightarrow> db_error + db" where
  "db_run [] d = Inr d"
| "db_run (op # ops) d = (case db_apply op d of Inl e \<Rightarrow> Inl e | Inr d' \<Rightarrow> db_run ops d')"

text \<open>The deletions the admin can always perform to empty the database: every project
  (which cascades to its analyses), then every client, developer, status and language.\<close>

definition teardown_ops :: "db \<Rightarrow> db_op list" where
  "teardown_ops d =
     map DelProject (project_ids d) @ map DelClient (map fst (clients d)) @
     map DelDeveloper (map fst (developers d)) @ map DelStatus (map fst (statuses d)) @
     map DelLanguage (map fst (languages d))"

subsection \<open>A sample database\<close>

definition sample_contact :: contact where
  "sample_contact = \<lparr>name = u ''Ann'', email = [], phone = u ''+74951234567'', tg_username = [],
     contact_url = [], contact_note = [], created_at = 0\<rparr>"

definition sample_client :: client where
  "sample_client = contact.extend sample_contact \<lparr>company = u ''ACME''\<rparr>"

definition sample_developer :: developer where
  "sample_developer = contact.extend sample_contact \<lparr>github_username = u ''ann-dev'', portfolio_url = []\<rparr>"

definition sample_status :: project_status where
  "sample_status = \<lparr>status_name = u ''Active'', status_color = u ''#00AA00'', status_order = 1\<rparr>"

definition sample_language :: language where
  "sample_language = \<lparr>language_name = u ''Python'', language_color = u ''#3572A5'', icon = u ''fab fa-python''\<rparr>"

definition sample_analysis :: project_analysis where
  "sample_analysis = \<lparr>analysis_project = project_id sample_project, analysis_language = 1,
     lines_count = 10, percentage = 2500\<rparr>"

definition sample_ops :: "db_op list" where
  "sample_ops = [AddClient 1 sample_client, AddDeveloper 1 sample_developer, AddStatus 1 sample_status,
     AddLanguage 1 sample_language, AddProject sample_project, AddAnalysis sample_analysis]"

definition sample_db :: db where
  "sample_db = \<lparr>clients = [(1, sample_client)], developers = [(1, sample_developer)],
     statuses = [(1, sample_status)], languages = [(1, sample_language)], projects = [sample_project],
     analyses = [sample_analysis]\<rparr>"

subsection \<open>The invariant is preserved\<close>

lemma insert_client_ok: "db_ok d \<Longrightarrow> insert_client k c d = Inr d' \<Longrightarrow> db_ok d'"
  by (auto simp: insert_client_def db_ok_def project_ids_def list_all_iff split: if_splits)

lemma insert_developer_ok: "db_ok d \<Longrightarrow> insert_developer k c d = Inr d' \<Longrightarrow> db_ok d'"
  by (auto simp: insert_developer_def db_ok_def project_ids_def list_all_iff split: if_splits)

lemma insert_status_ok: "db_ok d \<Longrightarrow> insert_status k c d = Inr d' \<Longrightarrow> db_ok d'"
  by (auto simp: insert_status_def db_ok_def project_ids_def list_all_iff split: if_splits)

lemma insert_language_ok: "db_ok d \<Longrightarrow> insert_language k c d = Inr d' \<Longrightarrow> db_ok d'"
  by (auto simp: insert_language_def db_ok_def project_ids_def list_all_iff split: if_splits)

lemma insert_project_ok: "db_ok d \<Longrightarrow> insert_project p d = Inr d' \<Longrightarrow> db_ok d'"
  by (auto simp: insert_project_def db_ok_def project_ids_def list_all_iff split: if_splits) force+

lemma insert_analysis_ok: "db_ok d \<Longrightarrow> insert_analysis a d = Inr d' \<Longrightarrow> db_ok d'"
  by (auto simp: insert_analysis_def db_ok_def project_ids_def list_all_iff split: if_splits) force+


lemma distinct_map_filter_fst: "distinct (map f xs) \<Longrightarrow> distinct (map f (filter P xs))"
  by (simp add: distinct_map_filter)

lemma delete_client_ok: "db_ok d \<Longrightarrow> delete_client k d = Inr d' \<Longrightarrow> db_ok d'"
  by (auto simp: delete_client_def db_ok_def project_ids_def list_all_iff list_ex_iff distinct_map_filter
      split: if_splits) force+

lemma delete_developer_ok: "db_ok d \<Longrightarrow> delete_developer k d = Inr d' \<Longrightarrow> db_ok d'"
  by (auto simp: delete_developer_def db_ok_def project_ids_def list_all_iff list_ex_iff distinct_map_filter
      split: if_splits) force+

lemma delete_status_ok: "db_ok d \<Longrightarrow> delete_status k d = Inr d' \<Longrightarrow> db_ok d'"
  by (auto simp: delete_status_def db_ok_def project_ids_def list_all_iff list_ex_iff distinct_map_filter
      split: if_splits) force+

lemma delete_language_ok: "db_ok d \<Longrightarrow> db_ok (delete_language k d)"
  by (auto simp: delete_language_def db_ok_def project_ids_def list_all_iff distinct_map_filter) force+

lemma delete_project_ok: "db_ok d \<Longrightarrow> db_ok (delete_project pid d)"
  by (auto simp: delete_project_def db_ok_def project_ids_def list_all_iff distinct_map_filter)

lemma update_is_public_ids: "project_ids (snd (update_is_public sel b d)) = project_ids d"
  by (simp add: update_is_public_def project_ids_def comp_def if_distrib cong: map_cong)

lemma update_is_public_ok: "db_ok d \<Longrightarrow> db_ok (snd (update_is_public sel b d))"
  using update_is_public_ids [of sel b d]
  by (auto simp: update_is_public_def db_ok_def list_all_iff)

lemma db_apply_ok: "db_ok d \<Longrightarrow> db_apply op d = Inr d' \<Longrightarrow> db_ok d'"
  by (cases op) (auto intro: insert_client_ok insert_developer_ok insert_status_ok insert_language_ok
      insert_project_ok insert_analysis_ok delete_client_ok delete_developer_ok delete_status_ok
      delete_language_ok delete_project_ok update_is_public_ok)

lemma empty_db_ok: "db_ok empty_db"
  by (simp add: db_ok_def empty_db_def project_ids_def)

text \<open>C8: every database state reachable from the empty one through the ORM operations
  satisfies the declared integrity rules: every project's client, developer and status
  exist, every analysis's project and language exist, keys and unique names are unique, at
  most one analysis per project and language, and every stored percentage lies in
  0.00--100.00 and fits its column.\<close>

theorem db_reachable_ok: "db_reachable d \<Longrightarrow> db_ok d"
proof (induction rule: db_reachable.induct)
  case init
  then show ?case by (rule empty_db_ok)
next
  case (extend d d')
  then show ?case by (auto elim!: db_step.cases intro: db_apply_ok)
qed

lemma db_run_reachable: "db_run ops d = Inr d' \<Longrightarrow> db_reachable d \<Longrightarrow> db_reachable d'"
proof (induction ops arbitrary: d)
  case Nil
  then show ?case by simp
next
  case (Cons op ops)
  then obtain d1 where d1: "db_apply op d = Inr d1" "db_run ops d1 = Inr d'"
    by (auto split: sum.splits)
  then have "db_reachable d1" using Cons.prems(2) by (blast intro: db_reachable.extend db_step.step)
  with d1(2) show ?case by (rule Cons.IH)
qed

subsection \<open>Runs of deletions\<close>

lemma db_run_append:
  "db_run (xs @ ys) d = (case db_run xs d of Inl e \<Rightarrow> Inl e | Inr d' \<Rightarrow> db_run ys d')"
  by (induction xs arbitrary: d) (simp_all split: sum.split)

lemma db_run_steps: "db_run ops d = Inr d' \<Longrightarrow> db_step\<^sup>*\<^sup>* d d'"
proof (induction ops arbitrary: d)
  case Nil
  then show ?case by simp
next
  case (Cons op ops)
  then obtain d1 where d1: "db_apply op d = Inr d1" "db_run ops d1 = Inr d'"
    by (auto split: sum.splits)
  from d1(1) have "db_step d d1" by (rule db_step.step)
  then show ?case using Cons.IH [OF d1(2)] by (rule converse_rtranclp_into_rtranclp)
qed

lemma filter_keys_all: "filter (\<lambda>(k', _). k' \<notin> fst ` set xs) xs = []"
  by (force simp: filter_empty_conv)

lemma run_del_projects:
  "db_run (map DelProject ps) d =
     Inr (d\<lparr>analyses := filter (\<lambda>a. analysis_project a \<notin> set ps) (analyses d),
            projects := filter (\<lambda>p. project_id p \<notin> set ps) (projects d)\<rparr>)"
  by (induction ps arbitrary: d) (simp_all add: delete_project_def)

lemma run_del_clients:
  "projects d = [] \<Longrightarrow>
   db_run (map DelClient ks) d = Inr (d\<lparr>clients := filter (\<lambda>(k', _). k' \<notin> set ks) (clients d)\<rparr>)"
  by (induction ks arbitrary: d) (simp_all add: delete_client_def case_prod_unfold)

lemma run_del_developers:
  "projects d = [] \<Longrightarrow>
   db_run (map DelDeveloper ks) d = Inr (d\<lparr>developers := filter (\<lambda>(k', _). k' \<notin> set ks) (developers d)\<rparr>)"
  by (induction ks arbitrary: d) (simp_all add: delete_developer_def case_prod_unfold)

lemma run_del_statuses:
  "projects d = [] \<Longrightarrow>
   db_run (map DelStatus ks) d = Inr (d\<lparr>statuses := filter (\<lambda>(k', _). k' \<notin> set ks) (statuses d)\<rparr>)"
  by (induction ks arbitrary: d) (simp_all add: delete_status_def case_prod_unfold)

lemma run_del_languages:
  "db_run (map DelLanguage ks) d =
     Inr (d\<lparr>analyses := filter (\<lambda>a. analysis_language a \<notin> set ks) (analyses d),
            languages := filter (\<lambda>(k', _). k' \<notin> set ks) (languages d)\<rparr>)"
  by (induction ks arbitrary: d) (simp_all add: delete_language_def case_prod_unfold)

lemma db_ok_analyses_projects: "db_ok d \<Longrightarrow> filter (\<lambda>a. analysis_project a \<notin> set (project_ids d)) (analyses d) = []"
  by (simp add: db_ok_def list_all_iff filter_empty_conv)

lemma sample_run: "db_run sample_ops empty_db = Inr sample_db"
  by code_simp

lemma sample_db_reachable: "db_reachable sample_db"
  by (rule db_run_reachable [OF sample_run db_reachable.init])

lemma db_reachable_ok_witness: "db_reachable sample_db \<and> db_ok sample_db"
  using db_reachable_ok [OF sample_db_reachable] sample_db_reachable by simp

text \<open>C20: \<^verbatim>\<open>CASCADE\<close> removes nothing else: an analysis row disappears in a step only
  when its project or its language disappears with it.\<close>

theorem analysis_survives_step:
  assumes "db_step d d'" "a \<in> set (analyses d)"
    and "analysis_project a \<in> set (project_ids d')" "analysis_language a \<in> set (map fst (languages d'))"
  shows "a \<in> set (analyses d')"
  using assms
  by (auto elim!: db_step.cases db_apply.elims
      simp: insert_client_def insert_developer_def insert_status_def insert_language_def
        insert_project_def insert_analysis_def delete_client_def delete_developer_def
        delete_status_def delete_language_def delete_project_def update_is_public_def project_ids_def
      split: if_splits)

lemma analysis_survives_step_witness:
  "db_step sample_db (delete_language 2 sample_db) \<and> sample_analysis \<in> set (analyses sample_db) \<and>
   analysis_project sample_analysis \<in> set (project_ids (delete_language 2 sample_db)) \<and>
   analysis_language sample_analysis \<in> set (map fst (languages (delete_language 2 sample_db))) \<and>
   sample_analysis \<in> set (analyses (delete_language 2 sample_db))"
proof -
  have st: "db_step sample_db (delete_language 2 sample_db)"
    by (rule db_step.step [of "DelLanguage 2"]) simp
  have h: "sample_analysis \<in> set (analyses sample_db) \<and>
     analysis_project sample_analysis \<in> set (project_ids (delete_language 2 sample_db)) \<and>
     analysis_language sample_analysis \<in> set (map fst (languages (delete_language 2 sample_db)))"
    by code_simp
  show ?thesis using analysis_survives_step [OF st] h st by blast
qed

text \<open>C30: liveness of the database: from every well-formed state (every reachable state is one)
  the empty database can still be reached by steps of the ORM; deleting the projects first
  removes what \<^verbatim>\<open>PROTECT\<close> guards, so no delete of the sequence is refused.\<close>

theorem db_teardown_live:
  "db_ok d \<Longrightarrow> db_run (teardown_ops d) d = Inr empty_db \<and> db_step\<^sup>*\<^sup>* d empty_db"
proof -
  assume ok: "db_ok d"
  define d1 where "d1 = d\<lparr>analyses := [], projects := []\<rparr>"
  define d2 where "d2 = d1\<lparr>clients := []\<rparr>"
  define d3 where "d3 = d2\<lparr>developers := []\<rparr>"
  define d4 where "d4 = d3\<lparr>statuses := []\<rparr>"
  have r1: "db_run (map DelProject (project_ids d)) d = Inr d1"
    using run_del_projects [of "project_ids d" d] db_ok_analyses_projects [OF ok]
    by (simp add: d1_def project_ids_def filter_empty_conv)
  have r2: "db_run (map DelClient (map fst (clients d))) d1 = Inr d2"
    using run_del_clients [of d1 "map fst (clients d)"] by (simp add: d1_def d2_def filter_keys_all)
  have r3: "db_run (map DelDeveloper (map fst (developers d))) d2 = Inr d3"
    using run_del_developers [of d2 "map fst (developers d)"] by (simp add: d1_def d2_def d3_def filter_keys_all)
  have r4: "db_run (map DelStatus (map fst (statuses d))) d3 = Inr d4"
    using run_del_statuses [of d3 "map fst (statuses d)"] by (simp add: d1_def d2_def d3_def d4_def filter_keys_all)
  have r5: "db_run (map DelLanguage (map fst (languages d))) d4 = Inr empty_db"
    using run_del_languages [of "map fst (languages d)" d4]
    by (simp add: d1_def d2_def d3_def d4_def filter_keys_all empty_db_def)
  have "db_run (teardown_ops d) d = Inr empty_db"
    by (simp only: teardown_ops_def db_run_append r1 r2 r3 r4 r5 sum.case)
  then show ?thesis using db_run_steps by blast
qed

lemma db_teardown_live_witness:
  "db_ok sample_db \<and> db_run (teardown_ops sample_db) sample_db = Inr empty_db \<and> db_step\<^sup>*\<^sup>* sample_db empty_db"
proof -
  have ok: "db_ok sample_db" by code_simp
  show ?thesis using db_teardown_live [OF ok] ok by simp
qed

end
