(* ===== verification/Timestamps.thy ===== *)
theory Timestamps
  imports Database
begin

text \<open>
  The date-time fields that Django fills in itself: \<^verbatim>\<open>Contact.created_at\<close> and
  \<^verbatim>\<open>Project.created_at\<close> (\<^verbatim>\<open>auto_now_add=True\<close>) and \<^verbatim>\<open>Project.updated_at\<close>
  (\<^verbatim>\<open>auto_now=True\<close>). \<^verbatim>\<open>DateTimeField.pre_save\<close> runs on every
  \<^verbatim>\<open>Model.save()\<close> and \<^verbatim>\<open>bulk_create\<close>: on an insert both kinds take
  \<^verbatim>\<open>timezone.now()\<close>, on an update an \<^verbatim>\<open>auto_now\<close> field takes it and an
  \<^verbatim>\<open>auto_now_add\<close> field keeps the instance's value. \<^verbatim>\<open>QuerySet.update\<close> and
  deletes run no \<^verbatim>\<open>pre_save\<close>. The state is the database together with the clock
  \<^verbatim>\<open>timezone.now()\<close> reads, which never goes back.
\<close>

record timed_db =
  tdb :: db
  now :: int

subsection \<open>Saving through the model\<close>

text \<open>\<^verbatim>\<open>Client.objects.create\<close> / the admin's add form: \<^verbatim>\<open>created_at\<close> is now.\<close>

definition create_client :: "int \<Rightarrow> nat \<Rightarrow> client \<Rightarrow> db \<Rightarrow> db_error + db" where
  "create_client t k c d = insert_client k (c\<lparr>created_at := t\<rparr>) d"

definition create_developer :: "int \<Rightarrow> nat \<Rightarrow> developer \<Rightarrow> db \<Rightarrow> db_error + db" where
  "create_developer t k v d = insert_developer k (v\<lparr>created_at := t\<rparr>) d"

definition create_project :: "int \<Rightarrow> project \<Rightarrow> db \<Rightarrow> db_error + db" where
  "create_project t p d = insert_project (p\<lparr>project_created_at := t, updated_at := t\<rparr>) d"

text \<open>The admin's change form of a project: the stored row with the form's editable
  fields (\<^verbatim>\<open>id\<close>, \<^verbatim>\<open>created_at\<close> and \<^verbatim>\<open>updated_at\<close> are read-only there),
  saved by \<^verbatim>\<open>obj.save()\<close> as an \<^verbatim>\<open>UPDATE\<close> of that row, with
  \<^verbatim>\<open>updated_at\<close> set to now; the foreign keys are checked as on an insert. A row that
  no longer exists is not saved (the admin redirects).\<close>

definition change_row :: "int \<Rightarrow> project \<Rightarrow> project \<Rightarrow> project" where
  "change_row t f q =
     q\<lparr>project_name := project_name f, description := description f, image := image f,
       project_client := project_client f, project_developer := project_developer f,
       project_status := project_status f, deadline_planned := deadline_planned f,
       deadline_actual := deadline_actual f, planned_minutes := planned_minutes f,
       spent_minutes := spent_minutes f, cost := cost f, archive := archive f,
       is_public := is_public f, updated_at := t\<rparr>"

definition change_project :: "int \<Rightarrow> uuid \<Rightarrow> project \<Rightarrow> db \<Rightarrow> db_error + db" where
  "change_project t pid f d =
     (if pid \<notin> set (project_ids d) then Inr d
      else if project_client f \<notin> set (map fst (clients d))
        \<or> project_developer f \<notin> set (map fst (developers d))
        \<or> project_status f \<notin> set (map fst (statuses d))
      then Inl (IntegrityError ''FOREIGN KEY constraint failed'')
      else Inr (d\<lparr>projects := map (\<lambda>q. if project_id q = pid then change_row t f q else q) (projects d)\<rparr>))"

subsection \<open>The timed steps\<close>

datatype timed_op =
    CreateClient nat client
  | CreateDeveloper nat developer
  | CreateProject project
  | ChangeProject uuid project

fun tapply :: "timed_op \<Rightarrow> int \<Rightarrow> db \<Rightarrow> db_error + db" where
  "tapply (CreateClient k c) t d = create_client t k c d"
| "tapply (CreateDeveloper k v) t d = create_developer t k v d"
| "tapply (CreateProject p) t d = create_project t p d"
| "tapply (ChangeProject pid f) t d = change_project t pid f d"

text \<open>The operations of \<open>db_apply\<close> that write no timestamped row: every one but the
  inserts of clients, developers and projects (those go through \<open>tapply\<close>).\<close>

fun untimed :: "db_op \<Rightarrow> bool" where
  "untimed (AddClient _ _) = False"
| "untimed (AddDeveloper _ _) = False"
| "untimed (AddProject _) = False"
| "untimed _ = True"

inductive tstep :: "timed_db \<Rightarrow> timed_db \<Rightarrow> bool" where
  timed: "tapply op (now td) (tdb td) = Inr d' \<Longrightarrow> tstep td (td\<lparr>tdb := d'\<rparr>)"
| untimed: "untimed op \<Longrightarrow> db_apply op (tdb td) = Inr d' \<Longrightarrow> tstep td (td\<lparr>tdb := d'\<rparr>)"
| tick: "now td \<le> t \<Longrightarrow> tstep td (td\<lparr>now := t\<rparr>)"

inductive treachable :: "timed_db \<Rightarrow> bool" where
  init: "treachable \<lparr>tdb = empty_db, now = t\<rparr>"
| step: "treachable td \<Longrightarrow> tstep td td' \<Longrightarrow> treachable td'"

text \<open>The order the fields promise: no row is stamped in the future, and a project was
  last updated no earlier than it was created.\<close>

definition stamps_ok :: "timed_db \<Rightarrow> bool" where
  "stamps_ok td \<longleftrightarrow>
     list_all (\<lambda>(_, c). created_at c \<le> now td) (clients (tdb td)) \<and>
     list_all (\<lambda>(_, v). created_at v \<le> now td) (developers (tdb td)) \<and>
     list_all (\<lambda>p. project_created_at p \<le> updated_at p \<and> updated_at p \<le> now td) (projects (tdb td))"

text \<open>A sequence of events run in order; \<open>None\<close> when an operation fails, an insert
  bypasses the timed path, or the clock would go back.\<close>

datatype tevent = TOp timed_op | UOp db_op | Tick int

fun trun :: "tevent list \<Rightarrow> timed_db \<Rightarrow> timed_db option" where
  "trun [] td = Some td"
| "trun (TOp op # es) td =
     (case tapply op (now td) (tdb td) of Inl _ \<Rightarrow> None | Inr d' \<Rightarrow> trun es (td\<lparr>tdb := d'\<rparr>))"
| "trun (UOp op # es) td =
     (if untimed op then (case db_apply op (tdb td) of Inl _ \<Rightarrow> None | Inr d' \<Rightarrow> trun es (td\<lparr>tdb := d'\<rparr>))
      else None)"
| "trun (Tick t # es) td = (if now td \<le> t then trun es (td\<lparr>now := t\<rparr>) else None)"

text \<open>A project created at time 5, made public by the admin action at time 9, and edited
  in its change form at time 12.\<close>

definition stamp_events :: "tevent list" where
  "stamp_events =
     [Tick 5, TOp (CreateClient 1 sample_client), TOp (CreateDeveloper 1 sample_developer),
      UOp (AddStatus 1 sample_status), TOp (CreateProject sample_project), Tick 9,
      UOp (SetPublic [project_id sample_project] True)]"

subsection \<open>What each step does to the stamped rows\<close>

text \<open>An operation that writes no timestamp keeps or drops rows and leaves the stamps of
  those it keeps (\<^verbatim>\<open>QuerySet.update\<close> changes \<^verbatim>\<open>is_public\<close> only).\<close>

lemma untimed_rows:
  assumes "untimed op" "db_apply op d = Inr d'"
  shows "set (clients d') \<subseteq> set (clients d)" "set (developers d') \<subseteq> set (developers d)"
    "\<forall>p' \<in> set (projects d'). \<exists>p \<in> set (projects d).
        project_created_at p' = project_created_at p \<and> updated_at p' = updated_at p"
  using assms
  by (cases op; force simp: insert_status_def insert_language_def insert_analysis_def delete_client_def
      delete_developer_def delete_status_def delete_language_def delete_project_def update_is_public_def
      split: if_splits)+

lemma change_project_rows:
  "change_project t pid f d = Inr d' \<Longrightarrow>
   clients d' = clients d \<and> developers d' = developers d \<and>
   (\<forall>p' \<in> set (projects d'). \<exists>p \<in> set (projects d).
      project_created_at p' = project_created_at p \<and> (updated_at p' = updated_at p \<or> updated_at p' = t))"
  by (force simp: change_project_def change_row_def split: if_splits)

lemma stamps_ok_tick: "stamps_ok td \<Longrightarrow> now td \<le> t \<Longrightarrow> stamps_ok (td\<lparr>now := t\<rparr>)"
  by (auto simp: stamps_ok_def list_all_iff)

lemma tstep_stamps_ok: "tstep td td' \<Longrightarrow> stamps_ok td \<Longrightarrow> stamps_ok td'"
proof (induction rule: tstep.induct)
  case (timed op td d')
  then show ?case
  proof (cases op)
    case (ChangeProject pid f)
    with timed have "clients d' = clients (tdb td) \<and> developers d' = developers (tdb td) \<and>
        (\<forall>p' \<in> set (projects d'). \<exists>p \<in> set (projects (tdb td)).
           project_created_at p' = project_created_at p \<and> (updated_at p' = updated_at p \<or> updated_at p' = now td))"
      by (simp add: change_project_rows)
    with timed.prems show ?thesis by (fastforce simp: stamps_ok_def list_all_iff)
  qed (use timed in \<open>auto simp: stamps_ok_def list_all_iff create_client_def create_developer_def
         create_project_def insert_client_def insert_developer_def insert_project_def split: if_splits\<close>)
next
  case (untimed op td d')
  from untimed_rows [OF untimed.hyps] untimed.prems show ?case
    by (fastforce simp: stamps_ok_def list_all_iff)
next
  case (tick td t)
  show ?case by (rule stamps_ok_tick [OF tick.prems tick.hyps])
qed

subsection \<open>Integrity and reachability\<close>

lemma change_row_id [simp]: "project_id (change_row t f q) = project_id q"
  by (simp add: change_row_def)

lemma change_project_ok: "db_ok d \<Longrightarrow> change_project t pid f d = Inr d' \<Longrightarrow> db_ok d'"
proof (cases "pid \<in> set (project_ids d)")
  case False
  assume "db_ok d" "change_project t pid f d = Inr d'"
  with False show "db_ok d'" by (simp add: change_project_def)
next
  case True
  assume ok: "db_ok d" and ch: "change_project t pid f d = Inr d'"
  define ps' where "ps' = map (\<lambda>q. if project_id q = pid then change_row t f q else q) (projects d)"
  from ch True have d': "d' = d\<lparr>projects := ps'\<rparr>"
    and fk: "project_client f \<in> set (map fst (clients d))" "project_developer f \<in> set (map fst (developers d))"
      "project_status f \<in> set (map fst (statuses d))"
    by (auto simp: change_project_def ps'_def split: if_splits)
  have ids: "map project_id ps' = map project_id (projects d)"
    by (simp add: ps'_def comp_def if_distrib)
  have rows: "list_all (\<lambda>p. project_client p \<in> set (map fst (clients d)) \<and>
      project_developer p \<in> set (map fst (developers d)) \<and> project_status p \<in> set (map fst (statuses d))) ps'"
    using ok fk by (auto simp: ps'_def db_ok_def list_all_iff change_row_def intro: rev_image_eqI)
  show "db_ok d'"
    using ok rows unfolding d' db_ok_def project_ids_def by (simp add: ids)
qed

lemma tapply_ok: "db_ok d \<Longrightarrow> tapply op t d = Inr d' \<Longrightarrow> db_ok d'"
  by (cases op) (auto simp: create_client_def create_developer_def create_project_def
      intro: insert_client_ok insert_developer_ok insert_project_ok change_project_ok)

lemma tstep_db_ok: "tstep td td' \<Longrightarrow> db_ok (tdb td) \<Longrightarrow> db_ok (tdb td')"
  by (induction rule: tstep.induct) (auto intro: tapply_ok db_apply_ok)

lemma trun_reachable: "trun es td = Some td' \<Longrightarrow> treachable td \<Longrightarrow> treachable td'"
proof (induction es td rule: trun.induct)
  case (2 op es td)
  then show ?case
    by (auto split: sum.splits intro: treachable.step tstep.timed)
next
  case (3 op es td)
  then show ?case
    by (auto split: sum.splits if_splits intro: treachable.step tstep.untimed)
next
  case (4 t es td)
  then show ?case
    by (auto split: if_splits intro: treachable.step tstep.tick)
qed simp

text \<open>C28: the timestamps Django maintains keep their order in every state the ORM
  can reach with a clock that never goes back: no client, developer or project is stamped
  after the current time, and a project's \<^verbatim>\<open>updated_at\<close> is never before its
  \<^verbatim>\<open>created_at\<close>; the database also keeps its integrity rules.\<close>

theorem treachable_stamps_ok: "treachable td \<Longrightarrow> stamps_ok td \<and> db_ok (tdb td)"
proof (induction rule: treachable.induct)
  case (init t)
  show ?case by (simp add: stamps_ok_def empty_db_def empty_db_ok [unfolded empty_db_def])
next
  case (step td td')
  then show ?case using tstep_stamps_ok tstep_db_ok by blast
qed

lemma stamp_run:
  "trun stamp_events \<lparr>tdb = empty_db, now = 0\<rparr> =
     Some \<lparr>tdb = empty_db\<lparr>clients := [(1, sample_client\<lparr>created_at := 5\<rparr>)],
             developers := [(1, sample_developer\<lparr>created_at := 5\<rparr>)], statuses := [(1, sample_status)],
             projects := [sample_project\<lparr>project_created_at := 5, updated_at := 5, is_public := True\<rparr>]\<rparr>,
           now = 9\<rparr>"
  by code_simp

lemma treachable_stamps_ok_witness:
  "treachable \<lparr>tdb = empty_db\<lparr>clients := [(1, sample_client\<lparr>created_at := 5\<rparr>)],
             developers := [(1, sample_developer\<lparr>created_at := 5\<rparr>)], statuses := [(1, sample_status)],
             projects := [sample_project\<lparr>project_created_at := 5, updated_at := 5, is_public := True\<rparr>]\<rparr>,
           now = 9\<rparr> \<and>
   updated_at (sample_project\<lparr>project_created_at := 5, updated_at := 5, is_public := True\<rparr>) \<le> 9"
proof -
  have r: "treachable \<lparr>tdb = empty_db\<lparr>clients := [(1, sample_client\<lparr>created_at := 5\<rparr>)],
             developers := [(1, sample_developer\<lparr>created_at := 5\<rparr>)], statuses := [(1, sample_status)],
             projects := [sample_project\<lparr>project_created_at := 5, updated_at := 5, is_public := True\<rparr>]\<rparr>,
           now = 9\<rparr>"
    by (rule trun_reachable [OF stamp_run treachable.init])
  show ?thesis using treachable_stamps_ok [OF r] r by (simp add: stamps_ok_def)
qed

end
