(* ===== verification/Orm.thy ===== *)
theory Orm
  imports Database "HOL-Library.List_Lexorder" "HOL-Library.Char_ord"
begin

text \<open>
  The model metadata Django derives from \<^verbatim>\<open>models.py\<close> and the name resolution of
  queryset expressions. Every model has its concrete fields (a foreign key contributes its
  name and its \<^verbatim>\<open>attname\<close> \<open>field_id\<close>, and the implicit primary key \<^verbatim>\<open>id\<close> is
  added where none is declared) and a reverse relation for every foreign key pointing to
  it, named by the key's \<^verbatim>\<open>related_name\<close> or, without one, by the lower-case name of
  the model declaring the key. \<^verbatim>\<open>Query.names_to_path\<close> resolves a name among these
  and otherwise raises \<^verbatim>\<open>FieldError("Cannot resolve keyword '...' into field. Choices
  are: ...")\<close> with the sorted names. \<open>annotate_count\<close> is
  \<^verbatim>\<open>annotate(n=Count(name))\<close> read on the row with key \<open>k\<close>.
\<close>

datatype model_id = ClientM | DeveloperM | ProjectStatusM | LanguageM | ProjectM | ProjectAnalysisM

text \<open>\<^verbatim>\<open>Model._meta.model_name\<close>.\<close>

fun model_name :: "model_id \<Rightarrow> string" where
  "model_name ClientM = ''client''"
| "model_name DeveloperM = ''developer''"
| "model_name ProjectStatusM = ''projectstatus''"
| "model_name LanguageM = ''language''"
| "model_name ProjectM = ''project''"
| "model_name ProjectAnalysisM = ''projectanalysis''"

text \<open>The field classes the models use; the implicit primary key \<^verbatim>\<open>id\<close> is an
  \<^verbatim>\<open>AutoField\<close> (no \<^verbatim>\<open>DEFAULT_AUTO_FIELD\<close> is set).\<close>

datatype field_kind =
    AutoField | UUIDField | CharField | TextField | EmailField | URLField | DateTimeField
  | PositiveIntegerField | DecimalField | BooleanField | ImageField | FileField

text \<open>A concrete field other than a foreign key: its name, its class, and whether it is
  editable (\<^verbatim>\<open>editable=False\<close>, \<^verbatim>\<open>auto_now\<close> and \<^verbatim>\<open>auto_now_add\<close> make it
  not). \<^verbatim>\<open>Client\<close> and \<^verbatim>\<open>Developer\<close> inherit those of the abstract \<^verbatim>\<open>Contact\<close>.\<close>

type_synonym field_decl = "string \<times> field_kind \<times> bool"

definition contact_fields :: "field_decl list" where
  "contact_fields =
     [(''id'', AutoField, True), (''name'', CharField, True), (''email'', EmailField, True),
      (''phone'', CharField, True), (''tg_username'', CharField, True), (''contact_url'', URLField, True),
      (''note'', TextField, True), (''created_at'', DateTimeField, False)]"

definition client_fields :: "field_decl list" where
  "client_fields = contact_fields @ [(''company'', CharField, True)]"

definition developer_fields :: "field_decl list" where
  "developer_fields =
     contact_fields @ [(''github_username'', CharField, True), (''portfolio_url'', URLField, True)]"

definition status_fields :: "field_decl list" where
  "status_fields =
     [(''id'', AutoField, True), (''name'', CharField, True), (''color'', CharField, True),
      (''order'', PositiveIntegerField, True)]"

definition language_fields :: "field_decl list" where
  "language_fields =
     [(''id'', AutoField, True), (''name'', CharField, True), (''color'', CharField, True),
      (''icon'', CharField, True)]"

definition project_fields :: "field_decl list" where
  "project_fields =
     [(''id'', UUIDField, False), (''name'', CharField, True), (''description'', TextField, True),
      (''image'', ImageField, True), (''archive'', FileField, True), (''deadline_planned'', DateTimeField, True),
      (''deadline_actual'', DateTimeField, True), (''planned_minutes'', PositiveIntegerField, True),
      (''spent_minutes'', PositiveIntegerField, True), (''cost'', DecimalField, True),
      (''created_at'', DateTimeField, False), (''updated_at'', DateTimeField, False),
      (''is_public'', BooleanField, True)]"

definition analysis_fields :: "field_decl list" where
  "analysis_fields =
     [(''id'', AutoField, True), (''lines_count'', PositiveIntegerField, True),
      (''percentage'', DecimalField, True)]"

fun model_fields :: "model_id \<Rightarrow> field_decl list" where
  "model_fields ClientM = client_fields"
| "model_fields DeveloperM = developer_fields"
| "model_fields ProjectStatusM = status_fields"
| "model_fields LanguageM = language_fields"
| "model_fields ProjectM = project_fields"
| "model_fields ProjectAnalysisM = analysis_fields"

lemmas model_field_defs = client_fields_def developer_fields_def status_fields_def language_fields_def
  project_fields_def analysis_fields_def contact_fields_def

definition local_fields :: "model_id \<Rightarrow> string list" where
  "local_fields m = map fst (model_fields m)"

record fk_decl =
  fk_model :: model_id
  fk_field :: string
  fk_target :: model_id
  fk_related_name :: "string option"

definition foreign_keys :: "fk_decl list" where
  "foreign_keys =
     [\<lparr>fk_model = ProjectM, fk_field = ''client'', fk_target = ClientM, fk_related_name = Some ''projects''\<rparr>,
      \<lparr>fk_model = ProjectM, fk_field = ''developer'', fk_target = DeveloperM, fk_related_name = Some ''projects''\<rparr>,
      \<lparr>fk_model = ProjectM, fk_field = ''status'', fk_target = ProjectStatusM, fk_related_name = None\<rparr>,
      \<lparr>fk_model = ProjectAnalysisM, fk_field = ''project'', fk_target = ProjectM, fk_related_name = Some ''analysis''\<rparr>,
      \<lparr>fk_model = ProjectAnalysisM, fk_field = ''language'', fk_target = LanguageM, fk_related_name = None\<rparr>]"

text \<open>\<^verbatim>\<open>ForeignKey.related_query_name()\<close>.\<close>

definition related_query_name :: "fk_decl \<Rightarrow> string" where
  "related_query_name f = (case fk_related_name f of Some r \<Rightarrow> r | None \<Rightarrow> model_name (fk_model f))"

text \<open>\<^verbatim>\<open>get_field_names_from_opts\<close>: names and attnames of the concrete fields, names of
  the reverse relations.\<close>

definition field_names :: "model_id \<Rightarrow> string list" where
  "field_names m =
     local_fields m @
     concat [[fk_field f, fk_field f @ ''_id'']. f \<leftarrow> foreign_keys, fk_model f = m] @
     [related_query_name f. f \<leftarrow> foreign_keys, fk_target f = m]"

datatype lookup_target = LocalField string | ForwardKey fk_decl | ReverseKey fk_decl

fun join_comma :: "string list \<Rightarrow> string" where
  "join_comma [] = []"
| "join_comma [x] = x"
| "join_comma (x # y # zs) = x @ '', '' @ join_comma (y # zs)"

definition field_error_msg :: "model_id \<Rightarrow> string \<Rightarrow> string" where
  "field_error_msg m nm =
     ''Cannot resolve keyword '' @ [CHR 0x27] @ nm @ [CHR 0x27] @ '' into field. Choices are: '' @
     join_comma (sort (remdups (field_names m)))"

text \<open>\<^verbatim>\<open>Options.get_field\<close> as \<^verbatim>\<open>names_to_path\<close> uses it for one name: a
  concrete field, a foreign key by its name or its \<^verbatim>\<open>attname\<close>, a reverse relation by
  its query name.\<close>

definition names_to_path :: "model_id \<Rightarrow> string \<Rightarrow> py_error + lookup_target" where
  "names_to_path m nm =
     (if nm \<in> set (local_fields m) then Inr (LocalField nm)
      else case find (\<lambda>f. fk_model f = m \<and> (fk_field f = nm \<or> fk_field f @ ''_id'' = nm)) foreign_keys of
        Some f \<Rightarrow> Inr (ForwardKey f)
      | None \<Rightarrow>
          (case find (\<lambda>f. fk_target f = m \<and> related_query_name f = nm) foreign_keys of
             Some f \<Rightarrow> Inr (ReverseKey f)
           | None \<Rightarrow> Inl (FieldError (field_error_msg m nm))))"

text \<open>The primary key of a row, and the rows of the declaring model whose key field holds it.\<close>

datatype obj_key = NatKey nat | UuidKey uuid

fun fk_rows :: "db \<Rightarrow> fk_decl \<Rightarrow> obj_key \<Rightarrow> nat" where
  "fk_rows d f (NatKey k) =
     (if fk_model f = ProjectM \<and> fk_field f = ''client'' then length (filter (\<lambda>p. project_client p = k) (projects d))
      else if fk_model f = ProjectM \<and> fk_field f = ''developer'' then length (filter (\<lambda>p. project_developer p = k) (projects d))
      else if fk_model f = ProjectM \<and> fk_field f = ''status'' then length (filter (\<lambda>p. project_status p = k) (projects d))
      else if fk_model f = ProjectAnalysisM \<and> fk_field f = ''language''
        then length (filter (\<lambda>a. analysis_language a = k) (analyses d))
      else 0)"
| "fk_rows d f (UuidKey uid) =
     (if fk_model f = ProjectAnalysisM \<and> fk_field f = ''project''
      then length (filter (\<lambda>a. analysis_project a = uid) (analyses d)) else 0)"

text \<open>\<^verbatim>\<open>qs.annotate(n=Count(name))\<close> on the row with key \<open>k\<close>: a reverse relation
  counts the related rows (a \<^verbatim>\<open>LEFT OUTER JOIN\<close> grouped by the row); a column of the
  row itself counts once (NULL columns, which the code never counts, are not told apart).\<close>

definition annotate_count :: "db \<Rightarrow> model_id \<Rightarrow> string \<Rightarrow> obj_key \<Rightarrow> py_error + nat" where
  "annotate_count d m nm k =
     (case names_to_path m nm of
        Inl e \<Rightarrow> Inl e
      | Inr (ReverseKey f) \<Rightarrow> Inr (fk_rows d f k)
      | Inr _ \<Rightarrow> Inr 1)"


subsection \<open>Resolution of the names the admin counts\<close>

lemma reverse_projects:
  "names_to_path ClientM ''projects'' = Inr (ReverseKey (foreign_keys ! 0))"
  "names_to_path DeveloperM ''projects'' = Inr (ReverseKey (foreign_keys ! 1))"
  "fk_rows d (foreign_keys ! 0) (NatKey k) = length (filter (\<lambda>p. project_client p = k) (projects d))"
  "fk_rows d (foreign_keys ! 1) (NatKey k) = length (filter (\<lambda>p. project_developer p = k) (projects d))"
  by (simp_all add: names_to_path_def foreign_keys_def related_query_name_def local_fields_def model_field_defs)

lemma unresolved_count_names:
  "names_to_path ProjectStatusM ''projects'' =
     Inl (FieldError (''Cannot resolve keyword '' @ [CHR 0x27] @ ''projects'' @ [CHR 0x27] @
       '' into field. Choices are: color, id, name, order, project''))"
  "names_to_path LanguageM ''analysis'' =
     Inl (FieldError (''Cannot resolve keyword '' @ [CHR 0x27] @ ''analysis'' @ [CHR 0x27] @
       '' into field. Choices are: color, icon, id, name, projectanalysis''))"
  by (simp_all add: names_to_path_def field_error_msg_def field_names_def foreign_keys_def
      related_query_name_def local_fields_def model_field_defs less_eq_char_def less_char_def)

end
