(* ===== verification/Admin.thy ===== *)
theory Admin
  imports Orm
begin

text \<open>
  The Django admin of \<^verbatim>\<open>src/backend/projects/admin.py\<close>: the count columns the
  \<^verbatim>\<open>get_queryset\<close> overrides annotate (\<^verbatim>\<open>Count('projects')\<close>, \<^verbatim>\<open>Count('analysis')\<close>),
  the HTML columns built with \<^verbatim>\<open>format_html\<close> (which passes every argument through
  \<^verbatim>\<open>conditional_escape\<close>, i.e. \<^verbatim>\<open>html.escape\<close> for plain strings), the
  \<^verbatim>\<open>archive_exist\<close> flag, the three actions of \<^verbatim>\<open>ProjectAdmin\<close>
  (\<^verbatim>\<open>make_public\<close>, \<^verbatim>\<open>make_private\<close>, \<^verbatim>\<open>analyze_code\<close>) as transformations of an
  admin state (the database, the messages shown to the user, the analysis tasks started),
  and the permissions of the read-only analysis admin and inline. The order in which a
  queryset yields its rows (\<^verbatim>\<open>ordering = ['-created_at']\<close>) is not modelled: the actions
  depend only on which rows are selected.
\<close>

subsection \<open>Counts\<close>

text \<open>\<^verbatim>\<open>get_queryset\<close> annotates \<^verbatim>\<open>Count('projects')\<close> (clients, developers,
  statuses) or \<^verbatim>\<open>Count('analysis')\<close> (languages); the count column reads the annotation.
  The annotation is resolved when the queryset is built, so a name that does not resolve
  fails the whole changelist (and every view using the admin's queryset).\<close>

definition client_projects_count :: "db \<Rightarrow> nat \<Rightarrow> py_error + nat" where
  "client_projects_count d k = annotate_count d ClientM ''projects'' (NatKey k)"

definition developer_projects_count :: "db \<Rightarrow> nat \<Rightarrow> py_error + nat" where
  "developer_projects_count d k = annotate_count d DeveloperM ''projects'' (NatKey k)"

definition status_projects_count :: "db \<Rightarrow> nat \<Rightarrow> py_error + nat" where
  "status_projects_count d k = annotate_count d ProjectStatusM ''projects'' (NatKey k)"

definition language_usage_count :: "db \<Rightarrow> nat \<Rightarrow> py_error + nat" where
  "language_usage_count d k = annotate_count d LanguageM ''analysis'' (NatKey k)"

subsection \<open>HTML columns\<close>

text \<open>\<^verbatim>\<open>html.escape(s, quote=True)\<close>: \<^verbatim>\<open>&\<close> first, then \<^verbatim>\<open><\<close>, \<^verbatim>\<open>>\<close>,
  \<^verbatim>\<open>"\<close> and \<^verbatim>\<open>'\<close>; replacing \<^verbatim>\<open>&\<close> first makes it a map on characters.\<close>

definition esc_char :: "nat \<Rightarrow> pystr" where
  "esc_char c =
     (if c = 38 then u ''&amp;'' else if c = 60 then u ''&lt;'' else if c = 62 then u ''&gt;''
      else if c = 34 then u ''&quot;'' else if c = 39 then u ''&#x27;'' else [c])"

definition html_escape :: "pystr \<Rightarrow> pystr" where
  "html_escape s = concat (map esc_char s)"

definition color_preview :: "pystr \<Rightarrow> pystr" where
  "color_preview color =
     u ''<div style='' @ [34] @ u ''width:20px;height:20px;background:'' @ html_escape color @
     u '';border:1px solid #ccc;border-radius:3px;'' @ [34] @ u ''></div>''"

definition icon_preview :: "language \<Rightarrow> pystr" where
  "icon_preview l =
     (if icon l = [] then [8212]
      else u ''<i class='' @ [34] @ html_escape (icon l) @ [34] @ u ''></i>'')"

definition status_colored :: "project_status \<Rightarrow> pystr" where
  "status_colored s =
     u ''<span style='' @ [34] @ u ''color:'' @ html_escape (status_color s) @ u '';font-weight:bold;'' @
     [34] @ u ''>'' @ [9679] @ u ''</span>&nbsp;'' @ html_escape (status_name s)"

text \<open>\<^verbatim>\<open>bool(obj.archive)\<close>: a \<^verbatim>\<open>FieldFile\<close> is true when it has a name.\<close>

definition archive_exist :: "project \<Rightarrow> bool" where
  "archive_exist p \<longleftrightarrow> (case archive p of None \<Rightarrow> False | Some n \<Rightarrow> n \<noteq> [])"

subsection \<open>Actions\<close>

datatype msg_level = INFO | WARNING

record admin_state =
  adb :: db
  messages :: "(pystr \<times> msg_level) list"
  tasks :: "uuid list"

definition make_public :: "uuid list \<Rightarrow> admin_state \<Rightarrow> admin_state" where
  "make_public sel st =
     (let (updated, d) = update_is_public sel True (adb st) in
      st\<lparr>adb := d, messages := messages st @ [(u ''Made public: '' @ u (str_nat updated) @ u '' project(s).'', INFO)]\<rparr>)"

definition make_private :: "uuid list \<Rightarrow> admin_state \<Rightarrow> admin_state" where
  "make_private sel st =
     (let (updated, d) = update_is_public sel False (adb st) in
      st\<lparr>adb := d, messages := messages st @ [(u ''Made private: '' @ u (str_nat updated) @ u '' project(s).'', INFO)]\<rparr>)"

text \<open>\<^verbatim>\<open>hasattr(project, 'run_analysis_async')\<close>: whether a name is an attribute of a
  \<^verbatim>\<open>Project\<close> instance, given the attribute names \<open>attrs\<close> its class provides.\<close>

definition has_run_analysis_async :: "string list \<Rightarrow> project \<Rightarrow> bool" where
  "has_run_analysis_async attrs p \<longleftrightarrow> ''run_analysis_async'' \<in> set attrs"

text \<open>The attributes \<^verbatim>\<open>Project\<close> of models.py gives its instances: its fields (a
  foreign key also by its \<^verbatim>\<open>attname\<close>), the reverse relation \<^verbatim>\<open>analysis\<close> of
  \<^verbatim>\<open>ProjectAnalysis.project\<close>, the \<^verbatim>\<open>Meta\<close> class and \<^verbatim>\<open>__str__\<close>. The
  methods \<^verbatim>\<open>models.Model\<close> adds (\<^verbatim>\<open>save\<close>, \<^verbatim>\<open>delete\<close>, \<^verbatim>\<open>pk\<close>, ...)
  include no \<^verbatim>\<open>run_analysis_async\<close> either.\<close>

definition project_attrs :: "string list" where
  "project_attrs =
     [''id'', ''name'', ''description'', ''client'', ''client_id'', ''developer'', ''developer_id'',
      ''status'', ''status_id'', ''image'', ''archive'', ''deadline_planned'', ''deadline_actual'',
      ''planned_minutes'', ''spent_minutes'', ''cost'', ''created_at'', ''updated_at'', ''is_public'',
      ''Meta'', ''__str__'', ''analysis'', ''pk'', ''save'', ''delete'']"

text \<open>The loop of \<^verbatim>\<open>analyze_code\<close>: the started tasks, in queryset order.\<close>

fun analyze_loop :: "string list \<Rightarrow> project list \<Rightarrow> uuid list" where
  "analyze_loop attrs [] = []"
| "analyze_loop attrs (p # ps) =
     (if archive_exist p \<and> has_run_analysis_async attrs p then project_id p # analyze_loop attrs ps
      else analyze_loop attrs ps)"

definition no_archives_msg :: pystr where
  "no_archives_msg = u ''No archives found in selected projects.''"

definition analyze_code :: "string list \<Rightarrow> uuid list \<Rightarrow> admin_state \<Rightarrow> admin_state" where
  "analyze_code attrs sel st =
     (let started = analyze_loop attrs (filter (\<lambda>p. project_id p \<in> set sel) (projects (adb st))) in
      st\<lparr>tasks := tasks st @ started,
         messages := messages st @
           [if length started \<noteq> 0
            then (u ''Analysis started for '' @ u (str_nat (length started)) @ u '' project(s).'', INFO)
            else (no_archives_msg, WARNING)]\<rparr>)"

subsection \<open>Permissions of the analysis admin and inline\<close>

datatype admin_action = AdminView | AdminAdd | AdminChange | AdminDelete

text \<open>\<open>perm\<close> is whether the user holds the model permission of the action; the
  overridden methods return \<^verbatim>\<open>False\<close>, the others are \<^verbatim>\<open>ModelAdmin\<close>'s defaults
  (viewing needs the view or the change permission, which the user may hold). Every field the
  inline shows is in its \<^verbatim>\<open>readonly_fields\<close>, so its change permission changes nothing.\<close>

definition analysis_admin_allows :: "admin_action \<Rightarrow> bool \<Rightarrow> bool" where
  "analysis_admin_allows act perm =
     (case act of AdminAdd \<Rightarrow> False | AdminChange \<Rightarrow> False | AdminDelete \<Rightarrow> perm | AdminView \<Rightarrow> perm)"

definition analysis_inline_allows :: "admin_action \<Rightarrow> bool \<Rightarrow> bool" where
  "analysis_inline_allows act perm =
     (case act of AdminAdd \<Rightarrow> False | AdminChange \<Rightarrow> perm | AdminDelete \<Rightarrow> perm | AdminView \<Rightarrow> perm)"


text \<open>\<^verbatim>\<open>html.unescape\<close> restricted to the five references \<^verbatim>\<open>html.escape\<close> produces:
  the reading of a rendered column back into text.\<close>

function html_unescape :: "pystr \<Rightarrow> pystr" where
  "html_unescape xs =
     (if xs = [] then []
      else if hd xs \<noteq> 38 then hd xs # html_unescape (tl xs)
      else if take 5 xs = u ''&amp;'' then 38 # html_unescape (drop 5 xs)
      else if take 4 xs = u ''&lt;'' then 60 # html_unescape (drop 4 xs)
      else if take 4 xs = u ''&gt;'' then 62 # html_unescape (drop 4 xs)
      else if take 6 xs = u ''&quot;'' then 34 # html_unescape (drop 6 xs)
      else if take 6 xs = u ''&#x27;'' then 39 # html_unescape (drop 6 xs)
      else 38 # html_unescape (tl xs))"
  by pat_completeness auto
termination
  by (relation "measure length") auto

declare html_unescape.simps [simp del]

subsection \<open>Lemmas\<close>

lemma esc_char_no_markup: "x \<in> set (esc_char c) \<Longrightarrow> x \<noteq> 34 \<and> x \<noteq> 39 \<and> x \<noteq> 60 \<and> x \<noteq> 62 \<or> x = c \<and> c \<noteq> 34 \<and> c \<noteq> 39 \<and> c \<noteq> 60 \<and> c \<noteq> 62"
  by (auto simp: esc_char_def u_def split: if_splits)

lemma html_escape_no_markup: "c \<in> {34, 39, 60, 62} \<Longrightarrow> count_list (html_escape s) c = 0"
  by (induction s) (auto simp: html_escape_def esc_char_def u_def)

lemma html_escape_Cons: "html_escape (c # s) = esc_char c @ html_escape s"
  by (simp add: html_escape_def)

lemma html_unescape_esc_char: "html_unescape (esc_char c @ rest) = c # html_unescape rest"
proof (cases "c = 38 \<or> c = 60 \<or> c = 62 \<or> c = 34 \<or> c = 39")
  case True
  then show ?thesis by (auto simp: esc_char_def u_def html_unescape.simps [of "_ # _"])
next
  case False
  then show ?thesis by (simp add: esc_char_def html_unescape.simps [of "c # rest"])
qed


lemma html_unescape_Nil: "html_unescape [] = []"
  by (simp add: html_unescape.simps)

lemma update_is_public_step: "db_step d (snd (update_is_public sel b d))"
  by (rule db_step.step [of "SetPublic sel b"]) simp

subsection \<open>Properties\<close>

text \<open>What an HTML column shows can be read back: un-escaping the escaped text gives the
  text again, so distinct names and colours are displayed distinctly.\<close>

lemma html_escape_roundtrip: "html_unescape (html_escape s) = s"
  by (induction s) (simp_all add: html_escape_def html_unescape_Nil html_unescape_esc_char)

text \<open>C18: the data cannot break out of the markup of the HTML columns: whatever the colour,
  name or icon stored, \<^verbatim>\<open>color_preview\<close>, \<^verbatim>\<open>status_colored\<close> and
  \<^verbatim>\<open>icon_preview\<close> contain exactly the quotes and angle brackets of their templates.\<close>

theorem html_columns_markup:
  "count_list (color_preview c) 34 = 2 \<and> count_list (color_preview c) 60 = 2 \<and>
   count_list (color_preview c) 62 = 2 \<and>
   count_list (status_colored s) 34 = 2 \<and> count_list (status_colored s) 60 = 2 \<and>
   count_list (status_colored s) 62 = 2 \<and>
   count_list (icon_preview l) 34 = (if icon l = [] then 0 else 2) \<and>
   count_list (icon_preview l) 60 = (if icon l = [] then 0 else 2) \<and>
   count_list (icon_preview l) 62 = (if icon l = [] then 0 else 2)"
  by (simp add: color_preview_def status_colored_def icon_preview_def html_escape_no_markup u_def)

text \<open>C19: the Projects column of the client and developer admins is zero exactly when
  the row can be deleted: a referenced row is protected (\<^verbatim>\<open>on_delete=PROTECT\<close>).\<close>

theorem delete_iff_projects_count:
  "((\<exists>d'. delete_client k d = Inr d') \<longleftrightarrow> client_projects_count d k = Inr 0) \<and>
   ((\<exists>d'. delete_developer k d = Inr d') \<longleftrightarrow> developer_projects_count d k = Inr 0)"
proof -
  have "client_projects_count d k = Inr (length (filter (\<lambda>p. project_client p = k) (projects d)))"
    "developer_projects_count d k = Inr (length (filter (\<lambda>p. project_developer p = k) (projects d)))"
    by (simp_all only: client_projects_count_def developer_projects_count_def annotate_count_def
        reverse_projects lookup_target.case sum.case)
  then show ?thesis
    by (simp add: delete_client_def delete_developer_def list_ex_iff filter_empty_conv)
qed

text \<open>The count columns of the status and language admins cannot be computed: neither
  \<^verbatim>\<open>Project.status\<close> nor \<^verbatim>\<open>ProjectAnalysis.language\<close> declares a
  \<^verbatim>\<open>related_name\<close>, so their reverse relations are \<^verbatim>\<open>project\<close> and
  \<^verbatim>\<open>projectanalysis\<close>, and \<^verbatim>\<open>Count('projects')\<close> and \<^verbatim>\<open>Count('analysis')\<close>
  raise \<^verbatim>\<open>FieldError\<close> for every database and row.\<close>

lemma admin_count_columns_fail:
  "status_projects_count d k =
     Inl (FieldError (''Cannot resolve keyword '' @ [CHR 0x27] @ ''projects'' @ [CHR 0x27] @
       '' into field. Choices are: color, id, name, order, project'')) \<and>
   language_usage_count d k =
     Inl (FieldError (''Cannot resolve keyword '' @ [CHR 0x27] @ ''analysis'' @ [CHR 0x27] @
       '' into field. Choices are: color, icon, id, name, projectanalysis''))"
  by (simp only: status_projects_count_def language_usage_count_def annotate_count_def
      unresolved_count_names sum.case)


text \<open>C23: \<^verbatim>\<open>make_public\<close> sets the flag of exactly the selected projects, changes
  nothing else in their rows, and is a database step, so it keeps a reachable database
  reachable.\<close>

theorem make_public_effect:
  assumes "db_reachable (adb st)"
  shows "map (\<lambda>p. (project_id p, is_public p)) (projects (adb (make_public sel st))) =
           map (\<lambda>p. (project_id p, project_id p \<in> set sel \<or> is_public p)) (projects (adb st)) \<and>
         map (\<lambda>p. p\<lparr>is_public := False\<rparr>) (projects (adb (make_public sel st))) =
           map (\<lambda>p. p\<lparr>is_public := False\<rparr>) (projects (adb st)) \<and>
         db_reachable (adb (make_public sel st))"
proof -
  have "adb (make_public sel st) = snd (update_is_public sel True (adb st))"
    by (simp add: make_public_def split: prod.splits)
  moreover have "db_reachable (snd (update_is_public sel True (adb st)))"
    by (rule db_reachable.extend [OF assms update_is_public_step])
  ultimately show ?thesis by (simp add: update_is_public_def)
qed


lemma make_public_effect_witness:
  "db_reachable (adb \<lparr>adb = sample_db, messages = [], tasks = []\<rparr>) \<and>
   map (\<lambda>p. (project_id p, is_public p))
     (projects (adb (make_public [project_id sample_project] \<lparr>adb = sample_db, messages = [], tasks = []\<rparr>))) =
   [(project_id sample_project, True)]"
proof -
  have r: "db_reachable (adb \<lparr>adb = sample_db, messages = [], tasks = []\<rparr>)" by (simp add: sample_db_reachable)
  show ?thesis using make_public_effect [OF r, of "[project_id sample_project]"] r by (simp add: sample_db_def)
qed

end
