(* ===== verification/AdminSite.thy ===== *)
theory AdminSite
  imports Orm
begin

text \<open>
  The \<^verbatim>\<open>ModelAdmin\<close> classes of \<^verbatim>\<open>admin.py\<close> as the options they set, the
  registry \<^verbatim>\<open>@admin.register\<close> builds, and what Django does with the options: the
  admin system checks run at start-up (\<^verbatim>\<open>django.contrib.admin.checks\<close>, which stop
  \<^verbatim>\<open>manage.py\<close> on an error), the model form built from the fieldsets when a change page
  opens (\<^verbatim>\<open>ModelAdmin.get_form\<close>, \<^verbatim>\<open>fields_for_model\<close>), and the lookups a
  search builds from \<^verbatim>\<open>search_fields\<close> (\<^verbatim>\<open>ModelAdmin.get_search_results\<close>).
  Names are resolved by \<open>names_to_path\<close> of \<open>Orm\<close>; a lookup path
  \<^verbatim>\<open>a__b\<close> follows the relations as \<^verbatim>\<open>get_fields_from_path\<close> does.
\<close>

datatype check_error = CheckError string string

record inline_admin =
  inl_model :: model_id
  inl_methods :: "string list"
  inl_readonly :: "string list"

text \<open>The options a \<^verbatim>\<open>ModelAdmin\<close> subclass sets (the others keep Django's defaults:
  no \<^verbatim>\<open>list_display_links\<close>, no \<^verbatim>\<open>exclude\<close>) and the methods it defines.\<close>

record model_admin =
  ma_model :: model_id
  ma_methods :: "string list"
  list_display :: "string list"
  list_filter :: "string list"
  list_editable :: "string list"
  search_fields :: "string list"
  readonly_fields :: "string list"
  fieldsets :: "(string \<times> string list) list option"
  date_hierarchy :: "string option"
  autocomplete_fields :: "string list"
  inlines :: "inline_admin list"
  actions :: "string list"

subsection \<open>The admin classes\<close>

definition client_admin :: model_admin where
  "client_admin =
     \<lparr>ma_model = ClientM, ma_methods = [''get_queryset'', ''projects_count''],
      list_display = [''name'', ''company'', ''email'', ''phone'', ''projects_count'', ''created_at''],
      list_filter = [''created_at'', ''company''], list_editable = [],
      search_fields = [''name'', ''company'', ''email'', ''phone''], readonly_fields = [''created_at''],
      fieldsets = Some ([(''Basic info'', [''name'', ''company'']),
                   (''Contacts'', [''email'', ''phone'', ''tg_username'', ''contact_url'']),
                   (''Additional'', [''note'', ''created_at''])]),
      date_hierarchy = None, autocomplete_fields = [], inlines = [], actions = []\<rparr>"

definition developer_admin :: model_admin where
  "developer_admin =
     \<lparr>ma_model = DeveloperM, ma_methods = [''get_queryset'', ''projects_count''],
      list_display = [''name'', ''email'', ''github_username'', ''projects_count'', ''created_at''],
      list_filter = [''created_at''], list_editable = [],
      search_fields = [''name'', ''email'', ''github_username''], readonly_fields = [''created_at''],
      fieldsets = Some ([(''Basic info'', [''name'']),
                   (''Contacts'', [''email'', ''phone'', ''tg_username'', ''contact_url'']),
                   (''Professional links'', [''github_username'', ''portfolio_url'']),
                   (''Additional'', [''note'', ''created_at''])]),
      date_hierarchy = None, autocomplete_fields = [], inlines = [], actions = []\<rparr>"

definition status_admin :: model_admin where
  "status_admin =
     \<lparr>ma_model = ProjectStatusM, ma_methods = [''get_queryset'', ''color_preview'', ''projects_count''],
      list_display = [''name'', ''color_preview'', ''order'', ''projects_count''],
      list_filter = [], list_editable = [''order''],
      search_fields = [''name''], readonly_fields = [],
      fieldsets = None,
      date_hierarchy = None, autocomplete_fields = [], inlines = [], actions = []\<rparr>"

definition language_admin :: model_admin where
  "language_admin =
     \<lparr>ma_model = LanguageM,
      ma_methods = [''get_queryset'', ''color_preview'', ''icon_preview'', ''usage_count''],
      list_display = [''name'', ''color_preview'', ''icon_preview'', ''usage_count''],
      list_filter = [], list_editable = [],
      search_fields = [''name''], readonly_fields = [],
      fieldsets = None,
      date_hierarchy = None, autocomplete_fields = [], inlines = [], actions = []\<rparr>"

definition analysis_inline :: inline_admin where
  "analysis_inline =
     \<lparr>inl_model = ProjectAnalysisM, inl_methods = [''has_add_permission''], inl_readonly = [''language'', ''lines_count'', ''percentage'']\<rparr>"

definition project_admin :: model_admin where
  "project_admin =
     \<lparr>ma_model = ProjectM,
      ma_methods = [''status_colored'', ''archive_exist'', ''make_public'', ''make_private'', ''analyze_code''],
      list_display = [''name'', ''client'', ''developer'', ''status_colored'', ''cost'', ''deadline_planned'',
                      ''spent_minutes'', ''archive_exist'', ''is_public'', ''created_at''],
      list_filter = [''status'', ''is_public'', ''created_at'', ''client'', ''developer''], list_editable = [],
      search_fields = [''name'', ''description'', ''client__name'', ''developer__name''],
      readonly_fields = [''id'', ''created_at'', ''updated_at''],
      fieldsets = Some ([(''Basic info'', [''name'', ''description'', ''image'']),
                   (''Participants'', [''client'', ''developer'', ''status'']),
                   (''Deadlines'', [''deadline_planned'', ''deadline_actual'']),
                   (''Resources'', [''planned_minutes'', ''spent_minutes'', ''cost'']),
                   (''Files'', [''archive'']),
                   (''Meta & debug'', [''is_public'', ''id'', ''created_at'', ''updated_at''])]),
      date_hierarchy = Some ''deadline_planned'', autocomplete_fields = [''client'', ''developer'', ''status''],
      inlines = [analysis_inline], actions = [''make_public'', ''make_private'', ''analyze_code'']\<rparr>"

definition analysis_admin :: model_admin where
  "analysis_admin =
     \<lparr>ma_model = ProjectAnalysisM, ma_methods = [''has_add_permission'', ''has_change_permission''],
      list_display = [''project'', ''language'', ''lines_count'', ''percentage''],
      list_filter = [''language'', ''project__status''], list_editable = [],
      search_fields = [''project__name'', ''language__name''],
      readonly_fields = [''project'', ''language'', ''lines_count'', ''percentage''],
      fieldsets = None,
      date_hierarchy = None, autocomplete_fields = [], inlines = [], actions = []\<rparr>"

text \<open>\<^verbatim>\<open>admin.site._registry\<close> after the six \<^verbatim>\<open>@admin.register\<close> decorators.\<close>

definition registered_admins :: "model_admin list" where
  "registered_admins = [client_admin, developer_admin, status_admin, language_admin, project_admin, analysis_admin]"

subsection \<open>Resolving names and lookup paths\<close>

text \<open>The attributes of a model class other than its fields that a name may denote
  (\<^verbatim>\<open>hasattr(model, name)\<close>): every model defines \<^verbatim>\<open>__str__\<close>, and
  \<^verbatim>\<open>Model\<close> provides \<^verbatim>\<open>pk\<close>.\<close>

definition model_attrs :: "model_id \<Rightarrow> string list" where
  "model_attrs m = [''pk'', ''__str__'']"

text \<open>\<^verbatim>\<open>str.split(LOOKUP_SEP)\<close> with \<^verbatim>\<open>LOOKUP_SEP = "__"\<close>, left to right.\<close>

fun split_lookup :: "string \<Rightarrow> string \<Rightarrow> string list" where
  "split_lookup acc [] = [rev acc]"
| "split_lookup acc (CHR ''_'' # CHR ''_'' # cs) = rev acc # split_lookup [] cs"
| "split_lookup acc (c # cs) = split_lookup (c # acc) cs"

text \<open>\<^verbatim>\<open>get_fields_from_path\<close>: every piece but the last must be a relation, whose
  model the next piece is looked up in; the result is the last field and its model.\<close>

fun path_target :: "model_id \<Rightarrow> string list \<Rightarrow> (model_id \<times> lookup_target) option" where
  "path_target m [] = None"
| "path_target m [x] = (case names_to_path m x of Inr t \<Rightarrow> Some (m, t) | Inl _ \<Rightarrow> None)"
| "path_target m (x # y # zs) =
     (case names_to_path m x of
        Inr (ForwardKey f) \<Rightarrow> path_target (fk_target f) (y # zs)
      | Inr (ReverseKey f) \<Rightarrow> path_target (fk_model f) (y # zs)
      | _ \<Rightarrow> None)"

definition field_lookup :: "model_id \<Rightarrow> string \<Rightarrow> (model_id \<times> lookup_target) option" where
  "field_lookup m s = path_target m (split_lookup [] s)"

subsection \<open>The system checks\<close>

text \<open>\<^verbatim>\<open>_check_list_display_item\<close>: an attribute of the admin, else a field (not a
  reverse relation, \<^verbatim>\<open>admin.E109\<close>), else an attribute of the model
  (\<^verbatim>\<open>admin.E108\<close>).\<close>

definition display_item_errors :: "model_admin \<Rightarrow> string \<Rightarrow> check_error list" where
  "display_item_errors a i =
     (if i \<in> set (ma_methods a) then []
      else case names_to_path (ma_model a) i of
        Inr (ReverseKey _) \<Rightarrow> [CheckError ''admin.E109'' i]
      | Inr _ \<Rightarrow> []
      | Inl _ \<Rightarrow> if i \<in> set (model_attrs (ma_model a)) then [] else [CheckError ''admin.E108'' i])"

text \<open>\<^verbatim>\<open>_check_list_filter_item\<close> for a field name or path (\<^verbatim>\<open>admin.E116\<close>).\<close>

definition filter_item_errors :: "model_admin \<Rightarrow> string \<Rightarrow> check_error list" where
  "filter_item_errors a i = (if field_lookup (ma_model a) i = None then [CheckError ''admin.E116'' i] else [])"

text \<open>\<^verbatim>\<open>_check_list_editable_item\<close>: a field (\<^verbatim>\<open>E121\<close>) shown in
  \<^verbatim>\<open>list_display\<close> (\<^verbatim>\<open>E122\<close>), not its first column while
  \<^verbatim>\<open>list_display_links\<close> is unset (\<^verbatim>\<open>E124\<close>), editable and not the primary key
  (\<^verbatim>\<open>E125\<close>).\<close>

definition editable_item_errors :: "model_admin \<Rightarrow> string \<Rightarrow> check_error list" where
  "editable_item_errors a i =
     (case names_to_path (ma_model a) i of
        Inl _ \<Rightarrow> [CheckError ''admin.E121'' i]
      | Inr t \<Rightarrow>
          if i \<notin> set (list_display a) then [CheckError ''admin.E122'' i]
          else if hd (list_display a) = i then [CheckError ''admin.E124'' i]
          else if i = ''id'' \<or> (case t of LocalField n \<Rightarrow> map_of (model_fields (ma_model a)) n \<noteq> None
                                  \<and> \<not> snd (the (map_of (model_fields (ma_model a)) n)) | _ \<Rightarrow> False)
          then [CheckError ''admin.E125'' i] else [])"

text \<open>\<^verbatim>\<open>_check_readonly_fields_item\<close> (\<^verbatim>\<open>admin.E035\<close>).\<close>

definition readonly_item_errors :: "model_id \<Rightarrow> string list \<Rightarrow> string \<Rightarrow> check_error list" where
  "readonly_item_errors m meths i =
     (if i \<in> set meths \<or> i \<in> set (model_attrs m) \<or> \<not> isl (names_to_path m i) then []
      else [CheckError ''admin.E035'' i])"

text \<open>\<^verbatim>\<open>_check_fieldsets\<close>: the fields seen so far accumulate over the fieldsets, and
  every fieldset from the first repetition on is reported (\<^verbatim>\<open>admin.E012\<close>).\<close>

fun fieldsets_errors :: "nat \<Rightarrow> string list \<Rightarrow> (string \<times> string list) list \<Rightarrow> check_error list" where
  "fieldsets_errors i seen [] = []"
| "fieldsets_errors i seen ((t, fs) # rest) =
     (if distinct (seen @ fs) then [] else [CheckError ''admin.E012'' (''fieldsets['' @ str_nat i @ '']'')]) @
     fieldsets_errors (Suc i) (seen @ fs) rest"

text \<open>\<^verbatim>\<open>_check_autocomplete_fields_item\<close>: a foreign key (\<^verbatim>\<open>E037\<close>,
  \<^verbatim>\<open>E038\<close>) whose model is registered (\<^verbatim>\<open>E039\<close>) with an admin that has
  \<^verbatim>\<open>search_fields\<close> (\<^verbatim>\<open>E040\<close>).\<close>

definition autocomplete_item_errors :: "model_admin list \<Rightarrow> model_admin \<Rightarrow> string \<Rightarrow> check_error list" where
  "autocomplete_item_errors reg a i =
     (case names_to_path (ma_model a) i of
        Inl _ \<Rightarrow> [CheckError ''admin.E037'' i]
      | Inr (ForwardKey f) \<Rightarrow>
          (case find (\<lambda>b. ma_model b = fk_target f) reg of
             None \<Rightarrow> [CheckError ''admin.E039'' i]
           | Some b \<Rightarrow> if search_fields b = [] then [CheckError ''admin.E040'' i] else [])
      | Inr _ \<Rightarrow> [CheckError ''admin.E038'' i])"

text \<open>\<^verbatim>\<open>_check_date_hierarchy\<close>: a field path (\<^verbatim>\<open>E127\<close>) ending in a date or
  date-time field (\<^verbatim>\<open>E128\<close>).\<close>

definition date_hierarchy_errors :: "model_admin \<Rightarrow> check_error list" where
  "date_hierarchy_errors a =
     (case date_hierarchy a of
        None \<Rightarrow> []
      | Some h \<Rightarrow>
          (case field_lookup (ma_model a) h of
             None \<Rightarrow> [CheckError ''admin.E127'' h]
           | Some (m, LocalField n) \<Rightarrow>
               if map_option fst (map_of (model_fields m) n) = Some DateTimeField then []
               else [CheckError ''admin.E128'' h]
           | Some _ \<Rightarrow> [CheckError ''admin.E128'' h]))"

text \<open>\<^verbatim>\<open>InlineModelAdminChecks\<close>: exactly one foreign key from the inline's model to
  the parent (\<^verbatim>\<open>admin.E202\<close>), and its read-only fields.\<close>

definition inline_errors :: "model_id \<Rightarrow> inline_admin \<Rightarrow> check_error list" where
  "inline_errors parent il =
     (if length (filter (\<lambda>f. fk_model f = inl_model il \<and> fk_target f = parent) foreign_keys) = 1 then []
      else [CheckError ''admin.E202'' (model_name (inl_model il))]) @
     concat (map (readonly_item_errors (inl_model il) (inl_methods il)) (inl_readonly il))"

text \<open>The actions: the site's \<^verbatim>\<open>delete_selected\<close> and the admin's, each named by a
  method of the class (else \<^verbatim>\<open>getattr\<close> raises), with unique names
  (\<^verbatim>\<open>admin.E130\<close>).\<close>

definition actions_errors :: "model_admin \<Rightarrow> check_error list" where
  "actions_errors a =
     [CheckError ''AttributeError'' n. n \<leftarrow> actions a, n \<notin> set (ma_methods a)] @
     (if distinct (''delete_selected'' # actions a) then [] else [CheckError ''admin.E130'' (model_name (ma_model a))])"

definition model_admin_errors :: "model_admin list \<Rightarrow> model_admin \<Rightarrow> check_error list" where
  "model_admin_errors reg a =
     concat (map (display_item_errors a) (list_display a)) @
     concat (map (filter_item_errors a) (list_filter a)) @
     concat (map (editable_item_errors a) (list_editable a)) @
     concat (map (readonly_item_errors (ma_model a) (ma_methods a)) (readonly_fields a)) @
     (case fieldsets a of None \<Rightarrow> [] | Some fs \<Rightarrow> fieldsets_errors 0 [] fs) @
     concat (map (autocomplete_item_errors reg a) (autocomplete_fields a)) @
     date_hierarchy_errors a @
     concat (map (inline_errors (ma_model a)) (inlines a)) @
     actions_errors a"

text \<open>\<^verbatim>\<open>python manage.py check\<close> over the registry.\<close>

definition site_check :: "model_admin list \<Rightarrow> check_error list" where
  "site_check reg = concat (map (model_admin_errors reg) reg)"

subsection \<open>The change form and the search\<close>

text \<open>\<^verbatim>\<open>ModelAdmin.get_form\<close>: the fields of the fieldsets less the read-only ones go to
  \<^verbatim>\<open>modelform_factory\<close>, which raises \<^verbatim>\<open>FieldError\<close> for a non-editable field
  and for a name that is no field of the model.\<close>

definition form_field_errors :: "model_admin \<Rightarrow> string \<Rightarrow> check_error list" where
  "form_field_errors a n =
     (if n \<in> set (readonly_fields a) then []
      else case map_of (model_fields (ma_model a)) n of
        Some (k, e) \<Rightarrow> if e then [] else [CheckError ''FieldError: non-editable field'' n]
      | None \<Rightarrow>
          if list_ex (\<lambda>f. fk_model f = ma_model a \<and> fk_field f = n) foreign_keys then []
          else [CheckError ''FieldError: Unknown field(s)'' n])"

definition change_form_errors :: "model_admin \<Rightarrow> check_error list" where
  "change_form_errors a =
     (case fieldsets a of
        None \<Rightarrow> []
      | Some fs \<Rightarrow> concat (map (form_field_errors a) (concat (map snd fs))))"

text \<open>\<^verbatim>\<open>get_search_results\<close>: a search field becomes \<^verbatim>\<open>field__icontains\<close>, which
  resolves when its path ends in a concrete field.\<close>

definition search_errors :: "model_admin \<Rightarrow> check_error list" where
  "search_errors a =
     [CheckError ''FieldError'' s. s \<leftarrow> search_fields a,
        case field_lookup (ma_model a) s of Some (_, LocalField _) \<Rightarrow> False | _ \<Rightarrow> True]"

subsection \<open>The configuration is accepted\<close>

text \<open>The checks are not vacuous: an editable first column, a reverse relation in
  \<^verbatim>\<open>list_display\<close>, a non-editable field left out of \<^verbatim>\<open>readonly_fields\<close> and a
  repeated field are each reported.\<close>

lemma admin_checks_detect:
  "model_admin_errors registered_admins (status_admin\<lparr>list_editable := [''name'']\<rparr>) =
     [CheckError ''admin.E124'' ''name'']"
  "model_admin_errors registered_admins (client_admin\<lparr>list_display := [''name'', ''projects'']\<rparr>) =
     [CheckError ''admin.E109'' ''projects'']"
  "change_form_errors (project_admin\<lparr>readonly_fields := [''id'', ''created_at'']\<rparr>) =
     [CheckError ''FieldError: non-editable field'' ''updated_at'']"
  "fieldsets_errors 0 [] [(''a'', [''name'']), (''b'', [''note'', ''name'']), (''c'', [''email''])] =
     [CheckError ''admin.E012'' ''fieldsets[1]'', CheckError ''admin.E012'' ''fieldsets[2]'']"
  by code_simp+

text \<open>Django accepts the admin configuration of \<^verbatim>\<open>admin.py\<close>: the system checks
  of every registered \<^verbatim>\<open>ModelAdmin\<close> and inline report nothing, every change form
  can be built from its fieldsets (each non-editable field shown is read-only), and every
  search field resolves to a concrete field.\<close>

lemma admin_site_accepted:
  "site_check registered_admins = [] \<and>
   concat (map change_form_errors registered_admins) = [] \<and>
   concat (map search_errors registered_admins) = []"
  by code_simp

end
