(* ===== verification/Decouple.thy ===== *)
theory Decouple
  imports FileSystem
begin

text \<open>
  python-decouple 3.8 as \<^verbatim>\<open>core/settings.py\<close> uses it: \<^verbatim>\<open>config\<close> looks a
  variable up in \<^verbatim>\<open>os.environ\<close>, then in the repository (\<^verbatim>\<open>.env\<close> or
  \<^verbatim>\<open>settings.ini\<close>), then takes the default; a missing variable with no default raises
  \<^verbatim>\<open>UndefinedValueError\<close>; \<^verbatim>\<open>cast=bool\<close> is \<^verbatim>\<open>_cast_boolean\<close>
  (\<^verbatim>\<open>strtobool\<close>); \<^verbatim>\<open>cast=Csv()\<close> splits with \<^verbatim>\<open>shlex\<close> in POSIX mode with
  \<^verbatim>\<open>,\<close> as the only whitespace and strips every item. The lemmas give the plain
  reading of \<^verbatim>\<open>Csv\<close> on values without quotes, escapes and comments, and its inverse
  on joined lists. Strings are Python strings of characters below 256.
\<close>

subsection \<open>python-decouple\<close>

record config_source =
  environ :: "(string \<times> string) list"
  repository :: "(string \<times> string) list"

definition config_lookup :: "config_source \<Rightarrow> string \<Rightarrow> string option" where
  "config_lookup src k = (case map_of (environ src) k of Some v \<Rightarrow> Some v | None \<Rightarrow> map_of (repository src) k)"

text \<open>\<^verbatim>\<open>Config.get(option, default)\<close> without a cast; \<open>None\<close> is an undefined default.\<close>

definition config :: "config_source \<Rightarrow> string \<Rightarrow> string option \<Rightarrow> py_error + string" where
  "config src k dflt =
     (case config_lookup src k of
        Some v \<Rightarrow> Inr v
      | None \<Rightarrow> (case dflt of
                  Some d \<Rightarrow> Inr d
                | None \<Rightarrow> Inl (UndefinedValueError (k @ '' not found. Declare it as envvar or define a default value.''))))"

abbreviation config_or :: "config_source \<Rightarrow> string \<Rightarrow> string \<Rightarrow> string" where
  "config_or src k d \<equiv> (case config_lookup src k of None \<Rightarrow> d | Some v \<Rightarrow> v)"

text \<open>\<^verbatim>\<open>str.lower\<close> below 256: \<^verbatim>\<open>A\<close>--\<^verbatim>\<open>Z\<close> and the Latin-1 capitals
  U+00C0--U+00DE except U+00D7.\<close>

definition py_lower_char :: "char \<Rightarrow> char" where
  "py_lower_char c =
     (let n = (of_char c :: nat) in
      if (65 \<le> n \<and> n \<le> 90) \<or> (192 \<le> n \<and> n \<le> 222 \<and> n \<noteq> 215) then char_of (n + 32) else c)"

text \<open>\<^verbatim>\<open>strtobool\<close> and \<^verbatim>\<open>_cast_boolean(value) = bool(value) and strtobool(value)\<close>.\<close>

definition strtobool :: "string \<Rightarrow> py_error + bool" where
  "strtobool v =
     (let w = map py_lower_char v in
      if w \<in> set [''y'', ''yes'', ''t'', ''true'', ''on'', ''1''] then Inr True
      else if w \<in> set [''n'', ''no'', ''f'', ''false'', ''off'', ''0''] then Inr False
      else Inl (ValueError (''Invalid truth value: '' @ w)))"

definition cast_boolean :: "string \<Rightarrow> py_error + bool" where
  "cast_boolean v = (if v = [] then Inr False else strtobool v)"

subsection \<open>\<^verbatim>\<open>shlex\<close> as \<^verbatim>\<open>Csv\<close> configures it\<close>

text \<open>
  The states of \<^verbatim>\<open>shlex.read_token\<close> (\<^verbatim>\<open>' '\<close>, \<^verbatim>\<open>'a'\<close>, a quote, the escape
  with the state it returns to) and the rest of a comment line, which
  \<^verbatim>\<open>instream.readline()\<close> consumes. With \<open>whitespace = ','\<close> and
  \<open>whitespace_split = True\<close> every other character is a word character; the
  commenter is \<^verbatim>\<open>#\<close>, the quotes \<^verbatim>\<open>'\<close> and \<^verbatim>\<open>"\<close>, the escape \<^verbatim>\<open>\\<close>, and
  escapes work inside \<^verbatim>\<open>"\<close> only. A token is emitted when it is non-empty or was
  quoted; the tokens are produced lazily and the list is built by \<^verbatim>\<open>list(...)\<close>, so an
  error anywhere is the result.
\<close>

datatype lex_state = LWhite | LWord | LComment | LQuote char | LEscape bool

definition is_quote :: "char \<Rightarrow> bool" where
  "is_quote c \<longleftrightarrow> c = CHR 0x27 \<or> c = CHR 0x22"

fun shlex_csv :: "lex_state \<Rightarrow> string \<Rightarrow> bool \<Rightarrow> string \<Rightarrow> py_error + string list" where
  "shlex_csv LWhite tok q [] = Inr []"
| "shlex_csv LWord tok q [] = Inr (if tok = [] \<and> \<not> q then [] else [tok])"
| "shlex_csv LComment tok q [] = Inr []"
| "shlex_csv (LQuote qc) tok q [] = Inl (ValueError ''No closing quotation'')"
| "shlex_csv (LEscape inq) tok q [] = Inl (ValueError ''No escaped character'')"
| "shlex_csv LWhite tok q (c # cs) =
     (if c = CHR '','' then
        (if tok \<noteq> [] \<or> q then map_sum id (Cons tok) (shlex_csv LWhite [] False cs)
         else shlex_csv LWhite tok q cs)
      else if c = CHR ''#'' then shlex_csv LComment tok q cs
      else if c = CHR 0x5C then shlex_csv (LEscape False) tok q cs
      else if is_quote c then shlex_csv (LQuote c) tok q cs
      else shlex_csv LWord [c] q cs)"
| "shlex_csv LWord tok q (c # cs) =
     (if c = CHR '','' then
        (if tok \<noteq> [] \<or> q then map_sum id (Cons tok) (shlex_csv LWhite [] False cs)
         else shlex_csv LWhite tok q cs)
      else if c = CHR ''#'' then
        (if tok \<noteq> [] \<or> q then map_sum id (Cons tok) (shlex_csv LComment [] False cs)
         else shlex_csv LComment tok q cs)
      else if is_quote c then shlex_csv (LQuote c) tok q cs
      else if c = CHR 0x5C then shlex_csv (LEscape False) tok q cs
      else shlex_csv LWord (tok @ [c]) q cs)"
| "shlex_csv LComment tok q (c # cs) =
     (if c = CHR 0x0A then shlex_csv LWhite tok q cs else shlex_csv LComment tok q cs)"
| "shlex_csv (LQuote qc) tok q (c # cs) =
     (if c = qc then shlex_csv LWord tok True cs
      else if c = CHR 0x5C \<and> qc = CHR 0x22 then shlex_csv (LEscape True) tok True cs
      else shlex_csv (LQuote qc) (tok @ [c]) True cs)"
| "shlex_csv (LEscape inq) tok q (c # cs) =
     (let tok' = tok @ (if inq \<and> c \<noteq> CHR 0x5C \<and> c \<noteq> CHR 0x22 then [CHR 0x5C] else []) @ [c] in
      if inq then shlex_csv (LQuote CHR 0x22) tok' q cs else shlex_csv LWord tok' q cs)"

text \<open>\<^verbatim>\<open>str.strip(string.whitespace)\<close>.\<close>

definition py_ws :: "char \<Rightarrow> bool" where
  "py_ws c \<longleftrightarrow> c \<in> set [CHR '' '', CHR 0x09, CHR 0x0A, CHR 0x0D, CHR 0x0B, CHR 0x0C]"

definition py_strip :: "string \<Rightarrow> string" where
  "py_strip s = rev (dropWhile py_ws (rev (dropWhile py_ws s)))"

definition csv_cast :: "string \<Rightarrow> py_error + string list" where
  "csv_cast v = map_sum id (map py_strip) (shlex_csv LWhite [] False v)"

text \<open>The specification \<open>csv_cast\<close> meets on values without quotes, escapes and
  comments: the non-empty pieces between commas, stripped.\<close>

definition csv_plain :: "string \<Rightarrow> string list" where
  "csv_plain v = map py_strip (filter (\<lambda>w. w \<noteq> []) (split_on CHR '','' v))"

text \<open>\<^verbatim>\<open>sep.join(items)\<close>, the writer \<open>csv_cast\<close> inverts.\<close>

fun py_join :: "string \<Rightarrow> string list \<Rightarrow> string" where
  "py_join sep [] = []"
| "py_join sep [x] = x"
| "py_join sep (x # y # zs) = x @ sep @ py_join sep (y # zs)"

definition plain_char :: "char \<Rightarrow> bool" where
  "plain_char c \<longleftrightarrow> \<not> is_quote c \<and> c \<noteq> CHR 0x5C \<and> c \<noteq> CHR ''#''"

subsection \<open>The tokenizer on plain values\<close>

lemma shlex_csv_plain:
  "\<forall>c \<in> set s. plain_char c \<Longrightarrow>
   shlex_csv LWhite [] False s = Inr (filter (\<lambda>w. w \<noteq> []) (split_on CHR '','' s)) \<and>
   (\<forall>tok. tok \<noteq> [] \<longrightarrow> shlex_csv LWord tok False s =
      Inr ((tok @ hd (split_on CHR '','' s)) # filter (\<lambda>w. w \<noteq> []) (tl (split_on CHR '','' s))))"
proof (induction s)
  case Nil
  then show ?case by simp
next
  case (Cons x xs)
  then have ih: "shlex_csv LWhite [] False xs = Inr (filter (\<lambda>w. w \<noteq> []) (split_on CHR '','' xs))"
    "\<And>tok. tok \<noteq> [] \<Longrightarrow> shlex_csv LWord tok False xs =
      Inr ((tok @ hd (split_on CHR '','' xs)) # filter (\<lambda>w. w \<noteq> []) (tl (split_on CHR '','' xs)))"
    and px: "plain_char x" by auto
  have ne: "split_on CHR '','' xs \<noteq> []" by (rule split_on_nonempty)
  then have sp: "split_on CHR '','' xs = hd (split_on CHR '','' xs) # tl (split_on CHR '','' xs)" by simp
  show ?case
  proof (cases "x = CHR '',''")
    case True
    then show ?thesis using ih by simp
  next
    case False
    with px have "x \<noteq> CHR ''#'' \<and> x \<noteq> CHR 0x5C \<and> \<not> is_quote x" by (auto simp: plain_char_def)
    with False ih show ?thesis by (simp add: Let_def)
  qed
qed


lemma split_on_py_join:
  "hs \<noteq> [] \<Longrightarrow> \<forall>h \<in> set hs. c \<notin> set h \<Longrightarrow> split_on c (py_join [c] hs) = hs"
  by (induction "[c]" hs rule: py_join.induct) (auto simp: split_on_no_sep_single split_on_append_sep)

subsection \<open>Lookup, casts and joined lists\<close>

lemma config_dflt: "config src k (Some d) = Inr (config_or src k d)"
  by (simp add: config_def split: option.split)

lemma config_undefined:
  "config src k None =
     (case config_lookup src k of
        None \<Rightarrow> Inl (UndefinedValueError (k @ '' not found. Declare it as envvar or define a default value.''))
      | Some v \<Rightarrow> Inr v)"
  by (simp add: config_def split: option.split)

lemma cast_boolean_True: "cast_boolean ''True'' = Inr True"
  by code_simp

lemma set_py_join: "set (py_join sep hs) \<subseteq> set sep \<union> \<Union> (set ` set hs)"
  by (induction sep hs rule: py_join.induct) auto

lemma csv_cast_py_join:
  assumes hs: "\<forall>h \<in> set hs. h \<noteq> [] \<and> py_strip h = h \<and> (\<forall>c \<in> set h. plain_char c \<and> c \<noteq> CHR '','')"
  shows "csv_cast (py_join '','' hs) = Inr hs"
proof (cases "hs = []")
  case False
  have c: "plain_char CHR '',''" by (simp add: plain_char_def is_quote_def)
  have pj: "\<forall>c \<in> set (py_join '','' hs). plain_char c"
  proof
    fix x assume "x \<in> set (py_join '','' hs)"
    with set_py_join [of "'',''" hs] have "x = CHR '','' \<or> (\<exists>h \<in> set hs. x \<in> set h)" by auto
    with hs c show "plain_char x" by blast
  qed
  have nosep: "\<forall>h \<in> set hs. CHR '','' \<notin> set h" using hs by blast
  have sp: "split_on CHR '','' (py_join '','' hs) = hs"
    using split_on_py_join [OF False nosep] by simp
  have f: "filter (\<lambda>w. w \<noteq> []) hs = hs" using hs by (simp add: filter_id_conv)
  have m: "map py_strip hs = hs" using hs by (simp add: map_idI)
  have "shlex_csv LWhite [] False (py_join '','' hs) = Inr hs"
    using conjunct1 [OF shlex_csv_plain [OF pj]] sp f by simp
  with m show ?thesis by (simp add: csv_cast_def)
qed (simp add: csv_cast_def)

subsection \<open>Properties\<close>

text \<open>On values without quotes, backslashes and \<^verbatim>\<open>#\<close>, \<^verbatim>\<open>Csv()\<close> (the
  \<^verbatim>\<open>shlex\<close> state machine followed by \<^verbatim>\<open>strip\<close>) refines the plain reading: the
  non-empty pieces between commas, each stripped of whitespace.\<close>

lemma csv_cast_refines:
  "\<forall>c \<in> set v. plain_char c \<Longrightarrow> csv_cast v = Inr (csv_plain v)"
  using shlex_csv_plain by (simp add: csv_cast_def csv_plain_def)

end
