(* ===== verification/Settings.thy ===== *)
theory Settings
  imports Decouple UrlSplit
begin

text \<open>
  \<^verbatim>\<open>core/settings.py\<close>: the Django settings module, evaluated once at import, its
  values read through python-decouple (theory \<open>Decouple\<close>). The module body is \<open>load_settings\<close>, evaluated in source order so
  that the first exception is the one the import raises. Its consumers are modelled where
  the values decide behaviour: \<^verbatim>\<open>dj_database_url\<close>, Django's host validation
  (\<^verbatim>\<open>HttpRequest.get_host\<close>) and the admin's \<^verbatim>\<open>check_dependencies\<close>; the CORS
  middleware that reads the \<^verbatim>\<open>CORS_*\<close> values is theory \<open>Cors\<close>.
  Strings here are Python strings of characters below 256.
\<close>

subsection \<open>The settings module\<close>

record template_conf =
  tpl_backend :: string
  tpl_dirs :: "string list"
  tpl_app_dirs :: bool
  tpl_context_processors :: "string list"

text \<open>dj-database-url 2.1: \<^verbatim>\<open>config\<close> reads \<^verbatim>\<open>os.environ\<close>, falling back to its
  default; an empty value gives \<^verbatim>\<open>{}\<close>, any other is passed to \<^verbatim>\<open>parse\<close>. The
  result keeps the engine the URL's scheme selects in the table \<^verbatim>\<open>SCHEMES\<close>, the URL
  and the port (\<^verbatim>\<open>port or ""\<close>: 0 counts as none); the other keys (name, user,
  password, host) are read from the URL without raising. For \<^verbatim>\<open>sqlite://:memory:\<close>
  \<^verbatim>\<open>parse\<close> returns early without the connection options, which Django then sets to
  their defaults 0 and false.\<close>

record db_conf =
  db_engine :: string
  db_url :: string
  db_port :: "nat option"
  conn_max_age :: nat
  conn_health_checks :: bool

definition db_schemes :: "(string \<times> string) list" where
  "db_schemes =
     [(''postgres'', ''django.db.backends.postgresql''), (''postgresql'', ''django.db.backends.postgresql''),
      (''pgsql'', ''django.db.backends.postgresql''), (''postgis'', ''django.contrib.gis.db.backends.postgis''),
      (''mysql'', ''django.db.backends.mysql''), (''mysql2'', ''django.db.backends.mysql''),
      (''mysqlgis'', ''django.contrib.gis.db.backends.mysql''), (''mysql-connector'', ''mysql.connector.django''),
      (''mssql'', ''sql_server.pyodbc''), (''mssqlms'', ''mssql''),
      (''spatialite'', ''django.contrib.gis.db.backends.spatialite''), (''sqlite'', ''django.db.backends.sqlite3''),
      (''oracle'', ''django.db.backends.oracle''), (''oraclegis'', ''django.contrib.gis.db.backends.oracle''),
      (''redshift'', ''django_redshift_backend''), (''cockroach'', ''django_cockroachdb''),
      (''timescale'', ''timescale.db.backends.postgresql''), (''timescalegis'', ''timescale.db.backends.postgis'')]"

text \<open>The keys of \<^verbatim>\<open>SCHEMES\<close> as \<^verbatim>\<open>', '.join(sorted(...))\<close> lists them in the
  error message.\<close>

definition db_schemes_listed :: string where
  "db_schemes_listed =
     ''cockroach, mssql, mssqlms, mysql, mysql-connector, mysql2, mysqlgis, oracle, oraclegis, '' @
     ''pgsql, postgis, postgres, postgresql, redshift, spatialite, sqlite, timescale, timescalegis''"

text \<open>\<^verbatim>\<open>dj_database_url.parse\<close>: \<^verbatim>\<open>urlsplit\<close> (which may raise), the engine
  lookup (\<^verbatim>\<open>ValueError\<close> for an unknown scheme), then the port property (which may
  raise).\<close>

definition dj_database_url_parse :: "string \<Rightarrow> nat \<Rightarrow> bool \<Rightarrow> py_error + db_conf" where
  "dj_database_url_parse url max_age health =
     (if url = ''sqlite://:memory:'' then
        Inr \<lparr>db_engine = ''django.db.backends.sqlite3'', db_url = url, db_port = None,
             conn_max_age = 0, conn_health_checks = False\<rparr>
      else case urlsplit url of
        Inl e \<Rightarrow> Inl e
      | Inr r \<Rightarrow>
          (case map_of db_schemes (sr_scheme r) of
             None \<Rightarrow> Inl (ValueError (''No support for '' @ [CHR 0x27] @ sr_scheme r @ [CHR 0x27] @
                                     ''. We support: '' @ db_schemes_listed))
           | Some engine \<Rightarrow>
               (case url_port r of
                  Inl e \<Rightarrow> Inl e
                | Inr p \<Rightarrow> Inr \<lparr>db_engine = engine, db_url = url, db_port = (if p = Some 0 then None else p),
                               conn_max_age = max_age, conn_health_checks = health\<rparr>)))"

definition dj_database_url_config ::
  "(string \<times> string) list \<Rightarrow> string \<Rightarrow> nat \<Rightarrow> bool \<Rightarrow> py_error + db_conf option" where
  "dj_database_url_config env dflt max_age health =
     (let s = (case map_of env ''DATABASE_URL'' of Some v \<Rightarrow> v | None \<Rightarrow> dflt) in
      if s = [] then Inr None else map_sum id Some (dj_database_url_parse s max_age health))"

record settings =
  environment :: string
  secret_key :: string
  debug :: bool
  allowed_hosts :: "string list"
  installed_apps :: "string list"
  middleware :: "string list"
  root_urlconf :: string
  wsgi_application :: string
  templates :: "template_conf list"
  databases_default :: "db_conf option"
  cache_backend :: string
  cache_location :: string
  cache_client_class :: string
  auth_password_validators :: "string list"
  language_code :: string
  time_zone :: string
  use_i18n :: bool
  use_l10n :: bool
  use_tz :: bool
  languages_setting :: "(string \<times> string) list"
  locale_paths :: "path list"
  max_upload_size :: nat
  file_upload_max_memory_size :: nat
  data_upload_max_memory_size :: nat
  allowed_project_extensions :: "string list"
  allowed_image_extensions :: "string list"
  static_url :: string
  static_root :: path
  staticfiles_dirs :: "path list"
  media_url :: string
  media_root :: path
  default_auto_field :: string
  drf_pagination_class :: string
  drf_page_size :: nat
  drf_filter_backends :: "string list"
  drf_renderer_classes :: "string list"
  cors_allowed_origins :: "string list"
  cors_allow_credentials :: bool
  cors_allow_all_origins :: "bool option"
  celery_broker_url :: string
  celery_result_backend :: string
  celery_accept_content :: "string list"
  celery_task_serializer :: string
  celery_result_serializer :: string
  celery_timezone :: string
  celery_enable_utc :: bool
  linguist_docker_image :: string

definition installed_apps_list :: "string list" where
  "installed_apps_list =
     [''django.contrib.admin'', ''django.contrib.auth'', ''django.contrib.contenttypes'',
      ''django.contrib.sessions'', ''django.contrib.messages'', ''django.contrib.staticfiles'',
      ''rest_framework'', ''corsheaders'', ''django_filters'', ''projects'']"

definition middleware_list :: "string list" where
  "middleware_list =
     [''corsheaders.middleware.CorsMiddleware'', ''django.middleware.security.SecurityMiddleware'',
      ''django.contrib.sessions.middleware.SessionMiddleware'', ''django.middleware.locale.LocaleMiddleware'',
      ''django.middleware.common.CommonMiddleware'', ''django.middleware.csrf.CsrfViewMiddleware'',
      ''django.contrib.auth.middleware.AuthenticationMiddleware'',
      ''django.contrib.messages.middleware.MessageMiddleware'',
      ''django.middleware.clickjacking.XFrameOptionsMiddleware'']"

definition templates_list :: "template_conf list" where
  "templates_list =
     [\<lparr>tpl_backend = ''django.template.backends.django.DjangoTemplates'', tpl_dirs = [], tpl_app_dirs = True,
       tpl_context_processors =
         [''django.template.context_processors.debug'', ''django.template.context_processors.request'',
          ''django.contrib.auth.context_processors.auth'', ''django.contrib.messages.context_processors.messages'']\<rparr>]"

definition password_validators_list :: "string list" where
  "password_validators_list =
     [''django.contrib.auth.password_validation.UserAttributeSimilarityValidator'',
      ''django.contrib.auth.password_validation.MinimumLengthValidator'',
      ''django.contrib.auth.password_validation.CommonPasswordValidator'',
      ''django.contrib.auth.password_validation.NumericPasswordValidator'']"

text \<open>The module body, top to bottom. \<open>base_dir\<close> is
  \<^verbatim>\<open>Path(__file__).resolve().parent.parent\<close>; the default \<^verbatim>\<open>True\<close> of
  \<^verbatim>\<open>DJANGO_DEBUG\<close> reaches \<^verbatim>\<open>_cast_boolean\<close> as \<^verbatim>\<open>str(True)\<close>. The two
  \<^verbatim>\<open>REDIS_URL\<close> reads have different defaults.\<close>

definition load_settings :: "config_source \<Rightarrow> path \<Rightarrow> fs \<Rightarrow> py_error + settings" where
  "load_settings src base_dir fs =
    (case config src ''DJANGO_ENVIRONMENT'' (Some ''development'') of Inl e \<Rightarrow> Inl e | Inr env \<Rightarrow>
     (case config src ''DJANGO_SECRET_KEY'' (Some ''change-me'') of Inl e \<Rightarrow> Inl e | Inr secret \<Rightarrow>
     (case config src ''DJANGO_DEBUG'' (Some ''True'') of Inl e \<Rightarrow> Inl e | Inr debug_raw \<Rightarrow>
     (case cast_boolean debug_raw of Inl e \<Rightarrow> Inl e | Inr dbg \<Rightarrow>
     (case (if env = ''production''
           then (case config src ''ALLOWED_HOSTS'' (Some []) of Inl e \<Rightarrow> Inl e | Inr v \<Rightarrow> csv_cast v)
           else Inr [''localhost'', ''127.0.0.1'', ''0.0.0.0'', ''backend'']) of Inl e \<Rightarrow> Inl e | Inr hosts \<Rightarrow>
     (case config src ''DATABASE_URL'' None of Inl e \<Rightarrow> Inl e | Inr db_default \<Rightarrow>
     (case dj_database_url_config (environ src) db_default 600 True of Inl e \<Rightarrow> Inl e | Inr dbs \<Rightarrow>
     (case config src ''REDIS_URL'' (Some ''redis://localhost:6379/1'') of Inl e \<Rightarrow> Inl e | Inr cache_loc \<Rightarrow>
     (case config src ''DEFAULT_LANGUAGE'' (Some ''ru'') of Inl e \<Rightarrow> Inl e | Inr lang \<Rightarrow>
     (case config src ''REDIS_URL'' (Some ''redis://localhost:6379/0'') of Inl e \<Rightarrow> Inl e | Inr broker \<Rightarrow>
     (case config src ''LINGUIST_DOCKER_IMAGE'' (Some ''project_viewer_linguist'') of Inl e \<Rightarrow> Inl e | Inr docker_image \<Rightarrow>
     Inr \<lparr>environment = env, secret_key = secret, debug = dbg, allowed_hosts = hosts,
       installed_apps = installed_apps_list, middleware = middleware_list,
       root_urlconf = ''core.urls'', wsgi_application = ''core.wsgi.application'', templates = templates_list,
       databases_default = dbs,
       cache_backend = ''django_redis.cache.RedisCache'', cache_location = cache_loc,
       cache_client_class = ''django_redis.client.DefaultClient'',
       auth_password_validators = password_validators_list,
       language_code = lang, time_zone = ''Europe/Moscow'', use_i18n = True, use_l10n = True, use_tz = True,
       languages_setting = [(''ru'', ''Russian''), (''en'', ''English'')], locale_paths = [base_dir @ [''locale'']],
       max_upload_size = 100 * 1024 * 1024, file_upload_max_memory_size = 10 * 1024 * 1024,
       data_upload_max_memory_size = 100 * 1024 * 1024,
       allowed_project_extensions = [''.zip''],
       allowed_image_extensions = [''.jpg'', ''.jpeg'', ''.png'', ''.gif'', ''.webp''],
       static_url = ''/static/'', static_root = base_dir @ [''staticfiles''],
       staticfiles_dirs = (if path_exists fs (base_dir @ [''static'']) then [base_dir @ [''static'']] else []),
       media_url = ''/media/'', media_root = base_dir @ [''media''],
       default_auto_field = ''django.db.models.BigAutoField'',
       drf_pagination_class = ''rest_framework.pagination.PageNumberPagination'', drf_page_size = 20,
       drf_filter_backends = [''django_filters.rest_framework.DjangoFilterBackend'',
         ''rest_framework.filters.SearchFilter'', ''rest_framework.filters.OrderingFilter''],
       drf_renderer_classes = [''rest_framework.renderers.JSONRenderer''],
       cors_allowed_origins = [''http://localhost:3000'', ''http://127.0.0.1:3000''],
       cors_allow_credentials = True,
       cors_allow_all_origins = (if dbg then Some True else None),
       celery_broker_url = broker, celery_result_backend = broker, celery_accept_content = [''json''],
       celery_task_serializer = ''json'', celery_result_serializer = ''json'',
       celery_timezone = ''Europe/Moscow'', celery_enable_utc = True,
       linguist_docker_image = docker_image\<rparr>)))))))))))"

subsection \<open>What reads the settings\<close>

text \<open>Django's \<^verbatim>\<open>is_same_domain\<close>, \<^verbatim>\<open>validate_host\<close> and the check in
  \<^verbatim>\<open>HttpRequest.get_host\<close>: with \<^verbatim>\<open>DEBUG\<close> and an empty \<^verbatim>\<open>ALLOWED_HOSTS\<close> the
  localhost variants are allowed. The argument is the domain \<^verbatim>\<open>split_domain_port\<close>
  returns (lower-cased, port removed).\<close>

definition is_same_domain :: "string \<Rightarrow> string \<Rightarrow> bool" where
  "is_same_domain host pattern \<longleftrightarrow>
     pattern \<noteq> [] \<and>
     (let p = map py_lower_char pattern in (hd p = CHR ''.'' \<and> (suffix p host \<or> host = tl p)) \<or> p = host)"

definition validate_host :: "string \<Rightarrow> string list \<Rightarrow> bool" where
  "validate_host host allowed \<longleftrightarrow> list_ex (\<lambda>pattern. pattern = ''*'' \<or> is_same_domain host pattern) allowed"

definition host_allowed :: "settings \<Rightarrow> string \<Rightarrow> bool" where
  "host_allowed s domain \<longleftrightarrow>
     domain \<noteq> [] \<and>
     validate_host domain
       (if debug s \<and> allowed_hosts s = [] then [''.localhost'', ''127.0.0.1'', ''[::1]''] else allowed_hosts s)"

text \<open>\<^verbatim>\<open>django.contrib.admin.checks.check_dependencies\<close> with the default
  \<^verbatim>\<open>AUTHENTICATION_BACKENDS\<close> and the navigation sidebar enabled: the ids of the errors
  and warnings it reports.\<close>

definition admin_check_dependencies :: "settings \<Rightarrow> string list" where
  "admin_check_dependencies s =
     (if ''django.contrib.admin'' \<notin> set (installed_apps s) then []
      else [code. (app, code) \<leftarrow> [(''django.contrib.contenttypes'', ''admin.E401''),
                                  (''django.contrib.auth'', ''admin.E405''),
                                  (''django.contrib.messages'', ''admin.E406'')],
                  app \<notin> set (installed_apps s)] @
           (case filter (\<lambda>t. tpl_backend t = ''django.template.backends.django.DjangoTemplates'') (templates s) of
              [] \<Rightarrow> [''admin.E403'']
            | t # _ \<Rightarrow>
                (if ''django.contrib.auth.context_processors.auth'' \<notin> set (tpl_context_processors t)
                 then [''admin.E402''] else []) @
                (if ''django.contrib.messages.context_processors.messages'' \<notin> set (tpl_context_processors t)
                 then [''admin.E404''] else []) @
                (if ''django.template.context_processors.request'' \<notin> set (tpl_context_processors t)
                 then [''admin.W411''] else [])) @
           (if ''django.contrib.auth.middleware.AuthenticationMiddleware'' \<notin> set (middleware s)
            then [''admin.E408''] else []) @
           (if ''django.contrib.messages.middleware.MessageMiddleware'' \<notin> set (middleware s)
            then [''admin.E409''] else []) @
           (if ''django.contrib.sessions.middleware.SessionMiddleware'' \<notin> set (middleware s)
            then [''admin.E410''] else []))"

text \<open>The orderings the Django and django-cors-headers documentation require of
  \<^verbatim>\<open>MIDDLEWARE\<close>: the CORS middleware before \<^verbatim>\<open>CommonMiddleware\<close>; the session
  middleware before the locale, authentication and message middleware; the locale
  middleware before \<^verbatim>\<open>CommonMiddleware\<close>.\<close>

definition mw_before :: "string list \<Rightarrow> string \<Rightarrow> string \<Rightarrow> bool" where
  "mw_before mw a b \<longleftrightarrow> b \<in> set mw \<and> a \<in> set (takeWhile (\<lambda>x. x \<noteq> b) mw)"

definition middleware_order_ok :: "string list \<Rightarrow> bool" where
  "middleware_order_ok mw \<longleftrightarrow>
     list_all (\<lambda>(a, b). mw_before mw a b)
       [(''corsheaders.middleware.CorsMiddleware'', ''django.middleware.common.CommonMiddleware''),
        (''django.contrib.sessions.middleware.SessionMiddleware'', ''django.middleware.locale.LocaleMiddleware''),
        (''django.middleware.locale.LocaleMiddleware'', ''django.middleware.common.CommonMiddleware''),
        (''django.contrib.sessions.middleware.SessionMiddleware'',
         ''django.contrib.auth.middleware.AuthenticationMiddleware''),
        (''django.contrib.sessions.middleware.SessionMiddleware'',
         ''django.contrib.messages.middleware.MessageMiddleware'')]"

subsection \<open>Loading the settings\<close>

lemma load_settings_hosts:
  "(if c then (case config src ''ALLOWED_HOSTS'' (Some []) of Inl e \<Rightarrow> Inl e | Inr v \<Rightarrow> csv_cast v) else x) =
   (if c then csv_cast (config_or src ''ALLOWED_HOSTS'' []) else x)"
  by (simp add: config_dflt)

lemmas load_settings_simps = load_settings_def config_dflt config_undefined load_settings_hosts

lemma dj_database_url_agrees:
  "config_lookup src ''DATABASE_URL'' = Some url \<Longrightarrow>
   dj_database_url_config (environ src) url m h =
     (if url = [] then Inr None else map_sum id Some (dj_database_url_parse url m h))"
  by (simp add: config_lookup_def dj_database_url_config_def split: option.splits)

lemma load_settings_Inr:
  assumes ok: "load_settings src b fs = Inr s"
  shows "cast_boolean (config_or src ''DJANGO_DEBUG'' ''True'') = Inr (debug s)"
    and "environment s = config_or src ''DJANGO_ENVIRONMENT'' ''development''"
    and "(if config_or src ''DJANGO_ENVIRONMENT'' ''development'' = ''production''
          then csv_cast (config_or src ''ALLOWED_HOSTS'' [])
          else Inr [''localhost'', ''127.0.0.1'', ''0.0.0.0'', ''backend'']) = Inr (allowed_hosts s)"
    and "\<exists>url. config_lookup src ''DATABASE_URL'' = Some url \<and>
           dj_database_url_config (environ src) url 600 True = Inr (databases_default s)"
    and "installed_apps s = installed_apps_list" and "middleware s = middleware_list"
    and "templates s = templates_list"
    and "cors_allow_all_origins s = (if debug s then Some True else None)" and "cors_allow_credentials s"
    and "cors_allowed_origins s = [''http://localhost:3000'', ''http://127.0.0.1:3000'']"
proof -
  let ?env = "config_or src ''DJANGO_ENVIRONMENT'' ''development''"
  let ?hosts = "if ?env = ''production'' then csv_cast (config_or src ''ALLOWED_HOSTS'' [])
                else Inr [''localhost'', ''127.0.0.1'', ''0.0.0.0'', ''backend'']"
  obtain dbg where d: "cast_boolean (config_or src ''DJANGO_DEBUG'' ''True'') = Inr dbg"
    using ok by (cases "cast_boolean (config_or src ''DJANGO_DEBUG'' ''True'')") (simp_all add: load_settings_def config_dflt)
  obtain hosts where h: "?hosts = Inr hosts"
    using ok d by (cases ?hosts) (simp_all only: load_settings_simps sum.case, simp)
  obtain url where u: "config_lookup src ''DATABASE_URL'' = Some url"
    using ok d h by (cases "config_lookup src ''DATABASE_URL''") (simp_all only: load_settings_simps sum.case option.case, simp)
  obtain dbs where db: "dj_database_url_config (environ src) url 600 True = Inr dbs"
    using ok d h u by (cases "dj_database_url_config (environ src) url 600 True")
      (simp_all only: load_settings_simps sum.case option.case, simp)
  from ok d h u db have s: "Inr s = load_settings src b fs" by simp
  note eq = s [unfolded load_settings_simps sum.case h d u db option.case]
  from eq show "cast_boolean (config_or src ''DJANGO_DEBUG'' ''True'') = Inr (debug s)" using d by simp
  from eq show "environment s = ?env" by simp
  from eq h show "?hosts = Inr (allowed_hosts s)" by simp
  from eq u db show "\<exists>url. config_lookup src ''DATABASE_URL'' = Some url \<and>
           dj_database_url_config (environ src) url 600 True = Inr (databases_default s)" by simp
  from eq show "installed_apps s = installed_apps_list" "middleware s = middleware_list"
    "templates s = templates_list" "cors_allow_all_origins s = (if debug s then Some True else None)"
    "cors_allow_credentials s" "cors_allowed_origins s = [''http://localhost:3000'', ''http://127.0.0.1:3000'']"
    by simp_all
qed



lemma same_domain_localhost:
  "is_same_domain h ''.localhost'' \<longleftrightarrow> suffix ''.localhost'' h \<or> h = ''localhost''"
  "is_same_domain h ''127.0.0.1'' \<longleftrightarrow> h = ''127.0.0.1''"
  "is_same_domain h ''[::1]'' \<longleftrightarrow> h = ''[::1]''"
  by (simp_all add: is_same_domain_def py_lower_char_def Let_def eq_commute) auto

lemma validate_localhost:
  "validate_host h [''.localhost'', ''127.0.0.1'', ''[::1]''] \<longleftrightarrow>
   h = ''localhost'' \<or> suffix ''.localhost'' h \<or> h = ''127.0.0.1'' \<or> h = ''[::1]''"
  by (simp add: validate_host_def same_domain_localhost) blast

subsection \<open>Properties\<close>

text \<open>C25: without \<^verbatim>\<open>DATABASE_URL\<close> in the environment or the repository the settings
  module cannot be imported, since \<^verbatim>\<open>config('DATABASE_URL')\<close> has no default; when
  \<^verbatim>\<open>DJANGO_DEBUG\<close> is a boolean and the environment is not production the exception is
  decouple's \<^verbatim>\<open>UndefinedValueError\<close> naming the variable.\<close>

theorem settings_require_database_url:
  assumes nodb: "config_lookup src ''DATABASE_URL'' = None"
  shows "(\<exists>e. load_settings src b fs = Inl e) \<and>
         (\<not> isl (cast_boolean (config_or src ''DJANGO_DEBUG'' ''True'')) \<longrightarrow>
          config_or src ''DJANGO_ENVIRONMENT'' ''development'' \<noteq> ''production'' \<longrightarrow>
          load_settings src b fs =
            Inl (UndefinedValueError ''DATABASE_URL not found. Declare it as envvar or define a default value.''))"
proof (intro conjI impI)
  show "\<exists>e. load_settings src b fs = Inl e"
  proof (cases "load_settings src b fs")
    case (Inr s)
    from load_settings_Inr(4) [OF Inr] nodb show ?thesis by simp
  qed simp
next
  assume "\<not> isl (cast_boolean (config_or src ''DJANGO_DEBUG'' ''True''))"
    and np: "config_or src ''DJANGO_ENVIRONMENT'' ''development'' \<noteq> ''production''"
  then obtain d where d: "cast_boolean (config_or src ''DJANGO_DEBUG'' ''True'') = Inr d"
    by (cases "cast_boolean (config_or src ''DJANGO_DEBUG'' ''True'')") auto
  show "load_settings src b fs =
          Inl (UndefinedValueError ''DATABASE_URL not found. Declare it as envvar or define a default value.'')"
    using d np nodb by (simp add: load_settings_simps)
qed

lemma settings_require_database_url_witness:
  "(\<exists>e. load_settings \<lparr>environ = [], repository = []\<rparr> [''app''] [] = Inl e) \<and>
   load_settings \<lparr>environ = [], repository = []\<rparr> [''app''] [] =
     Inl (UndefinedValueError ''DATABASE_URL not found. Declare it as envvar or define a default value.'')"
  using settings_require_database_url [of "\<lparr>environ = [], repository = []\<rparr>" "[''app'']" "[]"]
  by (simp add: config_lookup_def cast_boolean_True)

text \<open>C26: with \<^verbatim>\<open>DATABASE_URL\<close> defined, a boolean \<^verbatim>\<open>DJANGO_DEBUG\<close> (or none) and,
  in production, an \<^verbatim>\<open>ALLOWED_HOSTS\<close> value \<^verbatim>\<open>shlex\<close> accepts, importing the
  settings fails exactly when the URL is not empty and \<^verbatim>\<open>dj_database_url.parse\<close> raises
  (a scheme outside its table, a malformed bracketed host, a port that is not an integer
  from 0 to 65535), and with that exception; when it succeeds, \<^verbatim>\<open>DEBUG\<close> is the cast
  value and the database is the one parsed from the URL decouple found, even when that URL
  is only in the repository (where \<^verbatim>\<open>dj_database_url\<close>, reading \<^verbatim>\<open>os.environ\<close>
  alone, receives it as its default).\<close>

theorem settings_import_succeeds:
  assumes u: "config_lookup src ''DATABASE_URL'' = Some url"
    and d: "cast_boolean (config_or src ''DJANGO_DEBUG'' ''True'') = Inr dbg"
    and h: "config_or src ''DJANGO_ENVIRONMENT'' ''development'' = ''production'' \<Longrightarrow>
            \<not> isl (csv_cast (config_or src ''ALLOWED_HOSTS'' []))"
  shows "(\<forall>e. load_settings src b fs = Inl e \<longleftrightarrow> url \<noteq> [] \<and> dj_database_url_parse url 600 True = Inl e) \<and>
         (\<forall>s. load_settings src b fs = Inr s \<longrightarrow> debug s = dbg \<and>
            databases_default s = (if url = [] then None else Some (projr (dj_database_url_parse url 600 True))))"
proof -
  have "\<exists>hosts. (if config_or src ''DJANGO_ENVIRONMENT'' ''development'' = ''production''
      then csv_cast (config_or src ''ALLOWED_HOSTS'' [])
      else Inr [''localhost'', ''127.0.0.1'', ''0.0.0.0'', ''backend'']) = Inr hosts"
  proof (cases "config_or src ''DJANGO_ENVIRONMENT'' ''development'' = ''production''")
    case True
    with h show ?thesis by (cases "csv_cast (config_or src ''ALLOWED_HOSTS'' [])") auto
  qed simp
  then obtain hosts where hs: "(if config_or src ''DJANGO_ENVIRONMENT'' ''development'' = ''production''
      then csv_cast (config_or src ''ALLOWED_HOSTS'' [])
      else Inr [''localhost'', ''127.0.0.1'', ''0.0.0.0'', ''backend'']) = Inr hosts" by blast
  show ?thesis
    using d hs u dj_database_url_agrees [OF u]
    by (cases "dj_database_url_parse url 600 True") (auto simp: load_settings_simps)
qed

lemma settings_import_succeeds_witness:
  "load_settings \<lparr>environ = [(''DJANGO_ENVIRONMENT'', ''production''), (''ALLOWED_HOSTS'', ''a.example'')],
        repository = [(''DATABASE_URL'', ''mongodb://db/app'')]\<rparr> [''app''] [] =
   Inl (ValueError (''No support for '' @ [CHR 0x27] @ ''mongodb'' @ [CHR 0x27] @ ''. We support: '' @ db_schemes_listed))"
proof -
  let ?src = "\<lparr>environ = [(''DJANGO_ENVIRONMENT'', ''production''), (''ALLOWED_HOSTS'', ''a.example'')],
        repository = [(''DATABASE_URL'', ''mongodb://db/app'')]\<rparr>"
  have u: "config_lookup ?src ''DATABASE_URL'' = Some ''mongodb://db/app''" by (simp add: config_lookup_def)
  have d: "cast_boolean (config_or ?src ''DJANGO_DEBUG'' ''True'') = Inr True" by code_simp
  have h: "\<not> isl (csv_cast (config_or ?src ''ALLOWED_HOSTS'' []))" by code_simp
  have p: "dj_database_url_parse ''mongodb://db/app'' 600 True =
      Inl (ValueError (''No support for '' @ [CHR 0x27] @ ''mongodb'' @ [CHR 0x27] @ ''. We support: '' @ db_schemes_listed))"
    by code_simp
  show ?thesis using settings_import_succeeds [OF u d h, of "[''app'']" "[]"] p by simp
qed

lemma settings_postgres_url:
  "dj_database_url_parse ''postgres://app:secret@db:5432/app'' 600 True =
     Inr \<lparr>db_engine = ''django.db.backends.postgresql'', db_url = ''postgres://app:secret@db:5432/app'',
          db_port = Some 5432, conn_max_age = 600, conn_health_checks = True\<rparr>"
  "isl (dj_database_url_parse ''postgres://db:54321x/app'' 600 True)"
  "isl (dj_database_url_parse ''postgres://[10.0.0.1]/app'' 600 True)"
  by code_simp+

text \<open>C27: a production host list written as \<^verbatim>\<open>','.join(hosts)\<close> into
  \<^verbatim>\<open>ALLOWED_HOSTS\<close> is read back by the settings as exactly that list, for host names
  that are non-empty, stripped and free of commas, quotes, backslashes and \<^verbatim>\<open>#\<close>.\<close>

theorem allowed_hosts_roundtrip:
  assumes prod: "config_lookup src ''DJANGO_ENVIRONMENT'' = Some ''production''"
    and hv: "config_lookup src ''ALLOWED_HOSTS'' = Some (py_join '','' hs)"
    and hosts: "\<forall>h \<in> set hs. h \<noteq> [] \<and> py_strip h = h \<and> (\<forall>c \<in> set h. plain_char c \<and> c \<noteq> CHR '','')"
    and ok: "load_settings src b fs = Inr s"
  shows "allowed_hosts s = hs"
  using load_settings_Inr(3) [OF ok] prod hv csv_cast_py_join [OF hosts] by simp

lemma allowed_hosts_roundtrip_witness:
  "allowed_hosts (projr (load_settings \<lparr>environ = [(''DJANGO_ENVIRONMENT'', ''production''),
        (''ALLOWED_HOSTS'', py_join '','' [''api.example'', ''.example.org'']), (''DATABASE_URL'', ''sqlite:///db'')],
        repository = []\<rparr> [''app''] [])) = [''api.example'', ''.example.org'']"
proof -
  let ?src = "\<lparr>environ = [(''DJANGO_ENVIRONMENT'', ''production''),
        (''ALLOWED_HOSTS'', py_join '','' [''api.example'', ''.example.org'']), (''DATABASE_URL'', ''sqlite:///db'')],
        repository = []\<rparr>"
  have prod: "config_lookup ?src ''DJANGO_ENVIRONMENT'' = Some ''production''"
    and hv: "config_lookup ?src ''ALLOWED_HOSTS'' = Some (py_join '','' [''api.example'', ''.example.org''])"
    by (simp_all add: config_lookup_def)
  have hosts: "\<forall>h \<in> set [''api.example'', ''.example.org'']. h \<noteq> [] \<and> py_strip h = h \<and>
      (\<forall>c \<in> set h. plain_char c \<and> c \<noteq> CHR '','')" by code_simp
  have ok: "load_settings ?src [''app''] [] = Inr (projr (load_settings ?src [''app''] []))" by code_simp
  show ?thesis by (rule allowed_hosts_roundtrip [OF prod hv hosts ok])
qed


text \<open>C31: in production without \<^verbatim>\<open>ALLOWED_HOSTS\<close> the list is empty, so with
  \<^verbatim>\<open>DEBUG\<close> off every request is refused (\<^verbatim>\<open>DisallowedHost\<close>), and with
  \<^verbatim>\<open>DEBUG\<close> on exactly the localhost variants are served.\<close>

theorem production_default_hosts:
  assumes prod: "config_lookup src ''DJANGO_ENVIRONMENT'' = Some ''production''"
    and nohosts: "config_lookup src ''ALLOWED_HOSTS'' = None" and ok: "load_settings src b fs = Inr s"
  shows "allowed_hosts s = [] \<and>
         (host_allowed s h \<longleftrightarrow>
            debug s \<and> (h = ''localhost'' \<or> suffix ''.localhost'' h \<or> h = ''127.0.0.1'' \<or> h = ''[::1]''))"
proof -
  have e: "allowed_hosts s = []"
    using load_settings_Inr(3) [OF ok] prod nohosts by (simp add: csv_cast_def)
  have "validate_host h [] = False" by (simp add: validate_host_def)
  with e show ?thesis by (cases "debug s") (auto simp: host_allowed_def validate_localhost)
qed

lemma production_default_hosts_witness:
  "\<not> host_allowed (projr (load_settings \<lparr>environ = [(''DJANGO_ENVIRONMENT'', ''production''),
        (''DJANGO_DEBUG'', ''False''), (''DATABASE_URL'', ''sqlite:///db'')], repository = []\<rparr> [''app''] []))
      ''api.example''"
proof -
  let ?src = "\<lparr>environ = [(''DJANGO_ENVIRONMENT'', ''production''),
        (''DJANGO_DEBUG'', ''False''), (''DATABASE_URL'', ''sqlite:///db'')], repository = []\<rparr>"
  have prod: "config_lookup ?src ''DJANGO_ENVIRONMENT'' = Some ''production''"
    and nh: "config_lookup ?src ''ALLOWED_HOSTS'' = None" by (simp_all add: config_lookup_def)
  have ok: "load_settings ?src [''app''] [] = Inr (projr (load_settings ?src [''app''] []))" by code_simp
  have "\<not> debug (projr (load_settings ?src [''app''] []))" by code_simp
  with production_default_hosts [OF prod nh ok, of "''api.example''"] show ?thesis by simp
qed

text \<open>Every settings module that imports passes the admin's
  \<^verbatim>\<open>check_dependencies\<close> (the applications, the template engine with its context
  processors, the middleware the admin needs) and orders \<^verbatim>\<open>MIDDLEWARE\<close> as the Django
  and django-cors-headers documentation require.\<close>

lemma settings_django_checks:
  assumes ok: "load_settings src b fs = Inr s"
  shows "admin_check_dependencies s = [] \<and> middleware_order_ok (middleware s)"
proof -
  have "middleware_order_ok middleware_list" by code_simp
  moreover have "admin_check_dependencies s = []"
    unfolding admin_check_dependencies_def load_settings_Inr(5,6,7) [OF ok]
    by (simp add: installed_apps_list_def templates_list_def middleware_list_def)
  ultimately show ?thesis using load_settings_Inr(6) [OF ok] by simp
qed

end
