(* ===== verification/Cors.thy ===== *)
theory Cors
  imports Settings
begin

text \<open>
  django-cors-headers' \<^verbatim>\<open>CorsMiddleware\<close> (the first entry of \<^verbatim>\<open>MIDDLEWARE\<close>, the last
  to process the response) under the \<^verbatim>\<open>CORS_*\<close> values of the settings: the headers
  \<^verbatim>\<open>add_response_headers\<close> adds to the response to a request whose method is not
  \<^verbatim>\<open>OPTIONS\<close> (the preflight headers are not modelled).
  The middleware is enabled for a request whose \<^verbatim>\<open>path_info\<close> matches
  \<^verbatim>\<open>CORS_URLS_REGEX\<close> (default \<^verbatim>\<open>^.*$\<close>; \<^verbatim>\<open>check_signal\<close> has no receivers in
  this project); it then adds \<^verbatim>\<open>Vary: origin\<close>. Without an \<^verbatim>\<open>Origin\<close> header
  (the empty string here), with an empty one, or with one \<^verbatim>\<open>urlsplit\<close> rejects, it adds
  nothing more. An allowed origin (every origin under \<^verbatim>\<open>CORS_ALLOW_ALL_ORIGINS\<close>; else
  \<^verbatim>\<open>null\<close> when listed, or an origin with the scheme and network location of a listed
  one; no \<^verbatim>\<open>CORS_ALLOWED_ORIGIN_REGEXES\<close> are set) gets
  \<^verbatim>\<open>access-control-allow-origin\<close>, \<^verbatim>\<open>*\<close> when all origins are allowed without
  credentials and the origin itself otherwise, and, with \<^verbatim>\<open>CORS_ALLOW_CREDENTIALS\<close>,
  \<^verbatim>\<open>access-control-allow-credentials: true\<close>. \<^verbatim>\<open>CORS_EXPOSE_HEADERS\<close> is empty.
\<close>

text \<open>\<^verbatim>\<open>CORS_ALLOW_ALL_ORIGINS\<close> defaults to false when the module does not set it.\<close>

definition cors_allow_all :: "settings \<Rightarrow> bool" where
  "cors_allow_all s = (case cors_allow_all_origins s of Some b \<Rightarrow> b | None \<Rightarrow> False)"

text \<open>\<^verbatim>\<open>re.match(r'^.*$', path)\<close>: the first line break, if any, ends the path.\<close>

definition cors_enabled :: "string \<Rightarrow> bool" where
  "cors_enabled path \<longleftrightarrow> CHR 0x0A \<notin> set (butlast path)"

text \<open>\<^verbatim>\<open>origin_found_in_white_lists\<close>; \<^verbatim>\<open>_url_in_whitelist\<close> splits every listed
  origin, which raises for a malformed one.\<close>

definition origin_found_in_white_lists :: "settings \<Rightarrow> string \<Rightarrow> split_result \<Rightarrow> py_error + bool" where
  "origin_found_in_white_lists s origin url =
     (if origin = ''null'' \<and> origin \<in> set (cors_allowed_origins s) then Inr True
      else case map_res urlsplit (cors_allowed_origins s) of
        Inl e \<Rightarrow> Inl e
      | Inr os \<Rightarrow> Inr (list_ex (\<lambda>r. sr_scheme r = sr_scheme url \<and> sr_netloc r = sr_netloc url) os))"

definition cors_response_headers :: "settings \<Rightarrow> string \<Rightarrow> string \<Rightarrow> py_error + (string \<times> string) list" where
  "cors_response_headers s path origin =
     (if \<not> cors_enabled path then Inr []
      else if origin = [] then Inr [(''Vary'', ''origin'')]
      else case urlsplit origin of
        Inl _ \<Rightarrow> Inr [(''Vary'', ''origin'')]
      | Inr url \<Rightarrow>
          (case (if cors_allow_all s then Inr True else origin_found_in_white_lists s origin url) of
             Inl e \<Rightarrow> Inl e
           | Inr False \<Rightarrow> Inr [(''Vary'', ''origin'')]
           | Inr True \<Rightarrow>
               Inr ([(''Vary'', ''origin''),
                     (''access-control-allow-origin'',
                      if cors_allow_all s \<and> \<not> cors_allow_credentials s then ''*'' else origin)] @
                    (if cors_allow_credentials s then [(''access-control-allow-credentials'', ''true'')] else []))))"

subsection \<open>Properties\<close>

text \<open>C9: \<^verbatim>\<open>DEBUG\<close> defaults to true, and \<^verbatim>\<open>if DEBUG: CORS_ALLOW_ALL_ORIGINS = True\<close>
  together with \<^verbatim>\<open>CORS_ALLOW_CREDENTIALS = True\<close> makes the CORS middleware grant
  credentialed access to every origin: whenever \<^verbatim>\<open>DJANGO_DEBUG\<close> is not set, in
  production as well, the response to a request with any non-empty \<^verbatim>\<open>Origin\<close> that
  \<^verbatim>\<open>urlsplit\<close> accepts echoes that origin and allows credentials; requests without an
  origin, or with one \<^verbatim>\<open>urlsplit\<close> rejects, only get \<^verbatim>\<open>Vary\<close>.\<close>

theorem debug_default_cors_any_origin:
  assumes nodebug: "config_lookup src ''DJANGO_DEBUG'' = None" and ok: "load_settings src b fs = Inr s"
  shows "debug s \<and>
         cors_response_headers s path origin =
           Inr (if \<not> cors_enabled path then []
                else [(''Vary'', ''origin'')] @
                  (if origin = [] \<or> isl (urlsplit origin) then []
                   else [(''access-control-allow-origin'', origin), (''access-control-allow-credentials'', ''true'')]))"
proof -
  have "debug s" using load_settings_Inr(1) [OF ok] nodebug cast_boolean_True by simp
  with load_settings_Inr(8,9) [OF ok] show ?thesis
    by (simp add: cors_response_headers_def cors_allow_all_def split: sum.split)
qed

lemma debug_default_cors_any_origin_witness:
  "cors_response_headers
     (projr (load_settings \<lparr>environ = [(''DJANGO_ENVIRONMENT'', ''production''), (''ALLOWED_HOSTS'', ''api.example'')],
        repository = [(''DATABASE_URL'', ''postgres://db/app'')]\<rparr> [''app''] []))
     ''/api/projects/'' ''https://evil.example'' =
   Inr [(''Vary'', ''origin''), (''access-control-allow-origin'', ''https://evil.example''),
        (''access-control-allow-credentials'', ''true'')]"
proof -
  let ?src = "\<lparr>environ = [(''DJANGO_ENVIRONMENT'', ''production''), (''ALLOWED_HOSTS'', ''api.example'')],
        repository = [(''DATABASE_URL'', ''postgres://db/app'')]\<rparr>"
  have nd: "config_lookup ?src ''DJANGO_DEBUG'' = None" by (simp add: config_lookup_def)
  have ok: "load_settings ?src [''app''] [] = Inr (projr (load_settings ?src [''app''] []))" by code_simp
  have u: "\<not> isl (urlsplit ''https://evil.example'')" by code_simp
  have e: "cors_enabled ''/api/projects/''" by (simp add: cors_enabled_def)
  show ?thesis
    using debug_default_cors_any_origin [OF nd ok, of "''/api/projects/''" "''https://evil.example''"] u e by simp
qed

text \<open>C10: with \<^verbatim>\<open>DEBUG\<close> off, \<^verbatim>\<open>CORS_ALLOW_ALL_ORIGINS\<close> is left at its
  default and only the two front-end origins of \<^verbatim>\<open>CORS_ALLOWED_ORIGINS\<close> get access:
  the response to a request with an origin \<^verbatim>\<open>urlsplit\<close> accepts allows that origin,
  with credentials, exactly when its scheme is \<^verbatim>\<open>http\<close> and its network location is
  \<^verbatim>\<open>localhost:3000\<close> or \<^verbatim>\<open>127.0.0.1:3000\<close>.\<close>

theorem cors_without_debug_whitelist:
  assumes ok: "load_settings src b fs = Inr s" and nd: "\<not> debug s"
    and en: "cors_enabled path" and ne: "origin \<noteq> []" and u: "urlsplit origin = Inr url"
  shows "cors_response_headers s path origin =
           Inr ([(''Vary'', ''origin'')] @
                (if sr_scheme url = ''http'' \<and> sr_netloc url \<in> {''localhost:3000'', ''127.0.0.1:3000''}
                 then [(''access-control-allow-origin'', origin), (''access-control-allow-credentials'', ''true'')]
                 else []))"
proof -
  have l: "map_res urlsplit [''http://localhost:3000'', ''http://127.0.0.1:3000''] =
      Inr [\<lparr>sr_scheme = ''http'', sr_netloc = ''localhost:3000'', sr_path = [], sr_query = [], sr_fragment = []\<rparr>,
           \<lparr>sr_scheme = ''http'', sr_netloc = ''127.0.0.1:3000'', sr_path = [], sr_query = [], sr_fragment = []\<rparr>]"
    by code_simp
  have "\<not> cors_allow_all s" using load_settings_Inr(8) [OF ok] nd by (simp add: cors_allow_all_def)
  then show ?thesis
    using load_settings_Inr(9,10) [OF ok] en ne u l
    by (auto simp: cors_response_headers_def origin_found_in_white_lists_def)
qed

lemma cors_without_debug_whitelist_witness:
  "cors_response_headers
     (projr (load_settings \<lparr>environ = [(''DJANGO_DEBUG'', ''False'')], repository = [(''DATABASE_URL'', ''sqlite:///db.sqlite3'')]\<rparr> [''app''] []))
     ''/api/'' ''http://localhost:3000'' =
     Inr [(''Vary'', ''origin''), (''access-control-allow-origin'', ''http://localhost:3000''),
          (''access-control-allow-credentials'', ''true'')] \<and>
   cors_response_headers
     (projr (load_settings \<lparr>environ = [(''DJANGO_DEBUG'', ''False'')], repository = [(''DATABASE_URL'', ''sqlite:///db.sqlite3'')]\<rparr> [''app''] []))
     ''/api/'' ''https://evil.example'' = Inr [(''Vary'', ''origin'')]"
proof -
  let ?src = "\<lparr>environ = [(''DJANGO_DEBUG'', ''False'')], repository = [(''DATABASE_URL'', ''sqlite:///db.sqlite3'')]\<rparr>"
  have ok: "load_settings ?src [''app''] [] = Inr (projr (load_settings ?src [''app''] []))" by code_simp
  have nd: "\<not> debug (projr (load_settings ?src [''app''] []))" by code_simp
  have e: "cors_enabled ''/api/''" by (simp add: cors_enabled_def)
  have u1: "urlsplit ''http://localhost:3000'' =
      Inr \<lparr>sr_scheme = ''http'', sr_netloc = ''localhost:3000'', sr_path = [], sr_query = [], sr_fragment = []\<rparr>"
    by code_simp
  have u2: "urlsplit ''https://evil.example'' =
      Inr \<lparr>sr_scheme = ''https'', sr_netloc = ''evil.example'', sr_path = [], sr_query = [], sr_fragment = []\<rparr>"
    by code_simp
  show ?thesis
    using cors_without_debug_whitelist [OF ok nd e _ u1] cors_without_debug_whitelist [OF ok nd e _ u2] by simp
qed

end
