(* ===== verification/Spec2Isabelle.thy ===== *)
theory Spec2Isabelle
  imports Prelude FileSystem LineCount ProjectRoot Stats Extract Linguist Analyzer Cli Scenarios Models
    Database Timestamps Orm Admin AdminSite Decouple UrlSplit Settings Cors
begin

text \<open>
  Verification development of the repository AlexUner/aliquam-erat: a project-tracking
  backend (Django models and admin under \<^verbatim>\<open>src/backend\<close>) and a wrapper that runs the
  github-linguist classifier on an uploaded ZIP archive
  (\<^verbatim>\<open>src/infra/github-linguist/linguist_wrapper.py\<close>). The wrapper is modelled as a
  shallow embedding with explicit state: the state is the file system and the log of the
  processes started (\<open>os_state\<close>), the world outside Python is an environment record
  (\<open>os_env\<close>: what a started process does, \<^verbatim>\<open>json.loads\<close>, ZIP decoding, file
  owners, \<^verbatim>\<open>tempfile\<close>'s base directory and candidate names), and every exception is an
  \<open>Inl\<close> of a result \<open>py_error + 'a\<close>.

  \<^bold>\<open>Theories and what they model.\<close>
  \<^item> \<open>Prelude\<close>: the exception datatype, left-to-right evaluation of generators that
    may raise (\<open>map_res\<close>, \<open>sum_res\<close>), Python's \<^verbatim>\<open>str\<close> of integers.
  \<^item> \<open>FileSystem\<close>: the file system as an association list of absolute paths to nodes,
    component-wise resolution (\<^verbatim>\<open>os.stat\<close>, \<^verbatim>\<open>Path.is_file\<close>,
    \<^verbatim>\<open>Path.is_dir\<close>, \<^verbatim>\<open>open(p, "rb")\<close>), \<^verbatim>\<open>iterdir\<close>,
    \<^verbatim>\<open>shutil.rmtree\<close>, \<^verbatim>\<open>os.mkdir\<close>, \<^verbatim>\<open>os.makedirs\<close> (a
    \<^theory_text>\<open>function\<close> terminating by the path length), \<^verbatim>\<open>open(p, "wb")\<close>,
    \<^verbatim>\<open>os.path.normpath\<close>, \<^verbatim>\<open>tempfile.mkdtemp\<close>, pathlib's \<^verbatim>\<open>/\<close>; the invariant
    \<open>wf_fs\<close>, the frame lemmas (what an operation leaves outside a directory reached
    through directories, \<open>dirs_to\<close>) and the preservation of \<open>wf_fs\<close>.
  \<^item> \<open>LineCount\<close>: \<^verbatim>\<open>_count_lines\<close>, the chunked read loop as a
    \<^theory_text>\<open>function\<close> with a termination measure, the same loop as Python runs
    it (\<^verbatim>\<open>iter(callable, sentinel)\<close> as a \<^const>\<open>while_option\<close>,
    \<open>iter_sentinel\<close>), and its except clause.
  \<^item> \<open>ProjectRoot\<close>: \<^verbatim>\<open>_detect_project_root\<close>.
  \<^item> \<open>Stats\<close>: the decoded classifier report as a JSON datatype with Python's dict
    semantics, and the aggregation of \<^verbatim>\<open>_collect_language_stats\<close> (lines 48--60).
  \<^item> \<open>Extract\<close>: \<^verbatim>\<open>zipfile.ZipFile.extractall\<close> as CPython 3.11's
    \<^verbatim>\<open>_extract_member\<close> does it (member name sanitised, target normalised, missing
    parents created by \<^verbatim>\<open>os.makedirs\<close>, directories by \<^verbatim>\<open>os.mkdir\<close>, files by
    \<^verbatim>\<open>open(.., "wb")\<close>, a member whose name has no part left skipped), stopping at
    the first error.
  \<^item> \<open>Linguist\<close>: \<^verbatim>\<open>__init__\<close>, \<^verbatim>\<open>_execute_linguist\<close> (local and docker
    command lines), \<^verbatim>\<open>_run_linguist_breakdown\<close>, \<^verbatim>\<open>_collect_language_stats\<close>,
    \<^verbatim>\<open>_init_git_repo\<close> with its contract \<open>checked_seq\<close> (the commands run in
    order on the process model, stopping at the first that fails).
  \<^item> \<open>Analyzer\<close>: \<^verbatim>\<open>analyze_zip\<close>, the composition of all of the above with the
    \<^verbatim>\<open>TemporaryDirectory\<close> block and its cleanup; \<open>confined\<close> is the assumption on
    the processes (they write only below their working directory; the docker run, with no
    working directory and a read-only mount, writes nothing on the host).
  \<^item> \<open>UrlSplit\<close>: the standard library's text parsers the settings and the CORS
    middleware rely on: \<^verbatim>\<open>repr\<close> of a string, \<^verbatim>\<open>int(s, 10)\<close>,
    \<^verbatim>\<open>urllib.parse.urlsplit\<close> of CPython 3.11.4 and later with the \<^verbatim>\<open>port\<close>
    property, and \<^verbatim>\<open>ipaddress\<close>'s IPv4 and IPv6 syntax for the bracketed-host check.
  \<^item> \<open>Cli\<close>: the script \<^verbatim>\<open>test.py\<close>: \<^verbatim>\<open>parse_arguments\<close> as
    CPython 3.11's \<^verbatim>\<open>argparse\<close> parses this parser (\<open>parse_args\<close>: classification
    of every string, abbreviations, \<^verbatim>\<open>--\<close>, explicit arguments, negative numbers, the
    help and error exits), \<^verbatim>\<open>main\<close> (\<open>cli_main\<close>: \<^verbatim>\<open>expanduser\<close>,
    \<^verbatim>\<open>resolve\<close>, \<^verbatim>\<open>analyze_zip\<close>, \<^verbatim>\<open>json.dumps(indent=2)\<close>) and the
    entry point's \<^verbatim>\<open>except Exception\<close>, with the exit status of each outcome.
  \<^item> \<open>Scenarios\<close>: concrete environments, the specification's end-to-end scenario and
    its failing variants evaluated by \<open>code_simp\<close>, and the witnesses of the
    pipeline's theorems.
  \<^item> \<open>Models\<close>: \<^verbatim>\<open>models.py\<close>: the regex validators with Python's \<^verbatim>\<open>re\<close>
    semantics on strings of code points, \<^verbatim>\<open>full_clean\<close> on the character fields, the
    models as records, \<^verbatim>\<open>__str__\<close>, \<^verbatim>\<open>project_archive_path\<close> and the archive
    field's \<^verbatim>\<open>FileExtensionValidator\<close>.
  \<^item> \<open>Database\<close>: the tables the models declare, the ORM's inserts, deletes
    (\<^verbatim>\<open>PROTECT\<close>, \<^verbatim>\<open>CASCADE\<close>) and \<^verbatim>\<open>QuerySet.update\<close> under the declared
    keys and constraints (PostgreSQL's column ranges first, then the check constraint, the
    unique index and the deferred foreign keys), as the step relation \<open>db_step\<close> with
    the invariant \<open>db_ok\<close>.
  \<^item> \<open>Timestamps\<close>: the fields Django stamps itself (\<^verbatim>\<open>auto_now_add\<close>
    \<^verbatim>\<open>created_at\<close>, \<^verbatim>\<open>auto_now\<close> \<^verbatim>\<open>updated_at\<close>): saves that run
    \<^verbatim>\<open>pre_save\<close> at the clock's time (creates, the project change form) and those that do
    not (\<^verbatim>\<open>QuerySet.update\<close>, deletes), as the step relation \<open>tstep\<close> over the
    database and a clock that never goes back.
  \<^item> \<open>Orm\<close>: the metadata Django derives from the models (concrete fields, foreign
    keys, reverse query names) and the resolution of a queryset name
    (\<^verbatim>\<open>names_to_path\<close>, its \<^verbatim>\<open>FieldError\<close>), with \<^verbatim>\<open>annotate(Count(..))\<close>.
  \<^item> \<open>Admin\<close>: \<^verbatim>\<open>admin.py\<close>: the count columns of the \<^verbatim>\<open>get_queryset\<close>
    annotations over \<open>Orm\<close>, the HTML columns with
    \<^verbatim>\<open>format_html\<close>'s escaping, the actions \<^verbatim>\<open>make_public\<close>,
    \<^verbatim>\<open>make_private\<close>, \<^verbatim>\<open>analyze_code\<close> (whose \<^verbatim>\<open>hasattr\<close> test reads the
    attributes \<^verbatim>\<open>Project\<close> gives its instances, \<open>project_attrs\<close>), the analysis
    admin's permissions.
  \<^item> \<open>AdminSite\<close>: the options of every \<^verbatim>\<open>ModelAdmin\<close> class of
    \<^verbatim>\<open>admin.py\<close> and the registry, Django's admin system checks over them
    (\<open>site_check\<close>: \<^verbatim>\<open>list_display\<close>, \<^verbatim>\<open>list_filter\<close>,
    \<^verbatim>\<open>list_editable\<close>, \<^verbatim>\<open>readonly_fields\<close>, \<^verbatim>\<open>fieldsets\<close>,
    \<^verbatim>\<open>autocomplete_fields\<close>, \<^verbatim>\<open>date_hierarchy\<close>, inlines, actions), the
    change form built from the fieldsets and the search lookups.
  \<^item> \<open>Decouple\<close>: python-decouple's \<^verbatim>\<open>config\<close> (environment, then the
    \<^verbatim>\<open>.env\<close> repository, then the default), its \<^verbatim>\<open>bool\<close> cast and \<^verbatim>\<open>Csv\<close>
    (the POSIX \<^verbatim>\<open>shlex\<close> state machine, \<open>shlex_csv\<close>).
  \<^item> \<open>Settings\<close>: \<^verbatim>\<open>core/settings.py\<close> as \<open>load_settings\<close>, the module body in
    source order over \<open>Decouple\<close>, with \<^verbatim>\<open>dj_database_url.config\<close> and
    \<^verbatim>\<open>parse\<close> (the scheme table, \<^verbatim>\<open>urlsplit\<close> and the port, each of which may
    raise), and the code that reads the values: Django's host validation and the admin's
    \<^verbatim>\<open>check_dependencies\<close>.
  \<^item> \<open>Cors\<close>: django-cors-headers' \<^verbatim>\<open>CorsMiddleware.add_response_headers\<close>
    under the settings' \<^verbatim>\<open>CORS_*\<close> values: the enabled test, \<^verbatim>\<open>Vary\<close>, the
    empty-origin and \<^verbatim>\<open>urlsplit\<close> guards, allow-all versus the whitelist compared by
    scheme and network location, the credentials header.
  \<^item> this theory: the properties that join the analyzer's output to the database.

  \<^bold>\<open>What is proved.\<close> Cleanup leaves the file system as it was on every exit path of
  \<^verbatim>\<open>analyze_zip\<close> and of the whole script, whatever its command line
  (\<open>analyze_zip_no_residue\<close>, \<open>cli_no_residue\<close>); the documented command lines
  parse as meant for every archive name; a successful run starts git init,
  add, commit and the classifier in this order in one root of a fresh temporary directory,
  and its languages are exactly the keys of the classifier's report; the git bootstrap meets
  its stop-at-first-failure contract; a failing classifier's exit code and standard error
  can be read back from the message; the docker command line mounts the root read-only and
  runs as its owner; the percentages add up to 100 within half a hundredth per language;
  line counting equals the whole-file newline count for every chunk size, and the iterator
  loop terminates for every chunk size (zero included) with that count; the root
  detection's cases. On the Django side: the invariant of all reachable database states and
  the \<^verbatim>\<open>CASCADE\<close> frame; that the empty database stays reachable from each of them
  (deleting the projects first, no \<^verbatim>\<open>PROTECT\<close> refuses a delete); that the
  analysis rows can be stored exactly when their line count fits the 32-bit column; the order
  of the timestamps in every state reached with a clock that never goes back; the
  validators' exact languages; the agreement of the archive validator with the storage path
  and that distinct projects never share an archive path; the markup of the HTML columns;
  that the client and developer delete buttons are enabled exactly when the annotated
  project count is zero; the effect of \<^verbatim>\<open>make_public\<close> and of
  \<^verbatim>\<open>analyze_code\<close>, which never starts an analysis for the \<^verbatim>\<open>Project\<close> of
  models.py. For the settings: the import fails without \<^verbatim>\<open>DATABASE_URL\<close>, and
  otherwise exactly with the exception \<^verbatim>\<open>dj_database_url.parse\<close> raises; a joined
  host list is read back by the \<^verbatim>\<open>Csv\<close> cast; a production deployment without
  \<^verbatim>\<open>ALLOWED_HOSTS\<close> refuses every host unless \<^verbatim>\<open>DEBUG\<close> is on; without \<^verbatim>\<open>DJANGO_DEBUG\<close> the
  CORS middleware grants credentialed access to every origin \<^verbatim>\<open>urlsplit\<close> accepts,
  and with \<^verbatim>\<open>DEBUG\<close> off only to the two listed front-end origins. Further lemmas
  (not among the listed properties) show that extraction writes nothing outside its
  directory and keeps the file system well formed, that \<^verbatim>\<open>Csv\<close> refines the plain
  comma split, that Django accepts the admin configuration, that the status and language
  admin querysets raise \<^verbatim>\<open>FieldError\<close>, and evaluate the specification's scenarios.

  \<^bold>\<open>Bounds and abstractions.\<close> The read loop needs no fuel: its measure is the number
  of unread bytes (for the \<^const>\<open>while_option\<close> form, plus the length of the chunk in
  hand), and its result is proved for every chunk size, the code's
  \<^verbatim>\<open>1 << 20\<close> included (for evaluation it is replaced by the proved whole-file count).
  A percentage is an integer of hundredths: \<^verbatim>\<open>round(x, 2)\<close> is modelled as rounding of
  the exact rational quotient half to even, i.e. the binary floating-point error of
  \<^verbatim>\<open>size * 100.0 / total\<close> is abstracted away. \<^verbatim>\<open>\d\<close> is Unicode 14.0's Nd
  category (Python 3.11). The environment's functions are arbitrary, so every theorem about
  the pipeline holds for every behaviour of the external tools, \<open>confined\<close> being the
  only assumption made on them; \<open>tmp_ok\<close> states what \<^verbatim>\<open>tempfile\<close> guarantees of its
  directory (an \<^verbatim>\<open>abspath\<close>) and names (no \<^verbatim>\<open>/\<close>). Extraction is proved safe for a
  target directory reached through directories and named by valid components, which
  \<^verbatim>\<open>mkdtemp\<close>'s result is. Settings strings are characters below 256. The library
  versions modelled where behaviour differs between them: CPython 3.11 (3.11.4 and later for
  the bracketed-host check of \<^verbatim>\<open>urlsplit\<close>), dj-database-url 2.1 (its
  \<^verbatim>\<open>SCHEMES\<close> table), django-cors-headers 4 (its header names and whitelist
  comparison); the repository pins none of them.

  \<^bold>\<open>Not modelled.\<close> The classifier's own analysis, git's effect on the tree, ZIP
  decoding (central directory, compression, CRC), ownership and permission bits of
  directories, symbolic links other than dangling and looping ones, concurrency between
  invocations (each uses its own temporary directory), image fields, date-time arithmetic, the queryset ordering of the admin and the rendering of its
  pages (its options are modelled as far as the checks, forms and searches read them), the
  keys \<^verbatim>\<open>dj_database_url.parse\<close> reads from the URL without raising (name, user,
  password, host) and the \<^verbatim>\<open>OPTIONS\<close> it takes from the query string (where a value
  for which \<^verbatim>\<open>str.isdigit\<close> holds but \<^verbatim>\<open>int\<close> fails, such as a superscript digit,
  would raise), CORS preflight responses, the resolution of \<^verbatim>\<open>BASE_DIR\<close> (a parameter),
  the help text of \<^verbatim>\<open>test.py\<close> on terminals narrower than 80 columns (it is
  wrapped), the email and URL validators' regular expressions (Django's, which change
  between versions, and the repository pins none), and the REST API and task queue the
  specification names but the repository does not contain.
\<close>

section \<open>Properties spanning the analyzer and the database\<close>

text \<open>C5: the rows the analysis produces can be stored exactly when their line count fits
  the 32-bit \<^verbatim>\<open>lines_count\<close> column: for a report whose sizes are non-negative, every
  language statistic of \<^verbatim>\<open>_collect_language_stats\<close>, stored as a
  \<^verbatim>\<open>ProjectAnalysis\<close> row of an existing project and language that has none yet, passes
  the percentage column's range and the \<^verbatim>\<open>percentage_0_100\<close> check; the insert
  succeeds when the line count is at most \<open>2\<^sup>3\<^sup>1 - 1\<close> and otherwise fails with
  \<^verbatim>\<open>DataError\<close> (the analyzer does not bound the count).\<close>

theorem analysis_rows_storable:
  assumes ok: "aggregate_breakdown fs repo (JObj ps) = Inr stats"
    and nonneg: "\<forall>info \<in> snd ` set (py_dict ps). \<forall>n. item_size info = Inr n \<longrightarrow> 0 \<le> n"
    and mem: "(lang, st) \<in> set stats"
    and pid: "pid \<in> set (project_ids d)" and lid: "lid \<in> set (map fst (languages d))"
    and fresh: "(pid, lid) \<notin> set (map (\<lambda>b. (analysis_project b, analysis_language b)) (analyses d))"
  shows "insert_analysis \<lparr>analysis_project = pid, analysis_language = lid, lines_count = lines st,
             percentage = percent st\<rparr> d =
           (if lines st \<le> 2147483647
            then Inr (d\<lparr>analyses := analyses d @ [\<lparr>analysis_project = pid, analysis_language = lid,
                    lines_count = lines st, percentage = percent st\<rparr>]\<rparr>)
            else Inl (DataError ''integer out of range''))"
proof -
  have "0 \<le> percent st \<and> percent st \<le> 10000" by (rule aggregate_percent_range [OF ok nonneg mem])
  with pid lid fresh show ?thesis
    by (simp add: insert_analysis_def lines_fits_def percentage_fits_def percentage_0_100_def)
qed

lemma analysis_rows_storable_witness:
  "insert_analysis \<lparr>analysis_project = project_id sample_project, analysis_language = 1, lines_count = 0,
       percentage = 3333\<rparr> (sample_db\<lparr>analyses := []\<rparr>) =
   Inr (sample_db\<lparr>analyses := [\<lparr>analysis_project = project_id sample_project, analysis_language = 1,
       lines_count = 0, percentage = 3333\<rparr>]\<rparr>) \<and>
   insert_analysis \<lparr>analysis_project = project_id sample_project, analysis_language = 1,
       lines_count = 2147483648, percentage = 3333\<rparr> (sample_db\<lparr>analyses := []\<rparr>) =
   Inl (DataError ''integer out of range'')"
proof -
  have pid: "project_id sample_project \<in> set (project_ids (sample_db\<lparr>analyses := []\<rparr>))"
    and lid: "1 \<in> set (map fst (languages (sample_db\<lparr>analyses := []\<rparr>)))"
    and fresh: "(project_id sample_project, 1) \<notin>
       set (map (\<lambda>b. (analysis_project b, analysis_language b)) (analyses (sample_db\<lparr>analyses := []\<rparr>)))"
    by (simp_all add: sample_db_def project_ids_def)
  show ?thesis
    using analysis_rows_storable [OF aggregate_three_thirds three_thirds_sizes_nonneg _ pid lid fresh,
        of "''Go''" "\<lparr>percent = 3333, lines = 0\<rparr>"]
    by (simp add: insert_analysis_def lines_fits_def)
qed

text \<open>A report with a negative size (which the code does not reject) yields a
  percentage outside 0.00--100.00, and such a row cannot be stored: the insert fails on the
  \<^verbatim>\<open>percentage_0_100\<close> check constraint.\<close>

theorem negative_size_rejected:
  "aggregate_breakdown [] [''r''] (JObj [(''A'', JObj [(''size'', JInt 3)]), (''B'', JObj [(''size'', JInt (-1))])]) =
     Inr [(''A'', \<lparr>percent = 15000, lines = 0\<rparr>), (''B'', \<lparr>percent = -5000, lines = 0\<rparr>)] \<and>
   insert_analysis \<lparr>analysis_project = project_id sample_project, analysis_language = 1, lines_count = 0,
       percentage = -5000\<rparr> (sample_db\<lparr>analyses := []\<rparr>) = Inl (IntegrityError ''percentage_0_100'') \<and>
   insert_analysis \<lparr>analysis_project = project_id sample_project, analysis_language = 1, lines_count = 0,
       percentage = 15000\<rparr> (sample_db\<lparr>analyses := []\<rparr>) = Inl (IntegrityError ''percentage_0_100'')"
proof -
  have "insert_analysis \<lparr>analysis_project = project_id sample_project, analysis_language = 1, lines_count = 0,
       percentage = -5000\<rparr> (sample_db\<lparr>analyses := []\<rparr>) = Inl (IntegrityError ''percentage_0_100'') \<and>
   insert_analysis \<lparr>analysis_project = project_id sample_project, analysis_language = 1, lines_count = 0,
       percentage = 15000\<rparr> (sample_db\<lparr>analyses := []\<rparr>) = Inl (IntegrityError ''percentage_0_100'')"
    by (simp add: insert_analysis_def lines_fits_def percentage_fits_def percentage_0_100_def sample_db_def project_ids_def)
  then show ?thesis using aggregate_negative_size by simp
qed

end
